(* ===== verification/Odbc_Prelude.thy ===== *)
theory Odbc_Prelude
  imports Main "HOL-Library.Word" "HOL-Library.Sublist"
begin

text \<open>
  The prelude of the development: the collections of rewrite rules, the C types the driver's
  code is written with (casts between integer widths, bytes, NUL terminated strings), the memory
  the C library hands out, and the character classification functions of the C locale.

  A C string is a \<^typ>\<open>string\<close> with no NUL in it; a C buffer is a list of bytes that may hold NULs,
  and \<open>c_str\<close> reads the string at its start.  A write that leaves its buffer is the value
  \<^const>\<open>None\<close> (undefined behaviour in C), so that memory safety is a statement about values.
\<close>

section \<open>Rule collections\<close>

named_theorems mem_simps \<open>reads, writes and lengths of buffers\<close>
named_theorems cast_simps \<open>casts between C integer types\<close>
named_theorems ctype_simps \<open>character classification\<close>

section \<open>Integer types\<close>

text \<open>Conversions to the fixed-width integer types of C on a two's complement machine.\<close>

definition s8 :: "int \<Rightarrow> int" where "s8 i = signed_take_bit 7 i"
definition s16 :: "int \<Rightarrow> int" where "s16 i = signed_take_bit 15 i"
definition s32 :: "int \<Rightarrow> int" where "s32 i = signed_take_bit 31 i"
definition s64 :: "int \<Rightarrow> int" where "s64 i = signed_take_bit 63 i"
definition u8 :: "int \<Rightarrow> int" where "u8 i = i mod 2 ^ 8"
definition u16 :: "int \<Rightarrow> int" where "u16 i = i mod 2 ^ 16"
definition u32 :: "int \<Rightarrow> int" where "u32 i = i mod 2 ^ 32"
definition u64 :: "int \<Rightarrow> int" where "u64 i = i mod 2 ^ 64"

text \<open>\<open>unsigned int\<close> arithmetic on counters that are kept as natural numbers.\<close>

definition uint32 :: "nat \<Rightarrow> nat" where "uint32 n = n mod 2 ^ 32"

lemma uint32_id [cast_simps]: "n < 2 ^ 32 \<Longrightarrow> uint32 n = n"
  by (simp add: uint32_def)

lemma uint32_less [simp]: "uint32 n < 2 ^ 32"
  by (simp add: uint32_def)

lemma signed_cast_id:
  "- (2 ^ n) \<le> i \<Longrightarrow> i < 2 ^ n \<Longrightarrow> signed_take_bit n (i :: int) = i"
  by (simp add: signed_take_bit_int_eq_self)

lemma s8_id [cast_simps]: "- 128 \<le> i \<Longrightarrow> i < 128 \<Longrightarrow> s8 i = i"
  using signed_cast_id [of 7 i] by (simp add: s8_def)

lemma s16_id [cast_simps]: "- 32768 \<le> i \<Longrightarrow> i < 32768 \<Longrightarrow> s16 i = i"
  using signed_cast_id [of 15 i] by (simp add: s16_def)

lemma s32_id [cast_simps]: "- 2147483648 \<le> i \<Longrightarrow> i < 2147483648 \<Longrightarrow> s32 i = i"
  using signed_cast_id [of 31 i] by (simp add: s32_def)

lemma s64_id [cast_simps]:
  "- 9223372036854775808 \<le> i \<Longrightarrow> i < 9223372036854775808 \<Longrightarrow> s64 i = i"
  using signed_cast_id [of 63 i] by (simp add: s64_def)

lemma u_id [cast_simps]:
  "0 \<le> i \<Longrightarrow> i < 256 \<Longrightarrow> u8 i = i"
  "0 \<le> i \<Longrightarrow> i < 65536 \<Longrightarrow> u16 i = i"
  "0 \<le> i \<Longrightarrow> i < 4294967296 \<Longrightarrow> u32 i = i"
  "0 \<le> i \<Longrightarrow> i < 18446744073709551616 \<Longrightarrow> u64 i = i"
  by (simp_all add: u8_def u16_def u32_def u64_def)

lemma u64_neg:
  assumes "- (2 ^ 64) \<le> i" "i < 0"
  shows "u64 i = i + 2 ^ 64"
proof -
  have "u64 i = (i + 2 ^ 64) mod 2 ^ 64" by (simp add: u64_def)
  also have "\<dots> = i + 2 ^ 64" using assms by (intro mod_pos_pos_trivial) simp_all
  finally show ?thesis .
qed

lemma u64_s64 [cast_simps]: "u64 (s64 i) = u64 i"
  unfolding u64_def s64_def take_bit_eq_mod [symmetric] by (simp add: take_bit_signed_take_bit)

lemma u64_casts [cast_simps]: "s16 (u64 x) = s16 x" "s32 (u64 x) = s32 x" "s64 (u64 x) = s64 x"
  unfolding s16_def s32_def s64_def u64_def take_bit_eq_mod [symmetric] by (simp_all add: signed_take_bit_take_bit)

lemma u_range [simp]:
  "0 \<le> u8 i" "u8 i < 256" "0 \<le> u16 i" "u16 i < 65536"
  "0 \<le> u32 i" "u32 i < 4294967296" "0 \<le> u64 i" "u64 i < 18446744073709551616"
  by (simp_all add: u8_def u16_def u32_def u64_def)

lemma s_range:
  "- 128 \<le> s8 i" "s8 i < 128" "- 32768 \<le> s16 i" "s16 i < 32768"
  "- 2147483648 \<le> s32 i" "s32 i < 2147483648"
  using signed_take_bit_int_greater_eq_minus_exp [of 7 i] signed_take_bit_int_less_exp [of 7 i]
    signed_take_bit_int_greater_eq_minus_exp [of 15 i] signed_take_bit_int_less_exp [of 15 i]
    signed_take_bit_int_greater_eq_minus_exp [of 31 i] signed_take_bit_int_less_exp [of 31 i]
  by (simp_all add: s8_def s16_def s32_def)

section \<open>Bytes, buffers and C strings\<close>

abbreviation NUL :: char where "NUL \<equiv> CHR 0x00"

text \<open>The value of a byte read through \<open>unsigned char\<close> and through plain (signed) \<open>char\<close>.\<close>

abbreviation ord :: "char \<Rightarrow> nat" where "ord c \<equiv> of_char c"

definition schar :: "char \<Rightarrow> int" where "schar c = s8 (int (ord c))"

type_synonym buffer = "char list"

definition c_str :: "buffer \<Rightarrow> string" where
  "c_str b = takeWhile (\<lambda>c. c \<noteq> NUL) b"

definition is_cstring :: "string \<Rightarrow> bool" where
  "is_cstring s \<longleftrightarrow> NUL \<notin> set s"

text \<open>\<open>memcpy(b + off, src, length src)\<close>: \<^const>\<open>None\<close> when it writes outside the buffer.\<close>

definition mem_write :: "'a list \<Rightarrow> nat \<Rightarrow> 'a list \<Rightarrow> 'a list option" where
  "mem_write b off src =
     (if off + length src \<le> length b
      then Some (take off b @ src @ drop (off + length src) b) else None)"

text \<open>
  The allocator of the C library: which requests it grants and what an allocated block holds
  before it is written.  Both are arbitrary, so what is proved holds whatever malloc does.
\<close>

record allocator =
  grants :: "nat \<Rightarrow> bool"
  junk :: "nat \<Rightarrow> char"

definition malloc :: "allocator \<Rightarrow> nat \<Rightarrow> buffer option" where
  "malloc A n = (if grants A n then Some (map (junk A) [0..<n]) else None)"

definition realloc :: "allocator \<Rightarrow> buffer \<Rightarrow> nat \<Rightarrow> buffer option" where
  "realloc A b n =
     (if grants A n then Some (take n b @ map (junk A) [length b..<n]) else None)"

text \<open>\<open>strncpy(dst, src, n)\<close> into a buffer of n bytes: the string, padded with NULs.\<close>

definition strncpy_buf :: "string \<Rightarrow> nat \<Rightarrow> buffer" where
  "strncpy_buf src n = take n (src @ replicate n NUL)"

lemma length_mem_write [mem_simps]:
  "mem_write b off src = Some b' \<Longrightarrow> length b' = length b"
  by (auto simp: mem_write_def split: if_splits)

lemma mem_write_Some:
  "off + length src \<le> length b \<Longrightarrow>
   mem_write b off src = Some (take off b @ src @ drop (off + length src) b)"
  by (simp add: mem_write_def)

lemma mem_write_eq_None_iff [mem_simps]:
  "mem_write b off src = None \<longleftrightarrow> length b < off + length src"
  by (auto simp: mem_write_def)

lemma take_mem_write:
  assumes "mem_write b off src = Some b'" "off \<le> length b"
  shows "take (off + length src) b' = take off b @ src"
  using assms by (auto simp: mem_write_def min_absorb2 split: if_splits)

lemma malloc_SomeD: "malloc A n = Some b \<Longrightarrow> length b = n"
  by (auto simp: malloc_def split: if_splits)

lemma realloc_SomeD:
  assumes "realloc A b n = Some b'" "length b \<le> n"
  shows "length b' = n" "take (length b) b' = b"
  using assms by (auto simp: realloc_def split: if_splits)

lemma realloc_take:
  assumes "realloc A b n = Some b'" "k \<le> length b" "k \<le> n"
  shows "take k b' = take k b" "length b' = n"
  using assms by (auto simp: realloc_def min_def split: if_splits)

lemma length_strncpy_buf [simp]: "length (strncpy_buf s n) = n"
  by (simp add: strncpy_buf_def)

lemma c_str_append_NUL [simp]: "is_cstring s \<Longrightarrow> c_str (s @ NUL # t) = s"
  by (induction s) (auto simp: c_str_def is_cstring_def)

lemma c_str_append: "is_cstring s \<Longrightarrow> c_str (s @ t) = s @ c_str t"
  by (induction s) (auto simp: c_str_def is_cstring_def)

lemma c_str_cstring [simp]: "is_cstring (c_str b)"
  using set_takeWhileD [of NUL "\<lambda>c. c \<noteq> NUL" b] by (auto simp: is_cstring_def c_str_def)

lemma c_str_id: "is_cstring s \<Longrightarrow> c_str s = s"
  by (induction s) (auto simp: c_str_def is_cstring_def)

lemma is_cstring_simps [simp]:
  "is_cstring []" "is_cstring (c # s) \<longleftrightarrow> c \<noteq> NUL \<and> is_cstring s"
  "is_cstring (s @ t) \<longleftrightarrow> is_cstring s \<and> is_cstring t"
  by (auto simp: is_cstring_def)

lemma is_cstring_take: "is_cstring s \<Longrightarrow> is_cstring (take n s)"
  by (auto simp: is_cstring_def dest: in_set_takeD)

lemma is_cstring_drop: "is_cstring s \<Longrightarrow> is_cstring (drop n s)"
  by (auto simp: is_cstring_def dest: in_set_dropD)

lemma is_cstring_concat: "is_cstring (concat ss) \<longleftrightarrow> (\<forall>s\<in>set ss. is_cstring s)"
  by (auto simp: is_cstring_def)

lemma length_c_str: "length (c_str b) \<le> length b"
  by (simp add: c_str_def length_takeWhile_le)

lemma c_str_strncpy_buf:
  "is_cstring s \<Longrightarrow> c_str (strncpy_buf s n) = take n s"
proof (cases "length s < n")
  case True
  assume "is_cstring s"
  have "strncpy_buf s n = s @ replicate (n - length s) NUL"
    using True by (simp add: strncpy_buf_def)
  also have "\<dots> = s @ NUL # replicate (n - length s - 1) NUL"
    using True by (cases "n - length s") auto
  finally show ?thesis
    using \<open>is_cstring s\<close> True by simp
next
  case False
  assume "is_cstring s"
  then show ?thesis
    using False by (simp add: strncpy_buf_def c_str_id is_cstring_take)
qed

section \<open>The character functions of the C locale\<close>

definition isspace :: "char \<Rightarrow> bool" where
  "isspace c \<longleftrightarrow> ord c = 32 \<or> (9 \<le> ord c \<and> ord c \<le> 13)"

definition isdigit :: "char \<Rightarrow> bool" where
  "isdigit c \<longleftrightarrow> 48 \<le> ord c \<and> ord c \<le> 57"

definition isupper :: "char \<Rightarrow> bool" where
  "isupper c \<longleftrightarrow> 65 \<le> ord c \<and> ord c \<le> 90"

definition islower :: "char \<Rightarrow> bool" where
  "islower c \<longleftrightarrow> 97 \<le> ord c \<and> ord c \<le> 122"

definition isalpha :: "char \<Rightarrow> bool" where
  "isalpha c \<longleftrightarrow> isupper c \<or> islower c"

definition isalnum :: "char \<Rightarrow> bool" where
  "isalnum c \<longleftrightarrow> isalpha c \<or> isdigit c"

definition tolower :: "char \<Rightarrow> char" where
  "tolower c = (if isupper c then char_of (ord c + 32) else c)"

definition toupper :: "char \<Rightarrow> char" where
  "toupper c = (if islower c then char_of (ord c - 32) else c)"

text \<open>\<open>_stricmp(a, b) == 0\<close> and \<open>_strnicmp(a, b, n) == 0\<close> on C strings.\<close>

definition stricmp_eq :: "string \<Rightarrow> string \<Rightarrow> bool" where
  "stricmp_eq a b \<longleftrightarrow> map tolower a = map tolower b"

definition strnicmp_eq :: "string \<Rightarrow> string \<Rightarrow> nat \<Rightarrow> bool" where
  "strnicmp_eq a b n \<longleftrightarrow> map tolower (take n a) = map tolower (take n b)"

definition strncmp_eq :: "string \<Rightarrow> string \<Rightarrow> nat \<Rightarrow> bool" where
  "strncmp_eq a b n \<longleftrightarrow> take n a = take n b"

lemma ord_less [simp]: "ord c < 256"
  by (metis of_char_mod_256 mod_less_divisor zero_less_numeral)

section \<open>Evaluation of the character functions\<close>

text \<open>Code equations over the bits of a character, for fast evaluation.\<close>

lemma tolower_bits [code]:
  "tolower (Char b0 b1 b2 b3 b4 b5 b6 b7) =
     (if \<not> b7 \<and> b6 \<and> \<not> b5 \<and> (b0 \<or> b1 \<or> b2 \<or> b3 \<or> b4) \<and> \<not> (b4 \<and> b3 \<and> (b2 \<or> b1 \<and> b0))
      then Char b0 b1 b2 b3 b4 True b6 b7 else Char b0 b1 b2 b3 b4 b5 b6 b7)"
  by (cases b0; cases b1; cases b2; cases b3; cases b4; cases b5; cases b6; cases b7)
    (simp_all add: tolower_def isupper_def char_of_def bit_0)

lemma isspace_bits [code]:
  "isspace (Char b0 b1 b2 b3 b4 b5 b6 b7) =
     (\<not> b7 \<and> \<not> b6 \<and> \<not> b4 \<and>
      (if b5 then \<not> b3 \<and> \<not> b2 \<and> \<not> b1 \<and> \<not> b0 else b3 \<and> (if b2 then \<not> b1 else b1 \<or> b0)))"
  by (cases b0; cases b1; cases b2; cases b3; cases b4; cases b5; cases b6; cases b7)
    (simp_all add: isspace_def)

end
