(* ===== verification/Dyn_String.thy ===== *)
theory Dyn_String
  imports Odbc_Prelude
begin

text \<open>
  The growable string \<open>MADB_DynString\<close> of \<open>src/ma_legacy_helpers.c\<close>.  Every operation takes the
  allocator it runs with and the struct it updates and returns the C result (\<open>my_bool\<close>, where
  \<open>True\<close> is failure) with the new struct; \<^const>\<open>None\<close> is a write or a read outside a block.

  The interface the query builders use is the locale \<open>string_sink\<close>: an append that either
  fails and leaves the content alone or adds its argument at the end.
\<close>

section \<open>State\<close>

record MADB_DynString =
  ds_str :: "buffer option"
  ds_length :: nat
  ds_max_length :: nat
  ds_alloc_increment :: nat

section \<open>Operations\<close>

definition MADB_InitDynamicString ::
  "allocator \<Rightarrow> MADB_DynString \<Rightarrow> string option \<Rightarrow> nat \<Rightarrow> nat \<Rightarrow> (bool \<times> MADB_DynString) option" where
  "MADB_InitDynamicString A str init_str init_alloc alloc_increment =
    (let inc = (if alloc_increment = 0 then 128 else alloc_increment);
         len = (case init_str of None \<Rightarrow> 1 | Some s \<Rightarrow> uint32 (length s + 1));
         alloc1 = (if init_str \<noteq> None \<and> len < init_alloc
                   then ((len + inc - 1) div inc) * inc else init_alloc);
         alloc2 = (if alloc1 = 0 then inc else alloc1)
     in case malloc A alloc2 of
          None \<Rightarrow> Some (True, str\<lparr>ds_str := None\<rparr>)
        | Some b \<Rightarrow>
           (case (case init_str of None \<Rightarrow> Some b
                  | Some s \<Rightarrow> mem_write b 0 (take len (s @ [NUL]))) of
              None \<Rightarrow> None
            | Some b' \<Rightarrow> Some (False, \<lparr>ds_str = Some b', ds_length = uint32 (len + 2 ^ 32 - 1),
                                   ds_max_length = alloc2, ds_alloc_increment = inc\<rparr>)))"

definition MADB_DynstrSet ::
  "allocator \<Rightarrow> MADB_DynString \<Rightarrow> string option \<Rightarrow> (bool \<times> MADB_DynString) option" where
  "MADB_DynstrSet A str init_str =
    (case init_str of
       None \<Rightarrow> Some (False, str\<lparr>ds_length := 0\<rparr>)
     | Some s \<Rightarrow>
       (let len = uint32 (length s + 1);
            inc = ds_alloc_increment str;
            grow = len > ds_max_length str;
            max1 = ((len + inc - 1) div inc) * inc;
            max2 = (if max1 = 0 then inc else max1);
            str1 = (if grow then str\<lparr>ds_max_length := max2,
                             ds_str := realloc A (case_option [] id (ds_str str)) max2\<rparr> else str)
        in case ds_str str1 of
             None \<Rightarrow> (if grow then Some (True, str1) else None)
           | Some b \<Rightarrow>
               (case mem_write b 0 (take len (s @ [NUL])) of
                  None \<Rightarrow> None
                | Some b' \<Rightarrow> Some (False, str1\<lparr>ds_length := uint32 (len + 2 ^ 32 - 1),
                                          ds_str := Some b'\<rparr>))))"

definition MADB_DynstrRealloc ::
  "allocator \<Rightarrow> MADB_DynString \<Rightarrow> nat \<Rightarrow> bool \<times> MADB_DynString" where
  "MADB_DynstrRealloc A str additional_size =
    (if additional_size = 0 then (False, str)
     else if ds_length str + additional_size > ds_max_length str then
       (let inc = ds_alloc_increment str;
            max1 = ((ds_length str + additional_size + inc - 1) div inc) * inc;
            b = realloc A (case_option [] id (ds_str str)) max1
        in (b = None, str\<lparr>ds_max_length := max1, ds_str := b\<rparr>))
     else (False, str))"

definition MADB_DynstrAppendMem ::
  "allocator \<Rightarrow> MADB_DynString \<Rightarrow> buffer \<Rightarrow> nat \<Rightarrow> (bool \<times> MADB_DynString) option" where
  "MADB_DynstrAppendMem A str app len =
    (let inc = ds_alloc_increment str;
         grow = ds_length str + len \<ge> ds_max_length str;
         new_length = ((ds_length str + len + inc) div inc) * inc;
         new_ptr = realloc A (case_option [] id (ds_str str)) new_length;
         str1 = (if grow then str\<lparr>ds_str := new_ptr, ds_max_length := new_length\<rparr> else str)
     in if grow \<and> new_ptr = None then Some (True, str)
        else if length app < len then None
        else case ds_str str1 of
          None \<Rightarrow> None
        | Some b \<Rightarrow>
           (case mem_write b (ds_length str1) (take len app) of
              None \<Rightarrow> None
            | Some b1 \<Rightarrow>
               (case mem_write b1 (ds_length str1 + len) [NUL] of
                  None \<Rightarrow> None
                | Some b2 \<Rightarrow> Some (False, str1\<lparr>ds_str := Some b2,
                                          ds_length := ds_length str1 + len\<rparr>))))"

definition MADB_DynstrAppend ::
  "allocator \<Rightarrow> MADB_DynString \<Rightarrow> string \<Rightarrow> (bool \<times> MADB_DynString) option" where
  "MADB_DynstrAppend A str app = MADB_DynstrAppendMem A str (app @ [NUL]) (length app)"

definition MADB_DynstrFree :: "MADB_DynString \<Rightarrow> MADB_DynString" where
  "MADB_DynstrFree str = (if ds_str str \<noteq> None then str\<lparr>ds_str := None\<rparr> else str)"

text \<open>\<open>MADB_DynstrMake(dst, src, length)\<close>; the result is the offset in \<open>dst\<close> of the pointer returned.\<close>

fun DynstrMake_loop :: "buffer \<Rightarrow> nat \<Rightarrow> buffer \<Rightarrow> nat \<Rightarrow> (buffer \<times> nat) option" where
  "DynstrMake_loop dst i src 0 =
     (case mem_write dst i [NUL] of None \<Rightarrow> None | Some d \<Rightarrow> Some (d, i))"
| "DynstrMake_loop dst i src (Suc n) =
     (case src of
        [] \<Rightarrow> None
      | c # cs \<Rightarrow>
         (case mem_write dst i [c] of
            None \<Rightarrow> None
          | Some d \<Rightarrow> if c = NUL then Some (d, i) else DynstrMake_loop d (Suc i) cs n))"

definition MADB_DynstrMake :: "buffer \<Rightarrow> buffer \<Rightarrow> nat \<Rightarrow> (buffer \<times> nat) option" where
  "MADB_DynstrMake dst src len = DynstrMake_loop dst 0 src len"

section \<open>Invariant and abstraction\<close>

text \<open>A usable dynamic string: its block has the recorded size, and the text ends inside it.\<close>

definition dynstr_ok :: "MADB_DynString \<Rightarrow> bool" where
  "dynstr_ok s \<longleftrightarrow>
     (case ds_str s of None \<Rightarrow> False
      | Some b \<Rightarrow> length b = ds_max_length s \<and> ds_length s < ds_max_length s
                 \<and> 0 < ds_alloc_increment s \<and> b ! ds_length s = NUL)"

definition content :: "MADB_DynString \<Rightarrow> string" where
  "content s = (case ds_str s of None \<Rightarrow> [] | Some b \<Rightarrow> take (ds_length s) b)"

section \<open>The append interface\<close>

text \<open>
  The builders chain appends with \<open>||\<close>: the first failing one ends the chain.  \<open>or_else\<close> is that
  operator on operations that return the C truth value with the new state.
\<close>

definition or_else ::
  "('s \<Rightarrow> (bool \<times> 's) option) \<Rightarrow> ('s \<Rightarrow> (bool \<times> 's) option) \<Rightarrow> 's \<Rightarrow> (bool \<times> 's) option" where
  "or_else f g s = (case f s of None \<Rightarrow> None
                    | Some (r, s') \<Rightarrow> if r then Some (True, s') else g s')"

text \<open>An empty chain: no call at all, so no failure.\<close>

definition no_append :: "'s \<Rightarrow> (bool \<times> 's) option" where
  "no_append s = Some (False, s)"

locale string_sink =
  fixes ok :: "'s \<Rightarrow> bool"
    and text_of :: "'s \<Rightarrow> string"
    and append_op :: "'s \<Rightarrow> string \<Rightarrow> (bool \<times> 's) option"
  assumes append_total: "ok s \<Longrightarrow> append_op s x \<noteq> None"
    and append_ok: "ok s \<Longrightarrow> append_op s x = Some (r, s') \<Longrightarrow> ok s'"
    and append_done: "ok s \<Longrightarrow> append_op s x = Some (False, s') \<Longrightarrow> text_of s' = text_of s @ x"
    and append_failed: "ok s \<Longrightarrow> append_op s x = Some (True, s') \<Longrightarrow> text_of s' = text_of s"
begin

definition emits :: "('s \<Rightarrow> (bool \<times> 's) option) \<Rightarrow> string \<Rightarrow> bool" where
  "emits f t \<longleftrightarrow>
     (\<forall>s. ok s \<longrightarrow> (\<exists>r s'. f s = Some (r, s') \<and> ok s'
        \<and> (\<exists>p. prefix p t \<and> text_of s' = text_of s @ p \<and> (\<not> r \<longrightarrow> p = t))))"

lemma emits_append: "emits (\<lambda>s. append_op s x) x"
proof (unfold emits_def, intro allI impI)
  fix s assume "ok s"
  then obtain r s' where rs: "append_op s x = Some (r, s')"
    using append_total by (metis option.exhaust surj_pair)
  have "ok s'" using append_ok \<open>ok s\<close> rs by blast
  moreover have "\<exists>p. prefix p x \<and> text_of s' = text_of s @ p \<and> (\<not> r \<longrightarrow> p = x)"
    using append_done append_failed \<open>ok s\<close> rs
    by (cases r) (auto intro: exI [of _ "[]"])
  ultimately show "\<exists>r s'. append_op s x = Some (r, s') \<and> ok s'
      \<and> (\<exists>p. prefix p x \<and> text_of s' = text_of s @ p \<and> (\<not> r \<longrightarrow> p = x))"
    using rs by blast
qed

lemma emits_nothing: "emits no_append []"
  by (auto simp: emits_def no_append_def)

lemma emitsE:
  assumes "emits f t" "ok s"
  obtains r s' p where "f s = Some (r, s')" "ok s'" "prefix p t"
    "text_of s' = text_of s @ p" "\<not> r \<Longrightarrow> p = t"
  using assms unfolding emits_def by blast

lemma emits_or_else:
  assumes f: "emits f t" and g: "emits g u"
  shows "emits (or_else f g) (t @ u)"
proof (unfold emits_def, intro allI impI)
  fix s assume "ok s"
  obtain r s' p where 1: "f s = Some (r, s')" "ok s'" "prefix p t"
      "text_of s' = text_of s @ p" "\<not> r \<Longrightarrow> p = t"
    using emitsE [OF f \<open>ok s\<close>] by blast
  obtain r2 s2 q where 2: "g s' = Some (r2, s2)" "ok s2" "prefix q u"
      "text_of s2 = text_of s' @ q" "\<not> r2 \<Longrightarrow> q = u"
    using emitsE [OF g \<open>ok s'\<close>] by blast
  show "\<exists>r' s''. or_else f g s = Some (r', s'') \<and> ok s''
      \<and> (\<exists>p. prefix p (t @ u) \<and> text_of s'' = text_of s @ p \<and> (\<not> r' \<longrightarrow> p = t @ u))"
    using 1 2 by (cases r) (auto simp: or_else_def)
qed

lemma emits_done:
  assumes "emits f t" "ok s" "f s = Some (False, s')"
  shows "text_of s' = text_of s @ t"
  using emitsE [OF assms(1,2)] assms(3) by (metis Pair_inject option.inject)

lemma emits_ok:
  assumes "emits f t" "ok s" "f s = Some (r, s')"
  shows "ok s'"
  using emitsE [OF assms(1,2)] assms(3) by (metis Pair_inject option.inject)

lemma emits_safe:
  assumes "emits f t" "ok s"
  shows "f s \<noteq> None"
  using emitsE [OF assms] by (metis option.distinct(1))

end

section \<open>The operations on a usable string\<close>

lemma round_up_gt: "0 < inc \<Longrightarrow> n < ((n + inc) div inc) * (inc :: nat)"
  using dividend_less_div_times [of inc n] by (simp add: div_add_self2)

lemma round_up_ge: "0 < inc \<Longrightarrow> n \<le> ((n + inc - 1) div inc) * (inc :: nat)"
  using dividend_less_div_times [of inc "n - 1"]
  by (cases n) (simp_all add: div_add_self2)

lemma dynstr_okE:
  assumes "dynstr_ok s"
  obtains b where "ds_str s = Some b" "length b = ds_max_length s" "ds_length s < length b"
    "0 < ds_alloc_increment s" "b ! ds_length s = NUL"
  using assms by (auto simp: dynstr_ok_def split: option.splits)

lemma write_terminated:
  assumes "n + length x < length b"
  shows "\<exists>b1 b2. mem_write b n x = Some b1 \<and> mem_write b1 (n + length x) [NUL] = Some b2
           \<and> length b2 = length b \<and> take (n + length x) b2 = take n b @ x
           \<and> b2 ! (n + length x) = NUL"
  using assms
  by (simp add: mem_write_def min_absorb2 nth_append)

lemma AppendMem_no_growth:
  assumes "dynstr_ok s" "len \<le> length x" "ds_length s + len < ds_max_length s"
  shows "\<exists>s'. MADB_DynstrAppendMem A s x len = Some (False, s')
           \<and> dynstr_ok s' \<and> content s' = content s @ take len x"
proof -
  obtain b where b: "ds_str s = Some b" "length b = ds_max_length s" "ds_length s < length b"
      "0 < ds_alloc_increment s" "b ! ds_length s = NUL"
    using assms(1) by (rule dynstr_okE)
  obtain b1 b2 where "mem_write b (ds_length s) (take len x) = Some b1"
      "mem_write b1 (ds_length s + len) [NUL] = Some b2" "length b2 = length b"
      "take (ds_length s + len) b2 = take (ds_length s) b @ take len x"
      "b2 ! (ds_length s + len) = NUL"
    using write_terminated [of "ds_length s" "take len x" b] assms b
    by (auto simp: min_absorb2)
  then show ?thesis
    using assms b by (auto simp: MADB_DynstrAppendMem_def Let_def dynstr_ok_def content_def)
qed

lemma AppendMem_growth:
  assumes "dynstr_ok s" "len \<le> length x" "\<not> ds_length s + len < ds_max_length s"
  defines "m \<equiv> ((ds_length s + len + ds_alloc_increment s) div ds_alloc_increment s)
                * ds_alloc_increment s"
  assumes "grants A m"
  shows "\<exists>s'. MADB_DynstrAppendMem A s x len = Some (False, s')
           \<and> dynstr_ok s' \<and> content s' = content s @ take len x"
proof -
  obtain b where b: "ds_str s = Some b" "length b = ds_max_length s" "ds_length s < length b"
      "0 < ds_alloc_increment s" "b ! ds_length s = NUL"
    using assms(1) by (rule dynstr_okE)
  have m: "ds_length s + len < m"
    unfolding m_def using b(4) by (rule round_up_gt)
  obtain b0 where b0: "realloc A b m = Some b0"
    using \<open>grants A m\<close> by (simp add: realloc_def)
  have l0: "length b0 = m" "take (ds_length s) b0 = take (ds_length s) b"
    using realloc_take [OF b0, of "ds_length s"] b(3) m by auto
  obtain b1 b2 where "mem_write b0 (ds_length s) (take len x) = Some b1"
      "mem_write b1 (ds_length s + len) [NUL] = Some b2" "length b2 = m"
      "take (ds_length s + len) b2 = take (ds_length s) b @ take len x"
      "b2 ! (ds_length s + len) = NUL"
    using write_terminated [of "ds_length s" "take len x" b0] assms(2) l0 m
    by (auto simp: min_absorb2)
  then show ?thesis
    using assms(2,3) b m b0
    by (auto simp: MADB_DynstrAppendMem_def Let_def dynstr_ok_def content_def m_def)
qed

lemma AppendMem_refused:
  assumes "\<not> ds_length s + len < ds_max_length s"
    "\<not> grants A (((ds_length s + len + ds_alloc_increment s) div ds_alloc_increment s)
                * ds_alloc_increment s)"
  shows "MADB_DynstrAppendMem A s x len = Some (True, s)"
  using assms by (simp add: MADB_DynstrAppendMem_def Let_def realloc_def)

lemma AppendMem_cases:
  assumes "dynstr_ok s" "len \<le> length x"
  shows "MADB_DynstrAppendMem A s x len = Some (True, s)
    \<or> (\<exists>s'. MADB_DynstrAppendMem A s x len = Some (False, s')
           \<and> dynstr_ok s' \<and> content s' = content s @ take len x)"
  using assms AppendMem_no_growth AppendMem_growth AppendMem_refused by meson

lemma Append_cases:
  assumes "dynstr_ok s"
  shows "MADB_DynstrAppend A s x = Some (True, s)
    \<or> (\<exists>s'. MADB_DynstrAppend A s x = Some (False, s')
           \<and> dynstr_ok s' \<and> content s' = content s @ x)"
  using AppendMem_cases [OF assms, of "length x" "x @ [NUL]" A]
  by (simp add: MADB_DynstrAppend_def)

interpretation ds: string_sink dynstr_ok content "MADB_DynstrAppend A" for A
proof
  fix s x r s'
  assume s: "dynstr_ok s"
  show "MADB_DynstrAppend A s x \<noteq> None"
    using Append_cases [OF s, of A x] by auto
  show "dynstr_ok s'" if "MADB_DynstrAppend A s x = Some (r, s')"
    using Append_cases [OF s, of A x] s that by auto
  show "content s' = content s @ x" if "MADB_DynstrAppend A s x = Some (False, s')"
    using Append_cases [OF s, of A x] that by auto
  show "content s' = content s" if "MADB_DynstrAppend A s x = Some (True, s')"
    using Append_cases [OF s, of A x] that by auto
qed

lemma emits_AppendMem:
  assumes "len \<le> length x"
  shows "ds.emits (\<lambda>s. MADB_DynstrAppendMem A s x len) (take len x)"
proof (unfold ds.emits_def, intro allI impI)
  fix s assume "dynstr_ok s"
  then show "\<exists>r s'. MADB_DynstrAppendMem A s x len = Some (r, s') \<and> dynstr_ok s'
     \<and> (\<exists>p. prefix p (take len x) \<and> content s' = content s @ p \<and> (\<not> r \<longrightarrow> p = take len x))"
    using AppendMem_cases [of s len x A] assms by (auto intro: exI [of _ "[]"])
qed

lemmas emits_intros = ds.emits_append ds.emits_nothing ds.emits_or_else emits_AppendMem

section \<open>Replacing the text, reserving room and bounded copies\<close>

lemma DynstrSet_spec:
  assumes "dynstr_ok s" "length x + 1 < 2 ^ 32"
  shows "\<exists>r s'. MADB_DynstrSet A s (Some x) = Some (r, s')
           \<and> (if r then ds_str s' = None else dynstr_ok s' \<and> content s' = x)"
proof -
  obtain b where b: "ds_str s = Some b" "length b = ds_max_length s" "ds_length s < length b"
      "0 < ds_alloc_increment s" "b ! ds_length s = NUL"
    using assms(1) by (rule dynstr_okE)
  let ?i = "ds_alloc_increment s"
  have m: "length x < ((length x + ?i) div ?i) * ?i"
    using b(4) by (rule round_up_gt)
  then have nz: "(length x + ?i) div ?i \<noteq> 0"
    by (metis mult_0 not_less0)
  have len: "uint32 (length x + 1) = Suc (length x)" "uint32 (Suc (length x) + 2 ^ 32 - 1) = length x"
    using assms(2) by (simp_all add: uint32_def)
  show ?thesis
  proof (cases "length x + 1 > ds_max_length s")
    case True
    then show ?thesis
      using b m nz len
      by (auto simp: MADB_DynstrSet_def Let_def dynstr_ok_def content_def realloc_def
          mem_write_def nth_append)
  next
    case False
    then show ?thesis
      using b len
      by (auto simp: MADB_DynstrSet_def Let_def dynstr_ok_def content_def mem_write_def nth_append)
  qed
qed

lemma DynstrRealloc_room:
  assumes "dynstr_ok s" "MADB_DynstrRealloc A s n = (False, s')"
  shows "content s' = content s \<and> ds_length s' = ds_length s
           \<and> (n \<noteq> 0 \<longrightarrow> ds_length s' + n \<le> ds_max_length s')"
proof -
  obtain b where b: "ds_str s = Some b" "length b = ds_max_length s" "ds_length s < length b"
      "0 < ds_alloc_increment s" "b ! ds_length s = NUL"
    using assms(1) by (rule dynstr_okE)
  have "ds_length s + n \<le> ((ds_length s + n + ds_alloc_increment s - 1) div ds_alloc_increment s)
          * ds_alloc_increment s"
    using b(4) by (rule round_up_ge)
  then show ?thesis
    using assms(2) b
    by (auto simp: MADB_DynstrRealloc_def Let_def content_def realloc_def min_def split: if_splits)
qed

lemma DynstrFree_idem: "MADB_DynstrFree (MADB_DynstrFree s) = MADB_DynstrFree s"
  by (simp add: MADB_DynstrFree_def)

lemma DynstrMake_loop_copies:
  assumes "is_cstring s" "i + min n (length s) < length dst"
  shows "\<exists>d. DynstrMake_loop dst i (s @ NUL # rest) n = Some (d, i + min n (length s))
           \<and> take (i + min n (length s) + 1) d = take i dst @ take n s @ [NUL] \<and> length d = length dst"
  using assms
proof (induction s arbitrary: dst i n)
  case Nil
  then show ?case by (cases n) (auto simp: mem_write_def take_Suc_conv_app_nth)
next
  case (Cons c s)
  show ?case
  proof (cases n)
    case 0
    then show ?thesis using Cons.prems by (auto simp: mem_write_def take_Suc_conv_app_nth)
  next
    case (Suc m)
    let ?d = "take i dst @ [c] @ drop (Suc i) dst"
    have w: "mem_write dst i [c] = Some ?d"
      using Cons.prems by (simp add: mem_write_def)
    have "\<exists>d. DynstrMake_loop ?d (Suc i) (s @ NUL # rest) m = Some (d, Suc i + min m (length s))
       \<and> take (Suc i + min m (length s) + 1) d = take (Suc i) ?d @ take m s @ [NUL]
       \<and> length d = length ?d"
      by (rule Cons.IH) (use Cons.prems Suc in auto)
    moreover have "take (Suc i) ?d = take i dst @ [c]" "length ?d = length dst"
      using Cons.prems by (simp_all add: min_absorb2)
    ultimately show ?thesis
      using Cons.prems Suc w by auto
  qed
qed

lemma DynstrMake_spec:
  assumes "is_cstring s" "min n (length s) < length dst"
  shows "\<exists>d. MADB_DynstrMake dst (s @ NUL # rest) n = Some (d, min n (length s))
           \<and> c_str d = take n s"
proof -
  obtain d where d: "MADB_DynstrMake dst (s @ NUL # rest) n = Some (d, min n (length s))"
      "take (min n (length s) + 1) d = take n s @ [NUL]"
    using DynstrMake_loop_copies [of s 0 n dst rest] assms by (auto simp: MADB_DynstrMake_def)
  have "d = take n s @ NUL # drop (min n (length s) + 1) d"
    using d(2) append_take_drop_id [of "min n (length s) + 1" d] by simp
  then have "c_str d = take n s"
    using assms(1) by (metis c_str_append_NUL is_cstring_take)
  then show ?thesis using d(1) by blast
qed

section \<open>Properties\<close>

text \<open>
  C2. Whatever the allocator does, \<open>MADB_DynstrAppendMem\<close> on a usable string never writes outside
  its block and returns: either it reports failure and the string is exactly what it was, or the
  string stays usable (still NUL terminated) and its text is the old text followed by the \<open>len\<close>
  bytes given.
\<close>

theorem DynstrAppendMem_refines_append:
  assumes "dynstr_ok s" "len \<le> length x"
  shows "\<exists>r s'. MADB_DynstrAppendMem A s x len = Some (r, s') \<and> dynstr_ok s'
           \<and> (if r then s' = s else content s' = content s @ take len x)"
  using AppendMem_cases [OF assms, of A] assms(1) by fastforce

definition empty_dynstr :: MADB_DynString where
  "empty_dynstr = \<lparr>ds_str = Some [NUL, NUL], ds_length = 0, ds_max_length = 2, ds_alloc_increment = 2\<rparr>"

theorem DynstrAppendMem_refines_append_witness:
  "dynstr_ok empty_dynstr \<and> (\<exists>r s'.
     MADB_DynstrAppendMem \<lparr>grants = (\<lambda>n. n = 6), junk = (\<lambda>_. CHR ''j'')\<rparr> empty_dynstr ''hello'' 5
       = Some (r, s') \<and> \<not> r \<and> content s' = ''hello'')"
proof -
  have ok: "dynstr_ok empty_dynstr" by (simp add: dynstr_ok_def empty_dynstr_def)
  have "fst (the (MADB_DynstrAppendMem \<lparr>grants = (\<lambda>n. n = 6), junk = (\<lambda>_. CHR ''j'')\<rparr>
              empty_dynstr ''hello'' 5)) = False"
    by (simp add: MADB_DynstrAppendMem_def empty_dynstr_def realloc_def mem_write_def Let_def)
  then show ?thesis
    using ok DynstrAppendMem_refines_append [OF ok, of 5 "''hello''"
      "\<lparr>grants = (\<lambda>n. n = 6), junk = (\<lambda>_. CHR ''j'')\<rparr>"]
    by (auto simp: content_def empty_dynstr_def)
qed

text \<open>The block \<open>MADB_InitDynamicString\<close> asks for when its argument is not shorter than the request.\<close>

definition init_request :: "nat \<Rightarrow> nat \<Rightarrow> nat" where
  "init_request init_alloc alloc_increment =
     (if init_alloc = 0 then (if alloc_increment = 0 then 128 else alloc_increment) else init_alloc)"

lemma InitDynamicString_result:
  assumes "length x + 1 < 2 ^ 32"
  shows "(MADB_InitDynamicString A s (Some x) n inc = None \<longleftrightarrow>
            init_request n inc < length x + 1 \<and> grants A (init_request n inc))
       \<and> (\<forall>s'. MADB_InitDynamicString A s (Some x) n inc = Some (False, s') \<longrightarrow>
            dynstr_ok s' \<and> content s' = x)"
proof (cases "length x + 1 < n")
  case True
  define i where "i = (if inc = 0 then 128 else inc)"
  define m where "m = ((length x + i) div i) * i"
  have i: "0 < i" by (simp add: i_def)
  have m: "length x < m" unfolding m_def using i by (rule round_up_gt)
  have "(length x + i) div i \<noteq> 0"
    using m unfolding m_def by (metis mult_0 not_less0)
  note i = i this
  have "MADB_InitDynamicString A s (Some x) n inc =
     (if grants A m then Some (False, \<lparr>ds_str = Some (x @ NUL # drop (Suc (length x)) (map (junk A) [0..<m])),
        ds_length = length x, ds_max_length = m, ds_alloc_increment = i\<rparr>)
      else Some (True, s\<lparr>ds_str := None\<rparr>))"
    using assms True m i
    by (auto simp: MADB_InitDynamicString_def Let_def cast_simps malloc_def mem_write_def
        i_def [symmetric] m_def [symmetric] uint32_def)
  then show ?thesis
    using True m by (auto simp: init_request_def dynstr_ok_def content_def i_def nth_append)
next
  case False
  then show ?thesis
    using assms
    by (auto simp: MADB_InitDynamicString_def Let_def cast_simps malloc_def mem_write_def
        init_request_def dynstr_ok_def content_def nth_append uint32_def split: if_splits)
qed

lemma InitDynamicString_usable:
  assumes "length x + 1 < n" "n < 2 ^ 32"
  obtains (made) s' where "MADB_InitDynamicString A s (Some x) n inc = Some (False, s')" "dynstr_ok s'" "content s' = x"
    | (failed) s' where "MADB_InitDynamicString A s (Some x) n inc = Some (True, s')"
proof -
  have x: "length x + 1 < 2 ^ 32" using assms by simp
  have "MADB_InitDynamicString A s (Some x) n inc \<noteq> None"
    using InitDynamicString_result [OF x, of A s n inc] assms by (simp add: init_request_def)
  then obtain r s' where "MADB_InitDynamicString A s (Some x) n inc = Some (r, s')" by auto
  then show ?thesis using InitDynamicString_result [OF x, of A s n inc] made failed by (cases r) auto
qed

text \<open>
  \<open>MADB_InitDynamicString\<close> copies its initial string outside the block it allocated exactly when
  that string, with its NUL, is longer than the requested size: the request is only ever rounded when
  the string is shorter.  In every other case that the allocator grants, the new string is usable and
  holds the initial string.
\<close>

theorem InitDynamicString_overflow_iff:
  assumes "length x + 1 < 2 ^ 32"
  shows "(MADB_InitDynamicString A s (Some x) n inc = None \<longleftrightarrow>
            init_request n inc < length x + 1 \<and> grants A (init_request n inc))
       \<and> (\<forall>s'. MADB_InitDynamicString A s (Some x) n inc = Some (False, s') \<longrightarrow>
            dynstr_ok s' \<and> content s' = x)"
  using assms by (rule InitDynamicString_result)

theorem InitDynamicString_overflow_iff_witness:
  "MADB_InitDynamicString \<lparr>grants = (\<lambda>_. True), junk = (\<lambda>_. NUL)\<rparr> empty_dynstr (Some ''SELECT'') 4 16
     = None"
  using InitDynamicString_overflow_iff [of "''SELECT''" "\<lparr>grants = (\<lambda>_. True), junk = (\<lambda>_. NUL)\<rparr>"
      empty_dynstr 4 16]
  by (simp add: init_request_def)

end
