(* ===== verification/Dyn_Array.thy ===== *)
theory Dyn_Array
  imports Odbc_Prelude
begin

text \<open>
  The growable array \<open>MADB_DynArray\<close> of \<open>src/ma_legacy_helpers.c\<close>: descriptor records, tokens,
  parameter positions and statement references are kept in it.  The counters of the struct are
  \<open>unsigned int\<close>, so every sum and product the code forms in that type is reduced with
  \<^const>\<open>uint32\<close>.  A pointer into the buffer is its byte offset.

  The locale \<open>element_array\<close> is the interface: an array abstracts to the list of its elements, and
  each operation to the list operation.
\<close>

section \<open>State\<close>

record MADB_DynArray =
  da_buffer :: "buffer option"
  da_elements :: nat
  da_max_element :: nat
  da_alloc_increment :: nat
  da_size_of_element :: nat

section \<open>Operations\<close>

definition MADB_InitDynamicArray ::
  "allocator \<Rightarrow> nat \<Rightarrow> nat \<Rightarrow> nat \<Rightarrow> (bool \<times> MADB_DynArray) option" where
  "MADB_InitDynamicArray A element_size init_alloc alloc_increment =
    (if alloc_increment = 0 \<and> element_size = 0 then None
     else
       (let inc0 = max ((8192 - 8) div element_size) 16;
            inc = (if alloc_increment \<noteq> 0 then alloc_increment
                   else if init_alloc > 8 \<and> inc0 > uint32 (init_alloc * 2)
                        then uint32 (init_alloc * 2) else inc0);
            init = (if init_alloc = 0 then inc else init_alloc);
            array = \<lparr>da_buffer = None, da_elements = 0, da_max_element = init,
                     da_alloc_increment = inc, da_size_of_element = element_size\<rparr>
        in case malloc A (uint32 (element_size * init)) of
             None \<Rightarrow> Some (True, array\<lparr>da_max_element := 0\<rparr>)
           | Some b \<Rightarrow> Some (False, array\<lparr>da_buffer := Some b\<rparr>)))"

definition MADB_AllocDynamic ::
  "allocator \<Rightarrow> MADB_DynArray \<Rightarrow> nat option \<times> MADB_DynArray" where
  "MADB_AllocDynamic A array =
    (let full = da_elements array = da_max_element array;
         new_ptr = realloc A (case_option [] id (da_buffer array))
           (uint32 (uint32 (da_max_element array + da_alloc_increment array)
                      * da_size_of_element array));
         array1 = (if full then array\<lparr>da_buffer := new_ptr,
                     da_max_element := uint32 (da_max_element array + da_alloc_increment array)\<rparr>
                   else array)
     in if full \<and> new_ptr = None then (None, array)
        else (Some (uint32 (da_elements array1 * da_size_of_element array1)),
              array1\<lparr>da_elements := uint32 (da_elements array1 + 1)\<rparr>))"

text \<open>The bytes of an element are written to, or read from, the buffer.\<close>

definition write_element :: "MADB_DynArray \<Rightarrow> nat \<Rightarrow> buffer \<Rightarrow> MADB_DynArray option" where
  "write_element array off element =
    (case da_buffer array of
       None \<Rightarrow> None
     | Some b \<Rightarrow>
        if length element < da_size_of_element array then None
        else (case mem_write b off (take (da_size_of_element array) element) of
                None \<Rightarrow> None | Some b' \<Rightarrow> Some (array\<lparr>da_buffer := Some b'\<rparr>)))"

definition read_bytes :: "MADB_DynArray \<Rightarrow> nat \<Rightarrow> nat \<Rightarrow> buffer option" where
  "read_bytes array off n =
    (case da_buffer array of
       None \<Rightarrow> None
     | Some b \<Rightarrow> if off + n \<le> length b then Some (take n (drop off b)) else None)"

definition MADB_InsertDynamic ::
  "allocator \<Rightarrow> MADB_DynArray \<Rightarrow> buffer \<Rightarrow> (bool \<times> MADB_DynArray) option" where
  "MADB_InsertDynamic A array element =
    (let (buf, array1) =
       (if da_elements array = da_max_element array then MADB_AllocDynamic A array
        else (Some (uint32 (da_elements array * da_size_of_element array)),
              array\<lparr>da_elements := uint32 (da_elements array + 1)\<rparr>))
     in case buf of
          None \<Rightarrow> Some (True, array1)
        | Some off \<Rightarrow> (case write_element array1 off element of
                         None \<Rightarrow> None | Some a \<Rightarrow> Some (False, a)))"

definition MADB_PopDynamic :: "MADB_DynArray \<Rightarrow> nat option \<times> MADB_DynArray" where
  "MADB_PopDynamic array =
    (if da_elements array \<noteq> 0
     then (Some (uint32 ((da_elements array - 1) * da_size_of_element array)),
           array\<lparr>da_elements := da_elements array - 1\<rparr>)
     else (None, array))"

definition MADB_SetDynamic ::
  "allocator \<Rightarrow> MADB_DynArray \<Rightarrow> buffer \<Rightarrow> nat \<Rightarrow> (bool \<times> MADB_DynArray) option" where
  "MADB_SetDynamic A array element idx =
    (let inc = da_alloc_increment array;
         sz = da_size_of_element array;
         fits = idx < da_max_element array;
         size = uint32 ((uint32 (idx + inc) div inc) * inc);
         new_ptr = realloc A (case_option [] id (da_buffer array)) (uint32 (size * sz));
         array1 = (if fits then array else array\<lparr>da_buffer := new_ptr, da_max_element := size\<rparr>)
     in if idx < da_elements array then
          (case write_element array (uint32 (idx * sz)) element of
             None \<Rightarrow> None | Some a \<Rightarrow> Some (False, a))
        else if \<not> fits \<and> inc = 0 then None
        else if \<not> fits \<and> new_ptr = None then Some (True, array)
        else case da_buffer array1 of
          None \<Rightarrow> None
        | Some b \<Rightarrow>
           (case mem_write b (uint32 (da_elements array * sz))
                   (replicate (uint32 ((idx - da_elements array) * sz)) NUL) of
              None \<Rightarrow> None
            | Some b1 \<Rightarrow>
               (case write_element (array1\<lparr>da_buffer := Some b1, da_elements := uint32 (idx + 1)\<rparr>)
                       (uint32 (idx * sz)) element of
                  None \<Rightarrow> None | Some a \<Rightarrow> Some (False, a))))"

definition MADB_GetDynamic :: "MADB_DynArray \<Rightarrow> nat \<Rightarrow> buffer option" where
  "MADB_GetDynamic array idx =
    (if idx \<ge> da_elements array then Some (replicate (da_size_of_element array) NUL)
     else read_bytes array (uint32 (idx * da_size_of_element array)) (da_size_of_element array))"

definition MADB_DeleteDynamic :: "MADB_DynArray \<Rightarrow> MADB_DynArray" where
  "MADB_DeleteDynamic array =
    (if da_buffer array \<noteq> None
     then array\<lparr>da_buffer := None, da_elements := 0, da_max_element := 0\<rparr> else array)"

definition MADB_DeleteDynamicElement :: "MADB_DynArray \<Rightarrow> nat \<Rightarrow> MADB_DynArray option" where
  "MADB_DeleteDynamicElement array idx =
    (let sz = da_size_of_element array;
         ptr = uint32 (sz * idx);
         elements = uint32 (da_elements array + 2 ^ 32 - 1);
         n = uint32 (uint32 (elements + 2 ^ 32 - idx) * sz)
     in case (da_buffer array, read_bytes array (ptr + sz) n) of
          (Some b, Some moved) \<Rightarrow>
            (case mem_write b ptr moved of
               None \<Rightarrow> None
             | Some b' \<Rightarrow> Some (array\<lparr>da_buffer := Some b', da_elements := elements\<rparr>))
        | _ \<Rightarrow> None)"

definition MADB_FreezeSizeDynamic :: "allocator \<Rightarrow> MADB_DynArray \<Rightarrow> MADB_DynArray" where
  "MADB_FreezeSizeDynamic A array =
    (let elements = max (da_elements array) 1
     in case da_buffer array of
          None \<Rightarrow> array
        | Some b \<Rightarrow>
            if da_max_element array \<noteq> elements
            then array\<lparr>da_buffer := realloc A b (uint32 (elements * da_size_of_element array)),
                       da_max_element := elements\<rparr>
            else array)"

section \<open>Invariant and abstraction\<close>

definition dynarr_ok :: "MADB_DynArray \<Rightarrow> bool" where
  "dynarr_ok a \<longleftrightarrow>
     length (case_option [] id (da_buffer a)) = da_max_element a * da_size_of_element a
     \<and> (da_buffer a = None \<longrightarrow> da_max_element a = 0)
     \<and> da_elements a \<le> da_max_element a \<and> 0 < da_alloc_increment a
     \<and> da_max_element a * da_size_of_element a < 2 ^ 32 \<and> da_max_element a < 2 ^ 32"

text \<open>One more growth step still fits in \<open>unsigned int\<close>.\<close>

definition can_grow :: "MADB_DynArray \<Rightarrow> bool" where
  "can_grow a \<longleftrightarrow>
     (da_max_element a + da_alloc_increment a) * da_size_of_element a < 2 ^ 32
     \<and> da_max_element a + da_alloc_increment a < 2 ^ 32"

definition chunk :: "nat \<Rightarrow> buffer \<Rightarrow> nat \<Rightarrow> buffer" where
  "chunk sz b i = take sz (drop (i * sz) b)"

definition elems :: "MADB_DynArray \<Rightarrow> buffer list" where
  "elems a = map (chunk (da_size_of_element a) (case_option [] id (da_buffer a)))
               [0..<da_elements a]"

section \<open>Chunks of a buffer\<close>

lemma chunk_append_left:
  "(i + 1) * sz \<le> length b \<Longrightarrow> chunk sz (b @ c) i = chunk sz b i"
  by (simp add: chunk_def)

lemma chunk_take:
  "(i + 1) * sz \<le> n \<Longrightarrow> chunk sz (take n b) i = chunk sz b i"
  by (simp add: chunk_def drop_take min_absorb1)

lemma chunk_overwritten:
  assumes "length x = k * sz" "(i + k) * sz \<le> length b"
  shows "\<exists>b'. mem_write b (i * sz) x = Some b' \<and> length b' = length b
     \<and> (\<forall>j. (j < i \<longrightarrow> chunk sz b' j = chunk sz b j)
          \<and> (i \<le> j \<and> j < i + k \<longrightarrow> chunk sz b' j = chunk sz x (j - i))
          \<and> (i + k \<le> j \<longrightarrow> chunk sz b' j = chunk sz b j))"
proof -
  let ?b = "take (i * sz) b @ x @ drop (i * sz + length x) b"
  have le: "i * sz + length x \<le> length b"
    using assms by (simp add: algebra_simps)
  have before: "chunk sz ?b j = chunk sz b j" if "j < i" for j
  proof -
    have "(j + 1) * sz \<le> i * sz" using that by (intro mult_le_mono1) simp
    then have "(j + 1) * sz \<le> length (take (i * sz) b)" using le by simp
    then show ?thesis
      using \<open>(j + 1) * sz \<le> i * sz\<close> by (simp only: chunk_append_left chunk_take)
  qed
  have inside: "chunk sz ?b j = chunk sz x (j - i)" if "i \<le> j" "j < i + k" for j
  proof -
    have "(j - i + 1) * sz \<le> k * sz" using that by (intro mult_le_mono1) simp
    then have "(j - i + 1) * sz \<le> length x" using assms(1) by simp
    then have "chunk sz (x @ drop (i * sz + length x) b) (j - i) = chunk sz x (j - i)"
      by (rule chunk_append_left)
    moreover have "drop (j * sz) ?b = drop ((j - i) * sz) (x @ drop (i * sz + length x) b)"
      using that le by (simp add: diff_mult_distrib)
    ultimately show ?thesis by (simp only: chunk_def)
  qed
  have after: "chunk sz ?b j = chunk sz b j" if "i + k \<le> j" for j
  proof -
    have "(i + k) * sz \<le> j * sz" using that by (rule mult_le_mono1)
    then have "i * sz + length x \<le> j * sz" using assms(1) by (simp add: algebra_simps)
    then have "drop (j * sz) ?b = drop (j * sz) b"
      using le that by simp
    then show ?thesis by (simp only: chunk_def)
  qed
  show ?thesis
    using le before inside after by (auto simp: mem_write_def)
qed

lemma chunk_self: "length x = sz \<Longrightarrow> chunk sz x 0 = x"
  by (simp add: chunk_def)

lemma chunk_overwritten_one:
  assumes "length x = sz" "(i + 1) * sz \<le> length b"
  shows "\<exists>b'. mem_write b (i * sz) x = Some b' \<and> length b' = length b
     \<and> (\<forall>j. chunk sz b' j = (if j = i then x else chunk sz b j))"
proof -
  obtain b' where b': "mem_write b (i * sz) x = Some b'" "length b' = length b"
      "\<And>j. j < i \<Longrightarrow> chunk sz b' j = chunk sz b j"
      "\<And>j. i \<le> j \<and> j < i + 1 \<Longrightarrow> chunk sz b' j = chunk sz x (j - i)"
      "\<And>j. i + 1 \<le> j \<Longrightarrow> chunk sz b' j = chunk sz b j"
    using chunk_overwritten [of x 1 sz i b] assms by auto
  have "chunk sz b' j = (if j = i then x else chunk sz b j)" for j
    using b'(3-5) [of j] chunk_self [OF assms(1)] by (cases "j < i") auto
  then show ?thesis using b'(1,2) by blast
qed

lemma uint32_index:
  assumes "dynarr_ok a" "i \<le> da_max_element a"
  shows "uint32 (i * da_size_of_element a) = i * da_size_of_element a"
proof -
  have "i * da_size_of_element a \<le> da_max_element a * da_size_of_element a"
    using assms(2) by (rule mult_le_mono1)
  also have "\<dots> < 2 ^ 32" using assms(1) by (simp add: dynarr_ok_def)
  finally show ?thesis by (rule uint32_id)
qed

lemma length_elems [simp]: "length (elems a) = da_elements a"
  by (simp add: elems_def)

lemma elems_nth: "i < da_elements a \<Longrightarrow>
  elems a ! i = chunk (da_size_of_element a) (case_option [] id (da_buffer a)) i"
  by (simp add: elems_def)

section \<open>The operations on a usable array\<close>

lemma dynarr_ok_bufferE:
  assumes "dynarr_ok a" "0 < da_max_element a"
  obtains b where "da_buffer a = Some b" "length b = da_max_element a * da_size_of_element a"
  using assms by (cases "da_buffer a") (auto simp: dynarr_ok_def)

lemma write_element_spec:
  assumes a: "dynarr_ok a" and i: "i < da_elements a" and x: "length x = da_size_of_element a"
  shows "\<exists>a'. write_element a (uint32 (i * da_size_of_element a)) x = Some a' \<and> dynarr_ok a'
           \<and> elems a' = (elems a)[i := x] \<and> da_size_of_element a' = da_size_of_element a"
proof -
  let ?sz = "da_size_of_element a"
  have im: "i < da_max_element a" using a i by (simp add: dynarr_ok_def)
  obtain b where b: "da_buffer a = Some b" "length b = da_max_element a * ?sz"
    using dynarr_ok_bufferE [OF a] im by (metis gr_zeroI not_less0)
  have "(i + 1) * ?sz \<le> length b"
    unfolding b(2) using im by (intro mult_le_mono1) simp
  then obtain b' where b': "mem_write b (i * ?sz) x = Some b'" "length b' = length b"
      "\<And>j. chunk ?sz b' j = (if j = i then x else chunk ?sz b j)"
    using chunk_overwritten_one [OF x] by metis
  have "write_element a (uint32 (i * ?sz)) x = Some (a\<lparr>da_buffer := Some b'\<rparr>)"
    using uint32_index [OF a, of i] im b b' x by (simp add: write_element_def)
  moreover have "dynarr_ok (a\<lparr>da_buffer := Some b'\<rparr>)"
    using a b b' by (simp add: dynarr_ok_def)
  moreover have "elems (a\<lparr>da_buffer := Some b'\<rparr>) = (elems a)[i := x]"
    using i b b' by (auto simp: elems_def intro!: nth_equalityI simp: nth_list_update)
  ultimately show ?thesis by auto
qed

lemma grown_ok:
  assumes a: "dynarr_ok a" and m: "da_max_element a \<le> m" "m * da_size_of_element a < 2 ^ 32"
    "m < 2 ^ 32" and b: "realloc A (case_option [] id (da_buffer a)) (m * da_size_of_element a) = Some b"
  shows "dynarr_ok (a\<lparr>da_buffer := Some b, da_max_element := m\<rparr>)"
    and "elems (a\<lparr>da_buffer := Some b, da_max_element := m\<rparr>) = elems a"
proof -
  let ?sz = "da_size_of_element a" and ?b = "case_option [] id (da_buffer a)"
  have len: "length ?b = da_max_element a * ?sz" and el: "da_elements a \<le> da_max_element a"
    using a by (auto simp: dynarr_ok_def)
  have le: "length ?b \<le> m * ?sz" unfolding len using m(1) by (rule mult_le_mono1)
  note rb = realloc_SomeD [OF b le]
  show "dynarr_ok (a\<lparr>da_buffer := Some b, da_max_element := m\<rparr>)"
    using a m rb el by (auto simp: dynarr_ok_def)
  have "chunk ?sz b i = chunk ?sz ?b i" if "i < da_elements a" for i
  proof -
    have "(i + 1) * ?sz \<le> length ?b"
      unfolding len using that el by (intro mult_le_mono1) simp
    then show ?thesis using chunk_take [of i ?sz "length ?b" b] rb(2) by simp
  qed
  then show "elems (a\<lparr>da_buffer := Some b, da_max_element := m\<rparr>) = elems a"
    by (simp add: elems_def)
qed

text \<open>One more element whose bytes are whatever the buffer holds.\<close>

lemma one_more_element:
  assumes "dynarr_ok a" "da_elements a < da_max_element a"
  shows "dynarr_ok (a\<lparr>da_elements := uint32 (da_elements a + 1)\<rparr>)"
    and "\<exists>y. elems (a\<lparr>da_elements := uint32 (da_elements a + 1)\<rparr>) = elems a @ [y]"
    and "da_elements (a\<lparr>da_elements := uint32 (da_elements a + 1)\<rparr>) = da_elements a + 1"
  using assms by (auto simp: dynarr_ok_def elems_def cast_simps)

lemma AllocDynamic_spec:
  assumes a: "dynarr_ok a" and g: "can_grow a"
  shows "MADB_AllocDynamic A a = (None, a) \<and> da_elements a = da_max_element a
    \<or> (\<exists>a' y. MADB_AllocDynamic A a = (Some (uint32 (da_elements a * da_size_of_element a)), a')
         \<and> dynarr_ok a' \<and> elems a' = elems a @ [y] \<and> da_size_of_element a' = da_size_of_element a)"
proof (cases "da_elements a = da_max_element a")
  case False
  then have "da_elements a < da_max_element a" using a by (simp add: dynarr_ok_def)
  then show ?thesis
    using one_more_element [OF a] False by (auto simp: MADB_AllocDynamic_def Let_def)
next
  case True
  let ?m = "da_max_element a + da_alloc_increment a"
  have m: "uint32 ?m = ?m" "uint32 (?m * da_size_of_element a) = ?m * da_size_of_element a"
    using g by (simp_all add: can_grow_def cast_simps)
  show ?thesis
  proof (cases "realloc A (case_option [] id (da_buffer a)) (?m * da_size_of_element a)")
    case None
    then show ?thesis using True m by (simp add: MADB_AllocDynamic_def Let_def)
  next
    case (Some b)
    let ?a = "a\<lparr>da_buffer := Some b, da_max_element := ?m\<rparr>"
    have ok: "dynarr_ok ?a" "elems ?a = elems a"
      using grown_ok [OF a _ _ _ Some] g by (auto simp: can_grow_def)
    have "da_elements ?a < da_max_element ?a"
      using True a by (simp add: dynarr_ok_def)
    then show ?thesis
      using one_more_element [OF ok(1)] ok True m Some
      by (auto simp: MADB_AllocDynamic_def Let_def)
  qed
qed

lemma InsertDynamic_spec:
  assumes a: "dynarr_ok a" and g: "can_grow a" and x: "length x = da_size_of_element a"
  shows "MADB_InsertDynamic A a x = Some (True, a)
    \<or> (\<exists>a'. MADB_InsertDynamic A a x = Some (False, a') \<and> dynarr_ok a'
         \<and> elems a' = elems a @ [x] \<and> da_size_of_element a' = da_size_of_element a)"
proof -
  let ?off = "uint32 (da_elements a * da_size_of_element a)"
  have fill: "\<exists>a'. write_element a1 ?off x = Some a' \<and> dynarr_ok a' \<and> elems a' = elems a @ [x]
      \<and> da_size_of_element a' = da_size_of_element a"
    if "dynarr_ok a1" "elems a1 = elems a @ [y]" "da_size_of_element a1 = da_size_of_element a"
    for a1 y
  proof -
    have "da_elements a1 = da_elements a + 1"
      using that(2) length_elems [of a1] by simp
    then have "(elems a1)[da_elements a := x] = elems a @ [x]"
      using that(2) by (simp add: list_update_append)
    then show ?thesis
      using write_element_spec [OF that(1), of "da_elements a" x] that x
        \<open>da_elements a1 = da_elements a + 1\<close> by auto
  qed
  show ?thesis
  proof (cases "da_elements a = da_max_element a")
    case True
    then show ?thesis
      using AllocDynamic_spec [OF a g, of A] fill
      by (fastforce simp: MADB_InsertDynamic_def Let_def split: prod.splits option.splits)
  next
    case False
    then have lt: "da_elements a < da_max_element a" using a by (simp add: dynarr_ok_def)
    then obtain y where "elems (a\<lparr>da_elements := uint32 (da_elements a + 1)\<rparr>) = elems a @ [y]"
      using one_more_element [OF a lt] by auto
    then show ?thesis
      using False fill [OF one_more_element(1) [OF a lt]]
      by (auto simp: MADB_InsertDynamic_def)
  qed
qed

lemma GetDynamic_spec:
  assumes a: "dynarr_ok a"
  shows "MADB_GetDynamic a i = Some (if i < da_elements a then elems a ! i
                                    else replicate (da_size_of_element a) NUL)"
proof (cases "i < da_elements a")
  case True
  then have im: "i < da_max_element a" using a by (simp add: dynarr_ok_def)
  obtain b where b: "da_buffer a = Some b" "length b = da_max_element a * da_size_of_element a"
    using dynarr_ok_bufferE [OF a] im by (metis gr_zeroI not_less0)
  have "(i + 1) * da_size_of_element a \<le> length b"
    unfolding b(2) using im by (intro mult_le_mono1) simp
  then show ?thesis
    using True b im uint32_index [OF a, of i]
    by (simp add: MADB_GetDynamic_def read_bytes_def elems_nth chunk_def)
qed (simp add: MADB_GetDynamic_def)

lemma chunk_replicate:
  assumes "j < k"
  shows "chunk sz (replicate (k * sz) c) j = replicate sz c"
proof -
  have "(j + 1) * sz \<le> k * sz" using assms by (intro mult_le_mono1) simp
  then show ?thesis by (simp add: chunk_def)
qed

text \<open>Appending zeroed elements up to index \<open>idx\<close>, and the element at \<open>idx\<close> with whatever is there.\<close>

lemma zero_filled:
  assumes a: "dynarr_ok a" and n: "da_elements a \<le> idx" "idx < da_max_element a"
  defines "z \<equiv> replicate (uint32 ((idx - da_elements a) * da_size_of_element a)) NUL"
  shows "\<exists>b b1 y. da_buffer a = Some b
     \<and> mem_write b (uint32 (da_elements a * da_size_of_element a)) z = Some b1
     \<and> (let a1 = a\<lparr>da_buffer := Some b1, da_elements := uint32 (idx + 1)\<rparr>
        in dynarr_ok a1 \<and> da_elements a1 = idx + 1
         \<and> elems a1 = elems a @ replicate (idx - da_elements a)
                                  (replicate (da_size_of_element a) NUL) @ [y])"
proof -
  let ?sz = "da_size_of_element a" and ?n = "da_elements a"
  obtain b where b: "da_buffer a = Some b" "length b = da_max_element a * ?sz"
    using dynarr_ok_bufferE [OF a] n(2) by (metis gr_zeroI not_less0)
  have z: "z = replicate ((idx - ?n) * ?sz) NUL"
    using uint32_index [OF a, of "idx - ?n"] n by (simp add: z_def)
  have "(?n + (idx - ?n)) * ?sz \<le> length b"
    unfolding b(2) using n by (intro mult_le_mono1) simp
  then obtain b1 where b1: "mem_write b (?n * ?sz) z = Some b1" "length b1 = length b"
      "\<And>j. j < ?n \<Longrightarrow> chunk ?sz b1 j = chunk ?sz b j"
      "\<And>j. ?n \<le> j \<Longrightarrow> j < idx \<Longrightarrow> chunk ?sz b1 j = chunk ?sz z (j - ?n)"
    using chunk_overwritten [of z "idx - ?n" ?sz ?n b] n z by auto
  let ?a1 = "a\<lparr>da_buffer := Some b1, da_elements := uint32 (idx + 1)\<rparr>"
  have el: "da_elements ?a1 = idx + 1"
    using a n by (simp add: dynarr_ok_def cast_simps)
  have "dynarr_ok ?a1"
    using a b b1 el n by (simp add: dynarr_ok_def)
  moreover have "elems ?a1 = elems a @ replicate (idx - ?n) (replicate ?sz NUL) @ [chunk ?sz b1 idx]"
  proof (rule nth_equalityI)
    show "length (elems ?a1)
        = length (elems a @ replicate (idx - ?n) (replicate ?sz NUL) @ [chunk ?sz b1 idx])"
      using el n by simp
    fix j assume "j < length (elems ?a1)"
    then have j: "j < idx + 1" using el by simp
    then have e: "elems ?a1 ! j = chunk ?sz b1 j"
      using elems_nth [of j ?a1] el by simp
    show "elems ?a1 ! j
        = (elems a @ replicate (idx - ?n) (replicate ?sz NUL) @ [chunk ?sz b1 idx]) ! j"
    proof (cases "j < ?n")
      case True
      then show ?thesis using e b b1(3) [OF True] by (simp add: nth_append elems_nth)
    next
      case F: False
      show ?thesis
      proof (cases "j < idx")
        case True
        then have "j - ?n < idx - ?n" using F by simp
        then show ?thesis
          using True e F b1(4) [of j] z chunk_replicate [of "j - ?n" "idx - ?n" ?sz NUL]
          by (simp add: nth_append)
      next
        case False
        then have "j = idx" using j by simp
        then show ?thesis using e F by (simp add: nth_append)
      qed
    qed
  qed
  ultimately show ?thesis
    using b b1 el uint32_index [OF a, of ?n] n by (auto simp: Let_def)
qed

lemma SetDynamic_inside:
  assumes a: "dynarr_ok a" and x: "length x = da_size_of_element a" and i: "i < da_elements a"
  shows "\<exists>a'. MADB_SetDynamic A a x i = Some (False, a') \<and> dynarr_ok a'
           \<and> elems a' = (elems a)[i := x]"
  using write_element_spec [OF a i x] i by (auto simp: MADB_SetDynamic_def Let_def)

text \<open>The array \<open>MADB_SetDynamic\<close> works on when the index is not below \<open>elements\<close>.\<close>

definition grown_for :: "allocator \<Rightarrow> MADB_DynArray \<Rightarrow> nat \<Rightarrow> MADB_DynArray option" where
  "grown_for A a idx =
    (let inc = da_alloc_increment a; m = ((idx + inc) div inc) * inc
     in if idx < da_max_element a then Some a
        else map_option (\<lambda>b. a\<lparr>da_buffer := Some b, da_max_element := m\<rparr>)
               (realloc A (case_option [] id (da_buffer a)) (m * da_size_of_element a)))"

lemma grown_for_ok:
  assumes a: "dynarr_ok a" and r: "(idx + da_alloc_increment a) * da_size_of_element a < 2 ^ 32"
    "idx + da_alloc_increment a < 2 ^ 32" and g: "grown_for A a idx = Some a1"
  shows "dynarr_ok a1 \<and> elems a1 = elems a \<and> idx < da_max_element a1
     \<and> da_elements a1 = da_elements a \<and> da_size_of_element a1 = da_size_of_element a"
proof (cases "idx < da_max_element a")
  case True
  then show ?thesis using a g by (simp add: grown_for_def)
next
  case False
  let ?inc = "da_alloc_increment a"
  let ?m = "((idx + ?inc) div ?inc) * ?inc"
  have "0 < ?inc" using a by (simp add: dynarr_ok_def)
  then have m: "idx < ?m" "?m \<le> idx + ?inc"
    using dividend_less_div_times [of ?inc idx] by (simp_all add: div_add_self2)
  have "?m * da_size_of_element a \<le> (idx + ?inc) * da_size_of_element a"
    using m(2) by (rule mult_le_mono1)
  then have lt: "?m * da_size_of_element a < 2 ^ 32" "?m < 2 ^ 32"
    using r m(2) by linarith+
  obtain b where b: "realloc A (case_option [] id (da_buffer a)) (?m * da_size_of_element a) = Some b"
      and a1: "a1 = a\<lparr>da_buffer := Some b, da_max_element := ?m\<rparr>"
    using g False by (auto simp: grown_for_def Let_def)
  have "da_max_element a \<le> ?m" using False m(1) by linarith
  from grown_ok [OF a this lt b] show ?thesis
    using m(1) by (simp add: a1)
qed

lemma SetDynamic_beyond:
  assumes a: "dynarr_ok a" and x: "length x = da_size_of_element a" and i: "da_elements a \<le> idx"
    and r: "(idx + da_alloc_increment a) * da_size_of_element a < 2 ^ 32"
      "idx + da_alloc_increment a < 2 ^ 32"
  shows "MADB_SetDynamic A a x idx = Some (True, a)
    \<or> (\<exists>a'. MADB_SetDynamic A a x idx = Some (False, a') \<and> dynarr_ok a'
         \<and> elems a' = elems a @ replicate (idx - da_elements a)
                                 (replicate (da_size_of_element a) NUL) @ [x])"
proof -
  let ?inc = "da_alloc_increment a" and ?sz = "da_size_of_element a"
  let ?m = "((idx + ?inc) div ?inc) * ?inc"
  have inc: "0 < ?inc" using a by (simp add: dynarr_ok_def)
  have "?m \<le> idx + ?inc" by (rule div_times_less_eq_dividend)
  moreover from this have "?m * ?sz \<le> (idx + ?inc) * ?sz" by (rule mult_le_mono1)
  ultimately have "?m < 2 ^ 32" "?m * ?sz < 2 ^ 32"
    using r by linarith+
  then have u: "uint32 (idx + ?inc) = idx + ?inc" "uint32 ?m = ?m" "uint32 (?m * ?sz) = ?m * ?sz"
    using r(2) by (simp_all only: uint32_id)
  show ?thesis
  proof (cases "grown_for A a idx")
    case None
    then show ?thesis
      using i inc u by (auto simp: MADB_SetDynamic_def grown_for_def Let_def split: if_splits)
  next
    case (Some a1)
    note g = grown_for_ok [OF a r Some]
    then have a1: "dynarr_ok a1" and lt: "idx < da_max_element a1"
        and sz: "da_size_of_element a1 = ?sz" and n: "da_elements a1 = da_elements a"
      by auto
    obtain b b1 y where z: "da_buffer a1 = Some b"
        "mem_write b (uint32 (da_elements a * ?sz))
           (replicate (uint32 ((idx - da_elements a) * ?sz)) NUL) = Some b1"
        "dynarr_ok (a1\<lparr>da_buffer := Some b1, da_elements := uint32 (idx + 1)\<rparr>)"
        "da_elements (a1\<lparr>da_buffer := Some b1, da_elements := uint32 (idx + 1)\<rparr>) = idx + 1"
        "elems (a1\<lparr>da_buffer := Some b1, da_elements := uint32 (idx + 1)\<rparr>)
           = elems a @ replicate (idx - da_elements a) (replicate ?sz NUL) @ [y]"
      using zero_filled [OF a1 _ lt] i g by (auto simp: Let_def sz n)
    obtain a' where a': "write_element (a1\<lparr>da_buffer := Some b1, da_elements := uint32 (idx + 1)\<rparr>)
          (uint32 (idx * ?sz)) x = Some a'" "dynarr_ok a'"
        "elems a' = (elems a @ replicate (idx - da_elements a) (replicate ?sz NUL) @ [y])[idx := x]"
      using write_element_spec [OF z(3), of idx x] z(4,5) x sz by auto
    have "elems a' = elems a @ replicate (idx - da_elements a) (replicate ?sz NUL) @ [x]"
      using a'(3) i by (simp add: list_update_append)
    moreover have "MADB_SetDynamic A a x idx = Some (False, a')"
      using i inc u Some z(1,2) a'(1)
      by (auto simp: MADB_SetDynamic_def grown_for_def Let_def split: if_splits)
    ultimately show ?thesis using a'(2) by blast
  qed
qed

lemma PopDynamic_spec:
  assumes "dynarr_ok a" "elems a \<noteq> []"
  shows "\<exists>a'. MADB_PopDynamic a = (Some (uint32 ((da_elements a - 1) * da_size_of_element a)), a')
           \<and> dynarr_ok a' \<and> elems a' = butlast (elems a)"
proof -
  have n: "0 < da_elements a" using assms(2) by (auto simp: elems_def)
  then have "elems (a\<lparr>da_elements := da_elements a - 1\<rparr>) = butlast (elems a)"
    by (cases "da_elements a") (simp_all add: elems_def)
  then show ?thesis
    using assms n by (auto simp: MADB_PopDynamic_def dynarr_ok_def)
qed

lemma DeleteDynamicElement_spec:
  assumes a: "dynarr_ok a" and i: "i < da_elements a"
  shows "\<exists>a'. MADB_DeleteDynamicElement a i = Some a' \<and> dynarr_ok a'
           \<and> elems a' = take i (elems a) @ drop (Suc i) (elems a)
           \<and> da_size_of_element a' = da_size_of_element a"
proof -
  let ?sz = "da_size_of_element a" and ?n = "da_elements a"
  have nm: "?n \<le> da_max_element a" and im: "i < da_max_element a"
    using a i by (auto simp: dynarr_ok_def)
  obtain b where b: "da_buffer a = Some b" "length b = da_max_element a * ?sz"
    using dynarr_ok_bufferE [OF a] im by (metis gr_zeroI not_less0)
  let ?k = "?n - 1 - i"
  have n32: "?n < 2 ^ 32" using a nm by (auto simp: dynarr_ok_def)
  have el: "uint32 (?n + 2 ^ 32 - 1) = ?n - 1" "uint32 (?n - 1 + 2 ^ 32 - i) = ?k"
    using i n32 by (simp_all add: uint32_def nat_diff_add_eq2 mod_if)
  have idx: "uint32 (?sz * i) = i * ?sz" "uint32 (?k * ?sz) = ?k * ?sz"
    using uint32_index [OF a, of i] uint32_index [OF a, of ?k] im nm by (simp_all add: mult.commute)
  have "(i + 1 + ?k) * ?sz \<le> length b"
    unfolding b(2) using i nm by (intro mult_le_mono1) simp
  then have fit: "i * ?sz + ?sz + ?k * ?sz \<le> length b" by (simp add: algebra_simps)
  let ?x = "take (?k * ?sz) (drop (i * ?sz + ?sz) b)"
  have x: "length ?x = ?k * ?sz" using fit by simp
  have rd: "read_bytes a (i * ?sz + ?sz) (?k * ?sz) = Some ?x"
    using b fit by (simp add: read_bytes_def)
  have fit2: "(i + ?k) * ?sz \<le> length b" using fit by (simp add: algebra_simps)
  obtain b' where b': "mem_write b (i * ?sz) ?x = Some b'" "length b' = length b"
      "\<And>j. j < i \<Longrightarrow> chunk ?sz b' j = chunk ?sz b j"
      "\<And>j. i \<le> j \<Longrightarrow> j < i + ?k \<Longrightarrow> chunk ?sz b' j = chunk ?sz ?x (j - i)"
    using chunk_overwritten [OF x fit2] by auto
  have moved: "chunk ?sz ?x j = chunk ?sz b (i + 1 + j)" if "j < ?k" for j
  proof -
    have "(j + 1) * ?sz \<le> ?k * ?sz" using that by (intro mult_le_mono1) simp
    then have "chunk ?sz ?x j = chunk ?sz (drop (i * ?sz + ?sz) b) j" by (rule chunk_take)
    then show ?thesis by (simp add: chunk_def algebra_simps)
  qed
  let ?a = "a\<lparr>da_buffer := Some b', da_elements := ?n - 1\<rparr>"
  have "MADB_DeleteDynamicElement a i = Some ?a"
    using b b' rd by (simp only: MADB_DeleteDynamicElement_def Let_def el idx) simp
  moreover have "dynarr_ok ?a" using a b b' by (auto simp: dynarr_ok_def)
  moreover have "elems ?a = take i (elems a) @ drop (Suc i) (elems a)"
  proof (rule nth_equalityI)
    show "length (elems ?a) = length (take i (elems a) @ drop (Suc i) (elems a))"
      using i by simp
    fix j assume "j < length (elems ?a)"
    then have j: "j < ?n - 1" by simp
    then show "elems ?a ! j = (take i (elems a) @ drop (Suc i) (elems a)) ! j"
      using i b b'(3) [of j] b'(4) [of j] moved [of "j - i"]
      by (cases "j < i") (auto simp: elems_nth nth_append min_absorb2)
  qed
  ultimately show ?thesis by auto
qed

lemma InitDynamicArray_ok:
  assumes "MADB_InitDynamicArray A sz n inc = Some (False, a)"
    "sz * (max n (max inc 8192)) < 2 ^ 32" "inc < 2 ^ 31" "n < 2 ^ 31"
  shows "dynarr_ok a \<and> elems a = [] \<and> da_size_of_element a = sz"
proof -
  have le: "max ((8192 - 8) div sz) 16 \<le> 8192"
    by (simp add: div_le_dividend le_trans [OF div_le_dividend])
  have bound: "uint32 (sz * k) = sz * k \<and> k * sz < 2 ^ 32" if "k \<le> max n (max inc 8192)" for k
  proof -
    have "sz * k \<le> sz * max n (max inc 8192)" using that by (rule mult_le_mono2)
    then have "sz * k < 2 ^ 32" using assms(2) by linarith
    then show ?thesis by (simp only: uint32_id mult.commute)
  qed
  define i where "i = (if inc \<noteq> 0 then inc
     else if n > 8 \<and> max ((8192 - 8) div sz) 16 > uint32 (n * 2) then uint32 (n * 2)
     else max ((8192 - 8) div sz) 16)"
  define k where "k = (if n = 0 then i else n)"
  have "i \<le> max inc 8192" "0 < i"
    using le assms(4) by (auto simp: i_def cast_simps)
  then have k: "k \<le> max n (max inc 8192)" "0 < i"
    by (auto simp: k_def)
  have "k < 2 ^ 32" using k(1) assms(3,4) by (auto simp: max_def split: if_splits)
  moreover have "a = \<lparr>da_buffer = Some (map (junk A) [0..<uint32 (sz * k)]), da_elements = 0,
      da_max_element = k, da_alloc_increment = i, da_size_of_element = sz\<rparr>"
    using assms(1) unfolding MADB_InitDynamicArray_def Let_def malloc_def k_def i_def
    by (auto split: if_splits)
  ultimately show ?thesis
    using bound [OF k(1)] k(2) by (simp add: dynarr_ok_def elems_def mult.commute)
qed

section \<open>The interface\<close>

locale element_array =
  fixes ok :: "'a \<Rightarrow> bool"
    and els :: "'a \<Rightarrow> 'e list"
    and fits :: "'a \<Rightarrow> 'e \<Rightarrow> bool"
    and room :: "'a \<Rightarrow> bool"
    and insert_op :: "'a \<Rightarrow> 'e \<Rightarrow> (bool \<times> 'a) option"
    and get_op :: "'a \<Rightarrow> nat \<Rightarrow> 'e option"
    and delete_op :: "'a \<Rightarrow> nat \<Rightarrow> 'a option"
  assumes insert_law: "ok a \<Longrightarrow> room a \<Longrightarrow> fits a x \<Longrightarrow>
      insert_op a x = Some (True, a)
      \<or> (\<exists>a'. insert_op a x = Some (False, a') \<and> ok a' \<and> els a' = els a @ [x] \<and> fits a' = fits a)"
    and get_law: "ok a \<Longrightarrow> i < length (els a) \<Longrightarrow> get_op a i = Some (els a ! i)"
    and delete_law: "ok a \<Longrightarrow> i < length (els a) \<Longrightarrow>
      \<exists>a'. delete_op a i = Some a' \<and> ok a' \<and> els a' = take i (els a) @ drop (Suc i) (els a)
           \<and> fits a' = fits a"
begin

lemma insert_get:
  assumes "ok a" "room a" "fits a x" "insert_op a x = Some (False, a')"
  shows "get_op a' (length (els a)) = Some x"
    and "i < length (els a) \<Longrightarrow> get_op a' i = get_op a i"
proof -
  have a': "ok a'" "els a' = els a @ [x]"
    using insert_law [OF assms(1-3)] assms(4) by auto
  show "get_op a' (length (els a)) = Some x"
    using get_law [OF a'(1)] a'(2) by simp
  show "get_op a' i = get_op a i" if "i < length (els a)"
    using get_law [OF a'(1), of i] get_law [OF assms(1), of i] a'(2) that by (simp add: nth_append)
qed

lemma insert_delete:
  assumes "ok a" "room a" "fits a x" "insert_op a x = Some (False, a')"
  shows "\<exists>a''. delete_op a' (length (els a)) = Some a'' \<and> ok a'' \<and> els a'' = els a"
proof -
  have a': "ok a'" "els a' = els a @ [x]"
    using insert_law [OF assms(1-3)] assms(4) by auto
  show ?thesis using delete_law [OF a'(1), of "length (els a)"] a'(2) by auto
qed

lemma delete_get:
  assumes "ok a" "i < length (els a)" "delete_op a i = Some a'" "j < length (els a) - 1"
  shows "get_op a' j = get_op a (if j < i then j else Suc j)"
proof -
  have a': "ok a'" "els a' = take i (els a) @ drop (Suc i) (els a)"
    using delete_law [OF assms(1,2)] assms(3) by auto
  have "j < length (els a')" using a' assms(2,4) by simp
  then show ?thesis
    using get_law [OF a'(1), of j] get_law [OF assms(1), of "if j < i then j else Suc j"]
      a'(2) assms(2,4) by (auto simp: nth_append min_absorb2)
qed

end

interpretation da: element_array dynarr_ok elems "\<lambda>a x. length x = da_size_of_element a" can_grow
  "MADB_InsertDynamic A" MADB_GetDynamic MADB_DeleteDynamicElement for A
proof
  show "MADB_InsertDynamic A a x = Some (True, a)
      \<or> (\<exists>a'. MADB_InsertDynamic A a x = Some (False, a') \<and> dynarr_ok a' \<and> elems a' = elems a @ [x]
           \<and> (\<lambda>x. length x = da_size_of_element a') = (\<lambda>x. length x = da_size_of_element a))"
    if "dynarr_ok a" "can_grow a" "length x = da_size_of_element a" for a x
    using InsertDynamic_spec [OF that, of A] by auto
  show "MADB_GetDynamic a i = Some (elems a ! i)" if "dynarr_ok a" "i < length (elems a)" for a i
    using GetDynamic_spec [OF that(1)] that(2) by simp
  show "\<exists>a'. MADB_DeleteDynamicElement a i = Some a' \<and> dynarr_ok a'
       \<and> elems a' = take i (elems a) @ drop (Suc i) (elems a)
       \<and> (\<lambda>x. length x = da_size_of_element a') = (\<lambda>x. length x = da_size_of_element a)"
    if "dynarr_ok a" "i < length (elems a)" for a i
    using DeleteDynamicElement_spec [OF that(1), of i] that(2) by auto
qed

section \<open>Properties\<close>

definition int_array :: MADB_DynArray where
  "int_array = \<lparr>da_buffer = Some ''aabbcc'', da_elements = 3, da_max_element = 3,
                da_alloc_increment = 2, da_size_of_element = 2\<rparr>"

definition free_heap :: allocator where
  "free_heap = \<lparr>grants = (\<lambda>_. True), junk = (\<lambda>_. CHR ''?'')\<rparr>"

lemmas array_eval = int_array_def free_heap_def dynarr_ok_def can_grow_def uint32_def
  MADB_InsertDynamic_def MADB_AllocDynamic_def MADB_SetDynamic_def MADB_GetDynamic_def
  MADB_DeleteDynamicElement_def write_element_def read_bytes_def mem_write_def realloc_def Let_def

text \<open>
  C35. An element inserted at the end of a usable array is read back from the index the array had
  free, every earlier index still reads what it did, and deleting it gives back the old elements:
  whether or not the insertion moved the buffer.
\<close>

theorem InsertDynamic_get_delete:
  assumes "dynarr_ok a" "can_grow a" "length x = da_size_of_element a"
    "MADB_InsertDynamic A a x = Some (False, a')"
  shows "MADB_GetDynamic a' (da_elements a) = Some x
     \<and> (\<forall>i. i < da_elements a \<longrightarrow> MADB_GetDynamic a' i = MADB_GetDynamic a i)
     \<and> (\<exists>a''. MADB_DeleteDynamicElement a' (da_elements a) = Some a'' \<and> dynarr_ok a''
           \<and> elems a'' = elems a)"
  using da.insert_get [OF assms] da.insert_delete [OF assms] by simp

theorem InsertDynamic_get_delete_witness:
  "\<exists>a'. MADB_InsertDynamic free_heap int_array ''dd'' = Some (False, a')
      \<and> MADB_GetDynamic a' 3 = Some ''dd'' \<and> MADB_GetDynamic a' 1 = Some ''bb''"
proof -
  obtain a' where a': "MADB_InsertDynamic free_heap int_array ''dd'' = Some (False, a')"
    by (simp add: array_eval)
  have n: "da_elements int_array = 3" by (simp add: int_array_def)
  have g: "MADB_GetDynamic int_array 1 = Some ''bb''" by (simp add: array_eval)
  have "MADB_GetDynamic a' (da_elements int_array) = Some ''dd''
     \<and> (\<forall>i. i < da_elements int_array \<longrightarrow> MADB_GetDynamic a' i = MADB_GetDynamic int_array i)
     \<and> (\<exists>a''. MADB_DeleteDynamicElement a' (da_elements int_array) = Some a'' \<and> dynarr_ok a''
           \<and> elems a'' = elems int_array)"
    by (rule InsertDynamic_get_delete [OF _ _ _ a']) (simp_all add: array_eval)
  then show ?thesis using a' n g by auto
qed

text \<open>
  \<open>MADB_SetDynamic\<close> on a usable array never leaves its buffer: an index inside the array is
  overwritten in place; beyond the end it either reports that memory ran out and changes nothing, or
  the array grows to that index and the elements skipped are zero bytes.
\<close>

theorem SetDynamic_zero_fills:
  assumes "dynarr_ok a" "length x = da_size_of_element a"
    "(idx + da_alloc_increment a) * da_size_of_element a < 2 ^ 32" "idx + da_alloc_increment a < 2 ^ 32"
  shows "(\<exists>a'. MADB_SetDynamic A a x idx = Some (False, a') \<and> dynarr_ok a' \<and>
            elems a' = (if idx < da_elements a then (elems a)[idx := x]
                        else elems a @ replicate (idx - da_elements a)
                                        (replicate (da_size_of_element a) NUL) @ [x]))
       \<or> (da_elements a \<le> idx \<and> MADB_SetDynamic A a x idx = Some (True, a))"
proof (cases "idx < da_elements a")
  case True
  then show ?thesis using SetDynamic_inside [OF assms(1,2)] by auto
next
  case False
  then show ?thesis using SetDynamic_beyond [OF assms(1,2) _ assms(3,4)] by fastforce
qed

theorem SetDynamic_zero_fills_witness:
  "\<exists>a'. MADB_SetDynamic free_heap int_array ''zz'' 5 = Some (False, a')
      \<and> elems a' = [''aa'', ''bb'', ''cc'', [NUL, NUL], [NUL, NUL], ''zz'']"
proof -
  have e: "elems int_array = [''aa'', ''bb'', ''cc'']"
    by (simp add: elems_def int_array_def chunk_def upt_rec)
  have ok: "dynarr_ok int_array" by (simp add: array_eval)
  have "fst (the (MADB_SetDynamic free_heap int_array ''zz'' 5)) = False"
    by (simp add: array_eval)
  moreover have "da_elements int_array = 3" "da_alloc_increment int_array = 2"
      "da_size_of_element int_array = 2"
    by (simp_all add: int_array_def)
  moreover have "replicate 2 (replicate 2 NUL) = [[NUL, NUL], [NUL, NUL]]"
    by (simp add: numeral_2_eq_2)
  ultimately show ?thesis
    using SetDynamic_zero_fills [OF ok, of "''zz''" 5 free_heap] e by auto
qed

text \<open>
  \<open>MADB_DeleteDynamicElement\<close> at a valid index removes that element and keeps the order and the
  bytes of all others; reading an index afterwards gives the element that index or its successor held.
\<close>

theorem DeleteDynamicElement_shifts:
  assumes "dynarr_ok a" "i < da_elements a"
  shows "\<exists>a'. MADB_DeleteDynamicElement a i = Some a' \<and> dynarr_ok a'
     \<and> elems a' = take i (elems a) @ drop (Suc i) (elems a)
     \<and> (\<forall>j. j < da_elements a - 1 \<longrightarrow>
          MADB_GetDynamic a' j = MADB_GetDynamic a (if j < i then j else Suc j))"
proof -
  obtain a' where a': "MADB_DeleteDynamicElement a i = Some a'" "dynarr_ok a'"
      "elems a' = take i (elems a) @ drop (Suc i) (elems a)"
    using DeleteDynamicElement_spec [OF assms] by blast
  show ?thesis using a' da.delete_get [OF assms(1) _ a'(1)] assms(2) by auto
qed

theorem DeleteDynamicElement_shifts_witness:
  "\<exists>a'. MADB_DeleteDynamicElement int_array 1 = Some a' \<and> elems a' = [''aa'', ''cc'']"
proof -
  have e: "elems int_array = [''aa'', ''bb'', ''cc'']"
    by (simp add: elems_def int_array_def chunk_def upt_rec)
  have "dynarr_ok int_array" "1 < da_elements int_array" by (simp_all add: array_eval)
  from DeleteDynamicElement_shifts [OF this] show ?thesis using e by auto
qed

end
