(* ===== verification/Handle_List.thy ===== *)
theory Handle_List
  imports Odbc_Prelude "HOL-Library.Monad_Syntax"
begin

text \<open>
  The doubly linked list \<open>MADB_List\<close> of \<open>src/ma_legacy_helpers.c\<close>.  Environments keep their
  connections in it, connections their statements and descriptors, and each handle embeds its own
  node, so the nodes live in a store from addresses to nodes and the operations update it in place.
  A NULL pointer is \<^const>\<open>None\<close>; following a pointer to a node that is not allocated makes the
  whole operation \<^const>\<open>None\<close>.

  \<open>dlist h root xs\<close> relates a store and a root pointer to the list of node addresses.  The locale
  \<open>handle_registry\<close> is what the handle code relies on: adding puts a node first, deleting takes
  it out, and any sequence of the two keeps the list exact.
\<close>

section \<open>State\<close>

record 'd MADB_List =
  l_prev :: "nat option"
  l_next :: "nat option"
  l_data :: 'd

type_synonym 'd list_store = "nat \<Rightarrow> 'd MADB_List option"

definition set_prev :: "'d list_store \<Rightarrow> nat \<Rightarrow> nat option \<Rightarrow> 'd list_store option" where
  "set_prev h a p = (case h a of None \<Rightarrow> None | Some n \<Rightarrow> Some (h(a \<mapsto> n\<lparr>l_prev := p\<rparr>)))"

definition set_next :: "'d list_store \<Rightarrow> nat \<Rightarrow> nat option \<Rightarrow> 'd list_store option" where
  "set_next h a p = (case h a of None \<Rightarrow> None | Some n \<Rightarrow> Some (h(a \<mapsto> n\<lparr>l_next := p\<rparr>)))"

section \<open>Operations\<close>

definition MADB_ListAdd ::
  "'d list_store \<Rightarrow> nat option \<Rightarrow> nat \<Rightarrow> ('d list_store \<times> nat option) option" where
  "MADB_ListAdd h root element = do {
     h1 \<leftarrow> (case root of
              Some r \<Rightarrow> do {
                rn \<leftarrow> h r;
                ha \<leftarrow> (case l_prev rn of Some p \<Rightarrow> set_next h p (Some element) | None \<Rightarrow> Some h);
                rn1 \<leftarrow> ha r;
                hb \<leftarrow> set_prev ha element (l_prev rn1);
                set_prev hb r (Some element) }
            | None \<Rightarrow> set_prev h element None);
     h2 \<leftarrow> set_next h1 element root;
     Some (h2, Some element) }"

definition MADB_ListDelete ::
  "'d list_store \<Rightarrow> nat option \<Rightarrow> nat \<Rightarrow> ('d list_store \<times> nat option) option" where
  "MADB_ListDelete h root element = do {
     e \<leftarrow> h element;
     (h1, root1) \<leftarrow> (case l_prev e of
                       Some p \<Rightarrow> do { h' \<leftarrow> set_next h p (l_next e); Some (h', root) }
                     | None \<Rightarrow> Some (h, l_next e));
     e1 \<leftarrow> h1 element;
     h2 \<leftarrow> (case l_next e1 of Some n \<Rightarrow> set_prev h1 n (l_prev e1) | None \<Rightarrow> Some h1);
     Some (h2, root1) }"

text \<open>\<open>MADB_ListFree\<close> collects the data pointers it frees; a freed node leaves the store.\<close>

partial_function (option) MADB_ListFree ::
  "'d list_store \<Rightarrow> nat option \<Rightarrow> bool \<Rightarrow> 'd list \<Rightarrow> ('d list_store \<times> 'd list) option" where
  "MADB_ListFree h root free_data freed =
     (case root of
        None \<Rightarrow> Some (h, freed)
      | Some r \<Rightarrow> do {
          n \<leftarrow> h r;
          MADB_ListFree (h(r := None)) (l_next n) free_data
            (if free_data then freed @ [l_data n] else freed) })"

text \<open>
  \<open>MADB_ListCons\<close>: \<open>new\<close> is what malloc returned, with the bytes \<open>raw\<close> the block starts with.
\<close>

definition MADB_ListCons ::
  "'d list_store \<Rightarrow> (nat \<times> 'd MADB_List) option \<Rightarrow> 'd \<Rightarrow> nat option
     \<Rightarrow> ('d list_store \<times> nat option) option" where
  "MADB_ListCons h new data list =
     (case new of
        None \<Rightarrow> Some (h, None)
      | Some (a, raw) \<Rightarrow> MADB_ListAdd (h(a \<mapsto> raw\<lparr>l_data := data\<rparr>)) list a)"

partial_function (option) ListReverse_loop ::
  "'d list_store \<Rightarrow> nat option \<Rightarrow> nat option \<Rightarrow> ('d list_store \<times> nat option) option" where
  "ListReverse_loop h root last_el =
     (case root of
        None \<Rightarrow> Some (h, last_el)
      | Some r \<Rightarrow> do {
          n \<leftarrow> h r;
          h1 \<leftarrow> set_next h r (l_prev n);
          h2 \<leftarrow> set_prev h1 r (l_next n);
          ListReverse_loop h2 (l_next n) (Some r) })"

definition MADB_ListReverse :: "'d list_store \<Rightarrow> nat option \<Rightarrow> ('d list_store \<times> nat option) option" where
  "MADB_ListReverse h root = ListReverse_loop h root root"

partial_function (option) ListLength_loop :: "'d list_store \<Rightarrow> nat option \<Rightarrow> nat \<Rightarrow> nat option" where
  "ListLength_loop h list count =
     (case list of
        None \<Rightarrow> Some count
      | Some a \<Rightarrow> do { n \<leftarrow> h a; ListLength_loop h (l_next n) (uint32 (count + 1)) })"

definition MADB_ListLength :: "'d list_store \<Rightarrow> nat option \<Rightarrow> nat option" where
  "MADB_ListLength h list = ListLength_loop h list 0"

text \<open>\<open>MADB_ListWalk\<close>: the action may change what its \<open>argument\<close> points to.\<close>

partial_function (option) MADB_ListWalk ::
  "'d list_store \<Rightarrow> nat option \<Rightarrow> ('d \<Rightarrow> 's \<Rightarrow> int \<times> 's) \<Rightarrow> 's \<Rightarrow> (int \<times> 's) option" where
  "MADB_ListWalk h list action arg =
     (case list of
        None \<Rightarrow> Some (0, arg)
      | Some a \<Rightarrow> do {
          n \<leftarrow> h a;
          (let (err, arg') = action (l_data n) arg
           in if err \<noteq> 0 then Some (err, arg')
              else MADB_ListWalk h (l_next n) action arg') })"

section \<open>Abstraction\<close>

definition headp :: "nat list \<Rightarrow> nat option \<Rightarrow> nat option" where
  "headp xs q = (case xs of [] \<Rightarrow> q | x # _ \<Rightarrow> Some x)"

definition lastp :: "nat list \<Rightarrow> nat option \<Rightarrow> nat option" where
  "lastp xs p = (if xs = [] then p else Some (last xs))"

fun dls :: "'d list_store \<Rightarrow> nat option \<Rightarrow> nat list \<Rightarrow> nat option \<Rightarrow> bool" where
  "dls h p [] q = True"
| "dls h p (a # xs) q =
     (case h a of None \<Rightarrow> False
      | Some n \<Rightarrow> l_prev n = p \<and> l_next n = headp xs q \<and> dls h (Some a) xs q)"

definition dlist :: "'d list_store \<Rightarrow> nat option \<Rightarrow> nat list \<Rightarrow> bool" where
  "dlist h root xs \<longleftrightarrow> root = headp xs None \<and> distinct xs \<and> dls h None xs None"

text \<open>The data of the nodes, in list order.\<close>

definition list_data :: "'d list_store \<Rightarrow> nat list \<Rightarrow> 'd list" where
  "list_data h xs = map (\<lambda>a. l_data (the (h a))) xs"

section \<open>Segments\<close>

lemma headp_simps [simp]:
  "headp [] q = q" "headp (x # xs) q = Some x" "headp (xs @ ys) q = headp xs (headp ys q)"
  by (auto simp: headp_def split: list.splits)

lemma lastp_simps [simp]:
  "lastp [] p = p" "lastp (x # xs) p = lastp xs (Some x)" "lastp (xs @ [y]) p = Some y"
  "lastp (xs @ ys) p = lastp ys (lastp xs p)"
  by (auto simp: lastp_def)

lemma headp_rev [simp]: "headp (rev xs) q = lastp xs q"
  by (induction xs arbitrary: q) simp_all

lemma dls_append [simp]:
  "dls h p (xs @ ys) q \<longleftrightarrow> dls h p xs (headp ys q) \<and> dls h (lastp xs p) ys q"
  by (induction xs arbitrary: p) (auto split: option.splits)

lemma dls_cong: "(\<And>a. a \<in> set xs \<Longrightarrow> h' a = h a) \<Longrightarrow> dls h' p xs q = dls h p xs q"
  by (induction xs arbitrary: p) (auto split: option.splits)

lemma dls_upd [simp]: "a \<notin> set xs \<Longrightarrow> dls (h(a := n)) p xs q = dls h p xs q"
  by (rule dls_cong) auto

lemma dls_dom: "dls h p xs q \<Longrightarrow> a \<in> set xs \<Longrightarrow> h a \<noteq> None"
  by (induction xs arbitrary: p) (auto split: option.splits)

section \<open>The operations on a well-formed list\<close>

definition same_data :: "'d list_store \<Rightarrow> 'd list_store \<Rightarrow> bool" where
  "same_data h h' \<longleftrightarrow> (\<forall>a. map_option l_data (h' a) = map_option l_data (h a))"

lemma same_data_refl [simp]: "same_data h h"
  by (simp add: same_data_def)

lemma same_data_trans: "same_data h1 h2 \<Longrightarrow> same_data h2 h3 \<Longrightarrow> same_data h1 h3"
  by (simp add: same_data_def)

lemma same_data_upd: "h a = Some n \<Longrightarrow> l_data m = l_data n \<Longrightarrow> same_data h (h(a \<mapsto> m))"
  by (auto simp: same_data_def)

lemma same_data_dom: "same_data h h' \<Longrightarrow> h' a = None \<longleftrightarrow> h a = None"
  by (metis map_option_is_None same_data_def)

lemma same_data_live: "same_data h h' \<Longrightarrow> (\<lambda>a. h' a \<noteq> None) = (\<lambda>a. h a \<noteq> None)"
  by (simp add: fun_eq_iff same_data_dom)

lemma same_data_list: "same_data h h' \<Longrightarrow> (\<And>a. a \<in> set xs \<Longrightarrow> h a \<noteq> None)
    \<Longrightarrow> list_data h' xs = list_data h xs"
  unfolding list_data_def same_data_def
  by (intro map_cong refl) (metis option.map_sel option.map_disc_iff)

lemma ListAdd_spec:
  assumes "dlist h root xs" "e \<notin> set xs" "h e \<noteq> None"
  shows "\<exists>h'. MADB_ListAdd h root e = Some (h', Some e) \<and> dlist h' (Some e) (e # xs) \<and> same_data h h'"
proof -
  obtain en where e: "h e = Some en" using assms(3) by blast
  show ?thesis
  proof (cases xs)
    case Nil
    then show ?thesis
      using assms e by (auto simp: MADB_ListAdd_def dlist_def set_prev_def set_next_def same_data_def)
  next
    case (Cons r ys)
    then obtain rn where r: "h r = Some rn" "l_prev rn = None" "r \<noteq> e" "root = Some r"
      using assms by (auto simp: dlist_def split: option.splits)
    then show ?thesis
      using assms e Cons
      by (auto simp: MADB_ListAdd_def dlist_def set_prev_def set_next_def same_data_def)
  qed
qed

lemma ListDelete_split:
  assumes d: "dlist h root (ys @ e # zs)"
  shows "\<exists>h' root'. MADB_ListDelete h root e = Some (h', root') \<and> dlist h' root' (ys @ zs)
           \<and> same_data h h' \<and> (\<forall>a. a \<notin> set ys \<union> set zs \<longrightarrow> h' a = h a)"
proof -
  obtain en where e: "h e = Some en" "l_prev en = lastp ys None" "l_next en = headp zs None"
      and segs: "dls h None ys (Some e)" "dls h (Some e) zs None"
      and root: "root = headp ys (Some e)" and dist: "distinct (ys @ e # zs)"
    using d by (auto simp: dlist_def split: option.splits)
  define h1 root1 where "h1 = (if ys = [] then h else
        h(last ys \<mapsto> (the (h (last ys)))\<lparr>l_next := headp zs None\<rparr>))"
    and "root1 = (if ys = [] then headp zs None else root)"
  have ys_last: "h (last ys) \<noteq> None" if "ys \<noteq> []"
    using dls_dom [OF segs(1)] that by simp
  have ys_apart: "last ys \<notin> set zs" "last ys \<noteq> e" if "ys \<noteq> []"
    using last_in_set [OF that] dist by auto
  have step1: "(case l_prev en of
                  Some p \<Rightarrow> do { h' \<leftarrow> set_next h p (l_next en); Some (h', root) }
                | None \<Rightarrow> Some (h, l_next en)) = Some (h1, root1)"
    using e ys_last by (auto simp: h1_def root1_def lastp_def set_next_def)
  have h1: "dls h1 None ys (headp zs None)" "dls h1 (Some e) zs None" "h1 e = Some en"
      "same_data h h1" "\<And>a. a \<notin> set ys \<Longrightarrow> h1 a = h a"
  proof -
    show "dls h1 None ys (headp zs None)"
    proof (cases ys rule: rev_cases)
      case (snoc us u)
      then show ?thesis
        using segs(1) dist by (auto simp: h1_def split: option.splits)
    qed (simp add: h1_def)
    show "dls h1 (Some e) zs None" "h1 e = Some en"
      using segs(2) e ys_apart by (auto simp: h1_def)
    show "same_data h h1" "\<And>a. a \<notin> set ys \<Longrightarrow> h1 a = h a"
      using ys_last by (auto simp: h1_def same_data_def)
  qed
  define h2 where "h2 = (case zs of [] \<Rightarrow> h1 | z # _ \<Rightarrow> h1(z \<mapsto> (the (h1 z))\<lparr>l_prev := lastp ys None\<rparr>))"
  have step2: "(case l_next en of Some n \<Rightarrow> set_prev h1 n (l_prev en) | None \<Rightarrow> Some h1) = Some h2"
    using e h1(2) by (cases zs) (auto simp: h2_def set_prev_def split: option.splits)
  have "dls h2 None ys (headp zs None)" "dls h2 (lastp ys None) zs None" "same_data h1 h2"
      "\<And>a. a \<notin> set zs \<Longrightarrow> h2 a = h1 a"
    using h1 dist by (cases zs; auto simp: h2_def same_data_def split: option.splits)+
  moreover have "MADB_ListDelete h root e = Some (h2, root1)"
    unfolding MADB_ListDelete_def using e(1) h1(3) step1 step2 by simp
  moreover have "root1 = headp (ys @ zs) None"
    using root by (cases ys) (auto simp: root1_def)
  ultimately show ?thesis
    using dist h1(4,5) same_data_trans by (fastforce simp: dlist_def)
qed

lemma ListDelete_spec:
  assumes "dlist h root xs" "e \<in> set xs"
  shows "\<exists>h' root'. MADB_ListDelete h root e = Some (h', root') \<and> dlist h' root' (remove1 e xs)
           \<and> same_data h h'"
proof -
  obtain ys zs where xs: "xs = ys @ e # zs" "e \<notin> set ys"
    using split_list_first [OF assms(2)] by blast
  then have "remove1 e xs = ys @ zs" by (simp add: remove1_append)
  then show ?thesis using ListDelete_split [of h root ys e zs] assms(1) xs(1) by auto
qed

text \<open>Reversal exchanges the two pointers of every node.\<close>

definition swap_links :: "'d MADB_List \<Rightarrow> 'd MADB_List" where
  "swap_links n = n\<lparr>l_next := l_prev n, l_prev := l_next n\<rparr>"

lemma dls_swapped:
  assumes "dls h p xs q" "\<And>a. a \<in> set xs \<Longrightarrow> h' a = map_option swap_links (h a)"
  shows "dls h' q (rev xs) p"
  using assms
proof (induction xs arbitrary: p)
  case (Cons a xs)
  then obtain n where "h a = Some n" "l_prev n = p" "l_next n = headp xs q" "dls h (Some a) xs q"
    by (auto split: option.splits)
  moreover have "lastp (rev xs) q = headp xs q"
    by (metis headp_rev rev_rev_ident)
  ultimately show ?case using Cons by (simp add: swap_links_def)
qed simp

lemma ListReverse_loop_spec:
  assumes "dls h p xs None" "distinct xs"
  shows "ListReverse_loop h (headp xs None) r
           = Some (\<lambda>a. if a \<in> set xs then map_option swap_links (h a) else h a, lastp xs r)"
  using assms
proof (induction xs arbitrary: h p r)
  case Nil
  then show ?case by (subst ListReverse_loop.simps) simp
next
  case (Cons a xs)
  then obtain n where n: "h a = Some n" "l_prev n = p" "l_next n = headp xs None"
      "dls h (Some a) xs None" by (auto split: option.splits)
  let ?h = "h(a \<mapsto> swap_links n)"
  have d: "dls ?h (Some a) xs None" using n(4) Cons.prems(2) by simp
  have "ListReverse_loop h (headp (a # xs) None) r = ListReverse_loop ?h (headp xs None) (Some a)"
    using n by (subst ListReverse_loop.simps) (simp add: set_prev_def set_next_def swap_links_def)
  also have "\<dots> = Some (\<lambda>b. if b \<in> set xs then map_option swap_links (?h b) else ?h b,
                       lastp xs (Some a))"
    using Cons.IH [OF d, of "Some a"] Cons.prems(2) by (simp del: fun_upd_apply)
  also have "(\<lambda>b. if b \<in> set xs then map_option swap_links (?h b) else ?h b)
      = (\<lambda>b. if b \<in> set (a # xs) then map_option swap_links (h b) else h b)"
    using n(1) Cons.prems(2) by (auto simp: fun_eq_iff)
  finally show ?case by simp
qed

lemma ListReverse_spec:
  assumes "dlist h root xs"
  shows "\<exists>h' root'. MADB_ListReverse h root = Some (h', root') \<and> dlist h' root' (rev xs)
           \<and> same_data h h'"
proof -
  let ?h = "\<lambda>a. if a \<in> set xs then map_option swap_links (h a) else h a"
  have d: "dls h None xs None" "distinct xs" "root = headp xs None"
    using assms by (auto simp: dlist_def)
  have "MADB_ListReverse h root = Some (?h, lastp xs root)"
    using ListReverse_loop_spec [OF d(1,2), of root] d(3) by (simp add: MADB_ListReverse_def)
  moreover have "lastp xs root = headp (rev xs) None"
    using d(3) by (cases xs) simp_all
  then have "dlist ?h (lastp xs root) (rev xs)"
    using dls_swapped [OF d(1), of ?h] d(2) by (simp add: dlist_def)
  moreover have "same_data h ?h"
    by (auto simp: same_data_def swap_links_def option.map_comp comp_def)
  ultimately show ?thesis by blast
qed

lemma ListLength_loop_spec:
  assumes "dls h p xs None" "c + length xs < 2 ^ 32"
  shows "ListLength_loop h (headp xs None) c = Some (c + length xs)"
  using assms
proof (induction xs arbitrary: p c)
  case Nil
  then show ?case by (subst ListLength_loop.simps) simp
next
  case (Cons a xs)
  then show ?case
    by (subst ListLength_loop.simps) (auto simp: cast_simps split: option.splits)
qed

lemma ListLength_spec:
  "dlist h root xs \<Longrightarrow> length xs < 2 ^ 32 \<Longrightarrow> MADB_ListLength h root = Some (length xs)"
  using ListLength_loop_spec [of h None xs 0] by (simp add: dlist_def MADB_ListLength_def)

lemma ListFree_dls:
  assumes "dls h p xs None" "distinct xs"
  shows "MADB_ListFree h (headp xs None) fd freed
           = Some (\<lambda>a. if a \<in> set xs then None else h a,
                   freed @ (if fd then list_data h xs else []))"
  using assms
proof (induction xs arbitrary: h p freed)
  case Nil
  then show ?case by (subst MADB_ListFree.simps) (simp add: list_data_def)
next
  case (Cons a xs)
  then obtain n where n: "h a = Some n" "l_next n = headp xs None" "dls h (Some a) xs None"
    by (auto split: option.splits)
  have ld: "list_data (h(a := None)) xs = list_data h xs"
    using Cons.prems(2) by (auto simp: list_data_def)
  have d: "dls (h(a := None)) (Some a) xs None" using n(3) Cons.prems(2) by simp
  have IH: "MADB_ListFree (h(a := None)) (headp xs None) fd f
      = Some (\<lambda>b. if b \<in> set xs then None else (h(a := None)) b,
          f @ (if fd then list_data h xs else []))" for f
    unfolding ld [symmetric] using Cons.IH [OF d] Cons.prems(2) by (simp del: fun_upd_apply)
  have "MADB_ListFree h (headp (a # xs) None) fd freed
      = Some (\<lambda>b. if b \<in> set xs then None else (h(a := None)) b,
          (if fd then freed @ [l_data n] else freed) @ (if fd then list_data h xs else []))"
    using n(1,2) by (subst MADB_ListFree.simps) (simp add: IH del: fun_upd_apply)
  then show ?case
    using n(1) by (auto simp: list_data_def fun_eq_iff)
qed

text \<open>What a walk computes on the data of the list.\<close>

fun walk :: "('d \<Rightarrow> 's \<Rightarrow> int \<times> 's) \<Rightarrow> 'd list \<Rightarrow> 's \<Rightarrow> int \<times> 's" where
  "walk action [] s = (0, s)"
| "walk action (d # ds) s =
     (let (err, s') = action d s in if err \<noteq> 0 then (err, s') else walk action ds s')"

lemma ListWalk_spec:
  assumes "dls h p xs None"
  shows "MADB_ListWalk h (headp xs None) action s = Some (walk action (list_data h xs) s)"
  using assms
proof (induction xs arbitrary: p s)
  case Nil
  then show ?case by (subst MADB_ListWalk.simps) (simp add: list_data_def)
next
  case (Cons a xs)
  then show ?case
    by (subst MADB_ListWalk.simps)
      (auto simp: list_data_def Let_def split: option.splits prod.splits)
qed

section \<open>The interface: a registry of handles\<close>

text \<open>
  A handle is registered when it is allocated and removed when it is freed.  \<open>run_ops\<close> performs a
  sequence of these through the list operations; \<open>spec_ops\<close> is what the registry must then hold.
\<close>

datatype registry_op = Register nat | Remove nat

fun run_ops ::
  "('h \<Rightarrow> nat option \<Rightarrow> nat \<Rightarrow> ('h \<times> nat option) option) \<Rightarrow>
   ('h \<Rightarrow> nat option \<Rightarrow> nat \<Rightarrow> ('h \<times> nat option) option) \<Rightarrow>
   registry_op list \<Rightarrow> 'h \<Rightarrow> nat option \<Rightarrow> ('h \<times> nat option) option" where
  "run_ops add del [] h root = Some (h, root)"
| "run_ops add del (op # ops) h root =
     (case (case op of Register a \<Rightarrow> add h root a | Remove a \<Rightarrow> del h root a) of
        None \<Rightarrow> None
      | Some (h', root') \<Rightarrow> run_ops add del ops h' root')"

fun spec_ops :: "registry_op list \<Rightarrow> nat list \<Rightarrow> nat list" where
  "spec_ops [] xs = xs"
| "spec_ops (Register a # ops) xs = spec_ops ops (a # xs)"
| "spec_ops (Remove a # ops) xs = spec_ops ops (remove1 a xs)"

text \<open>Only fresh, allocated handles are registered, and only registered ones removed.\<close>

fun legal_ops :: "(nat \<Rightarrow> bool) \<Rightarrow> registry_op list \<Rightarrow> nat list \<Rightarrow> bool" where
  "legal_ops live [] xs = True"
| "legal_ops live (Register a # ops) xs = (live a \<and> a \<notin> set xs \<and> legal_ops live ops (a # xs))"
| "legal_ops live (Remove a # ops) xs = (a \<in> set xs \<and> legal_ops live ops (remove1 a xs))"

locale handle_registry =
  fixes holds :: "'h \<Rightarrow> nat option \<Rightarrow> nat list \<Rightarrow> bool"
    and live :: "'h \<Rightarrow> nat \<Rightarrow> bool"
    and add :: "'h \<Rightarrow> nat option \<Rightarrow> nat \<Rightarrow> ('h \<times> nat option) option"
    and del :: "'h \<Rightarrow> nat option \<Rightarrow> nat \<Rightarrow> ('h \<times> nat option) option"
  assumes add_law: "holds h root xs \<Longrightarrow> a \<notin> set xs \<Longrightarrow> live h a \<Longrightarrow>
      \<exists>h' root'. add h root a = Some (h', root') \<and> holds h' root' (a # xs) \<and> live h' = live h"
    and del_law: "holds h root xs \<Longrightarrow> a \<in> set xs \<Longrightarrow>
      \<exists>h' root'. del h root a = Some (h', root') \<and> holds h' root' (remove1 a xs) \<and> live h' = live h"
begin

lemma run_ops_refines:
  assumes "holds h root xs" "legal_ops (live h) ops xs"
  shows "\<exists>h' root'. run_ops add del ops h root = Some (h', root') \<and> holds h' root' (spec_ops ops xs)
           \<and> live h' = live h"
  using assms
proof (induction ops arbitrary: h root xs)
  case (Cons op ops)
  show ?case
  proof (cases op)
    case (Register a)
    then show ?thesis
      using add_law [OF Cons.prems(1), of a] Cons.prems(2) Cons.IH by (fastforce split: option.splits)
  next
    case (Remove a)
    then show ?thesis
      using del_law [OF Cons.prems(1), of a] Cons.prems(2) Cons.IH by (fastforce split: option.splits)
  qed
qed simp

end

interpretation hl: handle_registry dlist "\<lambda>h a. h a \<noteq> None" MADB_ListAdd MADB_ListDelete
proof
  fix h :: "'a list_store" and root xs a
  assume d: "dlist h root xs"
  show "\<exists>h' root'. MADB_ListAdd h root a = Some (h', root') \<and> dlist h' root' (a # xs)
      \<and> (\<lambda>a. h' a \<noteq> None) = (\<lambda>a. h a \<noteq> None)" if "a \<notin> set xs" "h a \<noteq> None"
    using ListAdd_spec [OF d that] same_data_live by blast
  show "\<exists>h' root'. MADB_ListDelete h root a = Some (h', root') \<and> dlist h' root' (remove1 a xs)
      \<and> (\<lambda>a. h' a \<noteq> None) = (\<lambda>a. h a \<noteq> None)" if "a \<in> set xs"
    using ListDelete_spec [OF d that] same_data_live by blast
qed

section \<open>Properties\<close>

definition three_nodes :: "nat list_store" where
  "three_nodes = [1 \<mapsto> \<lparr>l_prev = None, l_next = None, l_data = 10\<rparr>,
                  2 \<mapsto> \<lparr>l_prev = None, l_next = None, l_data = 20\<rparr>,
                  3 \<mapsto> \<lparr>l_prev = None, l_next = None, l_data = 30\<rparr>]"

text \<open>
  C3. Any sequence of registrations of fresh allocated handles and removals of registered ones, done by
  \<open>MADB_ListAdd\<close> and \<open>MADB_ListDelete\<close> on the in-place doubly linked list, follows no dangling
  pointer and leaves a well-formed list that holds exactly the handles the sequence leaves registered,
  in the order the sequence gives them.
\<close>

theorem list_ops_refine_registry:
  assumes "dlist h root xs" "legal_ops (\<lambda>a. h a \<noteq> None) ops xs"
  shows "\<exists>h' root'. run_ops MADB_ListAdd MADB_ListDelete ops h root = Some (h', root')
           \<and> dlist h' root' (spec_ops ops xs)"
  using hl.run_ops_refines [OF assms] by blast

theorem list_ops_refine_registry_witness:
  "\<exists>h' root'. run_ops MADB_ListAdd MADB_ListDelete
        [Register 1, Register 2, Register 3, Remove 2, Register 2] three_nodes None
        = Some (h', root') \<and> dlist h' root' [2, 3, 1]"
proof -
  have "dlist three_nodes None []" by (simp add: dlist_def)
  moreover have "legal_ops (\<lambda>a. three_nodes a \<noteq> None)
      [Register 1, Register 2, Register 3, Remove 2, Register 2] []"
    by (simp add: three_nodes_def)
  ultimately show ?thesis
    using list_ops_refine_registry by fastforce
qed

text \<open>
  \<open>MADB_ListReverse\<close> terminates on every well-formed list, follows no dangling pointer, and the
  list it returns holds the same nodes in reverse order with their data untouched; \<open>MADB_ListLength\<close>
  of the result is the number of nodes.
\<close>

theorem ListReverse_reverses:
  assumes "dlist h root xs" "length xs < 2 ^ 32"
  shows "\<exists>h' root'. MADB_ListReverse h root = Some (h', root') \<and> dlist h' root' (rev xs)
           \<and> list_data h' (rev xs) = rev (list_data h xs)
           \<and> MADB_ListLength h' root' = Some (length xs)"
proof -
  obtain h' root' where r: "MADB_ListReverse h root = Some (h', root')" "dlist h' root' (rev xs)"
      "same_data h h'"
    using ListReverse_spec [OF assms(1)] by blast
  have "\<And>a. a \<in> set (rev xs) \<Longrightarrow> h a \<noteq> None"
    using assms(1) dls_dom by (fastforce simp: dlist_def)
  then have "list_data h' (rev xs) = list_data h (rev xs)"
    by (rule same_data_list [OF r(3)])
  then show ?thesis
    using r ListLength_spec [OF r(2)] assms(2) by (auto simp: list_data_def rev_map)
qed

definition linked_pair :: "nat list_store" where
  "linked_pair = [1 \<mapsto> \<lparr>l_prev = None, l_next = Some 2, l_data = 10\<rparr>,
                  2 \<mapsto> \<lparr>l_prev = Some 1, l_next = None, l_data = 20\<rparr>]"

theorem ListReverse_reverses_witness:
  "dlist linked_pair (Some 1) [1, 2] \<and>
   (\<exists>h' root'. MADB_ListReverse linked_pair (Some 1) = Some (h', root') \<and> list_data h' [2, 1] = [20, 10])"
proof -
  have "dlist linked_pair (Some 1) [1, 2]" by (simp add: dlist_def linked_pair_def)
  from this ListReverse_reverses [OF this] show ?thesis
    by (auto simp: list_data_def linked_pair_def)
qed

text \<open>
  \<open>MADB_ListFree\<close> on a well-formed list terminates, frees every node of it once and no other
  node, and frees the data of each node, in list order, exactly when asked to.
\<close>

theorem ListFree_frees_all:
  assumes "dlist h root xs"
  shows "MADB_ListFree h root fd [] =
           Some (\<lambda>a. if a \<in> set xs then None else h a, if fd then list_data h xs else [])"
  using assms ListFree_dls [of h None xs fd "[]"] by (simp add: dlist_def)

theorem ListFree_frees_all_witness:
  "MADB_ListFree linked_pair (Some 1) True [] = Some (\<lambda>a. None, [10, 20])"
proof -
  have "dlist linked_pair (Some 1) [1, 2]" by (simp add: dlist_def linked_pair_def)
  from ListFree_frees_all [OF this, of True] show ?thesis
    by (auto simp: list_data_def linked_pair_def fun_eq_iff)
qed

end
