(* ===== verification/Odbc_Error.thy ===== *)
theory Odbc_Error
  imports Odbc_Prelude
begin

text \<open>
  Diagnostics (\<open>src/ma_error.c\<close>, \<open>src/ma_error.h\<close>, and \<open>strcpy_s\<close>, \<open>_snprintf\<close> and the
  narrow-character branch of \<open>MADB_SetString\<close> from \<open>src/ma_platform_posix.c\<close>).

  Every handle carries one \<open>MADB_Error\<close>.  Its message buffer has \<open>SQL_MAX_MESSAGE_LENGTH + 1\<close> bytes and
  starts with a prefix of \<open>PrefixLen\<close> bytes that later errors keep.  The message is \<^const>\<open>None\<close> once a
  write has left that buffer.
\<close>

section \<open>Return codes and diagnostic identifiers\<close>

abbreviation (input) SQL_SUCCESS :: int where "SQL_SUCCESS \<equiv> 0"
abbreviation (input) SQL_SUCCESS_WITH_INFO :: int where "SQL_SUCCESS_WITH_INFO \<equiv> 1"
abbreviation (input) SQL_ERROR :: int where "SQL_ERROR \<equiv> - 1"
abbreviation (input) SQL_INVALID_HANDLE :: int where "SQL_INVALID_HANDLE \<equiv> - 2"
abbreviation (input) SQL_NO_DATA :: int where "SQL_NO_DATA \<equiv> 100"
abbreviation (input) SQL_NEED_DATA :: int where "SQL_NEED_DATA \<equiv> 99"
abbreviation (input) SQL_NTS :: int where "SQL_NTS \<equiv> - 3"
abbreviation (input) SQL_OV_ODBC2 :: int where "SQL_OV_ODBC2 \<equiv> 2"
abbreviation (input) SQL_OV_ODBC3 :: int where "SQL_OV_ODBC3 \<equiv> 3"
abbreviation (input) SQL_HANDLE_ENV :: int where "SQL_HANDLE_ENV \<equiv> 1"
abbreviation (input) SQL_HANDLE_DBC :: int where "SQL_HANDLE_DBC \<equiv> 2"
abbreviation (input) SQL_HANDLE_STMT :: int where "SQL_HANDLE_STMT \<equiv> 3"
abbreviation (input) SQL_HANDLE_DESC :: int where "SQL_HANDLE_DESC \<equiv> 4"
abbreviation (input) SQL_MAX_MESSAGE_LENGTH :: nat where "SQL_MAX_MESSAGE_LENGTH \<equiv> 512"
abbreviation (input) SQLSTATE_LENGTH :: nat where "SQLSTATE_LENGTH \<equiv> 5"
abbreviation (input) SQL_SQLSTATE_SIZE :: nat where "SQL_SQLSTATE_SIZE \<equiv> 5"

section \<open>The error table\<close>

record MADB_ERROR =
  e_SqlState :: string
  e_SqlStateV2 :: string
  e_SqlErrorMsg :: string
  e_ReturnValue :: int

definition err_entry :: "string \<Rightarrow> string \<Rightarrow> string \<Rightarrow> int \<Rightarrow> MADB_ERROR" where
  "err_entry st v2 msg rv =
     \<lparr>e_SqlState = st, e_SqlStateV2 = v2, e_SqlErrorMsg = msg, e_ReturnValue = rv\<rparr>"

definition MADB_ErrorList :: "MADB_ERROR list" where
  "MADB_ErrorList = [
   err_entry ''00000'' '''' '''' SQL_ERROR,
   err_entry ''01000'' '''' ''General warning'' SQL_ERROR,
   err_entry ''01001'' ''01S03'' ''Cursor operation conflict'' SQL_ERROR,
   err_entry ''01002'' '''' ''Disconnect error'' SQL_ERROR,
   err_entry ''01003'' '''' ''NULL value eliminated in set function'' SQL_ERROR,
   err_entry ''01004'' '''' ''String data, right-truncated'' SQL_ERROR,
   err_entry ''01006'' '''' ''Privilege not revoked'' SQL_ERROR,
   err_entry ''01007'' '''' ''Privilege not granted'' SQL_ERROR,
   err_entry ''01S00'' '''' ''Invalid connection string attribute'' SQL_ERROR,
   err_entry ''01S01'' '''' ''Error in row'' SQL_ERROR,
   err_entry ''01S02'' '''' ''Option value changed'' SQL_ERROR,
   err_entry ''01S06'' '''' ''Attempt to fetch before the result set returned the first rowset'' SQL_ERROR,
   err_entry ''01S07'' '''' ''Fractional truncation'' SQL_ERROR,
   err_entry ''01S08'' '''' ''Error saving File DSN'' SQL_ERROR,
   err_entry ''01S09'' '''' ''Invalid keyword'' SQL_ERROR,
   err_entry ''07001'' '''' ''Wrong number of parameters'' SQL_ERROR,
   err_entry ''07002'' '''' ''COUNT field incorrect'' SQL_ERROR,
   err_entry ''07005'' ''2400'' ''Prepared statement not a cursor-specification'' SQL_ERROR,
   err_entry ''07006'' '''' ''Restricted data type attribute violation'' SQL_ERROR,
   err_entry ''07009'' ''S1002'' ''Invalid descriptor index'' SQL_ERROR,
   err_entry ''07S01'' '''' ''Invalid use of default parameter'' SQL_ERROR,
   err_entry ''08001'' '''' ''Client unable to establish connection'' SQL_ERROR,
   err_entry ''08002'' '''' ''Connection name in use'' SQL_ERROR,
   err_entry ''08003'' '''' ''Connection not open'' SQL_ERROR,
   err_entry ''08004'' '''' ''Server rejected the connection'' SQL_ERROR,
   err_entry ''08007'' '''' ''Connection failure during transaction'' SQL_ERROR,
   err_entry ''08S01'' '''' ''Communication link failure'' SQL_ERROR,
   err_entry ''21S01'' '''' ''Insert value list does not match column list'' SQL_ERROR,
   err_entry ''21S02'' '''' ''Degree of derived table does not match column list'' SQL_ERROR,
   err_entry ''22001'' '''' ''String data, right-truncated'' SQL_ERROR,
   err_entry ''22002'' '''' ''Indicator variable required but not supplied'' SQL_ERROR,
   err_entry ''22003'' '''' ''Numeric value out of range'' SQL_ERROR,
   err_entry ''22007'' ''22008'' ''Invalid datetime format'' SQL_ERROR,
   err_entry ''22008'' '''' ''Datetime field overflow'' SQL_ERROR,
   err_entry ''22012'' '''' ''Division by zero'' SQL_ERROR,
   err_entry ''22015'' '''' ''Interval field overflow'' SQL_ERROR,
   err_entry ''22018'' ''22005'' ''Invalid character value for cast specification'' SQL_ERROR,
   err_entry ''22019'' '''' ''Invalid escape character'' SQL_ERROR,
   err_entry ''22023'' '''' ''Invalid parameter value'' SQL_ERROR,
   err_entry ''22025'' '''' ''Invalid escape sequence'' SQL_ERROR,
   err_entry ''22026'' '''' ''String data, length mismatch'' SQL_ERROR,
   err_entry ''23000'' '''' ''Integrity constraint violation'' SQL_ERROR,
   err_entry ''24000'' '''' ''Invalid cursor state'' SQL_ERROR,
   err_entry ''25000'' '''' ''Invalid transaction state'' SQL_ERROR,
   err_entry ''25S01'' '''' ''Transaction state'' SQL_ERROR,
   err_entry ''25S02'' '''' ''Transaction is still active'' SQL_ERROR,
   err_entry ''25S03'' '''' ''Transaction is rolled back'' SQL_ERROR,
   err_entry ''28000'' '''' ''Invalid authorization specification'' SQL_ERROR,
   err_entry ''34000'' '''' ''Invalid cursor name'' SQL_ERROR,
   err_entry ''3C000'' '''' ''Duplicate cursor name'' SQL_ERROR,
   err_entry ''3D000'' '''' ''Invalid catalog name'' SQL_ERROR,
   err_entry ''3F000'' '''' ''Invalid schema name'' SQL_ERROR,
   err_entry ''40001'' '''' ''Serialization failure'' SQL_ERROR,
   err_entry ''40002'' '''' ''Integrity constraint violation'' SQL_ERROR,
   err_entry ''40003'' '''' ''Statement completion unknown'' SQL_ERROR,
   err_entry ''42000'' ''37000'' ''Syntax error or access violation'' SQL_ERROR,
   err_entry ''42S01'' ''S0001'' ''Base table or view already exists'' SQL_ERROR,
   err_entry ''42S02'' ''S0002'' ''Base table or view not found'' SQL_ERROR,
   err_entry ''42S11'' ''S0011'' ''Index already exists'' SQL_ERROR,
   err_entry ''42S12'' ''S0012'' ''Index not found'' SQL_ERROR,
   err_entry ''42S21'' ''S0021'' ''Column already exists'' SQL_ERROR,
   err_entry ''42S22'' ''S0022'' ''Column not found'' SQL_ERROR,
   err_entry ''44000'' '''' ''WITH CHECK OPTION violation'' SQL_ERROR,
   err_entry ''HY000'' ''S1000'' ''General error'' SQL_ERROR,
   err_entry ''HY001'' ''S1001'' ''Memory allocation error'' SQL_ERROR,
   err_entry ''HY003'' ''S1003'' ''Invalid application buffer type'' SQL_ERROR,
   err_entry ''HY004'' ''S1004'' ''Invalid SQL data type'' SQL_ERROR,
   err_entry ''HY007'' ''S1010'' ''Associated statement is not prepared'' SQL_ERROR,
   err_entry ''HY008'' ''S1008'' ''Operation canceled'' SQL_ERROR,
   err_entry ''HY009'' ''S1009'' ''Invalid use of null pointer'' SQL_ERROR,
   err_entry ''HY010'' ''S1010'' ''Function sequence error'' SQL_ERROR,
   err_entry ''HY011'' ''S1011'' ''Attribute cannot be set now'' SQL_ERROR,
   err_entry ''HY012'' ''S1012'' ''Invalid transaction operation code'' SQL_ERROR,
   err_entry ''HY013'' '''' ''Memory management error'' SQL_ERROR,
   err_entry ''HY014'' '''' ''Limit on the number of handles exceeded'' SQL_ERROR,
   err_entry ''HY015'' '''' ''No cursor name available'' SQL_ERROR,
   err_entry ''HY016'' '''' ''Cannot modify an implementation row descriptor'' SQL_ERROR,
   err_entry ''HY017'' '''' ''Invalid use of an automatically allocated descriptor handle'' SQL_ERROR,
   err_entry ''HY018'' ''70100'' ''Server declined cancel request'' SQL_ERROR,
   err_entry ''HY019'' ''22003'' ''Non-character and non-binary data sent in pieces'' SQL_ERROR,
   err_entry ''HY020'' '''' ''Attempt to concatenate a null value'' SQL_ERROR,
   err_entry ''HY021'' '''' ''Inconsistent descriptor information'' SQL_ERROR,
   err_entry ''HY024'' ''S1009'' ''Invalid attribute value'' SQL_ERROR,
   err_entry ''HY090'' ''S1009'' ''Invalid string or buffer length'' SQL_ERROR,
   err_entry ''HY091'' ''S1091'' ''Invalid descriptor field identifier'' SQL_ERROR,
   err_entry ''HY092'' ''S1092'' ''Invalid attribute/option identifier'' SQL_ERROR,
   err_entry ''HY095'' '''' ''Function type out of range'' SQL_ERROR,
   err_entry ''HY096'' ''S1096'' ''Invalid information type'' SQL_ERROR,
   err_entry ''HY097'' ''S1097'' ''Column type out of range'' SQL_ERROR,
   err_entry ''HY098'' ''S1098'' ''Scope type out of range'' SQL_ERROR,
   err_entry ''HY099'' ''S1099'' ''Nullable type out of range'' SQL_ERROR,
   err_entry ''HY100'' ''S1100'' ''Uniqueness option type out of range'' SQL_ERROR,
   err_entry ''HY101'' ''S1101'' ''Accuracy option type out of range'' SQL_ERROR,
   err_entry ''HY103'' ''S1103'' ''Invalid retrieval code'' SQL_ERROR,
   err_entry ''HY104'' ''S1104'' ''Invalid precision or scale value'' SQL_ERROR,
   err_entry ''HY105'' ''S1105'' ''Invalid parameter type'' SQL_ERROR,
   err_entry ''HY106'' ''S1106'' ''Fetch type out of range'' SQL_ERROR,
   err_entry ''HY107'' ''S1107'' ''Row value out of range'' SQL_ERROR,
   err_entry ''HY109'' ''S1109'' ''Invalid cursor position'' SQL_ERROR,
   err_entry ''HY110'' ''S1110'' ''Invalid driver completion'' SQL_ERROR,
   err_entry ''HY111'' ''S1111'' ''Invalid bookmark value'' SQL_ERROR,
   err_entry ''HYC00'' ''S1C00'' ''Optional feature not implemented'' SQL_ERROR,
   err_entry ''HYT00'' ''S1T00'' ''Timeout expired'' SQL_ERROR,
   err_entry ''HYT01'' '''' ''Connection timeout expired'' SQL_ERROR,
   err_entry ''IM001'' '''' ''Driver does not support this function'' SQL_ERROR,
   err_entry ''IM002'' '''' ''Data source name not found and no default driver specified'' SQL_ERROR,
   err_entry ''IM003'' '''' ''Specified driver could not be loaded'' SQL_ERROR,
   err_entry ''IM004'' '''' ''Driver's SQLAllocHandle on SQL_HANDLE_ENV failed'' SQL_ERROR,
   err_entry ''IM005'' '''' ''Driver's SQLAllocHandle on SQL_HANDLE_DBC failed'' SQL_ERROR,
   err_entry ''IM006'' '''' ''Driver's SQLSetConnectAttr failed'' SQL_ERROR,
   err_entry ''IM007'' '''' ''No data source or driver specified; dialog prohibited'' SQL_ERROR,
   err_entry ''IM008'' '''' ''Dialog failed'' SQL_ERROR,
   err_entry ''IM009'' '''' ''Unable to load translation DL'' SQL_ERROR,
   err_entry ''IM010'' '''' ''Data source name too long'' SQL_ERROR,
   err_entry ''IM011'' '''' ''Driver name too long'' SQL_ERROR,
   err_entry ''IM012'' '''' ''DRIVER keyword syntax error'' SQL_ERROR,
   err_entry ''IM013'' '''' ''Trace file error'' SQL_ERROR,
   err_entry ''IM014'' '''' ''Invalid name of File DSN'' SQL_ERROR,
   err_entry ''IM015'' '''' ''Corrupt file data source'' SQL_ERROR,
   err_entry ''S1000'' '''' ''General error'' SQL_ERROR,
   err_entry ''S1107'' '''' ''Row value out of range'' SQL_ERROR,
   err_entry ''S1C00'' '''' ''Optional feature not implemented'' SQL_ERROR,
   err_entry '''' '''' '''' (-1)]"

text \<open>
  The enumeration \<open>MadbErrNo\<close>: the suffixes of its constants \<open>MADB_ERR_...\<close>, in order.  The C constant
  \<open>MADB_ERR_HY000\<close> is \<open>MADB_ERR ''HY000''\<close>.
\<close>

definition MadbErrNo :: "string list" where
  "MadbErrNo = [
   ''00000'', ''01000'', ''01001'', ''01002'', ''01003'', ''01004'', ''01006'', ''01007'',
   ''01S00'', ''01S01'', ''01S02'', ''01S06'', ''01S07'', ''01S08'', ''01S09'', ''07001'',
   ''07002'', ''07005'', ''07006'', ''07009'', ''07S01'', ''08001'', ''08002'', ''08003'',
   ''08004'', ''08007'', ''08S01'', ''21S01'', ''21S02'', ''22001'', ''22002'', ''22003'',
   ''22007'', ''22008'', ''22012'', ''22015'', ''22018'', ''22019'', ''22023'', ''22025'',
   ''22026'', ''23000'', ''24000'', ''25000'', ''25S01'', ''25S02'', ''25S03'', ''28000'',
   ''34000'', ''3C000'', ''3D000'', ''3F000'', ''40001'', ''40002'', ''40003'', ''42000'',
   ''42S01'', ''42S02'', ''42S11'', ''42S12'', ''42S21'', ''42S22'', ''44000'', ''HY000'',
   ''HY001'', ''HY003'', ''HY004'', ''HY007'', ''HY008'', ''HY009'', ''HY010'', ''HY011'',
   ''HY012'', ''HY013'', ''HY014'', ''HY015'', ''HY016'', ''HY017'', ''HY018'', ''HY019'',
   ''HY020'', ''HY021'', ''HY024'', ''HY090'', ''HY091'', ''HY092'', ''HY095'', ''HY096'',
   ''HY097'', ''HY098'', ''HY099'', ''HY100'', ''HY101'', ''HY103'', ''HY104'', ''HY105'',
   ''HY106'', ''HY107'', ''HY109'', ''HY110'', ''HY111'', ''HYC00'', ''HYT00'', ''HYT01'',
   ''IM001'', ''IM002'', ''IM003'', ''IM004'', ''IM005'', ''IM006'', ''IM007'', ''IM008'',
   ''IM009'', ''IM010'', ''IM011'', ''IM012'', ''IM013'', ''IM014'', ''IM015'', ''S1000'',
   ''S1107'', ''S1C00'']"

fun position :: "'a \<Rightarrow> 'a list \<Rightarrow> nat" where
  "position x [] = 0"
| "position x (y # ys) = (if x = y then 0 else Suc (position x ys))"

definition MADB_ERR :: "string \<Rightarrow> nat" where
  "MADB_ERR s = position s MadbErrNo"

section \<open>State\<close>

record MADB_Error =
  SqlState :: string
  NativeError :: int
  SqlErrorMsg :: "buffer option"
  PrefixLen :: nat
  ReturnValue :: int
  ErrRecord :: nat
  ErrorNum :: nat

section \<open>Bounded string functions\<close>

text \<open>\<open>strcpy_s(dest, size, src)\<close>: the string left in \<open>dest\<close> and the value returned.\<close>

definition strcpy_s :: "nat \<Rightarrow> string option \<Rightarrow> string \<times> int" where
  "strcpy_s buffer_size src =
     (case src of
        None \<Rightarrow> ('''', 22)
      | Some s \<Rightarrow> if buffer_size < length s + 1 then ('''', 34) else (s, 0))"

text \<open>
  \<open>_snprintf\<close> of a text into \<open>count\<close> bytes: what \<open>vsnprintf\<close> leaves in the buffer, and the value
  returned, which is negative when the text does not fit.
\<close>

definition snprintf_buf :: "nat \<Rightarrow> string \<Rightarrow> buffer" where
  "snprintf_buf count t = (if count = 0 then [] else take (count - 1) t @ [NUL])"

definition snprintf_result :: "nat \<Rightarrow> string \<Rightarrow> int" where
  "snprintf_result count t =
     (if length t > count then s32 (int count - int (length t) - 1) else int (length t))"

section \<open>Setting errors\<close>

text \<open>
  \<open>MADB_PutErrorPrefix\<close>: \<open>pfx\<close> is the version prefix the build defines, \<open>server\<close> the version string
  of the connected server, if there is a connection.  The result is the offset of the message proper.
\<close>

definition MADB_PutErrorPrefix :: "string \<Rightarrow> string option \<Rightarrow> MADB_Error \<Rightarrow> nat \<times> MADB_Error" where
  "MADB_PutErrorPrefix pfx server error =
    (if PrefixLen error \<noteq> 0 then (PrefixLen error, error)
     else
       (let len0 = length pfx;
            msg0 = (case SqlErrorMsg error of None \<Rightarrow> None
                    | Some b \<Rightarrow> mem_write b 0 (fst (strcpy_s (SQL_MAX_MESSAGE_LENGTH + 1) (Some pfx)) @ [NUL]));
            count = SQL_MAX_MESSAGE_LENGTH + 1 - len0;
            error1 =
              (case server of
                 None \<Rightarrow> error\<lparr>SqlErrorMsg := msg0, PrefixLen := len0\<rparr>
               | Some v \<Rightarrow>
                   let t = ''['' @ v @ '']''
                   in error\<lparr>SqlErrorMsg := (case msg0 of None \<Rightarrow> None
                                      | Some b \<Rightarrow> mem_write b len0 (snprintf_buf count t)),
                            PrefixLen := nat (u64 (int len0 + snprintf_result count t))\<rparr>)
        in (PrefixLen error1, error1)))"

text \<open>
  \<open>strncpy(msg + prefix, text, SQL_MAX_MESSAGE_LENGTH - prefix)\<close> and the NUL at the end of the buffer.
\<close>

definition write_message :: "buffer option \<Rightarrow> nat \<Rightarrow> string \<Rightarrow> buffer option" where
  "write_message msg prefix_len t =
    (case msg of
       None \<Rightarrow> None
     | Some b \<Rightarrow>
        if prefix_len > SQL_MAX_MESSAGE_LENGTH then None
        else (case mem_write b prefix_len (strncpy_buf t (SQL_MAX_MESSAGE_LENGTH - prefix_len)) of
                None \<Rightarrow> None
              | Some b1 \<Rightarrow> mem_write b1 SQL_MAX_MESSAGE_LENGTH [NUL]))"

text \<open>The class of an SQLSTATE decides the return value.\<close>

definition sqlstate_return :: "string \<Rightarrow> int" where
  "sqlstate_return st =
     (if st \<noteq> [] \<and> st ! 0 = CHR ''0'' then
        (if 1 < length st \<and> st ! 1 = CHR ''0'' then SQL_SUCCESS
         else if 1 < length st \<and> st ! 1 = CHR ''1'' then SQL_SUCCESS_WITH_INFO else SQL_ERROR)
      else SQL_ERROR)"

definition connection_lost :: "int \<Rightarrow> bool" where
  "connection_lost native \<longleftrightarrow> native = 2013 \<or> native = 2006 \<or> native = 1160"

text \<open>
  \<open>MADB_SetNativeError\<close>: \<open>conn\<close> and \<open>st\<close> are what the client library reports (SQLSTATE, message and
  error number) for the connection and for the statement handle.
\<close>

definition MADB_SetNativeError ::
  "MADB_Error \<Rightarrow> int \<Rightarrow> string \<times> string \<times> int \<Rightarrow> string \<times> string \<times> int \<Rightarrow> int \<times> MADB_Error" where
  "MADB_SetNativeError Error HandleType conn st =
    (let report = (if HandleType = SQL_HANDLE_DBC then Some conn
                   else if HandleType = SQL_HANDLE_STMT then Some st else None);
         native = (case report of None \<Rightarrow> 0 | Some (_, _, n) \<Rightarrow> n);
         sqlstate = (case report of
                       None \<Rightarrow> None
                     | Some (ss, _, _) \<Rightarrow>
                         if connection_lost native \<and> (ss = ''HY000'' \<or> ss = ''00000'')
                         then Some ''08S01'' else Some ss);
         e1 = Error\<lparr>ReturnValue := SQL_ERROR\<rparr>;
         e2 = (case report of
                 None \<Rightarrow> e1
               | Some (_, msg, _) \<Rightarrow>
                   e1\<lparr>SqlErrorMsg := write_message (SqlErrorMsg e1) (PrefixLen e1) msg\<rparr>);
         e3 = (case sqlstate of
                 None \<Rightarrow> e2
               | Some ss \<Rightarrow> e2\<lparr>SqlState := fst (strcpy_s (SQLSTATE_LENGTH + 1) (Some ss))\<rparr>);
         e4 = e3\<lparr>NativeError := native, ReturnValue := sqlstate_return (SqlState e3)\<rparr>
     in (ReturnValue e4, e4))"

definition MADB_SetError ::
  "MADB_Error \<Rightarrow> nat \<Rightarrow> string option \<Rightarrow> int \<Rightarrow> int \<times> MADB_Error" where
  "MADB_SetError Error SqlErrorCode NativeErrorMsg native =
    (let ErrorCode = (if connection_lost native \<and> SqlErrorCode = MADB_ERR ''HY000''
                      then MADB_ERR ''08S01'' else SqlErrorCode);
         rec = MADB_ErrorList ! ErrorCode;
         msg = (case NativeErrorMsg of Some m \<Rightarrow> m | None \<Rightarrow> e_SqlErrorMsg rec);
         st = fst (strcpy_s (SQLSTATE_LENGTH + 1) (Some (e_SqlState rec)));
         e = Error\<lparr>ErrorNum := 0, ErrRecord := ErrorCode,
                   SqlErrorMsg := write_message (SqlErrorMsg Error) (PrefixLen Error) msg,
                   SqlState := st, NativeError := s32 native, ReturnValue := sqlstate_return st\<rparr>
     in (ReturnValue e, e))"

definition MADB_CopyError :: "MADB_Error \<Rightarrow> MADB_Error \<Rightarrow> MADB_Error" where
  "MADB_CopyError ErrorTo ErrorFrom =
     ErrorTo\<lparr>NativeError := NativeError ErrorFrom, ReturnValue := ReturnValue ErrorFrom,
             PrefixLen := PrefixLen ErrorFrom,
             SqlState := fst (strcpy_s (SQLSTATE_LENGTH + 1) (Some (SqlState ErrorFrom))),
             SqlErrorMsg :=
               (case (SqlErrorMsg ErrorTo, SqlErrorMsg ErrorFrom) of
                  (Some b, Some f) \<Rightarrow>
                     mem_write b 0 (fst (strcpy_s (SQL_MAX_MESSAGE_LENGTH + 1) (Some (c_str f))) @ [NUL])
                | _ \<Rightarrow> None)\<rparr>"

definition MADB_CLEAR_ERROR :: "MADB_Error \<Rightarrow> MADB_Error" where
  "MADB_CLEAR_ERROR a =
     a\<lparr>SqlState := fst (strcpy_s (SQL_SQLSTATE_SIZE + 1)
                     (Some (e_SqlState (MADB_ErrorList ! MADB_ERR ''00000'')))),
       SqlErrorMsg := (case SqlErrorMsg a of None \<Rightarrow> None | Some b \<Rightarrow> mem_write b (PrefixLen a) [NUL]),
       NativeError := 0, ReturnValue := SQL_SUCCESS, ErrorNum := 0\<rparr>"

section \<open>Returning strings to the application\<close>

text \<open>
  \<open>MADB_SetString\<close> with no client charset (\<open>cc = NULL\<close>): \<open>dest\<close> is the application's buffer, if it
  gave one, and \<open>DestLength\<close> the size it states.  The result is the length of the source, the buffer
  and the error; a buffer smaller than its stated size is a fault.
\<close>

definition MADB_SetString ::
  "buffer option \<Rightarrow> nat \<Rightarrow> string option \<Rightarrow> int \<Rightarrow> MADB_Error \<Rightarrow> (int \<times> buffer option \<times> MADB_Error) option" where
  "MADB_SetString dest DestLength src SrcLength0 Error =
    (let SrcLength = (if SrcLength0 = SQL_NTS
                      then (case src of Some s \<Rightarrow> int (length s) | None \<Rightarrow> 0) else SrcLength0)
     in case dest of
          None \<Rightarrow> Some (SrcLength, None, Error)
        | Some d \<Rightarrow>
           if DestLength = 0
           then Some (SrcLength, Some d, snd (MADB_SetError Error (MADB_ERR ''01004'') None 0))
           else if length d < DestLength then None
           else if SrcLength = 0 \<or> src = None \<or> src = Some [] then
             Some (0, Some (d[0 := NUL]), Error)
           else
             (let copied = strncpy_buf (the src) DestLength @ drop DestLength d;
                  cut = nat (min (u64 SrcLength) (int DestLength - 1))
              in Some (SrcLength, Some (copied[cut := NUL]),
                       if u64 SrcLength \<ge> int DestLength
                       then snd (MADB_SetError Error (MADB_ERR ''01004'') None 0) else Error)))"

definition fresh_error :: MADB_Error where
  "fresh_error = MADB_CLEAR_ERROR \<lparr>SqlState = '''', NativeError = 0,
     SqlErrorMsg = Some (replicate (SQL_MAX_MESSAGE_LENGTH + 1) NUL), PrefixLen = 0,
     ReturnValue = 0, ErrRecord = 0, ErrorNum = 0\<rparr>"

text \<open>The SQLSTATE an ODBC 2 application is given: the scan of the table in \<open>MADB_GetDiagRec\<close>.\<close>

fun v2_state :: "MADB_ERROR list \<Rightarrow> string \<Rightarrow> string" where
  "v2_state [] st = st"
| "v2_state (e # es) st =
     (if e_SqlState e = [] then st
      else if st = e_SqlState e then (if e_SqlStateV2 e \<noteq> [] then e_SqlStateV2 e else st)
      else v2_state es st)"

record diag_rec =
  dr_state :: "buffer option"
  dr_native :: int
  dr_message :: "buffer option"
  dr_length :: int

text \<open>
  \<open>MADB_GetDiagRec\<close> for a narrow-character application: the buffers it passes for the SQLSTATE (six
  bytes) and the message, and what is stored through the other pointers.  \<^const>\<open>None\<close> in the second
  component: nothing was stored.
\<close>

definition MADB_GetDiagRec ::
  "MADB_Error \<Rightarrow> int \<Rightarrow> buffer option \<Rightarrow> buffer option \<Rightarrow> int \<Rightarrow> int \<Rightarrow> (int \<times> diag_rec option) option" where
  "MADB_GetDiagRec Err RecNumber SQLState MessageText BufferLength OdbcVersion =
    (if RecNumber > 1 \<or> ReturnValue Err = SQL_SUCCESS then Some (SQL_NO_DATA, None)
     else if BufferLength < 0 then Some (SQL_ERROR, None)
     else
       (case SqlErrorMsg Err of
          None \<Rightarrow> None
        | Some b \<Rightarrow>
          (let msg = c_str b;
               state = (if OdbcVersion = SQL_OV_ODBC2 then v2_state MADB_ErrorList (SqlState Err)
                        else SqlState Err)
           in case (case SQLState of
                      None \<Rightarrow> Some (None, fresh_error)
                    | Some s \<Rightarrow> map_option snd
                        (MADB_SetString (Some s) (SQL_SQLSTATE_SIZE + 1) (Some state)
                           (int SQL_SQLSTATE_SIZE) fresh_error)) of
                None \<Rightarrow> None
              | Some (s, e1) \<Rightarrow>
                (case (case MessageText of
                         None \<Rightarrow> Some (None, e1)
                       | Some m \<Rightarrow> map_option snd
                           (MADB_SetString (Some m) (nat BufferLength) (Some msg) (int (length msg)) e1)) of
                   None \<Rightarrow> None
                 | Some (m, e2) \<Rightarrow>
                     Some (if MessageText = None \<or> BufferLength = 0 then SQL_SUCCESS else ReturnValue e2,
                           Some \<lparr>dr_state = s, dr_native = NativeError Err, dr_message = m,
                                 dr_length = s16 (int (length msg))\<rparr>)))))"

section \<open>Diagnostic fields\<close>

abbreviation (input) SQL_DIAG_RETURNCODE :: int where "SQL_DIAG_RETURNCODE \<equiv> 1"
abbreviation (input) SQL_DIAG_NUMBER :: int where "SQL_DIAG_NUMBER \<equiv> 2"
abbreviation (input) SQL_DIAG_ROW_COUNT :: int where "SQL_DIAG_ROW_COUNT \<equiv> 3"
abbreviation (input) SQL_DIAG_SQLSTATE :: int where "SQL_DIAG_SQLSTATE \<equiv> 4"
abbreviation (input) SQL_DIAG_NATIVE :: int where "SQL_DIAG_NATIVE \<equiv> 5"
abbreviation (input) SQL_DIAG_MESSAGE_TEXT :: int where "SQL_DIAG_MESSAGE_TEXT \<equiv> 6"
abbreviation (input) SQL_DIAG_DYNAMIC_FUNCTION :: int where "SQL_DIAG_DYNAMIC_FUNCTION \<equiv> 7"
abbreviation (input) SQL_DIAG_CLASS_ORIGIN :: int where "SQL_DIAG_CLASS_ORIGIN \<equiv> 8"
abbreviation (input) SQL_DIAG_SUBCLASS_ORIGIN :: int where "SQL_DIAG_SUBCLASS_ORIGIN \<equiv> 9"
abbreviation (input) SQL_DIAG_CONNECTION_NAME :: int where "SQL_DIAG_CONNECTION_NAME \<equiv> 10"
abbreviation (input) SQL_DIAG_SERVER_NAME :: int where "SQL_DIAG_SERVER_NAME \<equiv> 11"
abbreviation (input) SQL_DIAG_DYNAMIC_FUNCTION_CODE :: int where "SQL_DIAG_DYNAMIC_FUNCTION_CODE \<equiv> 12"
abbreviation (input) SQL_DIAG_CURSOR_ROW_COUNT :: int where "SQL_DIAG_CURSOR_ROW_COUNT \<equiv> - 1249"
abbreviation (input) SQL_DIAG_ROW_NUMBER :: int where "SQL_DIAG_ROW_NUMBER \<equiv> - 1248"
abbreviation (input) SQL_DIAG_COLUMN_NUMBER :: int where "SQL_DIAG_COLUMN_NUMBER \<equiv> - 1247"
abbreviation (input) SQL_ROW_NUMBER_UNKNOWN :: int where "SQL_ROW_NUMBER_UNKNOWN \<equiv> - 2"
abbreviation (input) SQL_COLUMN_NUMBER_UNKNOWN :: int where "SQL_COLUMN_NUMBER_UNKNOWN \<equiv> - 2"

text \<open>
  The handle a diagnostic field is read from: its type and error, and what the client library answers
  for it (row counts, host of the connection).
\<close>

record diag_handle =
  dh_type :: int
  dh_error :: MADB_Error
  dh_num_rows :: "int option"
  dh_affected_rows :: "int option"
  dh_server :: "string option"

text \<open>What is stored through \<open>DiagInfoPtr\<close>: an integer, bytes in the buffer, or nothing.\<close>

datatype diag_info = DI_int int | DI_bytes "buffer option" | DI_untouched

definition diag_string ::
  "buffer option \<Rightarrow> int \<Rightarrow> string \<Rightarrow> int \<Rightarrow> (int \<times> diag_info \<times> int) option" where
  "diag_string info BufferLength src srclen =
    (if BufferLength < 0 then Some (SQL_ERROR, DI_untouched, 0)
     else (case MADB_SetString info (nat BufferLength) (Some src) srclen fresh_error of
             None \<Rightarrow> None
           | Some (n, d, e) \<Rightarrow> Some (ReturnValue e, DI_bytes d, s16 n)))"

text \<open>
  \<open>MADB_GetDiagField\<close> for a narrow-character application: the return code, what happens to the buffer
  and the string length stored.
\<close>

definition MADB_GetDiagField ::
  "diag_handle \<Rightarrow> int \<Rightarrow> int \<Rightarrow> buffer option \<Rightarrow> int \<Rightarrow> (int \<times> diag_info \<times> int) option" where
  "MADB_GetDiagField H RecNumber DiagIdentifier info BufferLength =
    (let Err = dh_error H; stmt = (dh_type H = SQL_HANDLE_STMT);
         int_field = (\<lambda>v. Some (SQL_SUCCESS, DI_int v, 0));
         failed = Some (SQL_ERROR, DI_untouched, 0)
     in if RecNumber > 1 then Some (SQL_NO_DATA, DI_untouched, 0)
        else if dh_type H \<notin> {SQL_HANDLE_DBC, SQL_HANDLE_STMT, SQL_HANDLE_ENV, SQL_HANDLE_DESC}
        then Some (SQL_INVALID_HANDLE, DI_untouched, 0)
        else if DiagIdentifier = SQL_DIAG_CURSOR_ROW_COUNT then
          (if \<not> stmt then failed else int_field (case dh_num_rows H of Some n \<Rightarrow> n | None \<Rightarrow> 0))
        else if DiagIdentifier = SQL_DIAG_DYNAMIC_FUNCTION then
          (if \<not> stmt then failed else Some (SQL_SUCCESS, DI_untouched, 0))
        else if DiagIdentifier = SQL_DIAG_DYNAMIC_FUNCTION_CODE then
          (if \<not> stmt then failed else int_field 0)
        else if DiagIdentifier = SQL_DIAG_NUMBER then
          int_field (if ReturnValue Err = SQL_SUCCESS then 0 else 1)
        else if DiagIdentifier = SQL_DIAG_RETURNCODE then int_field (ReturnValue Err)
        else if DiagIdentifier = SQL_DIAG_ROW_COUNT then
          (if \<not> stmt then failed else int_field (case dh_affected_rows H of Some n \<Rightarrow> n | None \<Rightarrow> 0))
        else if DiagIdentifier = SQL_DIAG_CLASS_ORIGIN then
          diag_string info BufferLength
            (if strncmp_eq (SqlState Err) ''IM'' 2 then ''ODBC 3.0'' else ''ISO 9075'') SQL_NTS
        else if DiagIdentifier = SQL_DIAG_COLUMN_NUMBER then int_field SQL_COLUMN_NUMBER_UNKNOWN
        else if DiagIdentifier = SQL_DIAG_CONNECTION_NAME then
          (if BufferLength < 0 then failed else Some (SQL_SUCCESS, DI_untouched, 0))
        else if DiagIdentifier = SQL_DIAG_MESSAGE_TEXT then
          (case SqlErrorMsg Err of
             None \<Rightarrow> None
           | Some b \<Rightarrow> diag_string info BufferLength (c_str b) (int (length (c_str b))))
        else if DiagIdentifier = SQL_DIAG_NATIVE then int_field (NativeError Err)
        else if DiagIdentifier = SQL_DIAG_ROW_NUMBER then
          (if \<not> stmt \<or> RecNumber < 1 then failed else int_field SQL_ROW_NUMBER_UNKNOWN)
        else if DiagIdentifier = SQL_DIAG_SERVER_NAME then
          (let name = (case dh_server H of Some n \<Rightarrow> n | None \<Rightarrow> '''')
           in diag_string info BufferLength name (int (length name)))
        else if DiagIdentifier = SQL_DIAG_SQLSTATE then
          diag_string info BufferLength (SqlState Err) (int (length (SqlState Err)))
        else if DiagIdentifier = SQL_DIAG_SUBCLASS_ORIGIN then
          diag_string info BufferLength ''ODBC 3.0'' 8
        else failed)"

section \<open>The table and the enumeration\<close>

lemma table_states: "map e_SqlState MADB_ErrorList = MadbErrNo @ [[]]"
  by (simp add: MADB_ErrorList_def MadbErrNo_def err_entry_def)

lemma table_length: "length MADB_ErrorList = Suc (length MadbErrNo)"
  using arg_cong [OF table_states, of length] by simp

lemma position_less: "x \<in> set xs \<Longrightarrow> position x xs < length xs"
  by (induction xs) auto

lemma nth_position: "x \<in> set xs \<Longrightarrow> xs ! position x xs = x"
  by (induction xs) auto

lemma MADB_ERR_bound: "s \<in> set MadbErrNo \<Longrightarrow> MADB_ERR s < length MadbErrNo"
  by (simp add: MADB_ERR_def position_less)

lemma table_entry: "s \<in> set MadbErrNo \<Longrightarrow> e_SqlState (MADB_ErrorList ! MADB_ERR s) = s"
proof -
  assume s: "s \<in> set MadbErrNo"
  have "e_SqlState (MADB_ErrorList ! MADB_ERR s) = map e_SqlState MADB_ErrorList ! MADB_ERR s"
    using MADB_ERR_bound [OF s] by (simp add: table_length)
  also have "\<dots> = s"
    using s MADB_ERR_bound [OF s] by (simp add: table_states nth_append MADB_ERR_def nth_position)
  finally show ?thesis .
qed

lemma states_length: "list_all (\<lambda>s. length s = 5 \<and> is_cstring s) MadbErrNo"
  by (simp add: MadbErrNo_def)

lemma state_length: "s \<in> set MadbErrNo \<Longrightarrow> length s = 5"
  using states_length by (auto simp: list_all_iff)

lemma state_cstring: "s \<in> set MadbErrNo \<Longrightarrow> is_cstring s"
  using states_length by (auto simp: list_all_iff)

lemma known_states [simp]:
  "''00000'' \<in> set MadbErrNo" "''01004'' \<in> set MadbErrNo" "''08S01'' \<in> set MadbErrNo"
  "''HY000'' \<in> set MadbErrNo"
  by (simp_all add: MadbErrNo_def)

lemma MADB_ERR_inject:
  "s \<in> set MadbErrNo \<Longrightarrow> t \<in> set MadbErrNo \<Longrightarrow> MADB_ERR s = MADB_ERR t \<longleftrightarrow> s = t"
  by (metis table_entry)

lemma messages_cstring: "list_all (\<lambda>e. is_cstring (e_SqlErrorMsg e)) MADB_ErrorList"
  by (simp add: MADB_ErrorList_def err_entry_def)

lemma message_cstring: "s \<in> set MadbErrNo \<Longrightarrow> is_cstring (e_SqlErrorMsg (MADB_ErrorList ! MADB_ERR s))"
  using messages_cstring MADB_ERR_bound [of s] by (simp add: list_all_length table_length)

section \<open>The message buffer\<close>

text \<open>The buffer has its full size and the prefix fits in it; the message is the string it holds.\<close>

definition error_ok :: "MADB_Error \<Rightarrow> bool" where
  "error_ok e \<longleftrightarrow> (case SqlErrorMsg e of None \<Rightarrow> False
      | Some b \<Rightarrow> length b = SQL_MAX_MESSAGE_LENGTH + 1 \<and> PrefixLen e \<le> SQL_MAX_MESSAGE_LENGTH
                 \<and> is_cstring (take (PrefixLen e) b))"

definition message_of :: "MADB_Error \<Rightarrow> string" where
  "message_of e = c_str (the (SqlErrorMsg e))"

definition prefix_of :: "MADB_Error \<Rightarrow> string" where
  "prefix_of e = take (PrefixLen e) (the (SqlErrorMsg e))"

lemma error_okE:
  assumes "error_ok e"
  obtains b where "SqlErrorMsg e = Some b" "length b = 513" "PrefixLen e \<le> 512"
    "is_cstring (take (PrefixLen e) b)"
  using assms by (auto simp: error_ok_def split: option.splits)

lemma write_message_eq:
  assumes "length b = 513" "p \<le> 512"
  shows "write_message (Some b) p t = Some (take p b @ strncpy_buf t (512 - p) @ [NUL])"
  using assms by (simp add: write_message_def mem_write_def min_absorb2)

lemma written_message:
  assumes "error_ok e" "is_cstring t"
    "SqlErrorMsg e' = write_message (SqlErrorMsg e) (PrefixLen e) t" "PrefixLen e' = PrefixLen e"
  shows "error_ok e'" and "prefix_of e' = prefix_of e"
    and "message_of e' = prefix_of e @ take (512 - PrefixLen e) t"
proof -
  obtain b where b: "SqlErrorMsg e = Some b" "length b = 513" "PrefixLen e \<le> 512"
      "is_cstring (take (PrefixLen e) b)"
    using assms(1) by (rule error_okE)
  let ?n = "512 - PrefixLen e"
  let ?b = "take (PrefixLen e) b @ strncpy_buf t ?n @ [NUL]"
  have e': "SqlErrorMsg e' = Some ?b"
    using assms(3) b by (simp add: write_message_eq)
  show "error_ok e'" "prefix_of e' = prefix_of e"
    using e' b assms(4) by (auto simp: error_ok_def prefix_of_def min_absorb2)
  have "c_str ?b = take (PrefixLen e) b @ c_str (strncpy_buf t ?n @ [NUL])"
    using b(4) by (rule c_str_append)
  also have "c_str (strncpy_buf t ?n @ [NUL]) = take ?n t"
  proof (cases "length t < ?n")
    case True
    then have "strncpy_buf t ?n = t @ NUL # replicate (?n - length t - 1) NUL"
      by (cases "?n - length t") (simp_all add: strncpy_buf_def)
    then show ?thesis using assms(2) True by simp
  next
    case False
    then have "strncpy_buf t ?n = take ?n t" by (simp add: strncpy_buf_def)
    then show ?thesis using assms(2) by (simp add: is_cstring_take)
  qed
  finally show "message_of e' = prefix_of e @ take ?n t"
    using e' b by (simp add: message_of_def prefix_of_def)
qed

section \<open>Setting an error\<close>

text \<open>The state recorded for an error code, with lost connections reported as such.\<close>

definition reported_state :: "string \<Rightarrow> int \<Rightarrow> string" where
  "reported_state s native = (if connection_lost native \<and> s = ''HY000'' then ''08S01'' else s)"

lemma reported_state_known: "s \<in> set MadbErrNo \<Longrightarrow> reported_state s native \<in> set MadbErrNo"
  by (simp add: reported_state_def)

lemma SetError_eq:
  fixes native :: int
  assumes "s \<in> set MadbErrNo"
  defines "t \<equiv> reported_state s native"
  shows "MADB_SetError e (MADB_ERR s) m native =
    (sqlstate_return t,
     e\<lparr>ErrorNum := 0, ErrRecord := MADB_ERR t,
       SqlErrorMsg := write_message (SqlErrorMsg e) (PrefixLen e)
         (case m of Some x \<Rightarrow> x | None \<Rightarrow> e_SqlErrorMsg (MADB_ErrorList ! MADB_ERR t)),
       SqlState := t, NativeError := s32 native, ReturnValue := sqlstate_return t\<rparr>)"
proof -
  have "t \<in> set MadbErrNo" using assms by (simp add: reported_state_known)
  moreover have "(if connection_lost native \<and> MADB_ERR s = MADB_ERR ''HY000''
      then MADB_ERR ''08S01'' else MADB_ERR s) = MADB_ERR t"
    using assms by (simp add: reported_state_def MADB_ERR_inject)
  ultimately show ?thesis
    by (simp add: MADB_SetError_def Let_def table_entry state_length strcpy_s_def)
qed

lemma SetError_class:
  "s \<in> set MadbErrNo \<Longrightarrow> fst (MADB_SetError e (MADB_ERR s) m 0) = sqlstate_return s"
  by (simp add: SetError_eq reported_state_def connection_lost_def)

lemma sqlstate_return_error: "take 1 s \<noteq> ''0'' \<Longrightarrow> sqlstate_return s = - 1"
  by (cases s) (auto simp: sqlstate_return_def)

section \<open>Reading it back\<close>

lemma SetString_copies:
  assumes "length d = n" "0 < n" "is_cstring s" "s \<noteq> []" "int (length s) < 2 ^ 64"
  shows "\<exists>d'. MADB_SetString (Some d) n (Some s) (int (length s)) e =
      Some (int (length s), Some d',
            if n \<le> length s then snd (MADB_SetError e (MADB_ERR ''01004'') None 0) else e)
     \<and> c_str d' = take (n - 1) s \<and> length d' = n"
proof -
  define k where "k = min (length s) (n - 1)"
  have u: "u64 (int (length s)) = int (length s)" using assms(5) by (simp add: cast_simps)
  have k: "nat (min (int (length s)) (int n - 1)) = k" using assms(2) unfolding k_def by arith
  have "c_str ((strncpy_buf s n)[k := NUL]) = take (n - 1) s"
  proof -
    have "k < n" using assms(2) by (simp add: k_def)
    then have "(strncpy_buf s n)[k := NUL]
        = take k (strncpy_buf s n) @ NUL # drop (Suc k) (strncpy_buf s n)"
      by (simp add: upd_conv_take_nth_drop)
    moreover have "take k (strncpy_buf s n) = take (n - 1) s"
      by (auto simp: strncpy_buf_def k_def min_def)
    ultimately show ?thesis using assms(3) by (simp add: is_cstring_take)
  qed
  then show ?thesis
    using assms u k by (auto simp: MADB_SetString_def Let_def)
qed

lemma SetString_message:
  assumes "length d = n" "0 < n" "is_cstring s" "int (length s) < 2 ^ 64"
  shows "\<exists>l d'. MADB_SetString (Some d) n (Some s) (int (length s)) e =
      Some (l, Some d',
            if n \<le> length s then snd (MADB_SetError e (MADB_ERR ''01004'') None 0) else e)
     \<and> c_str d' = take (n - 1) s \<and> length d' = n"
proof (cases "s = []")
  case True
  then show ?thesis
    using assms by (cases d) (auto simp: MADB_SetString_def Let_def c_str_def)
next
  case False
  then show ?thesis using SetString_copies [OF assms(1-3) _ assms(4)] by blast
qed

lemma message_length:
  assumes "error_ok e"
  shows "length (message_of e) \<le> 513"
  using assms by (auto simp: error_ok_def message_of_def le_trans [OF length_c_str] split: option.splits)

lemma fresh_error_eq:
  "fresh_error = \<lparr>SqlState = ''00000'', NativeError = 0, SqlErrorMsg = Some (replicate 513 NUL),
     PrefixLen = 0, ReturnValue = 0, ErrRecord = 0, ErrorNum = 0\<rparr>"
proof -
  have "mem_write (replicate 513 NUL) 0 [NUL] = Some (replicate 513 NUL)"
    by (simp add: mem_write_def replicate_Suc [symmetric] del: replicate_Suc)
  then show ?thesis
    by (simp add: fresh_error_def MADB_CLEAR_ERROR_def table_entry strcpy_s_def)
qed

lemma truncation_warning: "fst (MADB_SetError e (MADB_ERR ''01004'') m 0) = 1"
    "ReturnValue (snd (MADB_SetError e (MADB_ERR ''01004'') m 0)) = 1"
  by (simp_all add: SetError_eq reported_state_def connection_lost_def sqlstate_return_def)

lemma SetError_return: "ReturnValue (snd (MADB_SetError e c m n)) = fst (MADB_SetError e c m n)"
  by (simp add: MADB_SetError_def Let_def)

lemma v2_state_cases:
  "v2_state es s = s \<or> (\<exists>e\<in>set es. e_SqlState e = s \<and> e_SqlStateV2 e \<noteq> [] \<and> v2_state es s = e_SqlStateV2 e)"
  by (induction es) auto

lemma v2_lengths:
  "list_all (\<lambda>e. e_SqlStateV2 e = [] \<or> length (e_SqlStateV2 e) = 5 \<or> e_SqlState e = ''07005'') MADB_ErrorList"
  by (simp add: MADB_ErrorList_def err_entry_def)

lemma v2_state_07005: "v2_state MADB_ErrorList ''07005'' = ''2400''"
  by (simp add: MADB_ErrorList_def err_entry_def)

section \<open>Properties\<close>

text \<open>
  The error table and the enumeration that indexes it agree: the entry at \<open>MADB_ERR_xxxxx\<close> is the
  one whose SQLSTATE is \<open>xxxxx\<close>, for every constant, and no two constants share an entry.
\<close>

theorem error_table_agrees_with_enum:
  assumes "s \<in> set MadbErrNo" "t \<in> set MadbErrNo"
  shows "e_SqlState (MADB_ErrorList ! MADB_ERR s) = s \<and> MADB_ERR s < length MADB_ErrorList - 1
     \<and> (MADB_ERR s = MADB_ERR t \<longleftrightarrow> s = t)"
  using assms by (simp add: table_entry MADB_ERR_bound table_length MADB_ERR_inject)

theorem error_table_agrees_with_enum_witness:
  "e_SqlState (MADB_ErrorList ! MADB_ERR ''HYC00'') = ''HYC00''"
  using error_table_agrees_with_enum [of "''HYC00''" "''HYC00''"] by (simp add: MadbErrNo_def)

text \<open>
  C36. \<open>MADB_SetError\<close> with a known code on a handle whose buffer is intact: the SQLSTATE recorded is the
  code's (08S01 when the server connection was lost), the value returned is the class of that state
  (success for 00, success with info for 01, error for all others), the prefix of the message is kept,
  the message is the prefix and as much of the text as fits, and the buffer stays intact.
\<close>

theorem SetError_records:
  assumes "error_ok e" "s \<in> set MadbErrNo" "is_cstring m"
    "MADB_SetError e (MADB_ERR s) (Some m) native = (r, e')"
  shows "SqlState e' = reported_state s native \<and> r = ReturnValue e'
     \<and> r = (if take 2 (SqlState e') = ''00'' then SQL_SUCCESS
            else if take 2 (SqlState e') = ''01'' then SQL_SUCCESS_WITH_INFO else SQL_ERROR)
     \<and> error_ok e' \<and> prefix_of e' = prefix_of e
     \<and> message_of e' = prefix_of e @ take (512 - PrefixLen e) m"
proof -
  let ?t = "reported_state s native"
  have t: "length ?t = 5" using reported_state_known [OF assms(2)] by (simp add: state_length)
  then have ret: "sqlstate_return ?t = (if take 2 ?t = ''00'' then 0 else if take 2 ?t = ''01'' then 1 else - 1)"
    by (cases ?t; cases "tl ?t") (auto simp: sqlstate_return_def numeral_2_eq_2)
  have e': "r = sqlstate_return ?t" "SqlState e' = ?t" "ReturnValue e' = sqlstate_return ?t"
      "SqlErrorMsg e' = write_message (SqlErrorMsg e) (PrefixLen e) m" "PrefixLen e' = PrefixLen e"
    using assms(4) by (auto simp: SetError_eq [OF assms(2)])
  show ?thesis
    using e' ret written_message [OF assms(1,3) e'(4,5)] by simp
qed

definition sample_error :: MADB_Error where
  "sample_error = \<lparr>SqlState = ''00000'', NativeError = 0, SqlErrorMsg = Some (''[ss]'' @ replicate 509 NUL),
     PrefixLen = 4, ReturnValue = 0, ErrRecord = 0, ErrorNum = 0\<rparr>"

theorem SetError_records_witness:
  "error_ok sample_error \<and> message_of (snd (MADB_SetError sample_error (MADB_ERR ''HY000'') (Some ''gone'') 2006))
     = ''[ss]gone'' \<and> SqlState (snd (MADB_SetError sample_error (MADB_ERR ''HY000'') (Some ''gone'') 2006)) = ''08S01''"
proof -
  have ok: "error_ok sample_error" by (simp add: error_ok_def sample_error_def)
  have "prefix_of sample_error = ''[ss]''" "PrefixLen sample_error = 4"
    by (simp_all add: prefix_of_def sample_error_def)
  then show ?thesis
    using ok SetError_records [OF ok, of "''HY000''" "''gone''" 2006
        "fst (MADB_SetError sample_error (MADB_ERR ''HY000'') (Some ''gone'') 2006)"
        "snd (MADB_SetError sample_error (MADB_ERR ''HY000'') (Some ''gone'') 2006)"]
    by (simp add: reported_state_def connection_lost_def)
qed


definition raised_error :: MADB_Error where
  "raised_error = \<lparr>SqlState = ''42S02'', NativeError = 1146, SqlErrorMsg = Some (''no table'' @ replicate 505 NUL),
     PrefixLen = 0, ReturnValue = - 1, ErrRecord = 57, ErrorNum = 0\<rparr>"


text \<open>
  The message prefix and long server versions.  With the driver's prefix and a server version whose
  bracketed form fits in the buffer, \<open>MADB_PutErrorPrefix\<close> records exactly that prefix; but when the
  version does not fit, the negative result of \<open>_snprintf\<close> (or the equality its test misses) is added to
  the unsigned length, and the next error is written outside the message buffer.
\<close>

theorem PutErrorPrefix_overflow_iff:
  assumes "error_ok e" "PrefixLen e = 0" "is_cstring pfx" "is_cstring v" "length pfx \<le> 512"
    "0 < length pfx" "length v + 2 < 2 ^ 31"
  defines "e1 \<equiv> snd (MADB_PutErrorPrefix pfx (Some v) e)"
  shows "(length pfx + length v + 2 \<le> 512 \<longrightarrow> error_ok e1 \<and> prefix_of e1 = pfx @ ''['' @ v @ '']'')
     \<and> (SqlErrorMsg (snd (MADB_SetError e1 c m native)) = None \<longleftrightarrow>
          length pfx + length v + 2 = 513 \<or> length v + 2 > 512)"
proof -
  obtain b where b: "SqlErrorMsg e = Some b" "length b = 513"
    using assms(1) by (rule error_okE)
  define t where "t = ''['' @ v @ '']''"
  define n where "n = 513 - length pfx"
  have t: "length t = length v + 2" "is_cstring t" using assms(4) by (simp_all add: t_def)
  define b1 where "b1 = pfx @ [NUL] @ drop (length pfx + 1) b"
  have b1: "mem_write b 0 (pfx @ [NUL]) = Some b1" "length b1 = 513"
    using assms(5) b(2) by (simp_all add: mem_write_def b1_def)
  define b2 where "b2 = take (length pfx) b1 @ snprintf_buf n t @ drop (length pfx + length (snprintf_buf n t)) b1"
  have sl: "length (snprintf_buf n t) \<le> n"
    using assms(5) by (auto simp: snprintf_buf_def n_def)
  have b2: "mem_write b1 (length pfx) (snprintf_buf n t) = Some b2" "length b2 = 513"
    using sl b1(2) assms(5) by (auto simp: mem_write_def b2_def n_def)
  have e1: "SqlErrorMsg e1 = Some b2" "PrefixLen e1 = nat (u64 (int (length pfx) + snprintf_result n t))"
    using assms(2,5) b b1 b2
    by (simp_all add: e1_def MADB_PutErrorPrefix_def Let_def strcpy_s_def t_def n_def)
  have res: "snprintf_result n t = (if length t > n then int n - int (length t) - 1 else int (length t))"
    using assms(7) t(1) by (simp add: snprintf_result_def cast_simps n_def)
  have len: "PrefixLen e1 > 512 \<longleftrightarrow> length pfx + length v + 2 = 513 \<or> length v + 2 > 512"
  proof -
    have z: "int (length pfx) + snprintf_result n t
        = (if length t > n then 512 - int (length t) else int (length pfx + length t))"
      using res assms(5) by (auto simp: n_def)
    consider "length t > 512" | "length t > n" "length t \<le> 512" | "length t \<le> n" by linarith
    then show ?thesis
    proof cases
      case 1
      then have "length t > n" using assms(6) unfolding n_def by linarith
      then have "PrefixLen e1 = nat (512 - int (length t) + 2 ^ 64)"
        using 1 assms(7) t(1) by (simp add: e1(2) z u64_neg)
      then have "512 < PrefixLen e1" using 1 assms(7) t(1) by simp
      then show ?thesis using 1 t(1) by simp
    next
      case 2
      then have "PrefixLen e1 = 512 - length t" by (simp add: e1(2) z cast_simps nat_diff_distrib)
      then show ?thesis using 2 assms(5,6) t(1) by (simp add: n_def) linarith
    next
      case 3
      then have le: "length pfx + length t \<le> 513"
        using assms(5) unfolding n_def by linarith
      then have "PrefixLen e1 = length pfx + length t"
        using 3 by (simp add: e1(2) z cast_simps nat_int_add)
      then show ?thesis using le assms(6) t(1) by auto
    qed
  qed
  have "SqlErrorMsg (snd (MADB_SetError e1 c m native)) = None \<longleftrightarrow> PrefixLen e1 > 512"
    using e1(1) b2(2)
    by (auto simp: MADB_SetError_def Let_def write_message_def mem_write_def)
  moreover have "error_ok e1 \<and> prefix_of e1 = pfx @ t" if fit: "length pfx + length v + 2 \<le> 512"
  proof -
    have "length t \<le> n" "length pfx + length t \<le> 512"
      using fit t(1) unfolding n_def by linarith+
    then have "PrefixLen e1 = length pfx + length t"
      by (simp add: e1(2) res cast_simps nat_int_add)
    moreover have "take (length pfx + length t) b2 = pfx @ t"
      using fit t(1) by (auto simp: b2_def b1_def snprintf_buf_def n_def)
    ultimately show ?thesis
      using e1(1) b2(2) fit t assms(3) by (simp add: error_ok_def prefix_of_def)
  qed
  ultimately show ?thesis using len by (simp add: t_def)
qed

theorem PutErrorPrefix_overflow_iff_witness:
  "SqlErrorMsg (snd (MADB_SetError
      (snd (MADB_PutErrorPrefix ''[ss-1.1.2]'' (Some (replicate 600 (CHR ''8''))) fresh_error))
      (MADB_ERR ''HY001'') None 0)) = None"
proof -
  have "error_ok fresh_error" "PrefixLen fresh_error = 0"
    by (simp_all add: fresh_error_eq error_ok_def)
  moreover have "is_cstring (replicate 600 (CHR ''8''))"
    by (simp add: is_cstring_def)
  ultimately show ?thesis
    using PutErrorPrefix_overflow_iff [of fresh_error "''[ss-1.1.2]''" "replicate 600 (CHR ''8'')"
        "MADB_ERR ''HY001''" None 0]
    by simp
qed

text \<open>
  Every SQLSTATE an ODBC 2 application can be given for a known error has five characters, except
  for 07005, whose table entry maps it to the four characters 2400.
\<close>

theorem v2_states_five_characters:
  assumes "s \<in> set MadbErrNo"
  shows "length (v2_state MADB_ErrorList s) = (if s = ''07005'' then 4 else 5)"
proof (cases "s = ''07005''")
  case True
  then show ?thesis by (simp add: v2_state_07005)
next
  case False
  then show ?thesis
    using v2_state_cases [of MADB_ErrorList s] v2_lengths state_length [OF assms]
    by (auto simp: list_all_iff)
qed

theorem v2_states_five_characters_witness:
  "length (v2_state MADB_ErrorList ''07005'') = 4 \<and> length (v2_state MADB_ErrorList ''42S02'') = 5"
  using v2_states_five_characters [of "''07005''"] v2_states_five_characters [of "''42S02''"]
  by (simp add: MadbErrNo_def)

end
