(* ===== verification/Odbc_Consts.thy ===== *)
theory Odbc_Consts
  imports Odbc_Prelude
begin

text \<open>
  The constants of the ODBC headers and of the client library's header that the driver's code is
  written with, under their C names.
\<close>

section \<open>SQL data types\<close>

abbreviation (input) SQL_UNKNOWN_TYPE :: int where "SQL_UNKNOWN_TYPE \<equiv> 0"
abbreviation (input) SQL_CHAR :: int where "SQL_CHAR \<equiv> 1"
abbreviation (input) SQL_NUMERIC :: int where "SQL_NUMERIC \<equiv> 2"
abbreviation (input) SQL_DECIMAL :: int where "SQL_DECIMAL \<equiv> 3"
abbreviation (input) SQL_INTEGER :: int where "SQL_INTEGER \<equiv> 4"
abbreviation (input) SQL_SMALLINT :: int where "SQL_SMALLINT \<equiv> 5"
abbreviation (input) SQL_FLOAT :: int where "SQL_FLOAT \<equiv> 6"
abbreviation (input) SQL_REAL :: int where "SQL_REAL \<equiv> 7"
abbreviation (input) SQL_DOUBLE :: int where "SQL_DOUBLE \<equiv> 8"
abbreviation (input) SQL_DATETIME :: int where "SQL_DATETIME \<equiv> 9"
abbreviation (input) SQL_DATE :: int where "SQL_DATE \<equiv> 9"
abbreviation (input) SQL_INTERVAL :: int where "SQL_INTERVAL \<equiv> 10"
abbreviation (input) SQL_TIME :: int where "SQL_TIME \<equiv> 10"
abbreviation (input) SQL_TIMESTAMP :: int where "SQL_TIMESTAMP \<equiv> 11"
abbreviation (input) SQL_VARCHAR :: int where "SQL_VARCHAR \<equiv> 12"
abbreviation (input) SQL_TYPE_DATE :: int where "SQL_TYPE_DATE \<equiv> 91"
abbreviation (input) SQL_TYPE_TIME :: int where "SQL_TYPE_TIME \<equiv> 92"
abbreviation (input) SQL_TYPE_TIMESTAMP :: int where "SQL_TYPE_TIMESTAMP \<equiv> 93"
abbreviation (input) SQL_LONGVARCHAR :: int where "SQL_LONGVARCHAR \<equiv> - 1"
abbreviation (input) SQL_BINARY :: int where "SQL_BINARY \<equiv> - 2"
abbreviation (input) SQL_VARBINARY :: int where "SQL_VARBINARY \<equiv> - 3"
abbreviation (input) SQL_LONGVARBINARY :: int where "SQL_LONGVARBINARY \<equiv> - 4"
abbreviation (input) SQL_BIGINT :: int where "SQL_BIGINT \<equiv> - 5"
abbreviation (input) SQL_TINYINT :: int where "SQL_TINYINT \<equiv> - 6"
abbreviation (input) SQL_BIT :: int where "SQL_BIT \<equiv> - 7"
abbreviation (input) SQL_WCHAR :: int where "SQL_WCHAR \<equiv> - 8"
abbreviation (input) SQL_WVARCHAR :: int where "SQL_WVARCHAR \<equiv> - 9"
abbreviation (input) SQL_WLONGVARCHAR :: int where "SQL_WLONGVARCHAR \<equiv> - 10"
abbreviation (input) SQL_GUID :: int where "SQL_GUID \<equiv> - 11"

section \<open>C data types\<close>

abbreviation (input) SQL_C_CHAR :: int where "SQL_C_CHAR \<equiv> 1"
abbreviation (input) SQL_C_NUMERIC :: int where "SQL_C_NUMERIC \<equiv> 2"
abbreviation (input) SQL_C_LONG :: int where "SQL_C_LONG \<equiv> 4"
abbreviation (input) SQL_C_SHORT :: int where "SQL_C_SHORT \<equiv> 5"
abbreviation (input) SQL_C_FLOAT :: int where "SQL_C_FLOAT \<equiv> 7"
abbreviation (input) SQL_C_DOUBLE :: int where "SQL_C_DOUBLE \<equiv> 8"
abbreviation (input) SQL_C_DATE :: int where "SQL_C_DATE \<equiv> 9"
abbreviation (input) SQL_C_TIME :: int where "SQL_C_TIME \<equiv> 10"
abbreviation (input) SQL_C_TIMESTAMP :: int where "SQL_C_TIMESTAMP \<equiv> 11"
abbreviation (input) SQL_C_TYPE_DATE :: int where "SQL_C_TYPE_DATE \<equiv> 91"
abbreviation (input) SQL_C_TYPE_TIME :: int where "SQL_C_TYPE_TIME \<equiv> 92"
abbreviation (input) SQL_C_TYPE_TIMESTAMP :: int where "SQL_C_TYPE_TIMESTAMP \<equiv> 93"
abbreviation (input) SQL_C_DEFAULT :: int where "SQL_C_DEFAULT \<equiv> 99"
abbreviation (input) SQL_C_BINARY :: int where "SQL_C_BINARY \<equiv> - 2"
abbreviation (input) SQL_C_TINYINT :: int where "SQL_C_TINYINT \<equiv> - 6"
abbreviation (input) SQL_C_BIT :: int where "SQL_C_BIT \<equiv> - 7"
abbreviation (input) SQL_C_WCHAR :: int where "SQL_C_WCHAR \<equiv> - 8"
abbreviation (input) SQL_C_GUID :: int where "SQL_C_GUID \<equiv> - 11"
abbreviation (input) SQL_C_SSHORT :: int where "SQL_C_SSHORT \<equiv> - 15"
abbreviation (input) SQL_C_SLONG :: int where "SQL_C_SLONG \<equiv> - 16"
abbreviation (input) SQL_C_USHORT :: int where "SQL_C_USHORT \<equiv> - 17"
abbreviation (input) SQL_C_ULONG :: int where "SQL_C_ULONG \<equiv> - 18"
abbreviation (input) SQL_C_SBIGINT :: int where "SQL_C_SBIGINT \<equiv> - 25"
abbreviation (input) SQL_C_STINYINT :: int where "SQL_C_STINYINT \<equiv> - 26"
abbreviation (input) SQL_C_UBIGINT :: int where "SQL_C_UBIGINT \<equiv> - 27"
abbreviation (input) SQL_C_UTINYINT :: int where "SQL_C_UTINYINT \<equiv> - 28"
abbreviation (input) SQL_C_INTERVAL_YEAR :: int where "SQL_C_INTERVAL_YEAR \<equiv> 101"
abbreviation (input) SQL_C_INTERVAL_MONTH :: int where "SQL_C_INTERVAL_MONTH \<equiv> 102"
abbreviation (input) SQL_C_INTERVAL_DAY :: int where "SQL_C_INTERVAL_DAY \<equiv> 103"
abbreviation (input) SQL_C_INTERVAL_HOUR :: int where "SQL_C_INTERVAL_HOUR \<equiv> 104"
abbreviation (input) SQL_C_INTERVAL_MINUTE :: int where "SQL_C_INTERVAL_MINUTE \<equiv> 105"
abbreviation (input) SQL_C_INTERVAL_SECOND :: int where "SQL_C_INTERVAL_SECOND \<equiv> 106"
abbreviation (input) SQL_C_INTERVAL_YEAR_TO_MONTH :: int where "SQL_C_INTERVAL_YEAR_TO_MONTH \<equiv> 107"
abbreviation (input) SQL_C_INTERVAL_DAY_TO_HOUR :: int where "SQL_C_INTERVAL_DAY_TO_HOUR \<equiv> 108"
abbreviation (input) SQL_C_INTERVAL_DAY_TO_MINUTE :: int where "SQL_C_INTERVAL_DAY_TO_MINUTE \<equiv> 109"
abbreviation (input) SQL_C_INTERVAL_DAY_TO_SECOND :: int where "SQL_C_INTERVAL_DAY_TO_SECOND \<equiv> 110"
abbreviation (input) SQL_C_INTERVAL_HOUR_TO_MINUTE :: int where "SQL_C_INTERVAL_HOUR_TO_MINUTE \<equiv> 111"
abbreviation (input) SQL_C_INTERVAL_HOUR_TO_SECOND :: int where "SQL_C_INTERVAL_HOUR_TO_SECOND \<equiv> 112"
abbreviation (input) SQL_C_INTERVAL_MINUTE_TO_SECOND :: int where "SQL_C_INTERVAL_MINUTE_TO_SECOND \<equiv> 113"

section \<open>Column types of the client library\<close>

abbreviation (input) MYSQL_TYPE_DECIMAL :: int where "MYSQL_TYPE_DECIMAL \<equiv> 0"
abbreviation (input) MYSQL_TYPE_TINY :: int where "MYSQL_TYPE_TINY \<equiv> 1"
abbreviation (input) MYSQL_TYPE_SHORT :: int where "MYSQL_TYPE_SHORT \<equiv> 2"
abbreviation (input) MYSQL_TYPE_LONG :: int where "MYSQL_TYPE_LONG \<equiv> 3"
abbreviation (input) MYSQL_TYPE_FLOAT :: int where "MYSQL_TYPE_FLOAT \<equiv> 4"
abbreviation (input) MYSQL_TYPE_DOUBLE :: int where "MYSQL_TYPE_DOUBLE \<equiv> 5"
abbreviation (input) MYSQL_TYPE_NULL :: int where "MYSQL_TYPE_NULL \<equiv> 6"
abbreviation (input) MYSQL_TYPE_TIMESTAMP :: int where "MYSQL_TYPE_TIMESTAMP \<equiv> 7"
abbreviation (input) MYSQL_TYPE_LONGLONG :: int where "MYSQL_TYPE_LONGLONG \<equiv> 8"
abbreviation (input) MYSQL_TYPE_INT24 :: int where "MYSQL_TYPE_INT24 \<equiv> 9"
abbreviation (input) MYSQL_TYPE_DATE :: int where "MYSQL_TYPE_DATE \<equiv> 10"
abbreviation (input) MYSQL_TYPE_TIME :: int where "MYSQL_TYPE_TIME \<equiv> 11"
abbreviation (input) MYSQL_TYPE_DATETIME :: int where "MYSQL_TYPE_DATETIME \<equiv> 12"
abbreviation (input) MYSQL_TYPE_YEAR :: int where "MYSQL_TYPE_YEAR \<equiv> 13"
abbreviation (input) MYSQL_TYPE_NEWDATE :: int where "MYSQL_TYPE_NEWDATE \<equiv> 14"
abbreviation (input) MYSQL_TYPE_VARCHAR :: int where "MYSQL_TYPE_VARCHAR \<equiv> 15"
abbreviation (input) MYSQL_TYPE_BIT :: int where "MYSQL_TYPE_BIT \<equiv> 16"
abbreviation (input) MYSQL_TYPE_JSON :: int where "MYSQL_TYPE_JSON \<equiv> 245"
abbreviation (input) MYSQL_TYPE_NEWDECIMAL :: int where "MYSQL_TYPE_NEWDECIMAL \<equiv> 246"
abbreviation (input) MYSQL_TYPE_ENUM :: int where "MYSQL_TYPE_ENUM \<equiv> 247"
abbreviation (input) MYSQL_TYPE_SET :: int where "MYSQL_TYPE_SET \<equiv> 248"
abbreviation (input) MYSQL_TYPE_TINY_BLOB :: int where "MYSQL_TYPE_TINY_BLOB \<equiv> 249"
abbreviation (input) MYSQL_TYPE_MEDIUM_BLOB :: int where "MYSQL_TYPE_MEDIUM_BLOB \<equiv> 250"
abbreviation (input) MYSQL_TYPE_LONG_BLOB :: int where "MYSQL_TYPE_LONG_BLOB \<equiv> 251"
abbreviation (input) MYSQL_TYPE_BLOB :: int where "MYSQL_TYPE_BLOB \<equiv> 252"
abbreviation (input) MYSQL_TYPE_VAR_STRING :: int where "MYSQL_TYPE_VAR_STRING \<equiv> 253"
abbreviation (input) MYSQL_TYPE_STRING :: int where "MYSQL_TYPE_STRING \<equiv> 254"
abbreviation (input) MYSQL_TYPE_GEOMETRY :: int where "MYSQL_TYPE_GEOMETRY \<equiv> 255"

section \<open>Indicators, lengths and flags\<close>

abbreviation (input) SQL_NULL_DATA :: int where "SQL_NULL_DATA \<equiv> - 1"
abbreviation (input) SQL_DATA_AT_EXEC :: int where "SQL_DATA_AT_EXEC \<equiv> - 2"
abbreviation (input) SQL_NO_TOTAL :: int where "SQL_NO_TOTAL \<equiv> - 4"
abbreviation (input) SQL_DEFAULT_PARAM :: int where "SQL_DEFAULT_PARAM \<equiv> - 5"
abbreviation (input) SQL_COLUMN_IGNORE :: int where "SQL_COLUMN_IGNORE \<equiv> - 6"
abbreviation (input) SQL_LEN_DATA_AT_EXEC_OFFSET :: int where "SQL_LEN_DATA_AT_EXEC_OFFSET \<equiv> - 100"
abbreviation (input) SQL_DATE_LEN :: int where "SQL_DATE_LEN \<equiv> 10"
abbreviation (input) SQL_TIME_LEN :: int where "SQL_TIME_LEN \<equiv> 8"
abbreviation (input) SQL_TIMESTAMP_LEN :: int where "SQL_TIMESTAMP_LEN \<equiv> 19"
abbreviation (input) S2_1_GB :: int where "S2_1_GB \<equiv> 1073741823"
abbreviation (input) BINARY_CHARSETNR :: int where "BINARY_CHARSETNR \<equiv> 63"
abbreviation (input) UNSIGNED_FLAG :: int where "UNSIGNED_FLAG \<equiv> 32"
abbreviation (input) NUM_FLAG :: int where "NUM_FLAG \<equiv> 32768"

end
