(* ===== verification/Odbc_Types.thy ===== *)
theory Odbc_Types
  imports Odbc_Consts
begin

text \<open>
  The type mapping functions of \<open>src/ma_helper.c\<close>: column metadata of the client library
  (\<open>MYSQL_FIELD\<close>) to SQL types, sizes and names, and C types of the application to buffer types.
  Every \<open>switch\<close> is a chain of membership tests in the order of its cases.
\<close>

unbundle bit_operations_syntax

section \<open>Column metadata\<close>

record MYSQL_FIELD =
  f_type :: int
  f_flags :: int
  f_charsetnr :: int
  f_length :: int
  f_decimals :: int

definition MADB_FIELD_IS_BINARY :: "MYSQL_FIELD \<Rightarrow> bool" where
  "MADB_FIELD_IS_BINARY f \<longleftrightarrow> f_charsetnr f = BINARY_CHARSETNR"

definition is_unsigned :: "MYSQL_FIELD \<Rightarrow> bool" where
  "is_unsigned f \<longleftrightarrow> f_flags f AND UNSIGNED_FLAG \<noteq> 0"

definition is_num :: "MYSQL_FIELD \<Rightarrow> bool" where
  "is_num f \<longleftrightarrow> f_flags f AND NUM_FLAG \<noteq> 0"

definition test :: "bool \<Rightarrow> int" where
  "test b = (if b then 1 else 0)"

definition MADB_FRACTIONAL_PART :: "int \<Rightarrow> int" where
  "MADB_FRACTIONAL_PART d = (if d > 0 then d + 1 else 0)"

section \<open>Names and types\<close>

definition MADB_GetWCharType :: "int \<Rightarrow> int" where
  "MADB_GetWCharType t =
     (if t = SQL_CHAR then SQL_WCHAR
      else if t = SQL_VARCHAR then SQL_WVARCHAR
      else if t = SQL_LONGVARCHAR then SQL_WLONGVARCHAR else t)"

definition MADB_CheckODBCType :: "int \<Rightarrow> bool" where
  "MADB_CheckODBCType t \<longleftrightarrow>
     t \<in> {SQL_C_CHAR, SQL_C_WCHAR, SQL_C_SSHORT, SQL_C_SHORT, SQL_C_USHORT, SQL_C_SLONG, SQL_C_LONG,
          SQL_C_ULONG, SQL_C_FLOAT, SQL_C_DOUBLE, SQL_C_BIT, SQL_C_STINYINT, SQL_C_TINYINT,
          SQL_C_UTINYINT, SQL_C_SBIGINT, SQL_C_UBIGINT, SQL_C_BINARY, SQL_C_TYPE_DATE,
          SQL_C_TYPE_TIME, SQL_C_TYPE_TIMESTAMP, SQL_C_NUMERIC, SQL_C_GUID, SQL_C_DEFAULT}"

definition MADB_GetTypeFromConciseType :: "int \<Rightarrow> int" where
  "MADB_GetTypeFromConciseType t =
     (if t \<in> {SQL_C_DATE, SQL_C_TIME, SQL_C_TIMESTAMP, SQL_TYPE_DATE, SQL_TYPE_TIME,
              SQL_TYPE_TIMESTAMP} then SQL_DATETIME
      else if t \<in> {SQL_C_INTERVAL_YEAR, SQL_C_INTERVAL_YEAR_TO_MONTH, SQL_C_INTERVAL_MONTH,
                   SQL_C_INTERVAL_DAY, SQL_C_INTERVAL_DAY_TO_HOUR, SQL_C_INTERVAL_DAY_TO_MINUTE,
                   SQL_C_INTERVAL_DAY_TO_SECOND, SQL_C_INTERVAL_HOUR, SQL_C_INTERVAL_HOUR_TO_MINUTE,
                   SQL_C_INTERVAL_HOUR_TO_SECOND, SQL_C_INTERVAL_MINUTE,
                   SQL_C_INTERVAL_MINUTE_TO_SECOND, SQL_C_INTERVAL_SECOND} then SQL_INTERVAL
      else t)"

definition MADB_GetTypeName :: "MYSQL_FIELD \<Rightarrow> string" where
  "MADB_GetTypeName f =
     (let t = f_type f; u = is_unsigned f; b = MADB_FIELD_IS_BINARY f in
      if t \<in> {MYSQL_TYPE_DECIMAL, MYSQL_TYPE_NEWDECIMAL} then ''decimal''
      else if t = MYSQL_TYPE_NULL then ''null''
      else if t = MYSQL_TYPE_TINY then
        (if is_num f then (if u then ''tinyint unsigned'' else ''tinyint'') else ''char'')
      else if t = MYSQL_TYPE_SHORT then (if u then ''smallint unsigned'' else ''smallint'')
      else if t = MYSQL_TYPE_LONG then (if u then ''int unsigned'' else ''int'')
      else if t = MYSQL_TYPE_FLOAT then ''float''
      else if t = MYSQL_TYPE_DOUBLE then ''double''
      else if t = MYSQL_TYPE_TIMESTAMP then ''timestamp''
      else if t = MYSQL_TYPE_LONGLONG then (if u then ''bigint unsigned'' else ''bigint'')
      else if t = MYSQL_TYPE_INT24 then (if u then ''mediumint unsigned'' else ''mediumint'')
      else if t = MYSQL_TYPE_DATE then ''date''
      else if t = MYSQL_TYPE_TIME then ''time''
      else if t = MYSQL_TYPE_DATETIME then ''datetime''
      else if t = MYSQL_TYPE_YEAR then ''year''
      else if t = MYSQL_TYPE_NEWDATE then ''date''
      else if t \<in> {MYSQL_TYPE_VARCHAR, MYSQL_TYPE_VAR_STRING} then
        (if b then ''varbinary'' else ''varchar'')
      else if t = MYSQL_TYPE_BIT then ''bit''
      else if t = MYSQL_TYPE_ENUM then ''enum''
      else if t = MYSQL_TYPE_SET then ''set''
      else if t = MYSQL_TYPE_TINY_BLOB then (if b then ''tinyblob'' else ''tinytext'')
      else if t = MYSQL_TYPE_MEDIUM_BLOB then (if b then ''mediumblob'' else ''mediumtext'')
      else if t = MYSQL_TYPE_LONG_BLOB then (if b then ''longblob'' else ''longtext'')
      else if t = MYSQL_TYPE_BLOB then (if b then ''blob'' else ''text'')
      else if t = MYSQL_TYPE_STRING then (if b then ''binary'' else ''char'')
      else if t = MYSQL_TYPE_GEOMETRY then ''geometry''
      else if t = MYSQL_TYPE_JSON then ''json''
      else '''')"

section \<open>Sizes\<close>

definition MADB_GetDecimalDigits :: "MYSQL_FIELD \<Rightarrow> int" where
  "MADB_GetDecimalDigits f =
     (let t = f_type f in
      if t \<in> {MYSQL_TYPE_DECIMAL, MYSQL_TYPE_NEWDECIMAL, MYSQL_TYPE_DATETIME, MYSQL_TYPE_TIMESTAMP,
              MYSQL_TYPE_TIME} then s16 (f_decimals f)
      else if t \<in> {MYSQL_TYPE_TINY, MYSQL_TYPE_SHORT, MYSQL_TYPE_LONG, MYSQL_TYPE_LONGLONG,
                   MYSQL_TYPE_INT24} then 0
      else SQL_NO_TOTAL)"

text \<open>Division of C, truncating towards zero.\<close>

definition cquot :: "int \<Rightarrow> int \<Rightarrow> int" where
  "cquot a b = (if 0 \<le> a then a div b else - ((- a) div b))"

definition MADB_GetDataSize :: "int \<Rightarrow> int \<Rightarrow> bool \<Rightarrow> int \<Rightarrow> int \<Rightarrow> int \<Rightarrow> int" where
  "MADB_GetDataSize SqlType OctetLength isSigned Precision Scale CharMaxLen =
     (if SqlType = SQL_BIT then 1
      else if SqlType = SQL_TINYINT then 3
      else if SqlType = SQL_SMALLINT then 5
      else if SqlType = SQL_INTEGER then 10
      else if SqlType = SQL_BIGINT then 20 - test isSigned
      else if SqlType = SQL_REAL then 7
      else if SqlType \<in> {SQL_DOUBLE, SQL_FLOAT} then 15
      else if SqlType \<in> {SQL_DECIMAL, SQL_NUMERIC} then Precision
      else if SqlType = SQL_TYPE_DATE then SQL_DATE_LEN
      else if SqlType = SQL_TYPE_TIME then SQL_TIME_LEN + MADB_FRACTIONAL_PART Scale
      else if SqlType = SQL_TYPE_TIMESTAMP then SQL_TIMESTAMP_LEN + MADB_FRACTIONAL_PART Scale
      else if SqlType \<in> {SQL_BINARY, SQL_VARBINARY, SQL_LONGVARBINARY, SQL_LONGVARCHAR,
                         SQL_WLONGVARCHAR} then min OctetLength S2_1_GB
      else if SqlType = SQL_GUID then 36
      else if CharMaxLen < 2 then min OctetLength S2_1_GB
      else min (cquot OctetLength CharMaxLen) S2_1_GB)"

text \<open>\<open>Precision\<close> of a decimal column, in \<open>size_t\<close> arithmetic.\<close>

definition decimal_precision :: "MYSQL_FIELD \<Rightarrow> int" where
  "decimal_precision f = u64 (f_length f - test (\<not> is_unsigned f) - test (f_decimals f \<noteq> 0))"

text \<open>\<open>charset\<close> is the \<open>char_maxlen\<close> of the connection's character set, if it is known.\<close>

definition MADB_GetDisplaySize :: "MYSQL_FIELD \<Rightarrow> int option \<Rightarrow> int" where
  "MADB_GetDisplaySize f charset =
     (let t = f_type f; u = test (is_unsigned f) in
      if t = MYSQL_TYPE_NULL then 1
      else if t = MYSQL_TYPE_BIT then 16
      else if t = MYSQL_TYPE_TINY then 4 - u
      else if t \<in> {MYSQL_TYPE_SHORT, MYSQL_TYPE_YEAR} then 6 - u
      else if t = MYSQL_TYPE_INT24 then 9 - u
      else if t = MYSQL_TYPE_LONG then 11 - u
      else if t = MYSQL_TYPE_LONGLONG then 20
      else if t = MYSQL_TYPE_DOUBLE then 15
      else if t = MYSQL_TYPE_FLOAT then 7
      else if t \<in> {MYSQL_TYPE_DECIMAL, MYSQL_TYPE_NEWDECIMAL} then
        u64 (f_length f + test (decimal_precision f = f_decimals f))
      else if t = MYSQL_TYPE_DATE then SQL_DATE_LEN
      else if t = MYSQL_TYPE_TIME then SQL_TIME_LEN + MADB_FRACTIONAL_PART (f_decimals f)
      else if t \<in> {MYSQL_TYPE_NEWDATE, MYSQL_TYPE_TIMESTAMP, MYSQL_TYPE_DATETIME} then
        SQL_TIMESTAMP_LEN + MADB_FRACTIONAL_PART (f_decimals f)
      else if t \<in> {MYSQL_TYPE_TINY_BLOB, MYSQL_TYPE_BLOB, MYSQL_TYPE_MEDIUM_BLOB,
                   MYSQL_TYPE_LONG_BLOB} then min (f_length f) S2_1_GB
      else if t \<in> {MYSQL_TYPE_VAR_STRING, MYSQL_TYPE_STRING} then
        (if MADB_FIELD_IS_BINARY f then min (f_length f) S2_1_GB * 2
         else (case charset of
                 None \<Rightarrow> min (f_length f) S2_1_GB
               | Some maxlen \<Rightarrow> if maxlen < 2 then min (f_length f) S2_1_GB
                               else min (f_length f div maxlen) S2_1_GB))
      else u64 SQL_NO_TOTAL)"

abbreviation (input) sizeof_DATE :: int where "sizeof_DATE \<equiv> 6"
abbreviation (input) sizeof_TIME :: int where "sizeof_TIME \<equiv> 6"
abbreviation (input) sizeof_TIMESTAMP :: int where "sizeof_TIMESTAMP \<equiv> 16"
abbreviation (input) sizeof_NUMERIC :: int where "sizeof_NUMERIC \<equiv> 19"
abbreviation (input) sizeof_INTERVAL :: int where "sizeof_INTERVAL \<equiv> 28"

definition MADB_GetOctetLength :: "MYSQL_FIELD \<Rightarrow> int" where
  "MADB_GetOctetLength f =
     (let t = f_type f; len = min S2_1_GB (f_length f) in
      if t = MYSQL_TYPE_NULL then 1
      else if t = MYSQL_TYPE_BIT then 8
      else if t = MYSQL_TYPE_TINY then 1
      else if t \<in> {MYSQL_TYPE_YEAR, MYSQL_TYPE_SHORT} then 2
      else if t \<in> {MYSQL_TYPE_INT24, MYSQL_TYPE_LONG} then 4
      else if t = MYSQL_TYPE_LONGLONG then 8
      else if t = MYSQL_TYPE_DOUBLE then 8
      else if t = MYSQL_TYPE_FLOAT then 4
      else if t \<in> {MYSQL_TYPE_DECIMAL, MYSQL_TYPE_NEWDECIMAL} then
        u64 (f_length f + test (decimal_precision f = f_decimals f))
      else if t = MYSQL_TYPE_DATE then sizeof_DATE
      else if t = MYSQL_TYPE_TIME then sizeof_TIME
      else if t \<in> {MYSQL_TYPE_NEWDATE, MYSQL_TYPE_TIMESTAMP, MYSQL_TYPE_DATETIME} then sizeof_TIMESTAMP
      else if t \<in> {MYSQL_TYPE_BLOB, MYSQL_TYPE_ENUM, MYSQL_TYPE_GEOMETRY, MYSQL_TYPE_LONG_BLOB,
                   MYSQL_TYPE_MEDIUM_BLOB, MYSQL_TYPE_TINY_BLOB} then len
      else if t \<in> {MYSQL_TYPE_SET, MYSQL_TYPE_STRING, MYSQL_TYPE_VARCHAR, MYSQL_TYPE_VAR_STRING} then len
      else u64 SQL_NO_TOTAL)"

section \<open>Default, wire and version 2 types\<close>

definition MADB_GetDefaultType :: "int \<Rightarrow> int" where
  "MADB_GetDefaultType t =
     (if t = SQL_BIGINT then SQL_C_SBIGINT
      else if t = SQL_BINARY then SQL_C_BINARY
      else if t = SQL_BIT then SQL_C_BIT
      else if t = SQL_CHAR then SQL_C_CHAR
      else if t \<in> {SQL_DATE, SQL_TYPE_DATE} then SQL_C_DATE
      else if t = SQL_DECIMAL then SQL_C_CHAR
      else if t = SQL_DOUBLE then SQL_C_DOUBLE
      else if t = SQL_FLOAT then SQL_C_FLOAT
      else if t = SQL_INTEGER then SQL_C_LONG
      else if t = SQL_LONGVARBINARY then SQL_C_BINARY
      else if t = SQL_LONGVARCHAR then SQL_C_CHAR
      else if t = SQL_NUMERIC then SQL_C_CHAR
      else if t = SQL_REAL then SQL_C_FLOAT
      else if t = SQL_SMALLINT then SQL_C_SHORT
      else if t \<in> {SQL_TIME, SQL_TYPE_TIME} then SQL_C_TIME
      else if t \<in> {SQL_TIMESTAMP, SQL_TYPE_TIMESTAMP} then SQL_C_TIMESTAMP
      else if t = SQL_TINYINT then SQL_C_TINYINT
      else if t = SQL_VARBINARY then SQL_C_BINARY
      else if t = SQL_VARCHAR then SQL_C_CHAR
      else if t \<in> {SQL_WCHAR, SQL_WVARCHAR, SQL_WLONGVARCHAR} then SQL_WCHAR
      else SQL_C_CHAR)"

definition MapMariadDbToOdbcType :: "MYSQL_FIELD \<Rightarrow> int" where
  "MapMariadDbToOdbcType f =
     (let t = f_type f; b = MADB_FIELD_IS_BINARY f in
      if t = MYSQL_TYPE_BIT then SQL_BINARY
      else if t = MYSQL_TYPE_NULL then SQL_VARCHAR
      else if t = MYSQL_TYPE_TINY then (if is_num f then SQL_TINYINT else SQL_CHAR)
      else if t \<in> {MYSQL_TYPE_YEAR, MYSQL_TYPE_SHORT} then SQL_SMALLINT
      else if t \<in> {MYSQL_TYPE_INT24, MYSQL_TYPE_LONG} then SQL_INTEGER
      else if t = MYSQL_TYPE_FLOAT then SQL_REAL
      else if t = MYSQL_TYPE_DOUBLE then SQL_DOUBLE
      else if t \<in> {MYSQL_TYPE_TIMESTAMP, MYSQL_TYPE_DATETIME} then SQL_TYPE_TIMESTAMP
      else if t \<in> {MYSQL_TYPE_NEWDATE, MYSQL_TYPE_DATE} then SQL_TYPE_DATE
      else if t = MYSQL_TYPE_TIME then SQL_TYPE_TIME
      else if t \<in> {MYSQL_TYPE_TINY_BLOB, MYSQL_TYPE_BLOB, MYSQL_TYPE_MEDIUM_BLOB,
                   MYSQL_TYPE_LONG_BLOB} then (if b then SQL_LONGVARBINARY else SQL_LONGVARCHAR)
      else if t = MYSQL_TYPE_LONGLONG then SQL_BIGINT
      else if t = MYSQL_TYPE_STRING then (if b then SQL_BINARY else SQL_CHAR)
      else if t = MYSQL_TYPE_VAR_STRING then (if b then SQL_VARBINARY else SQL_VARCHAR)
      else if t \<in> {MYSQL_TYPE_SET, MYSQL_TYPE_ENUM} then SQL_CHAR
      else if t = MYSQL_TYPE_GEOMETRY then SQL_LONGVARBINARY
      else if t = MYSQL_TYPE_JSON then SQL_LONGVARCHAR
      else if t \<in> {MYSQL_TYPE_DECIMAL, MYSQL_TYPE_NEWDECIMAL} then SQL_DECIMAL
      else SQL_UNKNOWN_TYPE)"

definition MapToV2Type :: "int \<Rightarrow> int" where
  "MapToV2Type t =
     (if t = SQL_TYPE_TIMESTAMP then SQL_TIMESTAMP
      else if t = SQL_TYPE_DATE then SQL_DATE
      else if t = SQL_TYPE_TIME then SQL_TIME else t)"

definition MADB_GetTypeLength :: "int \<Rightarrow> int \<Rightarrow> int" where
  "MADB_GetTypeLength t len =
     (if t \<in> {SQL_C_BIT, SQL_C_TINYINT, SQL_C_STINYINT, SQL_C_UTINYINT} then 1
      else if t \<in> {SQL_C_SHORT, SQL_C_SSHORT, SQL_C_USHORT} then 2
      else if t \<in> {SQL_C_LONG, SQL_C_SLONG, SQL_C_ULONG} then 4
      else if t \<in> {SQL_C_UBIGINT, SQL_C_SBIGINT} then 8
      else if t = SQL_C_DOUBLE then 8
      else if t = SQL_C_FLOAT then 8
      else if t = SQL_C_NUMERIC then sizeof_NUMERIC
      else if t \<in> {SQL_C_TYPE_TIME, SQL_C_TIME} then sizeof_TIME
      else if t \<in> {SQL_C_TYPE_DATE, SQL_C_DATE} then sizeof_DATE
      else if t \<in> {SQL_C_TYPE_TIMESTAMP, SQL_C_TIMESTAMP} then sizeof_TIMESTAMP
      else len)"

text \<open>
  \<open>MADB_GetMaDBTypeAndLength\<close>: the buffer type, whether it is unsigned, and the length, which some
  types leave as it is.
\<close>

definition MADB_GetMaDBTypeAndLength :: "int \<Rightarrow> int \<Rightarrow> int \<times> bool \<times> int" where
  "MADB_GetMaDBTypeAndLength t len =
     (if t \<in> {SQL_C_BIT, SQL_C_TINYINT, SQL_C_STINYINT, SQL_C_UTINYINT}
        then (MYSQL_TYPE_TINY, t = SQL_C_UTINYINT, 1)
      else if t \<in> {SQL_C_SHORT, SQL_C_SSHORT, SQL_C_USHORT}
        then (MYSQL_TYPE_SHORT, t = SQL_C_USHORT, 2)
      else if t \<in> {SQL_C_LONG, SQL_C_SLONG, SQL_C_ULONG}
        then (MYSQL_TYPE_LONG, t = SQL_C_ULONG, 4)
      else if t = SQL_BIGINT then (MYSQL_TYPE_LONGLONG, False, 8)
      else if t \<in> {SQL_C_UBIGINT, SQL_C_SBIGINT}
        then (MYSQL_TYPE_LONGLONG, t = SQL_C_UBIGINT, 8)
      else if t = SQL_C_DOUBLE then (MYSQL_TYPE_DOUBLE, False, 8)
      else if t = SQL_C_FLOAT then (MYSQL_TYPE_FLOAT, False, 8)
      else if t = SQL_C_NUMERIC then (MYSQL_TYPE_DECIMAL, False, len)
      else if t \<in> {SQL_C_TYPE_TIME, SQL_C_TIME} then (MYSQL_TYPE_TIME, False, sizeof_TIME)
      else if t \<in> {SQL_C_TYPE_DATE, SQL_C_DATE} then (MYSQL_TYPE_DATE, False, sizeof_DATE)
      else if t \<in> {SQL_C_TYPE_TIMESTAMP, SQL_C_TIMESTAMP}
        then (MYSQL_TYPE_TIMESTAMP, False, sizeof_TIMESTAMP)
      else if t \<in> {SQL_C_INTERVAL_HOUR_TO_MINUTE, SQL_C_INTERVAL_HOUR_TO_SECOND}
        then (MYSQL_TYPE_TIME, False, sizeof_INTERVAL)
      else if t = SQL_C_CHAR then (MYSQL_TYPE_STRING, False, len)
      else (MYSQL_TYPE_BLOB, False, len))"

definition MADB_IsIntType :: "int \<Rightarrow> bool" where
  "MADB_IsIntType t \<longleftrightarrow>
     t \<in> {SQL_C_TINYINT, SQL_C_STINYINT, SQL_C_UTINYINT, SQL_C_SHORT, SQL_C_SSHORT, SQL_C_USHORT,
          SQL_C_LONG, SQL_C_SLONG, SQL_C_ULONG, SQL_C_UBIGINT, SQL_C_SBIGINT, SQL_BIGINT}"

definition MADB_IsNumericType :: "int \<Rightarrow> bool" where
  "MADB_IsNumericType t \<longleftrightarrow> t \<in> {SQL_C_DOUBLE, SQL_C_FLOAT, SQL_DECIMAL} \<or> MADB_IsIntType t"

definition MADB_CheckPtrLength :: "int \<Rightarrow> string option \<Rightarrow> int \<Rightarrow> bool" where
  "MADB_CheckPtrLength MaxLength ptr NameLen =
     (case ptr of
        None \<Rightarrow> True
      | Some s \<Rightarrow> \<not> ((NameLen = - 3 \<and> int (length s) > u64 MaxLength) \<or> NameLen > MaxLength))"

section \<open>Properties\<close>

text \<open>
  The sizes of the fixed-size C data types of ODBC, on a platform with 32-bit \<open>SQLINTEGER\<close> and the usual
  structure layout.  \<open>SQL_C_FLOAT\<close> is a \<open>SQLREAL\<close>, a single precision float.
\<close>

definition c_type_size :: "int \<Rightarrow> int option" where
  "c_type_size t =
     (if t \<in> {SQL_C_BIT, SQL_C_TINYINT, SQL_C_STINYINT, SQL_C_UTINYINT} then Some 1
      else if t \<in> {SQL_C_SHORT, SQL_C_SSHORT, SQL_C_USHORT} then Some 2
      else if t \<in> {SQL_C_LONG, SQL_C_SLONG, SQL_C_ULONG, SQL_C_FLOAT} then Some 4
      else if t \<in> {SQL_C_UBIGINT, SQL_C_SBIGINT, SQL_C_DOUBLE} then Some 8
      else if t = SQL_C_NUMERIC then Some 19
      else if t \<in> {SQL_C_TYPE_TIME, SQL_C_TIME, SQL_C_TYPE_DATE, SQL_C_DATE} then Some 6
      else if t \<in> {SQL_C_TYPE_TIMESTAMP, SQL_C_TIMESTAMP} then Some 16
      else None)"

lemmas type_defs = MADB_GetTypeLength_def MADB_GetMaDBTypeAndLength_def c_type_size_def
  MADB_CheckODBCType_def MADB_GetDefaultType_def MADB_IsIntType_def MADB_IsNumericType_def
  MapMariadDbToOdbcType_def MapToV2Type_def MADB_GetTypeFromConciseType_def

text \<open>
  The two functions that give the size of a C data type, the one the descriptors use and the one
  the parameter and column bindings use, agree on every fixed-size type, and give its size; the only
  exception is \<open>SQL_C_FLOAT\<close>, to which both give twice its size.
\<close>

theorem fixed_type_lengths_agree:
  assumes "c_type_size t = Some n"
  shows "MADB_GetTypeLength t len = (if t = SQL_C_FLOAT then 2 * n else n)
     \<and> (t = SQL_C_NUMERIC \<or> snd (snd (MADB_GetMaDBTypeAndLength t len)) = MADB_GetTypeLength t len)
     \<and> (fst (snd (MADB_GetMaDBTypeAndLength t len)) \<longrightarrow> MADB_IsIntType t)"
  using assms by (auto simp: type_defs split: if_splits)

theorem fixed_type_lengths_agree_witness:
  "MADB_GetTypeLength SQL_C_FLOAT 0 = 8 \<and> MADB_GetTypeLength SQL_C_SBIGINT 0 = 8
   \<and> MADB_GetTypeLength SQL_C_TYPE_DATE 0 = 6"
proof -
  have "c_type_size SQL_C_FLOAT = Some 4" "c_type_size SQL_C_SBIGINT = Some 8"
    "c_type_size SQL_C_TYPE_DATE = Some 6" by (simp_all add: c_type_size_def)
  from this [THEN fixed_type_lengths_agree, of 0] show ?thesis by simp
qed

text \<open>
  The C type that \<open>SQL_C_DEFAULT\<close> stands for is one the driver accepts when it is given explicitly,
  except for dates, times and timestamps: for these \<open>MADB_GetDefaultType\<close> returns the ODBC 2 code, which
  \<open>MADB_CheckODBCType\<close> rejects.
\<close>

theorem default_types_accepted:
  "MADB_CheckODBCType (MADB_GetDefaultType t) \<longleftrightarrow>
     t \<notin> {SQL_DATE, SQL_TYPE_DATE, SQL_TIME, SQL_TYPE_TIME, SQL_TIMESTAMP, SQL_TYPE_TIMESTAMP}"
  by (auto simp: type_defs)

text \<open>
  The SQL type a column is mapped to and the sizes reported for it fit together: the octet length of
  a column of a known type other than a decimal is at most 1 GB, and so is the column size computed from
  it for the mapped type, whatever the character width.
\<close>

theorem column_sizes_bounded:
  assumes "0 \<le> f_length f" "MapMariadDbToOdbcType f \<notin> {SQL_UNKNOWN_TYPE, SQL_DECIMAL}"
    "f_type f \<noteq> MYSQL_TYPE_JSON" "0 \<le> f_decimals f" "f_decimals f \<le> 38"
  shows "MADB_GetOctetLength f \<in> {0..S2_1_GB}
     \<and> MADB_GetDataSize (MapMariadDbToOdbcType f) (MADB_GetOctetLength f) s p (f_decimals f) c \<in> {0..S2_1_GB}"
proof -
  have oct: "MADB_GetOctetLength f \<in> {0..S2_1_GB}"
    using assms by (auto simp: MADB_GetOctetLength_def MapMariadDbToOdbcType_def Let_def split: if_splits)
  have q: "0 \<le> cquot a c \<and> cquot a c \<le> a" if "0 \<le> a" "2 \<le> c" for a c :: int
  proof -
    have "a div c \<le> a"
      using that zdiv_mono2 [of a 1 c] by simp
    then show ?thesis using that by (simp add: cquot_def pos_imp_zdiv_nonneg_iff)
  qed
  have "MADB_GetDataSize t l s p d c \<in> {0..S2_1_GB}"
    if "t \<notin> {SQL_DECIMAL, SQL_NUMERIC}" "0 \<le> l" "l \<le> S2_1_GB" "0 \<le> d" "d \<le> 38" for t l d
    using that q [of l c]
    by (auto simp: MADB_GetDataSize_def MADB_FRACTIONAL_PART_def test_def split: if_splits)
  moreover have "MapMariadDbToOdbcType f \<notin> {SQL_DECIMAL, SQL_NUMERIC}"
    using assms(2) by (auto simp: MapMariadDbToOdbcType_def Let_def split: if_splits)
  ultimately show ?thesis using oct assms(4,5) by auto
qed

definition text_column :: MYSQL_FIELD where
  "text_column = \<lparr>f_type = MYSQL_TYPE_LONG_BLOB, f_flags = 0, f_charsetnr = 33,
                  f_length = 4294967295, f_decimals = 0\<rparr>"

theorem column_sizes_bounded_witness:
  "MapMariadDbToOdbcType text_column = SQL_LONGVARCHAR \<and> MADB_GetOctetLength text_column = S2_1_GB \<and>
   MADB_GetDataSize SQL_LONGVARCHAR (MADB_GetOctetLength text_column) True 0 0 3 \<in> {0..S2_1_GB}"
proof -
  have m: "MapMariadDbToOdbcType text_column = SQL_LONGVARCHAR"
    by (simp add: text_column_def MapMariadDbToOdbcType_def MADB_FIELD_IS_BINARY_def)
  moreover have "MADB_GetOctetLength text_column = S2_1_GB"
    by (simp add: text_column_def MADB_GetOctetLength_def)
  moreover have "MADB_GetDataSize (MapMariadDbToOdbcType text_column) (MADB_GetOctetLength text_column)
      True 0 (f_decimals text_column) 3 \<in> {0..S2_1_GB}"
    by (rule conjunct2 [OF column_sizes_bounded]) (simp_all add: m, simp_all add: text_column_def)
  ultimately show ?thesis by (simp add: text_column_def)
qed

end
