(* ===== verification/C_Numbers.thy ===== *)
theory C_Numbers
  imports Odbc_Prelude
begin

text \<open>
  Decimal numbers as the C library prints and reads them: \<open>sprintf\<close> with \<open>%llu\<close> and \<open>%lld\<close>,
  \<open>sscanf\<close> conversions, \<open>strtoll\<close> and \<open>strtoull\<close>, and the lemmas that reading inverts printing.
\<close>

section \<open>Printing\<close>

definition digit_char :: "nat \<Rightarrow> char" where
  "digit_char k = char_of (48 + k)"

fun dec_of_nat :: "nat \<Rightarrow> string" where
  "dec_of_nat n = (if n < 10 then [digit_char n]
                   else dec_of_nat (n div 10) @ [digit_char (n mod 10)])"

declare dec_of_nat.simps [simp del]

definition dec_of_int :: "int \<Rightarrow> string" where
  "dec_of_int i = (if i < 0 then CHR ''-'' # dec_of_nat (nat (- i)) else dec_of_nat (nat i))"

section \<open>Reading\<close>

definition digit_value :: "char \<Rightarrow> nat" where
  "digit_value c = ord c - 48"

definition digits_val :: "string \<Rightarrow> nat" where
  "digits_val ds = foldl (\<lambda>a c. 10 * a + digit_value c) 0 ds"

text \<open>An optional sign.\<close>

definition take_sign :: "string \<Rightarrow> bool \<times> string" where
  "take_sign s = (case s of
      [] \<Rightarrow> (False, [])
    | c # cs \<Rightarrow> if c = CHR ''-'' then (True, cs) else if c = CHR ''+'' then (False, cs) else (False, s))"

text \<open>
  One numeric conversion of \<open>sscanf\<close> with at most \<open>w\<close> characters (\<^const>\<open>None\<close>: no limit): white space
  is skipped, then a sign and digits are read.  \<^const>\<open>None\<close> when there is no digit.
\<close>

definition scan_number :: "nat option \<Rightarrow> string \<Rightarrow> (int \<times> string) option" where
  "scan_number w s =
    (let t = dropWhile isspace s;
         field = (case w of None \<Rightarrow> t | Some k \<Rightarrow> take k t);
         (neg, u) = take_sign field;
         ds = takeWhile isdigit u;
         used = length field - length (dropWhile isdigit u)
     in if ds = [] then None
        else Some (if neg then - int (digits_val ds) else int (digits_val ds), drop used t))"

definition scan_char :: "char \<Rightarrow> string \<Rightarrow> string option" where
  "scan_char c s = (case s of [] \<Rightarrow> None | x # xs \<Rightarrow> if x = c then Some xs else None)"

text \<open>
  \<open>strtoll\<close> and \<open>strtoull\<close> in base ten: the value, clamped to the range of the type, and how many
  characters were used (none if there is no digit).  \<open>strtoull\<close> negates in the unsigned type.
\<close>

definition strto_scan :: "string \<Rightarrow> (bool \<times> nat \<times> nat) option" where
  "strto_scan s =
    (let t = dropWhile isspace s; (neg, u) = take_sign t; ds = takeWhile isdigit u
     in if ds = [] then None
        else Some (neg, digits_val ds, length s - length (dropWhile isdigit u)))"

definition strtoll :: "string \<Rightarrow> int \<times> nat" where
  "strtoll s = (case strto_scan s of
      None \<Rightarrow> (0, 0)
    | Some (neg, v, n) \<Rightarrow>
        (if neg then max (- (2 ^ 63)) (- int v) else min (2 ^ 63 - 1) (int v), n))"

definition strtoull :: "string \<Rightarrow> int \<times> nat" where
  "strtoull s = (case strto_scan s of
      None \<Rightarrow> (0, 0)
    | Some (neg, v, n) \<Rightarrow>
        (if v \<ge> 2 ^ 64 then 2 ^ 64 - 1 else if neg then u64 (- int v) else int v, n))"

section \<open>Reading inverts printing\<close>

lemma ord_digit_char [simp]: "k < 10 \<Longrightarrow> ord (digit_char k) = 48 + k"
  by (simp add: digit_char_def)

lemma isdigit_digit_char [simp]: "k < 10 \<Longrightarrow> isdigit (digit_char k)"
  by (simp add: isdigit_def)

lemma digit_value_digit_char [simp]: "k < 10 \<Longrightarrow> digit_value (digit_char k) = k"
  by (simp add: digit_value_def)

lemma dec_of_nat_ne [simp]: "dec_of_nat n \<noteq> []"
  by (subst dec_of_nat.simps) simp

lemma dec_of_nat_digits: "c \<in> set (dec_of_nat n) \<Longrightarrow> isdigit c"
proof (induction n rule: dec_of_nat.induct)
  case (1 n)
  then show ?case by (subst (asm) (2) dec_of_nat.simps) (auto split: if_splits)
qed

lemma digits_val_snoc: "digits_val (ds @ [c]) = 10 * digits_val ds + digit_value c"
  by (simp add: digits_val_def)

lemma digits_val_dec_of_nat [simp]: "digits_val (dec_of_nat n) = n"
proof (induction n rule: dec_of_nat.induct)
  case (1 n)
  show ?case
  proof (cases "n < 10")
    case True
    then show ?thesis by (subst dec_of_nat.simps) (simp add: digits_val_def)
  next
    case False
    then show ?thesis using 1 by (subst dec_of_nat.simps) (simp add: digits_val_snoc)
  qed
qed

lemma dec_of_nat_length: "n < 10 ^ k \<Longrightarrow> 0 < k \<Longrightarrow> length (dec_of_nat n) \<le> k"
proof (induction n arbitrary: k rule: dec_of_nat.induct)
  case (1 n)
  show ?case
  proof (cases "n < 10")
    case True
    then show ?thesis using 1 by (subst dec_of_nat.simps) simp
  next
    case False
    then obtain j where k: "k = Suc j" "0 < j"
      using 1(2,3) by (cases k; cases "k - 1") auto
    then have "n div 10 < 10 ^ j" using 1(2) by (simp add: less_mult_imp_div_less mult.commute)
    then have "length (dec_of_nat (n div 10)) \<le> j" using 1(1) False k(2) by simp
    then show ?thesis using False k by (subst dec_of_nat.simps) simp
  qed
qed

lemma isdigit_facts: "isdigit c \<Longrightarrow> \<not> isspace c" "isdigit c \<Longrightarrow> c \<noteq> CHR ''-''" "isdigit c \<Longrightarrow> c \<noteq> CHR ''+''"
    "isdigit c \<Longrightarrow> c \<noteq> NUL"
  by (auto simp: isdigit_def isspace_def)

lemma digits_prefix:
  assumes "ds \<noteq> []" "\<And>c. c \<in> set ds \<Longrightarrow> isdigit c" "rest = [] \<or> \<not> isdigit (hd rest)"
  shows "dropWhile isspace (ds @ rest) = ds @ rest" "take_sign (ds @ rest) = (False, ds @ rest)"
    "takeWhile isdigit (ds @ rest) = ds" "dropWhile isdigit (ds @ rest) = rest"
proof -
  obtain c cs where ds: "ds = c # cs" using assms(1) by (cases ds) auto
  have c: "isdigit c" using assms(2) ds by simp
  show "dropWhile isspace (ds @ rest) = ds @ rest" "take_sign (ds @ rest) = (False, ds @ rest)"
    using ds isdigit_facts [OF c] by (simp_all add: take_sign_def)
  show "takeWhile isdigit (ds @ rest) = ds" "dropWhile isdigit (ds @ rest) = rest"
    using assms(2,3) by (cases rest; simp add: takeWhile_append2 dropWhile_append2)+
qed

lemma dec_prefix:
  assumes "rest = [] \<or> \<not> isdigit (hd rest)"
  shows "dropWhile isspace (dec_of_nat n @ rest) = dec_of_nat n @ rest"
    "take_sign (dec_of_nat n @ rest) = (False, dec_of_nat n @ rest)"
    "takeWhile isdigit (dec_of_nat n @ rest) = dec_of_nat n"
    "dropWhile isdigit (dec_of_nat n @ rest) = rest"
  using digits_prefix [of "dec_of_nat n" rest] assms dec_of_nat_digits by auto

lemma dec_alone:
  "dropWhile isspace (dec_of_nat n) = dec_of_nat n" "take_sign (dec_of_nat n) = (False, dec_of_nat n)"
  "takeWhile isdigit (dec_of_nat n) = dec_of_nat n" "dropWhile isdigit (dec_of_nat n) = []"
  by (metis dec_prefix append_Nil2)+

lemma take_sign_Minus [simp]: "take_sign (CHR ''-'' # s) = (True, s)"
  by (simp add: take_sign_def)

lemma scan_number_dec:
  assumes "rest = [] \<or> \<not> isdigit (hd rest)"
  shows "scan_number None (dec_of_nat n @ rest) = Some (int n, rest)"
  using dec_prefix [OF assms, of n]
  by (simp add: scan_number_def)

lemma scan_number_space: "scan_number w (CHR '' '' # s) = scan_number w s"
  by (simp add: scan_number_def isspace_def)

lemma scan_number_digits:
  assumes "ds \<noteq> []" "\<And>c. c \<in> set ds \<Longrightarrow> isdigit c" "length ds \<le> k" "rest = [] \<or> \<not> isdigit (hd rest)"
  shows "scan_number (Some k) (ds @ rest) = Some (int (digits_val ds), rest)"
proof -
  have "take (k - length ds) rest = [] \<or> \<not> isdigit (hd (take (k - length ds) rest))"
    using assms(4) by (cases rest; cases "k - length ds") auto
  note p = digits_prefix [OF assms(1,2) this] digits_prefix [OF assms(1,2,4)]
  show ?thesis
    using assms(1,3) p by (simp add: scan_number_def)
qed

lemma strto_scan_dec:
  "strto_scan (dec_of_nat n) = Some (False, n, length (dec_of_nat n))"
  by (simp add: strto_scan_def dec_alone)

lemma strto_scan_neg_dec:
  "strto_scan (CHR ''-'' # dec_of_nat n) = Some (True, n, Suc (length (dec_of_nat n)))"
  by (simp add: strto_scan_def take_sign_Minus dropWhile.simps(2) isspace_def dec_alone)

lemma strtoll_dec_of_int:
  "- (2 ^ 63) \<le> i \<Longrightarrow> i < 2 ^ 63 \<Longrightarrow> strtoll (dec_of_int i) = (i, length (dec_of_int i))"
  by (auto simp: strtoll_def dec_of_int_def strto_scan_dec strto_scan_neg_dec)

lemma strtoull_dec_of_nat:
  "n < 2 ^ 64 \<Longrightarrow> strtoull (dec_of_nat n) = (int n, length (dec_of_nat n))"
  by (simp add: strtoull_def strto_scan_dec)

lemma is_cstring_dec [simp]: "is_cstring (dec_of_nat n)"
  using dec_of_nat_digits isdigit_facts(4) by (auto simp: is_cstring_def)

lemma is_cstring_dec_int [simp]: "is_cstring (dec_of_int i)"
  by (simp add: dec_of_int_def)

end
