(* ===== verification/Int_Conv.thy ===== *)
theory Int_Conv
  imports Odbc_Types C_Numbers
begin

text \<open>
  Integer conversions of \<open>src/ma_typeconv.c\<close>: the decimal text of an integer parameter, and the integer
  stored in a bound buffer for the text or the bytes of a result column.
\<close>

section \<open>Parameters to text\<close>

text \<open>
  \<open>MADB_ConvertIntegerToChar\<close>: \<open>v\<close> is the integer whose low-order bytes are at \<open>Src\<close>; the source type
  decides how many of them are read and whether they are signed.
\<close>

definition MADB_ConvertIntegerToChar :: "int \<Rightarrow> int \<Rightarrow> string" where
  "MADB_ConvertIntegerToChar SourceType v =
     (if SourceType = SQL_C_UBIGINT then dec_of_int (u64 v)
      else if SourceType = SQL_C_ULONG then dec_of_int (u32 v)
      else if SourceType = SQL_C_USHORT then dec_of_int (u16 v)
      else if SourceType = SQL_C_UTINYINT then dec_of_int (u8 v)
      else if SourceType \<in> {SQL_BIGINT, SQL_C_SBIGINT} then dec_of_int (s64 v)
      else if SourceType \<in> {SQL_C_SHORT, SQL_C_SSHORT} then dec_of_int (s16 v)
      else if SourceType = SQL_C_STINYINT then dec_of_int (s8 v)
      else if SourceType = SQL_C_TINYINT then dec_of_int (u8 v)
      else dec_of_int (s32 v))"

section \<open>Columns to integers\<close>

abbreviation (input) MYSQL_DATA_TRUNCATED :: int where "MYSQL_DATA_TRUNCATED \<equiv> 101"

record int_result =
  ir_rc :: int
  ir_error :: bool
  ir_value :: int
  ir_buffer_length :: nat

text \<open>
  \<open>MADB_ConvertCharToInteger\<close>: \<open>Src\<close> is the NUL terminated text of the field and \<open>fieldLen\<close> its length.
  \<^const>\<open>None\<close> is the failed assertion for other buffer types.
\<close>

definition MADB_ConvertCharToInteger :: "int \<Rightarrow> bool \<Rightarrow> string \<Rightarrow> nat \<Rightarrow> int_result option" where
  "MADB_ConvertCharToInteger buffer_type is_uns Src fieldLen =
    (let (raw, used) = (if is_uns then strtoull Src else strtoll Src);
         val = s64 raw;
         short = used < fieldLen;
         store = (\<lambda>lo hi ulim ucast scast len.
           let bad = short \<or> (if is_uns then val < 0 \<or> val > ulim else val < lo \<or> val > hi)
           in Some \<lparr>ir_rc = (if bad then MYSQL_DATA_TRUNCATED else 0), ir_error = bad,
                    ir_value = (if is_uns then ucast val else scast val), ir_buffer_length = len\<rparr>)
     in if buffer_type = MYSQL_TYPE_TINY then store (- 128) 127 255 u8 s8 1
        else if buffer_type \<in> {MYSQL_TYPE_SHORT, MYSQL_TYPE_YEAR} then
          store (- 32768) 32767 65535 u16 s16 2
        else if buffer_type \<in> {MYSQL_TYPE_LONG, MYSQL_TYPE_INT24} then
          store (- 2147483648) 2147483647 4294967295 u32 s32 4
        else if buffer_type = MYSQL_TYPE_LONGLONG then
          Some \<lparr>ir_rc = (if short then MYSQL_DATA_TRUNCATED else 0), ir_error = short,
                ir_value = (if is_uns then u64 val else val), ir_buffer_length = 8\<rparr>
        else None)"

text \<open>
  \<open>MADB_ConvertBinaryToInteger\<close>: the bytes of the field from \<open>offset\<close> on are copied to the buffer, at
  most \<open>buffer_length\<close> of them.  The result has the return code, the error flag and the buffer;
  \<^const>\<open>None\<close> if the buffer is smaller than \<open>buffer_length\<close> says and the copy leaves it.
\<close>

definition MADB_ConvertBinaryToInteger ::
  "buffer \<Rightarrow> nat \<Rightarrow> nat \<Rightarrow> buffer \<Rightarrow> (int \<times> bool \<times> buffer) option" where
  "MADB_ConvertBinaryToInteger buf buffer_length offset Src =
    (let rest = drop offset Src;
         cut = length rest > buffer_length;
         copied = (if cut then take buffer_length rest else rest)
     in if length Src \<ge> offset \<and> rest \<noteq> [] then
          (case mem_write buf 0 copied of
             None \<Rightarrow> None
           | Some b \<Rightarrow> Some (if cut then MYSQL_DATA_TRUNCATED else 0, cut, b))
        else Some (0, False, buf))"

text \<open>The little-endian value of a buffer.\<close>

fun le_value :: "buffer \<Rightarrow> nat" where
  "le_value [] = 0"
| "le_value (c # cs) = ord c + 256 * le_value cs"

section \<open>Ranges of the C integer types\<close>

definition c_int_range :: "int \<Rightarrow> (int \<times> int) option" where
  "c_int_range t =
     (if t \<in> {SQL_C_TINYINT, SQL_C_STINYINT} then Some (- 128, 127)
      else if t = SQL_C_UTINYINT then Some (0, 255)
      else if t \<in> {SQL_C_SHORT, SQL_C_SSHORT} then Some (- 32768, 32767)
      else if t = SQL_C_USHORT then Some (0, 65535)
      else if t \<in> {SQL_C_LONG, SQL_C_SLONG} then Some (- 2147483648, 2147483647)
      else if t = SQL_C_ULONG then Some (0, 4294967295)
      else if t \<in> {SQL_BIGINT, SQL_C_SBIGINT} then Some (- (2 ^ 63), 2 ^ 63 - 1)
      else if t = SQL_C_UBIGINT then Some (0, 2 ^ 64 - 1)
      else None)"

lemma strtoull_dec_of_int:
  "0 \<le> i \<Longrightarrow> i < 2 ^ 64 \<Longrightarrow> strtoull (dec_of_int i) = (i, length (dec_of_int i))"
  using strtoull_dec_of_nat [of "nat i"] by (simp add: dec_of_int_def)

lemmas int_conv_defs = MADB_ConvertIntegerToChar_def MADB_ConvertCharToInteger_def
  MADB_GetMaDBTypeAndLength_def c_int_range_def

text \<open>The text is the decimal form of the value for every type, \<open>SQL_C_TINYINT\<close> apart.\<close>

lemma IntegerToChar_in_range:
  assumes "c_int_range t = Some (lo, hi)" "lo \<le> v" "v \<le> hi" "t = SQL_C_TINYINT \<Longrightarrow> 0 \<le> v"
  shows "MADB_ConvertIntegerToChar t v = dec_of_int v"
  using assms by (auto simp: int_conv_defs cast_simps split: if_splits)

lemma CharToInteger_signed:
  assumes "bt \<in> {MYSQL_TYPE_TINY, MYSQL_TYPE_SHORT, MYSQL_TYPE_LONG, MYSQL_TYPE_LONGLONG}"
    "- (2 ^ 63) \<le> v" "v < 2 ^ 63"
    "bt = MYSQL_TYPE_TINY \<Longrightarrow> - 128 \<le> v \<and> v \<le> 127"
    "bt = MYSQL_TYPE_SHORT \<Longrightarrow> - 32768 \<le> v \<and> v \<le> 32767"
    "bt = MYSQL_TYPE_LONG \<Longrightarrow> - 2147483648 \<le> v \<and> v \<le> 2147483647"
  shows "\<exists>n. MADB_ConvertCharToInteger bt False (dec_of_int v) (length (dec_of_int v))
     = Some \<lparr>ir_rc = 0, ir_error = False, ir_value = v, ir_buffer_length = n\<rparr>"
  using assms
  by (auto simp: MADB_ConvertCharToInteger_def strtoll_dec_of_int cast_simps Let_def)

lemma CharToInteger_unsigned:
  assumes "bt \<in> {MYSQL_TYPE_TINY, MYSQL_TYPE_SHORT, MYSQL_TYPE_LONG, MYSQL_TYPE_LONGLONG}"
    "0 \<le> v" "v < 2 ^ 64"
    "bt = MYSQL_TYPE_TINY \<Longrightarrow> v \<le> 255" "bt = MYSQL_TYPE_SHORT \<Longrightarrow> v \<le> 65535"
    "bt = MYSQL_TYPE_LONG \<Longrightarrow> v \<le> 4294967295"
  shows "\<exists>n. MADB_ConvertCharToInteger bt True (dec_of_int v) (length (dec_of_int v))
     = Some \<lparr>ir_rc = 0, ir_error = False, ir_value = v, ir_buffer_length = n\<rparr>"
  using assms
  by (auto simp: MADB_ConvertCharToInteger_def strtoull_dec_of_int cast_simps Let_def)

section \<open>Properties\<close>



text \<open>
  A negative \<open>SQL_C_TINYINT\<close> parameter is sent as the text of a different number, 256 too large,
  although the type is bound as a signed one: the value does not survive.
\<close>

theorem negative_tinyint_changed:
  assumes "- 128 \<le> v" "v < 0"
  shows "MADB_ConvertIntegerToChar SQL_C_TINYINT v = dec_of_int (v + 256)
     \<and> MADB_GetMaDBTypeAndLength SQL_C_TINYINT 0 = (MYSQL_TYPE_TINY, False, 1)
     \<and> MADB_ConvertIntegerToChar SQL_C_STINYINT v = dec_of_int v"
proof -
  have "v mod 256 = (v + 256) mod 256" by simp
  also have "\<dots> = v + 256" using assms by (intro mod_pos_pos_trivial) simp_all
  finally have "u8 v = v + 256" by (simp add: u8_def)
  then show ?thesis
    using assms by (simp add: MADB_ConvertIntegerToChar_def MADB_GetMaDBTypeAndLength_def cast_simps)
qed

theorem negative_tinyint_changed_witness:
  "MADB_ConvertIntegerToChar SQL_C_TINYINT (- 5) = ''251''"
proof -
  have "dec_of_int (- 5 + 256) = ''251''"
    by code_simp
  then show ?thesis using negative_tinyint_changed [of "- 5"] by simp
qed

end
