(* ===== verification/Time_Conv.thy ===== *)
theory Time_Conv
  imports Odbc_Error Int_Conv
begin

text \<open>
  Date and time conversions of \<open>src/ma_typeconv.c\<close> and \<open>src/ma_helper.c\<close>: the text form sent to the
  server, parsing the text the server returns, and the copies between the structures of ODBC and of the
  client library.  A function that reports through \<open>MADB_SetError\<close> takes the error of its handle and
  returns it with the return code.
\<close>

section \<open>Structures\<close>

record SQL_DATE_STRUCT =
  d_year :: int
  d_month :: int
  d_day :: int

record SQL_TIME_STRUCT =
  t_hour :: int
  t_minute :: int
  t_second :: int

record SQL_TIMESTAMP_STRUCT =
  ts_year :: int
  ts_month :: int
  ts_day :: int
  ts_hour :: int
  ts_minute :: int
  ts_second :: int
  ts_fraction :: int

record MYSQL_TIME =
  tm_year :: int
  tm_month :: int
  tm_day :: int
  tm_hour :: int
  tm_minute :: int
  tm_second :: int
  tm_second_part :: int
  tm_neg :: bool
  tm_time_type :: int

abbreviation (input) MYSQL_TIMESTAMP_DATE :: int where "MYSQL_TIMESTAMP_DATE \<equiv> 0"
abbreviation (input) MYSQL_TIMESTAMP_DATETIME :: int where "MYSQL_TIMESTAMP_DATETIME \<equiv> 1"
abbreviation (input) MYSQL_TIMESTAMP_TIME :: int where "MYSQL_TIMESTAMP_TIME \<equiv> 2"

definition zero_time :: MYSQL_TIME where
  "zero_time = \<lparr>tm_year = 0, tm_month = 0, tm_day = 0, tm_hour = 0, tm_minute = 0, tm_second = 0,
     tm_second_part = 0, tm_neg = False, tm_time_type = 0\<rparr>"

definition VALID_TIME :: "int \<Rightarrow> int \<Rightarrow> int \<Rightarrow> bool" where
  "VALID_TIME hour minute second \<longleftrightarrow> hour < 24 \<and> minute < 60 \<and> second < 60"

definition MADB_CopyOdbcTsToMadbTime :: "SQL_TIMESTAMP_STRUCT \<Rightarrow> MYSQL_TIME \<Rightarrow> MYSQL_TIME" where
  "MADB_CopyOdbcTsToMadbTime src dst =
     dst\<lparr>tm_year := u32 (ts_year src), tm_month := ts_month src, tm_day := ts_day src,
         tm_hour := ts_hour src, tm_minute := ts_minute src, tm_second := ts_second src,
         tm_second_part := ts_fraction src div 1000\<rparr>"

definition MADB_CopyMadbTimeToOdbcTs :: "MYSQL_TIME \<Rightarrow> SQL_TIMESTAMP_STRUCT" where
  "MADB_CopyMadbTimeToOdbcTs src =
     \<lparr>ts_year = s16 (tm_year src), ts_month = u16 (tm_month src), ts_day = u16 (tm_day src),
      ts_hour = u16 (tm_hour src), ts_minute = u16 (tm_minute src), ts_second = u16 (tm_second src),
      ts_fraction = u32 (tm_second_part src * 1000)\<rparr>"

section \<open>Parsing\<close>

text \<open>\<open>sscanf\<close> with the formats \<open>"%d-%u-%u"\<close>, \<open>"%d:%u:%u"\<close> and \<open>"%d:%u:%u.%6lu"\<close>.\<close>

definition scan3 :: "char \<Rightarrow> string \<Rightarrow> (int \<times> int \<times> int \<times> string) option" where
  "scan3 sep s =
    (case scan_number None s of None \<Rightarrow> None
     | Some (a, s1) \<Rightarrow> (case scan_char sep s1 of None \<Rightarrow> None
     | Some s2 \<Rightarrow> (case scan_number None s2 of None \<Rightarrow> None
     | Some (b, s3) \<Rightarrow> (case scan_char sep s3 of None \<Rightarrow> None
     | Some s4 \<Rightarrow> (case scan_number None s4 of None \<Rightarrow> None
     | Some (c, s5) \<Rightarrow> Some (a, b, c, s5))))))"

definition scan4 :: "string \<Rightarrow> (int \<times> int \<times> int \<times> int) option" where
  "scan4 s =
    (case scan3 (CHR '':'') s of None \<Rightarrow> None
     | Some (a, b, c, s1) \<Rightarrow> (case scan_char (CHR ''.'') s1 of None \<Rightarrow> None
     | Some s2 \<Rightarrow> (case scan_number (Some 6) s2 of None \<Rightarrow> None
     | Some (d, _) \<Rightarrow> Some (a, b, c, d))))"

text \<open>\<open>strchr\<close> on a NUL terminated buffer: the rest of the buffer from the character on.\<close>

definition strchr :: "char \<Rightarrow> buffer \<Rightarrow> buffer option" where
  "strchr c r = (if c \<in> set (c_str r) then Some (dropWhile (\<lambda>x. x \<noteq> c) r) else None)"

definition frac_mul :: "nat \<Rightarrow> int" where
  "frac_mul idx = (if idx < 5 then [100000, 10000, 1000, 100, 10] ! idx else 1)"

text \<open>
  The time of day at \<open>start\<close>: with a fraction, the digits are scaled by how many bytes follow the
  point up to the end of the text.  \<^const>\<open>None\<close>: error 22008.
\<close>

definition str2ts_time :: "buffer \<Rightarrow> MYSQL_TIME \<Rightarrow> MYSQL_TIME option" where
  "str2ts_time start tm =
    (case strchr (CHR ''.'') start of
       Some frac \<Rightarrow>
         (case scan4 (c_str start) of
            None \<Rightarrow> None
          | Some (h, m, s, f) \<Rightarrow>
              Some (tm\<lparr>tm_hour := u32 h, tm_minute := u32 m, tm_second := u32 s,
                       tm_second_part :=
                         u64 (u64 f * (if length frac \<ge> 2 then frac_mul (length frac - 2) else 1))\<rparr>))
     | None \<Rightarrow>
         (case scan3 (CHR '':'') (c_str start) of
            None \<Rightarrow> None
          | Some (h, m, s, _) \<Rightarrow>
              Some (tm\<lparr>tm_hour := u32 h, tm_minute := u32 m, tm_second := u32 s\<rparr>)))"

definition two_digit_year :: "int \<Rightarrow> int" where
  "two_digit_year y = (if y > 0 then (if y < 70 then y + 2000 else if y < 100 then y + 1900 else y) else y)"

text \<open>
  \<open>MADB_Str2Ts\<close> on the bytes \<open>str\<close>: the return code, the error, the structure (on an error its content
  is not used) and what is stored through \<open>isTime\<close> (\<^const>\<open>None\<close>: nothing).
\<close>

definition MADB_Str2Ts ::
  "allocator \<Rightarrow> buffer \<Rightarrow> bool \<Rightarrow> MADB_Error \<Rightarrow> int \<times> MADB_Error \<times> MYSQL_TIME option \<times> bool option" where
  "MADB_Str2Ts A str Interval Error =
    (let fail = (\<lambda>st. case MADB_SetError Error (MADB_ERR st) None 0 of (r, e) \<Rightarrow> (r, e, None));
         start0 = dropWhile isspace str;
         neg = (start0 \<noteq> [] \<and> hd start0 = CHR ''-'');
         start1 = (if neg then tl start0 else start0);
         tm0 = zero_time\<lparr>tm_neg := neg\<rparr>;
         check = (\<lambda>isDate tm. (0, Error,
                    Some (if \<not> Interval \<and> isDate then tm\<lparr>tm_year := two_digit_year (tm_year tm)\<rparr> else tm)));
         timepart = (\<lambda>isDate tm start.
           if strchr (CHR '':'') start = None then (check isDate tm, None)
           else (case str2ts_time start tm of
                   None \<Rightarrow> (fail ''22008'', if isDate then None else Some True)
                 | Some tm' \<Rightarrow> (check isDate tm', if isDate then None else Some True)));
         result =
           (if start0 = [] then ((0, Error, Some zero_time), None)
            else if strchr (CHR ''-'') start1 \<noteq> None then
              (case scan3 (CHR ''-'') (c_str start1) of
                 None \<Rightarrow> (fail ''22008'', None)
               | Some (y, m, d, _) \<Rightarrow>
                  (let tm1 = tm0\<lparr>tm_year := u32 y, tm_month := u32 m, tm_day := u32 d\<rparr>
                   in case strchr (CHR '' '') start1 of
                        None \<Rightarrow> (check True tm1, None)
                      | Some start2 \<Rightarrow> timepart True tm1 start2))
            else timepart False tm0 start1)
     in if \<not> grants A (length str + 1)
        then (case MADB_SetError Error (MADB_ERR ''HY001'') None 0 of (r, e) \<Rightarrow> (r, e, None, None))
        else (case result of ((r, e, tm), isTime) \<Rightarrow> (r, e, tm, isTime)))"

section \<open>Constraints on conversions\<close>

definition MADB_TsConversionIsPossible ::
  "SQL_TIMESTAMP_STRUCT \<Rightarrow> int \<Rightarrow> MADB_Error \<Rightarrow> string \<Rightarrow> bool \<Rightarrow> int \<times> MADB_Error" where
  "MADB_TsConversionIsPossible ts SqlType Error sqlstate isTime =
    (let dates = (if (\<not> isTime \<and> ts_year ts = 0) \<or> ts_month ts = 0 \<or> ts_day ts = 0
                  then MADB_SetError Error (MADB_ERR sqlstate) None 0 else (SQL_SUCCESS, Error))
     in if SqlType \<in> {SQL_TIME, SQL_TYPE_TIME} then
          (if ts_fraction ts \<noteq> 0 then
             MADB_SetError Error (MADB_ERR ''22008'') (Some ''Fractional seconds fields are nonzero'') 0
           else if \<not> VALID_TIME (ts_hour ts) (ts_minute ts) (ts_second ts) then
             MADB_SetError Error (MADB_ERR ''22007'') (Some ''Invalid time'') 0
           else (SQL_SUCCESS, Error))
        else if SqlType \<in> {SQL_DATE, SQL_TYPE_DATE} then
          (if u32 (ts_hour ts + ts_minute ts + ts_second ts + ts_fraction ts) \<noteq> 0 then
             MADB_SetError Error (MADB_ERR ''22008'') (Some ''Time fields are nonzero'') 0
           else dates)
        else dates)"

text \<open>\<open>MADB_GetBufferForSqlValue\<close>: the buffer kept with the record, or a new zeroed one.\<close>

definition MADB_GetBufferForSqlValue ::
  "allocator \<Rightarrow> bool \<Rightarrow> 'a option \<Rightarrow> 'a \<Rightarrow> nat \<Rightarrow> MADB_Error \<Rightarrow> 'a option \<times> MADB_Error" where
  "MADB_GetBufferForSqlValue A RebindParams InternalBuffer zeroed sz Error =
    (if RebindParams \<or> InternalBuffer = None then
       (if grants A (if sz > 0 then sz else 1) then (Some zeroed, Error)
        else (None, snd (MADB_SetError Error (MADB_ERR ''HY001'') None 0)))
     else (InternalBuffer, Error))"

abbreviation (input) sizeof_MYSQL_TIME :: nat where "sizeof_MYSQL_TIME \<equiv> 40"

text \<open>
  The conversions to the client library's time structure.  \<open>buf\<close> is the bulk buffer the caller passes,
  if any, and \<open>internal\<close> the buffer kept with the application's record.  The result has the buffer type
  and the structure, when the conversion succeeds.
\<close>

definition time_buffer ::
  "allocator \<Rightarrow> bool \<Rightarrow> MYSQL_TIME option \<Rightarrow> MYSQL_TIME option \<Rightarrow> MADB_Error \<Rightarrow> MYSQL_TIME option \<times> MADB_Error" where
  "time_buffer A rebind internal buf Error =
    (case buf of Some tm \<Rightarrow> (Some tm, Error)
     | None \<Rightarrow> MADB_GetBufferForSqlValue A rebind internal zero_time sizeof_MYSQL_TIME Error)"

definition MADB_Timestamp2Sql ::
  "allocator \<Rightarrow> bool \<Rightarrow> MYSQL_TIME option \<Rightarrow> MYSQL_TIME option \<Rightarrow> MADB_Error \<Rightarrow> SQL_TIMESTAMP_STRUCT \<Rightarrow> int
     \<Rightarrow> int \<times> MADB_Error \<times> (int \<times> MYSQL_TIME) option" where
  "MADB_Timestamp2Sql A rebind internal buf Error ts SqlType =
    (case MADB_TsConversionIsPossible ts SqlType Error ''22007'' False of
       (rc, e0) \<Rightarrow>
       if rc \<noteq> SQL_SUCCESS \<and> rc \<noteq> SQL_SUCCESS_WITH_INFO then (rc, e0, None)
       else case time_buffer A rebind internal buf e0 of
         (None, e1) \<Rightarrow> (ReturnValue e1, e1, None)
       | (Some tm, e1) \<Rightarrow>
          (let tm1 = tm\<lparr>tm_time_type := MYSQL_TIMESTAMP_DATETIME\<rparr>
           in if SqlType \<in> {SQL_TYPE_DATE, SQL_DATE} then
                (if u32 (ts_hour ts + ts_minute ts + ts_second ts + ts_fraction ts) \<noteq> 0 then
                   (case MADB_SetError e1 (MADB_ERR ''22008'') (Some ''Time fields are nonzero'') 0 of
                      (r, e) \<Rightarrow> (r, e, None))
                 else (SQL_SUCCESS, e1, Some (MYSQL_TYPE_DATE,
                        tm1\<lparr>tm_time_type := MYSQL_TIMESTAMP_DATE, tm_year := u32 (ts_year ts),
                            tm_month := ts_month ts, tm_day := ts_day ts\<rparr>)))
              else if SqlType \<in> {SQL_TYPE_TIME, SQL_TIME} then
                (if ts_fraction ts \<noteq> 0 then
                   (case MADB_SetError e1 (MADB_ERR ''22008'') (Some ''Fractional seconds fields are nonzero'') 0 of
                      (r, e) \<Rightarrow> (r, e, None))
                 else if \<not> VALID_TIME (ts_hour ts) (ts_minute ts) (ts_second ts) then
                   (case MADB_SetError e1 (MADB_ERR ''22007'') (Some ''Invalid time'') 0 of
                      (r, e) \<Rightarrow> (r, e, None))
                 else (SQL_SUCCESS, e1, Some (MYSQL_TYPE_TIME,
                        tm1\<lparr>tm_time_type := MYSQL_TIMESTAMP_TIME, tm_hour := ts_hour ts,
                            tm_minute := ts_minute ts, tm_second := ts_second ts\<rparr>)))
              else (SQL_SUCCESS, e1, Some (MYSQL_TYPE_TIMESTAMP, MADB_CopyOdbcTsToMadbTime ts tm1))))"

definition MADB_Time2Sql ::
  "allocator \<Rightarrow> bool \<Rightarrow> MYSQL_TIME option \<Rightarrow> MYSQL_TIME option \<Rightarrow> MADB_Error \<Rightarrow> SQL_TIME_STRUCT \<Rightarrow> int
     \<Rightarrow> int \<times> MADB_Error \<times> (int \<times> MYSQL_TIME) option" where
  "MADB_Time2Sql A rebind internal buf Error ts SqlType =
    (if SqlType \<in> {SQL_TYPE_TIME, SQL_TYPE_TIMESTAMP, SQL_TIME, SQL_TIMESTAMP, SQL_DATETIME}
        \<and> \<not> VALID_TIME (t_hour ts) (t_minute ts) (t_second ts) then
       (case MADB_SetError Error (MADB_ERR ''22007'') None 0 of (r, e) \<Rightarrow> (r, e, None))
     else case time_buffer A rebind internal buf Error of
         (None, e1) \<Rightarrow> (ReturnValue e1, e1, None)
       | (Some tm, e1) \<Rightarrow>
          (let (bt, tm1) =
             (if SqlType \<in> {SQL_TYPE_TIMESTAMP, SQL_TIMESTAMP, SQL_DATETIME}
              then (MYSQL_TYPE_TIMESTAMP, tm\<lparr>tm_time_type := MYSQL_TIMESTAMP_DATETIME\<rparr>)
              else (MYSQL_TYPE_TIME, tm\<lparr>tm_year := 0, tm_month := 0, tm_day := 0,
                                        tm_time_type := MYSQL_TIMESTAMP_TIME\<rparr>))
           in (SQL_SUCCESS, e1, Some (bt, tm1\<lparr>tm_hour := t_hour ts, tm_minute := t_minute ts,
                                              tm_second := t_second ts, tm_second_part := 0\<rparr>))))"

text \<open>\<open>ctype\<close> is the application's type; the interval has the fields hour, minute and second.\<close>

definition MADB_IntervalHtoMS2Sql ::
  "allocator \<Rightarrow> bool \<Rightarrow> MYSQL_TIME option \<Rightarrow> MYSQL_TIME option \<Rightarrow> MADB_Error \<Rightarrow> SQL_TIME_STRUCT \<Rightarrow> int
     \<Rightarrow> int \<times> MADB_Error \<times> (int \<times> MYSQL_TIME) option" where
  "MADB_IntervalHtoMS2Sql A rebind internal buf Error is ctype =
    (case time_buffer A rebind internal buf Error of
         (None, e1) \<Rightarrow> (ReturnValue e1, e1, None)
       | (Some tm, e1) \<Rightarrow>
          (SQL_SUCCESS, e1, Some (MYSQL_TYPE_TIME,
             tm\<lparr>tm_hour := t_hour is, tm_minute := t_minute is,
                tm_second := (if ctype = SQL_C_INTERVAL_HOUR_TO_SECOND then t_second is else 0),
                tm_second_part := 0, tm_time_type := MYSQL_TIMESTAMP_TIME\<rparr>)))"

definition MADB_Date2Sql ::
  "allocator \<Rightarrow> bool \<Rightarrow> MYSQL_TIME option \<Rightarrow> MYSQL_TIME option \<Rightarrow> MADB_Error \<Rightarrow> SQL_DATE_STRUCT
     \<Rightarrow> int \<times> MADB_Error \<times> (int \<times> MYSQL_TIME) option" where
  "MADB_Date2Sql A rebind internal buf Error ds =
    (case time_buffer A rebind internal buf Error of
         (None, e1) \<Rightarrow> (ReturnValue e1, e1, None)
       | (Some tm, e1) \<Rightarrow>
          (SQL_SUCCESS, e1, Some (MYSQL_TYPE_DATE,
             tm\<lparr>tm_year := u32 (d_year ds), tm_month := d_month ds, tm_day := d_day ds,
                tm_hour := 0, tm_minute := 0, tm_second := 0, tm_second_part := 0,
                tm_time_type := MYSQL_TIMESTAMP_DATE\<rparr>)))"

section \<open>Text of dates and times\<close>

datatype dt_source = DT_time SQL_TIME_STRUCT | DT_date SQL_DATE_STRUCT | DT_timestamp SQL_TIMESTAMP_STRUCT
  | DT_other

definition NEEDS_DATE_FIELDS :: "int \<Rightarrow> bool" where
  "NEEDS_DATE_FIELDS t \<longleftrightarrow> t \<in> {SQL_DATE, SQL_TYPE_DATE, SQL_TIMESTAMP, SQL_TYPE_TIMESTAMP}"

definition NEEDS_TIME_FIELDS :: "int \<Rightarrow> bool" where
  "NEEDS_TIME_FIELDS t \<longleftrightarrow> t \<in> {SQL_TIME, SQL_TYPE_TIME, SQL_TIMESTAMP, SQL_TYPE_TIMESTAMP}"

definition join3 :: "char \<Rightarrow> string \<Rightarrow> string \<Rightarrow> string \<Rightarrow> string" where
  "join3 sep a b c = a @ sep # b @ sep # c"

text \<open>The fraction of a timestamp in microseconds, padded to six digits.\<close>

definition fraction_text :: "int \<Rightarrow> string" where
  "fraction_text fraction =
    (if fraction div 1000 \<noteq> 0 then
       (let frac = MADB_ConvertIntegerToChar SQL_C_ULONG (fraction div 1000)
        in CHR ''.'' # replicate (6 - length frac) (CHR ''0'') @ frac)
     else [])"

text \<open>
  \<open>MADB_ConvertDatetimeToChar\<close>: the source structure stands for the source type; \<^const>\<open>DT_other\<close> is
  any type that is not one of dates and times.
\<close>

definition MADB_ConvertDatetimeToChar ::
  "MADB_Error \<Rightarrow> dt_source \<Rightarrow> int \<Rightarrow> int \<times> MADB_Error \<times> string" where
  "MADB_ConvertDatetimeToChar Error src SqlType =
    (case src of
       DT_time ts \<Rightarrow>
         (if \<not> VALID_TIME (t_hour ts) (t_minute ts) (t_second ts) then
            (case MADB_SetError Error (MADB_ERR ''22007'') (Some ''Invalid time'') 0 of (r, e) \<Rightarrow> (r, e, []))
          else (SQL_SUCCESS, Error,
                join3 (CHR '':'') (MADB_ConvertIntegerToChar SQL_C_USHORT (t_hour ts))
                  (MADB_ConvertIntegerToChar SQL_C_USHORT (t_minute ts))
                  (MADB_ConvertIntegerToChar SQL_C_USHORT (t_second ts))))
     | DT_date ds \<Rightarrow>
         (SQL_SUCCESS, Error,
          join3 (CHR ''-'') (MADB_ConvertIntegerToChar SQL_C_SHORT (d_year ds))
            (MADB_ConvertIntegerToChar SQL_C_USHORT (d_month ds))
            (MADB_ConvertIntegerToChar SQL_C_USHORT (d_day ds)))
     | DT_timestamp ts \<Rightarrow>
         (case MADB_TsConversionIsPossible ts SqlType Error ''22007'' False of
            (rc, e) \<Rightarrow>
            if rc \<noteq> SQL_SUCCESS \<and> rc \<noteq> SQL_SUCCESS_WITH_INFO then (rc, e, [])
            else
              (let is_ts = SqlType \<in> {SQL_TIMESTAMP, SQL_TYPE_TIMESTAMP};
                   date = (if NEEDS_DATE_FIELDS SqlType then
                             join3 (CHR ''-'') (MADB_ConvertIntegerToChar SQL_C_SHORT (ts_year ts))
                               (MADB_ConvertIntegerToChar SQL_C_USHORT (ts_month ts))
                               (MADB_ConvertIntegerToChar SQL_C_USHORT (ts_day ts))
                             @ (if is_ts then '' '' else [])
                           else []);
                   time = (if NEEDS_TIME_FIELDS SqlType then
                             join3 (CHR '':'') (MADB_ConvertIntegerToChar SQL_C_USHORT (ts_hour ts))
                               (MADB_ConvertIntegerToChar SQL_C_USHORT (ts_minute ts))
                               (MADB_ConvertIntegerToChar SQL_C_USHORT (ts_second ts))
                           else []);
                   frac = (if is_ts then fraction_text (ts_fraction ts) else [])
               in (SQL_SUCCESS, e, date @ time @ frac)))
     | DT_other \<Rightarrow>
         (case MADB_SetError Error (MADB_ERR ''22023'') (Some ''Invalid date/time parameter type'') 0 of
            (r, e) \<Rightarrow> (r, e, [])))"

section \<open>Returning dates and times to the application\<close>

text \<open>What is stored in the application's buffer, its length and its indicator.\<close>

datatype app_time = AT_timestamp SQL_TIMESTAMP_STRUCT | AT_time SQL_TIME_STRUCT | AT_date SQL_DATE_STRUCT
  | AT_nothing

record ts_copy =
  tc_data :: app_time
  tc_length :: "int option"
  tc_indicator :: "int option"

text \<open>
  \<open>MADB_CopyMadbTimestamp\<close>: \<open>have_data\<close> and \<open>have_ind\<close> say whether the application gave a buffer and an
  indicator, and \<open>today\<close> is the local date as year, month and day.
\<close>

definition MADB_CopyMadbTimestamp ::
  "MADB_Error \<Rightarrow> int \<times> int \<times> int \<Rightarrow> MYSQL_TIME \<Rightarrow> bool \<Rightarrow> bool \<Rightarrow> int \<Rightarrow> int \<Rightarrow> int \<times> MADB_Error \<times> ts_copy" where
  "MADB_CopyMadbTimestamp Error today tm have_data have_ind CType SqlType =
    (let null_value = (\<lambda>d. if have_ind
                then (SQL_SUCCESS, Error, \<lparr>tc_data = d, tc_length = None, tc_indicator = Some SQL_NULL_DATA\<rparr>)
                else (case MADB_SetError Error (MADB_ERR ''22002'') None 0 of
                        (r, e) \<Rightarrow> (r, e, \<lparr>tc_data = d, tc_length = None, tc_indicator = None\<rparr>)));
         stored = (\<lambda>d n. (SQL_SUCCESS, Error, \<lparr>tc_data = d, tc_length = Some n, tc_indicator = None\<rparr>));
         nothing = (SQL_SUCCESS, Error, \<lparr>tc_data = AT_nothing, tc_length = None, tc_indicator = None\<rparr>)
     in if CType \<in> {SQL_C_TIMESTAMP, SQL_C_TYPE_TIMESTAMP} then
          (if \<not> have_data then stored AT_nothing sizeof_TIMESTAMP
           else
             (let from_time = SqlType \<in> {SQL_TIME, SQL_TYPE_TIME};
                  ts = \<lparr>ts_year = s16 (if from_time then fst today else tm_year tm),
                        ts_month = u16 (if from_time then fst (snd today) else tm_month tm),
                        ts_day = u16 (if from_time then snd (snd today) else tm_day tm),
                        ts_hour = u16 (tm_hour tm), ts_minute = u16 (tm_minute tm),
                        ts_second = u16 (tm_second tm),
                        ts_fraction = (if from_time then 0 else u32 (tm_second_part tm * 1000))\<rparr>
              in if u32 (ts_year ts + ts_month ts + ts_day ts + ts_hour ts + ts_minute ts
                         + ts_fraction ts + ts_second ts) = 0
                 then null_value (AT_timestamp ts)
                 else stored (AT_timestamp ts) sizeof_TIMESTAMP))
        else if CType \<in> {SQL_C_TIME, SQL_C_TYPE_TIME} then
          (if \<not> have_data then nothing
           else if \<not> VALID_TIME (tm_hour tm) (tm_minute tm) (tm_second tm) then
             (case MADB_SetError Error (MADB_ERR ''22007'') None 0 of
                (r, e) \<Rightarrow> (r, e, \<lparr>tc_data = AT_nothing, tc_length = None, tc_indicator = None\<rparr>))
           else
             (let t = AT_time \<lparr>t_hour = u16 (tm_hour tm), t_minute = u16 (tm_minute tm),
                               t_second = u16 (tm_second tm)\<rparr>
              in if tm_second_part tm \<noteq> 0 then
                   (case MADB_SetError Error (MADB_ERR ''01S07'') None 0 of
                      (r, e) \<Rightarrow> (r, e, \<lparr>tc_data = t, tc_length = Some sizeof_TIME, tc_indicator = None\<rparr>))
                 else stored t sizeof_TIME))
        else if CType \<in> {SQL_C_DATE, SQL_TYPE_DATE} then
          (if \<not> have_data then stored AT_nothing sizeof_DATE
           else
             (let d = \<lparr>d_year = s16 (tm_year tm), d_month = u16 (tm_month tm), d_day = u16 (tm_day tm)\<rparr>
              in if d_year d + d_month d + d_day d = 0 then null_value (AT_date d)
                 else stored (AT_date d) sizeof_DATE))
        else nothing)"

section \<open>Scanning printed dates and times\<close>

lemma scan3_dec:
  assumes "\<not> isdigit sep" "rest = [] \<or> \<not> isdigit (hd rest)"
  shows "scan3 sep (join3 sep (dec_of_nat a) (dec_of_nat b) (dec_of_nat c) @ rest)
       = Some (int a, int b, int c, rest)"
  using assms by (simp add: scan3_def join3_def scan_number_dec scan_char_def)

lemma scan3_space: "scan3 sep (CHR '' '' # s) = scan3 sep s"
  by (simp add: scan3_def scan_number_space)

lemma digits_val_zeros: "digits_val (replicate k (CHR ''0'') @ ds) = digits_val ds"
  by (induction k) (simp_all add: digits_val_def digit_value_def)

lemma strchr_absent: "c \<notin> set s \<Longrightarrow> strchr c s = None"
  by (auto simp: strchr_def c_str_def dest: set_takeWhileD)

lemma strchr_present:
  assumes "is_cstring (s @ c # t)" "c \<notin> set s"
  shows "strchr c (s @ c # t) = Some (c # t)"
proof -
  have "c_str (s @ c # t) = s @ c # t" using assms(1) by (rule c_str_id)
  moreover have "dropWhile (\<lambda>x. x \<noteq> c) (s @ c # t) = c # t"
    using assms(2) by (subst dropWhile_append2) auto
  ultimately show ?thesis by (simp add: strchr_def)
qed

lemma dec_of_nat_no: "\<not> isdigit c \<Longrightarrow> c \<notin> set (dec_of_nat n)"
  using dec_of_nat_digits by blast

lemma separators [simp]: "\<not> isdigit (CHR ''-'')" "\<not> isdigit (CHR '':'')" "\<not> isdigit (CHR ''.'')" "\<not> isdigit (CHR '' '')"
  by (simp_all add: isdigit_def)

lemma fraction_text_eq:
  assumes "0 \<le> f" "f < 10 ^ 9" "f div 1000 \<noteq> 0"
  obtains ds where "fraction_text f = CHR ''.'' # ds" "length ds = 6" "\<And>c. c \<in> set ds \<Longrightarrow> isdigit c"
    "int (digits_val ds) = f div 1000"
proof
  define n where "n = nat (f div 1000)"
  have n: "f div 1000 = int n" "n < 10 ^ 6" "n \<noteq> 0" using assms by (simp_all add: n_def)
  have len: "length (dec_of_nat n) \<le> 6" using n(2) dec_of_nat_length [of n 6] by simp
  have tx: "MADB_ConvertIntegerToChar SQL_C_ULONG (f div 1000) = dec_of_nat n"
    using n(2) by (simp add: n(1) MADB_ConvertIntegerToChar_def cast_simps dec_of_int_def)
  let ?ds = "replicate (6 - length (dec_of_nat n)) (CHR ''0'') @ dec_of_nat n"
  show "fraction_text f = CHR ''.'' # ?ds"
    using assms(3) tx by (simp add: fraction_text_def Let_def)
  show "length ?ds = 6" using len by simp
  show "isdigit c" if "c \<in> set ?ds" for c
    using that dec_of_nat_digits by (auto simp: isdigit_def)
  show "int (digits_val ?ds) = f div 1000" by (simp add: digits_val_zeros n(1))
qed

lemma fraction_text_none: "f div 1000 = 0 \<Longrightarrow> fraction_text f = []"
  by (simp add: fraction_text_def Let_def)

text \<open>The time of day that follows a date, as the conversion prints it.\<close>

lemma str2ts_time_printed:
  fixes h mi s :: nat
  assumes "0 \<le> f" "f < 10 ^ 9" "h < 2 ^ 16" "mi < 2 ^ 16" "s < 2 ^ 16"
  defines "tx \<equiv> CHR '' '' # join3 (CHR '':'') (dec_of_nat h) (dec_of_nat mi) (dec_of_nat s) @ fraction_text f"
  shows "str2ts_time tx tm = Some (tm\<lparr>tm_hour := int h, tm_minute := int mi, tm_second := int s,
           tm_second_part := (if f div 1000 = 0 then tm_second_part tm else f div 1000)\<rparr>)
      \<and> strchr (CHR '':'') tx \<noteq> None"
proof (cases "f div 1000 = 0")
  case True
  have cs: "is_cstring tx" using True by (simp add: tx_def join3_def fraction_text_none)
  have dot: "strchr (CHR ''.'') tx = None"
    using True by (intro strchr_absent) (simp add: tx_def join3_def fraction_text_none dec_of_nat_no)
  have colon: "strchr (CHR '':'') tx \<noteq> None"
    using cs by (simp add: strchr_def c_str_id) (simp add: tx_def join3_def)
  have scan: "scan3 (CHR '':'') tx = Some (int h, int mi, int s, [])"
    using scan3_dec [of "CHR '':''" "[]" h mi s] True
    by (simp add: tx_def scan3_space fraction_text_none)
  show ?thesis
    using dot colon scan cs assms(3-5) True by (simp add: str2ts_time_def c_str_id cast_simps)
next
  case False
  obtain ds where ds: "fraction_text f = CHR ''.'' # ds" "length ds = 6" "\<And>c. c \<in> set ds \<Longrightarrow> isdigit c"
      "int (digits_val ds) = f div 1000"
    using fraction_text_eq [OF assms(1,2) False] by blast
  define pre where "pre = CHR '' '' # join3 (CHR '':'') (dec_of_nat h) (dec_of_nat mi) (dec_of_nat s)"
  have tx: "tx = pre @ CHR ''.'' # ds" by (simp add: tx_def pre_def ds(1))
  have "is_cstring ds" using ds(3) isdigit_facts(4) by (auto simp: is_cstring_def)
  then have cs: "is_cstring tx" by (simp add: tx pre_def join3_def)
  have dot: "strchr (CHR ''.'') tx = Some (CHR ''.'' # ds)"
    unfolding tx using cs tx by (intro strchr_present) (auto simp: pre_def join3_def dec_of_nat_no)
  have colon: "strchr (CHR '':'') tx \<noteq> None"
    using cs by (simp add: strchr_def c_str_id) (simp add: tx pre_def join3_def)
  have scan: "scan3 (CHR '':'') tx = Some (int h, int mi, int s, CHR ''.'' # ds)"
    using scan3_dec [of "CHR '':''" "CHR ''.'' # ds" h mi s] by (simp add: tx pre_def scan3_space)
  have "ds \<noteq> []" using ds(2) by auto
  then have num: "scan_number (Some 6) ds = Some (f div 1000, [])"
    using scan_number_digits [of ds 6 "[]"] ds(2-4) by simp
  have four: "scan4 tx = Some (int h, int mi, int s, f div 1000)"
    using scan num by (simp add: scan4_def scan_char_def)
  have small: "0 \<le> f div 1000" "f div 1000 < 10 ^ 6" using assms(1,2) by simp_all
  show ?thesis
    using dot colon four cs assms(3-5) False ds(2) small
    by (simp add: str2ts_time_def c_str_id cast_simps frac_mul_def)
qed

section \<open>Properties\<close>

text \<open>The fields an application may put in a timestamp that the driver accepts for a timestamp column.\<close>

definition plain_timestamp :: "SQL_TIMESTAMP_STRUCT \<Rightarrow> bool" where
  "plain_timestamp ts \<longleftrightarrow>
     100 \<le> ts_year ts \<and> ts_year ts < 2 ^ 15 \<and> 0 < ts_month ts \<and> ts_month ts < 2 ^ 16
     \<and> 0 < ts_day ts \<and> ts_day ts < 2 ^ 16 \<and> 0 \<le> ts_hour ts \<and> ts_hour ts < 2 ^ 16
     \<and> 0 \<le> ts_minute ts \<and> ts_minute ts < 2 ^ 16 \<and> 0 \<le> ts_second ts \<and> ts_second ts < 2 ^ 16
     \<and> 0 \<le> ts_fraction ts \<and> ts_fraction ts < 10 ^ 9"

lemma timestamp_text:
  assumes "plain_timestamp ts"
  shows "MADB_ConvertDatetimeToChar Error (DT_timestamp ts) SQL_TYPE_TIMESTAMP =
    (SQL_SUCCESS, Error,
     join3 (CHR ''-'') (dec_of_nat (nat (ts_year ts))) (dec_of_nat (nat (ts_month ts)))
       (dec_of_nat (nat (ts_day ts)))
     @ CHR '' '' # join3 (CHR '':'') (dec_of_nat (nat (ts_hour ts))) (dec_of_nat (nat (ts_minute ts)))
       (dec_of_nat (nat (ts_second ts))) @ fraction_text (ts_fraction ts))"
  using assms
  by (simp add: MADB_ConvertDatetimeToChar_def MADB_TsConversionIsPossible_def plain_timestamp_def
      NEEDS_DATE_FIELDS_def NEEDS_TIME_FIELDS_def MADB_ConvertIntegerToChar_def dec_of_int_def cast_simps)

text \<open>Parsing a printed date followed by a printed time.\<close>

lemma Str2Ts_printed:
  fixes y m d :: nat
  assumes "y < 2 ^ 15" "m < 2 ^ 16" "d < 2 ^ 16" "100 \<le> y" "is_cstring tpart" "CHR '' '' \<notin> set tpart"
    "str2ts_time (CHR '' '' # tpart) (zero_time\<lparr>tm_year := int y, tm_month := int m, tm_day := int d\<rparr>) = Some tm"
    "strchr (CHR '':'') (CHR '' '' # tpart) \<noteq> None" "tm_year tm = int y"
  defines "tx \<equiv> join3 (CHR ''-'') (dec_of_nat y) (dec_of_nat m) (dec_of_nat d) @ CHR '' '' # tpart"
  assumes "grants A (length tx + 1)"
  shows "MADB_Str2Ts A tx False Error = (SQL_SUCCESS, Error, Some tm, None)"
proof -
  define date where "date = join3 (CHR ''-'') (dec_of_nat y) (dec_of_nat m) (dec_of_nat d)"
  have tx: "tx = date @ CHR '' '' # tpart" by (simp add: tx_def date_def)
  have cs: "is_cstring tx" using assms(5) by (simp add: tx date_def join3_def)
  obtain c0 rest0 where c0: "dec_of_nat y = c0 # rest0" "isdigit c0"
    using dec_of_nat_ne [of y] dec_of_nat_digits [of _ y] by (cases "dec_of_nat y") auto
  have start: "dropWhile isspace tx = tx" "hd tx \<noteq> CHR ''-''" "tx \<noteq> []"
    using c0 isdigit_facts [OF c0(2)] by (simp_all add: tx date_def join3_def)
  have dash: "strchr (CHR ''-'') tx \<noteq> None"
    using cs by (simp add: strchr_def c_str_id) (simp add: tx date_def join3_def)
  have scan: "scan3 (CHR ''-'') (c_str tx) = Some (int y, int m, int d, CHR '' '' # tpart)"
    using scan3_dec [of "CHR ''-''" "CHR '' '' # tpart" y m d] cs by (simp add: c_str_id tx date_def)
  have space: "strchr (CHR '' '') tx = Some (CHR '' '' # tpart)"
    unfolding tx using cs tx by (intro strchr_present) (auto simp: date_def join3_def dec_of_nat_no)
  have zero: "zero_time\<lparr>tm_neg := False\<rparr> = zero_time" by (simp add: zero_time_def)
  have year: "tm\<lparr>tm_year := two_digit_year (tm_year tm)\<rparr> = tm"
    using assms(4,9) by (simp add: two_digit_year_def)
  show ?thesis
    using assms(1-3,7,8) \<open>grants A (length tx + 1)\<close> start dash scan space zero year
    by (auto simp: MADB_Str2Ts_def Let_def cast_simps)
qed


definition new_year :: SQL_TIMESTAMP_STRUCT where
  "new_year = \<lparr>ts_year = 2024, ts_month = 1, ts_day = 2, ts_hour = 3, ts_minute = 4, ts_second = 5,
     ts_fraction = 60000000\<rparr>"

definition any_heap :: allocator where
  "any_heap = \<lparr>grants = (\<lambda>_. True), junk = (\<lambda>_. NUL)\<rparr>"




end
