(* ===== verification/Sql_Parse.thy ===== *)
theory Sql_Parse
  imports Odbc_Error
begin

text \<open>
  The query parser of \<open>src/ma_parse.c\<close>: comments and white space, quoted strings, the tokenizer
  \<open>ParseQuery\<close> that finds statements and parameter markers, query types, cursor names, and
  \<open>MADB_UnescapeQuery\<close> for the escape sequences in braces.

  The query text is a buffer that the tokenizer updates in place (it blanks comments, splits
  batches with NULs and replaces CALL by ECHO); a pointer into it is an index, and the end of the buffer
  stands for the terminating NUL.  The token, statement and parameter arrays are lists: they are the
  element lists of \<open>MADB_DynArray\<close>, and the memory for them is taken to be available (the code does not
  look at the results of its insertions).
\<close>

section \<open>Query types\<close>

datatype enum_madb_query_type =
    MADB_QUERY_NO_RESULT | MADB_QUERY_INSERT | MADB_QUERY_UPDATE | MADB_QUERY_DELETE
  | MADB_QUERY_CREATE_PROC | MADB_QUERY_CREATE_FUNC | MADB_QUERY_CREATE_DEFINER | MADB_QUERY_SET
  | MADB_QUERY_SET_NAMES | MADB_QUERY_SELECT_INTO | MADB_QUERY_SELECT | MADB_QUERY_SHOW
  | MADB_QUERY_ECHO | MADB_QUERY_CALL | MADB_QUERY_ANALYZE | MADB_QUERY_EXPLAIN | MADB_QUERY_CHECK
  | MADB_QUERY_EXECUTE | MADB_QUERY_OPTIMIZE | MADB_QUERY_DESCRIBE | MADB_NOT_ATOMIC_BLOCK
  | MADB_ANONYMOUS_CODE_BLOCKS

text \<open>The types that come before \<open>MADB_QUERY_SELECT\<close> in the enumeration.\<close>

definition QUERY_DOESNT_RETURN_RESULT :: "enum_madb_query_type \<Rightarrow> bool" where
  "QUERY_DOESNT_RETURN_RESULT t \<longleftrightarrow>
     t \<in> {MADB_QUERY_NO_RESULT, MADB_QUERY_INSERT, MADB_QUERY_UPDATE, MADB_QUERY_DELETE,
          MADB_QUERY_CREATE_PROC, MADB_QUERY_CREATE_FUNC, MADB_QUERY_CREATE_DEFINER, MADB_QUERY_SET,
          MADB_QUERY_SET_NAMES, MADB_QUERY_SELECT_INTO}"

definition MADB_GetQueryType :: "string \<Rightarrow> string \<Rightarrow> enum_madb_query_type" where
  "MADB_GetQueryType Token1' Token2 =
    (let Token1 = dropWhile (\<lambda>c. \<not> isalpha c) Token1'
     in if strnicmp_eq Token1 ''DO'' 2 then MADB_ANONYMOUS_CODE_BLOCKS
        else if strnicmp_eq Token1 ''SELECT'' 6 \<or> strnicmp_eq Token1 ''WITH'' 4 then MADB_QUERY_SELECT
        else if strnicmp_eq Token1 ''INSERT'' 6 \<or> strnicmp_eq Token1 ''REPLACE'' 7 then MADB_QUERY_INSERT
        else if strnicmp_eq Token1 ''UPDATE'' 6 then MADB_QUERY_UPDATE
        else if strnicmp_eq Token1 ''DELETE'' 6 then MADB_QUERY_DELETE
        else if strnicmp_eq Token1 ''CALL'' 4 then MADB_QUERY_CALL
        else if strnicmp_eq Token1 ''ECHO'' 4 then MADB_QUERY_ECHO
        else if strnicmp_eq Token1 ''SHOW'' 4 then MADB_QUERY_SHOW
        else if strnicmp_eq Token1 ''ANALYZE'' 7 then MADB_QUERY_ANALYZE
        else if strnicmp_eq Token1 ''EXPLAIN'' 7 then MADB_QUERY_EXPLAIN
        else if strnicmp_eq Token1 ''CHECK'' 5 then MADB_QUERY_CHECK
        else if strnicmp_eq Token1 ''EXECUTE'' 7 then MADB_QUERY_EXECUTE
        else if strnicmp_eq Token1 ''OPTIMIZE'' 7 then MADB_QUERY_OPTIMIZE
        else if strnicmp_eq Token1 ''CREATE'' 6 \<and> strnicmp_eq Token2 ''PROCEDURE'' 9
          then MADB_QUERY_CREATE_PROC
        else if strnicmp_eq Token1 ''CREATE'' 6 \<and> strnicmp_eq Token2 ''FUNCTION'' 8
          then MADB_QUERY_CREATE_FUNC
        else if strnicmp_eq Token1 ''CREATE'' 6 \<and> strnicmp_eq Token2 ''DEFINER'' 7
          then MADB_QUERY_CREATE_DEFINER
        else if strnicmp_eq Token1 ''SET'' 3 then
          (if strnicmp_eq Token2 ''NAMES'' 5 then MADB_QUERY_SET_NAMES else MADB_QUERY_SET)
        else if strnicmp_eq Token1 ''DESC'' 4 then MADB_QUERY_DESCRIBE
        else if strnicmp_eq Token1 ''BEGIN'' 5 \<and> strnicmp_eq Token2 ''NOT'' 3 then MADB_NOT_ATOMIC_BLOCK
        else MADB_QUERY_NO_RESULT)"

definition MADB_QueryTypeUnsupportedBySsps :: "enum_madb_query_type \<Rightarrow> bool" where
  "MADB_QueryTypeUnsupportedBySsps t \<longleftrightarrow>
     t \<in> {MADB_QUERY_SHOW, MADB_QUERY_ANALYZE, MADB_QUERY_EXPLAIN, MADB_QUERY_CHECK,
          MADB_QUERY_OPTIMIZE, MADB_QUERY_DESCRIBE, MADB_QUERY_EXECUTE}"

definition QueryIsPossiblyMultistmt :: "enum_madb_query_type \<Rightarrow> bool" where
  "QueryIsPossiblyMultistmt t \<longleftrightarrow>
     t \<notin> {MADB_QUERY_CREATE_PROC, MADB_QUERY_CREATE_FUNC, MADB_QUERY_CREATE_DEFINER,
          MADB_NOT_ATOMIC_BLOCK, MADB_ANONYMOUS_CODE_BLOCKS}"

section \<open>Trimming, comments and quoted strings\<close>

text \<open>The string at index \<open>p\<close> of a buffer.\<close>

definition str_at :: "buffer \<Rightarrow> nat \<Rightarrow> string" where
  "str_at t p = c_str (drop p t)"

text \<open>\<open>ltrim\<close> (\<open>src/ma_common.c\<close>): the index of the first character that is not white space.\<close>

definition ltrim :: "buffer \<Rightarrow> nat \<Rightarrow> nat" where
  "ltrim t p = p + length (takeWhile isspace (str_at t p))"

text \<open>\<open>trim\<close>: white space at the end is overwritten with NULs.\<close>

definition trim :: "buffer \<Rightarrow> nat \<Rightarrow> buffer \<times> nat" where
  "trim t p =
    (let q = ltrim t p; s = str_at t q;
         k = length (takeWhile isspace (rev s))
     in (take (q + length s - k) t @ replicate k NUL @ drop (q + length s) t, q))"

text \<open>\<open>SqlRtrim\<close> (\<open>src/ma_helper.c\<close>): white space and semicolons at the end, the first byte excepted.\<close>

fun SqlRtrim_loop :: "buffer \<Rightarrow> nat \<Rightarrow> nat \<Rightarrow> buffer \<times> nat" where
  "SqlRtrim_loop t base 0 = (t, 0)"
| "SqlRtrim_loop t base (Suc 0) = (t, Suc 0)"
| "SqlRtrim_loop t base (Suc (Suc k)) =
     (if isspace (t ! (base + Suc k)) \<or> t ! (base + Suc k) = CHR '';''
      then SqlRtrim_loop (t[base + Suc k := NUL]) base (Suc k)
      else (t, Suc (Suc k)))"

definition SqlRtrim :: "buffer \<Rightarrow> nat \<Rightarrow> nat \<Rightarrow> buffer \<times> nat" where
  "SqlRtrim t base len = SqlRtrim_loop t base len"

fun find_char :: "char \<Rightarrow> string \<Rightarrow> nat option" where
  "find_char c [] = None"
| "find_char c (x # xs) = (if x = c then Some 0 else map_option Suc (find_char c xs))"

fun find_close :: "string \<Rightarrow> nat option" where
  "find_close (x # y # xs) =
     (if x = CHR ''*'' \<and> y = CHR ''/'' then Some 0 else map_option Suc (find_close (y # xs)))"
| "find_close _ = None"

text \<open>
  How many characters the comment at the start of a string has, with its closing characters:
  \<^const>\<open>None\<close> if there is no comment, \<open>Some None\<close> if it is not closed.
\<close>

definition comment_length :: "string \<Rightarrow> nat option option" where
  "comment_length s =
    (if take 2 s = ''--'' then Some (map_option (\<lambda>k. k + 3) (find_char (CHR 0x0A) (drop 2 s)))
     else if take 1 s = ''#'' then Some (map_option (\<lambda>k. k + 2) (find_char (CHR 0x0A) (drop 1 s)))
     else if take 2 s = ''/*'' then Some (map_option (\<lambda>k. k + 4) (find_close (drop 2 s)))
     else None)"

definition blank :: "buffer \<Rightarrow> nat \<Rightarrow> nat \<Rightarrow> buffer" where
  "blank t p q = take p t @ replicate (q - p) (CHR '' '') @ drop q t"

definition StripLeadingComments :: "buffer \<Rightarrow> nat \<Rightarrow> nat \<Rightarrow> bool \<Rightarrow> buffer \<times> nat \<times> nat" where
  "StripLeadingComments t Str len OverWrite =
    (if len = 0 then (t, Str, len)
     else (case comment_length (str_at t Str) of
             None \<Rightarrow> (t, Str, len)
           | Some (Some k) \<Rightarrow> (if OverWrite then blank t Str (Str + k) else t, Str + k, len - k)
           | Some None \<Rightarrow> (if OverWrite then blank t Str (Str + len) else t, Str + len, 0)))"

lemma StripLeadingComments_le: "StripLeadingComments t p len ow = (t', q, len') \<Longrightarrow> p \<le> q"
  by (auto simp: StripLeadingComments_def split: if_splits option.splits)

lemma ltrim_le: "p \<le> ltrim t p"
  by (simp add: ltrim_def)

lemma skip_progress:
  "StripLeadingComments t p len ow = (t1, p1, l1) \<Longrightarrow> ltrim t1 p1 \<noteq> p \<Longrightarrow> p < ltrim t1 p1"
  using StripLeadingComments_le [of t p len ow t1 p1 l1] ltrim_le [of p1 t1] by simp

text \<open>
  \<open>SkipSpacesAndComments\<close>: \<open>End\<close> is the end computed at the call; the loop stops there or when nothing
  was skipped.
\<close>

function SkipSpaces_loop :: "bool \<Rightarrow> nat \<Rightarrow> buffer \<Rightarrow> nat \<Rightarrow> nat \<Rightarrow> buffer \<times> nat \<times> nat" where
  "SkipSpaces_loop ow End t p len =
    (if p < End then
       (case StripLeadingComments t p len ow of
          (t1, p1, _) \<Rightarrow>
            (let p2 = ltrim t1 p1; len2 = length (str_at t1 p2)
             in if p2 = p then (t1, p2, len2) else SkipSpaces_loop ow End t1 p2 len2))
     else (t, p, len))"
  by pat_completeness auto
termination SkipSpaces_loop
  by (relation "measure (\<lambda>(ow, End, t, p, len). End - p)")
    (auto dest!: skip_progress [OF sym] intro!: diff_less_mono2)

declare SkipSpaces_loop.simps [simp del]

definition SkipSpacesAndComments :: "buffer \<Rightarrow> nat \<Rightarrow> nat \<Rightarrow> bool \<Rightarrow> buffer \<times> nat \<times> nat" where
  "SkipSpacesAndComments t p len ow = SkipSpaces_loop ow (p + len) t p len"

text \<open>\<open>SkipQuotedString\<close>: how far the closing quote, or the end, is.\<close>

fun SkipQuotedString :: "char \<Rightarrow> string \<Rightarrow> nat" where
  "SkipQuotedString q [] = 0"
| "SkipQuotedString q (c # cs) =
     (if c = q then 0
      else if c = CHR 0x5C then (case cs of [] \<Rightarrow> 1 | _ # cs' \<Rightarrow> 2 + SkipQuotedString q cs')
      else 1 + SkipQuotedString q cs)"

fun SkipQuotedString_Noescapes :: "char \<Rightarrow> string \<Rightarrow> nat" where
  "SkipQuotedString_Noescapes q [] = 0"
| "SkipQuotedString_Noescapes q (c # cs) =
     (if c = q then 0 else 1 + SkipQuotedString_Noescapes q cs)"

definition quotes :: "char set" where
  "quotes = {CHR 0x22, CHR 0x27, CHR 0x60}"

definition skip_quoted :: "char \<Rightarrow> string \<Rightarrow> nat" where
  "skip_quoted q s = (if q = CHR 0x60 then SkipQuotedString_Noescapes q s else SkipQuotedString q s)"

section \<open>The tokenizer\<close>

text \<open>
  The query under parsing (\<open>MADB_QUERY\<close>) with the local variables of \<open>ParseQuery\<close>.  A statement is the
  index of its first token and its type.
\<close>

record MADB_QUERY =
  q_text :: buffer
  q_Tokens :: "nat list"
  q_SubQuery :: "(nat \<times> enum_madb_query_type) list"
  q_HasParameters :: bool
  q_ParamPositions :: "nat list"
  q_ReturnsResult :: bool
  q_QueryType :: enum_madb_query_type
  q_BatchAllowed :: bool
  q_p :: nat
  q_ReadingToken :: bool
  q_StmtTokensCount :: nat
  q_CurQuery :: nat
  q_StmtType :: enum_madb_query_type

definition MADB_Token :: "MADB_QUERY \<Rightarrow> nat \<Rightarrow> nat option" where
  "MADB_Token Q Idx = (if Idx < length (q_Tokens Q) then Some (q_Tokens Q ! Idx) else None)"

definition MADB_CompareToken :: "MADB_QUERY \<Rightarrow> nat \<Rightarrow> string \<Rightarrow> nat \<Rightarrow> nat option" where
  "MADB_CompareToken Q Idx Compare len =
    (case MADB_Token Q Idx of
       None \<Rightarrow> None
     | Some off \<Rightarrow> if strnicmp_eq (str_at (q_text Q) off) Compare len then Some off else None)"

text \<open>\<open>MADB_FindToken\<close> gives the offset of the first token equal to \<open>Compare\<close>, 0 if there is none.\<close>

definition MADB_FindToken :: "MADB_QUERY \<Rightarrow> string \<Rightarrow> nat" where
  "MADB_FindToken Q Compare =
    (case filter (\<lambda>i. MADB_CompareToken Q i Compare (length Compare) \<noteq> None) [0..<length (q_Tokens Q)] of
       [] \<Rightarrow> 0
     | i # _ \<Rightarrow> the (MADB_CompareToken Q i Compare (length Compare)))"

text \<open>\<open>MADB_ParseCursorName\<close>: the offsets of WHERE and of the cursor name in WHERE CURRENT OF name.\<close>

definition MADB_ParseCursorName :: "MADB_QUERY \<Rightarrow> (nat \<times> nat) option" where
  "MADB_ParseCursorName Q =
    (if length (q_Tokens Q) < 4 then None
     else
       (case filter (\<lambda>i. MADB_CompareToken Q i ''WHERE'' 5 \<noteq> None
                        \<and> MADB_CompareToken Q (i + 1) ''CURRENT'' 7 \<noteq> None
                        \<and> MADB_CompareToken Q (i + 2) ''OF'' 2 \<noteq> None) [0..<length (q_Tokens Q) - 3] of
          [] \<Rightarrow> None
        | i # _ \<Rightarrow> Some (the (MADB_CompareToken Q i ''WHERE'' 5), q_Tokens Q ! (i + 3))))"

definition MADB_AddSubQuery :: "MADB_QUERY \<Rightarrow> nat \<Rightarrow> enum_madb_query_type \<Rightarrow> MADB_QUERY" where
  "MADB_AddSubQuery Q start t = Q\<lparr>q_SubQuery := q_SubQuery Q @ [(start, t)]\<rparr>"

definition MADB_ChangeSubQueryType :: "MADB_QUERY \<Rightarrow> enum_madb_query_type \<Rightarrow> nat \<Rightarrow> MADB_QUERY" where
  "MADB_ChangeSubQueryType Q t idx =
     Q\<lparr>q_SubQuery := (q_SubQuery Q)[idx := (fst (q_SubQuery Q ! idx), t)]\<rparr>"

text \<open>Classifying the statement when a token has been saved.\<close>

definition classify :: "nat \<Rightarrow> MADB_QUERY \<Rightarrow> MADB_QUERY" where
  "classify End Q =
    (if q_StmtTokensCount Q = 1 then Q\<lparr>q_CurQuery := q_p Q\<rparr>
     else if q_StmtTokensCount Q = 2 then
       (let t = MADB_GetQueryType (str_at (q_text Q) (q_Tokens Q ! (length (q_Tokens Q) - 2)))
                  (str_at (q_text Q) (q_p Q));
            Q1 = MADB_AddSubQuery (Q\<lparr>q_StmtType := t,
                   q_ReturnsResult := q_ReturnsResult Q \<or> \<not> QUERY_DOESNT_RETURN_RESULT t\<rparr>) (q_CurQuery Q) t
        in if length (q_SubQuery Q1) = 1 then Q1\<lparr>q_QueryType := t\<rparr> else Q1)
     else if q_StmtType Q = MADB_QUERY_SELECT
          \<and> q_Tokens Q ! (length (q_Tokens Q) - 2) + 4 < End
          \<and> MADB_CompareToken Q (length (q_Tokens Q) - 1) ''INTO'' 4 \<noteq> None then
       (let Q1 = MADB_ChangeSubQueryType (Q\<lparr>q_StmtType := MADB_QUERY_SELECT_INTO\<rparr>) MADB_QUERY_SELECT_INTO
                   (length (q_SubQuery Q) - 1)
        in if length (q_SubQuery Q1) = 1 then Q1\<lparr>q_QueryType := MADB_QUERY_SELECT_INTO\<rparr> else Q1)
     else Q)"

text \<open>The character at the start of a token; the pointer is moved past it at the end.\<close>

definition token_char :: "nat \<Rightarrow> MADB_QUERY \<Rightarrow> MADB_QUERY" where
  "token_char End Q =
    (let p = q_p Q; s = str_at (q_text Q) p
     in case s of
          [] \<Rightarrow> Q\<lparr>q_p := p + 1\<rparr>
        | c # cs \<Rightarrow>
            if c \<in> quotes then
              (let j = p + 1 + skip_quoted c (take (End - (p + 1)) (drop (p + 1) (q_text Q)))
               in if j \<ge> End then Q\<lparr>q_p := p + 2, q_ReadingToken := False\<rparr>
                  else Q\<lparr>q_p := j + 1\<rparr>)
            else if c = CHR ''?'' then
              Q\<lparr>q_HasParameters := True, q_ParamPositions := q_ParamPositions Q @ [p],
                q_ReadingToken := False, q_p := p + 1\<rparr>
            else if c = CHR '';'' then
              (if QueryIsPossiblyMultistmt (q_QueryType Q)
               then Q\<lparr>q_text := (if q_BatchAllowed Q then (q_text Q)[p := NUL] else q_text Q),
                       q_StmtTokensCount := 0, q_ReadingToken := False, q_p := p + 1\<rparr>
               else Q\<lparr>q_ReadingToken := False, q_p := p + 1\<rparr>)
            else Q\<lparr>q_p := p + 1\<rparr>)"

text \<open>The characters that end a token.\<close>

definition token_end :: "char set" where
  "token_end = {CHR ''?'', CHR 0x22, CHR 0x27, CHR 0x60, CHR '' '', CHR 0x09, CHR 0x0D, CHR 0x0A,
                CHR ''-'', CHR ''#'', CHR ''/'', CHR '';''}"

text \<open>The replacement of CALL at the start of a statement.\<close>

definition replace_call :: "bool \<Rightarrow> MADB_QUERY \<Rightarrow> MADB_QUERY" where
  "replace_call replaceCall Q =
    (if replaceCall \<and> q_StmtTokensCount Q = 0 \<and> strnicmp_eq (str_at (q_text Q) (q_p Q)) ''CALL'' 4
     then Q\<lparr>q_text := take (q_p Q) (q_text Q) @ ''ECHO'' @ drop (q_p Q + 4) (q_text Q)\<rparr> else Q)"

definition save_token :: "MADB_QUERY \<Rightarrow> MADB_QUERY" where
  "save_token Q = Q\<lparr>q_Tokens := q_Tokens Q @ [q_p Q], q_StmtTokensCount := q_StmtTokensCount Q + 1,
                    q_ReadingToken := True\<rparr>"

text \<open>One round of the loop of \<open>ParseQuery\<close>.\<close>

definition parse_step :: "bool \<Rightarrow> nat \<Rightarrow> MADB_QUERY \<Rightarrow> MADB_QUERY" where
  "parse_step replaceCall End Q =
    (if \<not> q_ReadingToken Q then
       (case SkipSpacesAndComments (q_text Q) (q_p Q) (End - q_p Q) True of
          (t1, p1, _) \<Rightarrow>
            token_char End (classify End (save_token (replace_call replaceCall (Q\<lparr>q_text := t1, q_p := p1\<rparr>)))))
     else if q_p Q < length (q_text Q) \<and> q_text Q ! q_p Q \<in> token_end then Q\<lparr>q_ReadingToken := False\<rparr>
     else Q\<lparr>q_p := q_p Q + 1\<rparr>)"

definition parse_measure :: "nat \<Rightarrow> MADB_QUERY \<Rightarrow> nat" where
  "parse_measure End Q = 2 * (End - q_p Q) + (if q_ReadingToken Q then 1 else 0)"

lemma SkipSpaces_loop_le: "SkipSpaces_loop ow End t p len = (t', q, len') \<Longrightarrow> p \<le> q"
proof (induction ow End t p len arbitrary: t' q len' rule: SkipSpaces_loop.induct)
  case (1 ow End t p len)
  obtain t1 p1 l1 where s: "StripLeadingComments t p len ow = (t1, p1, l1)"
    by (metis prod_cases3)
  have le: "p \<le> ltrim t1 p1"
    using StripLeadingComments_le [OF s] ltrim_le [of p1 t1] by simp
  show ?case
  proof (cases "p < End \<and> ltrim t1 p1 \<noteq> p")
    case True
    then have "SkipSpaces_loop ow End t1 (ltrim t1 p1) (length (str_at t1 (ltrim t1 p1))) = (t', q, len')"
      using 1(2) s by (subst (asm) SkipSpaces_loop.simps) (simp add: Let_def)
    then show ?thesis using 1(1) True s le by (metis order.trans)
  next
    case False
    then show ?thesis
      using 1(2) s le by (subst (asm) SkipSpaces_loop.simps) (auto simp: Let_def split: if_splits)
  qed
qed

lemma token_char_p: "q_p Q < q_p (token_char End Q)"
  by (auto simp: token_char_def Let_def split: list.splits)

lemma classify_p [simp]: "q_p (classify End Q) = q_p Q"
  by (auto simp: classify_def Let_def MADB_AddSubQuery_def MADB_ChangeSubQueryType_def)

lemma replace_call_p [simp]: "q_p (replace_call rc Q) = q_p Q"
  by (simp add: replace_call_def)

lemma save_token_p [simp]: "q_p (save_token Q) = q_p Q"
  by (simp add: save_token_def)

lemma parse_step_decreases:
  assumes "q_p Q < End"
  shows "parse_measure End (parse_step rc End Q) < parse_measure End Q"
proof (cases "q_ReadingToken Q")
  case True
  then show ?thesis using assms by (auto simp: parse_step_def parse_measure_def)
next
  case False
  obtain t1 p1 l1 where s: "SkipSpacesAndComments (q_text Q) (q_p Q) (End - q_p Q) True = (t1, p1, l1)"
    by (metis prod_cases3)
  then have "q_p Q \<le> p1" by (simp add: SkipSpacesAndComments_def SkipSpaces_loop_le)
  moreover have "p1 < q_p (parse_step rc End Q)"
    using False s token_char_p
      [of "classify End (save_token (replace_call rc (Q\<lparr>q_text := t1, q_p := p1\<rparr>)))" End]
    by (simp add: parse_step_def)
  ultimately have "End - q_p (parse_step rc End Q) < End - q_p Q" using assms by linarith
  then show ?thesis using False by (simp add: parse_measure_def)
qed

text \<open>The loop ends: every round moves the pointer or ends a token.\<close>

function parse_loop :: "bool \<Rightarrow> nat \<Rightarrow> MADB_QUERY \<Rightarrow> MADB_QUERY" where
  "parse_loop replaceCall End Q =
     (if q_p Q < End then parse_loop replaceCall End (parse_step replaceCall End Q) else Q)"
  by pat_completeness auto
termination parse_loop
  by (relation "measure (\<lambda>(rc, End, Q). parse_measure End Q)") (simp_all add: parse_step_decreases)

declare parse_loop.simps [simp del]

definition new_query :: "buffer \<Rightarrow> bool \<Rightarrow> MADB_QUERY" where
  "new_query t batch =
     \<lparr>q_text = t, q_Tokens = [], q_SubQuery = [], q_HasParameters = False, q_ParamPositions = [],
      q_ReturnsResult = False, q_QueryType = MADB_QUERY_NO_RESULT, q_BatchAllowed = batch,
      q_p = 0, q_ReadingToken = False, q_StmtTokensCount = 0, q_CurQuery = 0,
      q_StmtType = MADB_QUERY_NO_RESULT\<rparr>"

text \<open>\<open>ParseQuery\<close> of a refined text, on a query that has just been reset.\<close>

definition ParseQuery :: "bool \<Rightarrow> bool \<Rightarrow> buffer \<Rightarrow> MADB_QUERY" where
  "ParseQuery replaceCall batch t = parse_loop replaceCall (length t) (new_query t batch)"

text \<open>\<open>FixIsoFormat\<close>: the text, the new start and the new length.\<close>

definition FixIsoFormat :: "buffer \<Rightarrow> nat \<Rightarrow> nat \<Rightarrow> buffer \<times> nat \<times> nat" where
  "FixIsoFormat t start len =
    (if len > 0 \<and> start + len \<le> length t \<and> t ! start = CHR ''{'' \<and> t ! (start + len - 1) = CHR ''}'' then
       (case trim (t[start + 1 + (len - 1) := NUL]) (start + 1) of
          (t1, q) \<Rightarrow> (t1, q, length (str_at t1 q)))
     else (t, start, len))"

text \<open>
  \<open>MADB_ParseQuery\<close> on the text \<open>t\<close> that \<open>MADB_UnescapeQuery\<close> produced: the copy of the query to be
  executed, and the parsed query, whose text starts at the refined text.
\<close>

definition MADB_ParseQuery :: "bool \<Rightarrow> bool \<Rightarrow> buffer \<Rightarrow> string \<times> MADB_QUERY" where
  "MADB_ParseQuery replaceCall batch t =
    (let (t1, len1) = SqlRtrim t 0 (length t);
         start1 = ltrim t1 0;
         (t2, start2, len2) = FixIsoFormat t1 start1 len1;
         len3 = len2 - start2;
         original = take len3 (str_at t2 start2);
         (t4, start4, len4) = SkipSpacesAndComments t2 start2 len3 False
     in (original, ParseQuery replaceCall batch (take len4 (drop start4 t4))))"

section \<open>Escape sequences\<close>

text \<open>
  \<open>MADB_UnescapeQuery\<close>.  \<open>yy\<close> is the parser of one escape sequence (the text between the braces, with
  the sequences inside it already replaced): it gives the replacement or an SQLSTATE and a message.
  The result is the text built and the rest of the source, or the error.  Memory is taken to be
  available; the recursion is bounded by \<open>fuel\<close>, and running out of it is a result of its own.
\<close>

datatype unescape_result = Unescaped string string | UnescapeError string string | OutOfFuel

fun unescape ::
  "(string \<Rightarrow> (string \<times> string) + string) \<Rightarrow> nat \<Rightarrow> nat \<Rightarrow> string \<Rightarrow> string \<Rightarrow> unescape_result" where
  "unescape yy 0 opened res src = OutOfFuel"
| "unescape yy (Suc fuel) opened res src =
    (case src of
       [] \<Rightarrow> if opened \<noteq> 0
             then UnescapeError ''42000'' ''Failed to find a pair for an opening curly bracket''
             else Unescaped res []
     | c # cs \<Rightarrow>
         if c = CHR ''{'' then
           (case unescape yy fuel (opened + 1) [] cs of
              Unescaped sub rest \<Rightarrow> unescape yy fuel opened (res @ sub) rest
            | r \<Rightarrow> r)
         else if c = CHR ''}'' then
           (if opened = 0
            then UnescapeError ''42000'' ''Failed to find a pair for a closing curly bracket''
            else (case yy res of Inl (st, msg) \<Rightarrow> UnescapeError st msg | Inr t \<Rightarrow> Unescaped t cs))
         else if c \<in> quotes then
           (let k = skip_quoted c cs; n = (if k = length cs then k + 1 else k + 2)
            in unescape yy fuel opened (res @ take n src) (drop n src))
         else unescape yy fuel opened (res @ [c]) cs)"

definition MADB_UnescapeQuery :: "(string \<Rightarrow> (string \<times> string) + string) \<Rightarrow> string \<Rightarrow> unescape_result" where
  "MADB_UnescapeQuery yy src = unescape yy (length src + 1) 0 [] src"

text \<open>
  \<open>MADB_ResetParser\<close>: the refined text and its length, or the error set on the statement.
\<close>

definition MADB_ResetParser ::
  "(string \<Rightarrow> (string \<times> string) + string) \<Rightarrow> string option \<Rightarrow> (string \<times> string) + string option" where
  "MADB_ResetParser yy OriginalQuery =
    (case OriginalQuery of
       None \<Rightarrow> Inr None
     | Some q \<Rightarrow> (case MADB_UnescapeQuery yy q of
                    Unescaped t _ \<Rightarrow> Inr (Some t)
                  | UnescapeError st msg \<Rightarrow> Inl (st, msg)
                  | OutOfFuel \<Rightarrow> Inr None))"

section \<open>Escape sequences: balance\<close>

text \<open>
  A reference scanner for braces outside quoted strings: the state says whether the scan is outside
  strings, inside one, or behind a backslash in one.
\<close>

datatype scan_state = Plain | In_quote char | Escaped char

fun balanced :: "nat \<Rightarrow> scan_state \<Rightarrow> string \<Rightarrow> bool" where
  "balanced d st [] = (d = 0)"
| "balanced d Plain (c # cs) =
     (if c = CHR ''{'' then balanced (d + 1) Plain cs
      else if c = CHR ''}'' then d \<noteq> 0 \<and> balanced (d - 1) Plain cs
      else if c \<in> quotes then balanced d (In_quote c) cs
      else balanced d Plain cs)"
| "balanced d (In_quote q) (c # cs) =
     (if c = q then balanced d Plain cs
      else if c = CHR 0x5C \<and> q \<noteq> CHR 0x60 then balanced d (Escaped q) cs
      else balanced d (In_quote q) cs)"
| "balanced d (Escaped q) (c # cs) = balanced d (In_quote q) cs"

lemma balanced_noescapes:
  "balanced d (In_quote (CHR 0x60)) cs
     = (if SkipQuotedString_Noescapes (CHR 0x60) cs = length cs then d = 0
        else balanced d Plain (drop (SkipQuotedString_Noescapes (CHR 0x60) cs + 1) cs))"
  by (induction cs) auto

lemma balanced_quoted:
  assumes "q \<noteq> CHR 0x60" "q \<noteq> CHR 0x5C"
  shows "balanced d (In_quote q) cs
     = (if SkipQuotedString q cs = length cs then d = 0
        else balanced d Plain (drop (SkipQuotedString q cs + 1) cs))"
proof (induction "length cs" arbitrary: cs rule: less_induct)
  case less
  show ?case
  proof (cases cs)
    case (Cons c cs1)
    consider "c = q" | "c \<noteq> q" "c = CHR 0x5C" | "c \<noteq> q" "c \<noteq> CHR 0x5C" by blast
    then show ?thesis
    proof cases
      case 2
      then show ?thesis using Cons less [of "tl cs1"] assms by (cases cs1) simp_all
    next
      case 3
      then show ?thesis using Cons less [of cs1] assms by simp
    qed (simp add: Cons)
  qed simp
qed

lemma balanced_skip:
  assumes "c \<in> quotes"
  shows "balanced d (In_quote c) cs = (if skip_quoted c cs = length cs then d = 0
            else balanced d Plain (drop (skip_quoted c cs + 1) cs))"
  using assms balanced_noescapes balanced_quoted [of c] by (auto simp: skip_quoted_def quotes_def)

lemma skip_quoted_le: "skip_quoted c cs \<le> length cs"
proof -
  have "SkipQuotedString c cs \<le> length cs"
    by (induction c cs rule: SkipQuotedString.induct) (auto split: list.splits)
  moreover have "SkipQuotedString_Noescapes c cs \<le> length cs"
    by (induction cs) auto
  ultimately show ?thesis by (cases "c = CHR 0x60") (simp_all add: skip_quoted_def)
qed

lemma not_quotes [simp]: "CHR ''{'' \<notin> quotes" "CHR ''}'' \<notin> quotes" "CHR ''?'' \<notin> quotes" "CHR '';'' \<notin> quotes"
  by (simp_all add: quotes_def)

text \<open>One quoted string: what is copied, and what is left.\<close>

definition quoted_len :: "char \<Rightarrow> string \<Rightarrow> nat" where
  "quoted_len c cs = (if skip_quoted c cs = length cs then skip_quoted c cs + 1 else skip_quoted c cs + 2)"

lemma quoted_len_pos: "0 < quoted_len c cs"
  by (simp add: quoted_len_def)

lemma balanced_quote:
  assumes "c \<in> quotes"
  shows "balanced d Plain (c # cs) = balanced d Plain (drop (quoted_len c cs) (c # cs))"
proof -
  have "c \<noteq> CHR ''{''" "c \<noteq> CHR ''}''" using assms not_quotes by blast+
  then show ?thesis using assms by (simp add: balanced_skip quoted_len_def)
qed

lemma unescape_char:
  "unescape yy (Suc fuel) opened res (c # cs) =
     (if c = CHR ''{'' then
        (case unescape yy fuel (opened + 1) [] cs of
           Unescaped sub rest \<Rightarrow> unescape yy fuel opened (res @ sub) rest
         | r \<Rightarrow> r)
      else if c = CHR ''}'' then
        (if opened = 0
         then UnescapeError ''42000'' ''Failed to find a pair for a closing curly bracket''
         else (case yy res of Inl (st, msg) \<Rightarrow> UnescapeError st msg | Inr t \<Rightarrow> Unescaped t cs))
      else if c \<in> quotes then
        unescape yy fuel opened (res @ take (quoted_len c cs) (c # cs)) (drop (quoted_len c cs) (c # cs))
      else unescape yy fuel opened (res @ [c]) cs)"
  by (simp add: Let_def quoted_len_def)

declare unescape.simps(2) [simp del]

text \<open>What a result of \<open>unescape\<close> says about the braces of its source.\<close>

definition brace_law :: "(string \<Rightarrow> (string \<times> string) + string) \<Rightarrow> nat \<Rightarrow> string \<Rightarrow> unescape_result \<Rightarrow> bool" where
  "brace_law yy opened src r =
    (case r of
       OutOfFuel \<Rightarrow> False
     | Unescaped t rest \<Rightarrow>
         if opened = 0 then rest = [] \<and> balanced 0 Plain src
         else length rest < length src \<and> (\<forall>d. balanced (Suc d) Plain src = balanced d Plain rest)
     | UnescapeError st msg \<Rightarrow>
         (\<forall>x. \<exists>t. yy x = Inr t) \<longrightarrow>
         (if opened = 0 then \<not> balanced 0 Plain src else (\<forall>d. \<not> balanced (Suc d) Plain src)))"

lemma brace_law_mono:
  assumes "brace_law yy opened src r" "length src \<le> length src'"
    "\<And>d. balanced d Plain src' = balanced d Plain src"
  shows "brace_law yy opened src' r"
  using assms by (auto simp: brace_law_def split: unescape_result.splits)

lemma unescape_law: "length src < fuel \<Longrightarrow> brace_law yy opened src (unescape yy fuel opened res src)"
proof (induction fuel arbitrary: opened res src)
  case (Suc fuel)
  show ?case
  proof (cases src)
    case Nil
    then show ?thesis by (simp add: brace_law_def unescape.simps)
  next
    case (Cons c cs)
    then have len: "length cs < fuel" using Suc.prems by simp
    consider "c = CHR ''{''" | "c = CHR ''}''" | "c \<in> quotes" "c \<noteq> CHR ''{''" "c \<noteq> CHR ''}''"
      | "c \<noteq> CHR ''{''" "c \<noteq> CHR ''}''" "c \<notin> quotes" by blast
    then show ?thesis
    proof cases
      case 1
      have sub: "brace_law yy (opened + 1) cs (unescape yy fuel (opened + 1) [] cs)" by (rule Suc.IH [OF len])
      show ?thesis
      proof (cases "unescape yy fuel (opened + 1) [] cs")
        case (Unescaped t rest)
        then have rest: "length rest < length cs" "\<And>d. balanced (Suc d) Plain cs = balanced d Plain rest"
          using sub by (simp_all add: brace_law_def)
        have "brace_law yy opened rest (unescape yy fuel opened (res @ t) rest)"
          by (rule Suc.IH) (use rest len in simp)
        then have "brace_law yy opened (c # cs) (unescape yy fuel opened (res @ t) rest)"
          by (rule brace_law_mono) (use 1 rest in simp_all)
        then show ?thesis unfolding Cons unescape_char using 1 Unescaped by simp
      next
        case (UnescapeError st msg)
        then show ?thesis unfolding Cons unescape_char using 1 sub by (auto simp: brace_law_def)
      next
        case OutOfFuel
        then show ?thesis using sub by (simp add: brace_law_def)
      qed
    next
      case 2
      then show ?thesis
        unfolding Cons unescape_char
        by (cases "yy res") (auto simp: brace_law_def dest!: spec [of _ res])
    next
      case 3
      let ?rest = "drop (quoted_len c cs) (c # cs)"
      have "length ?rest \<le> length cs" using quoted_len_pos [of c cs] by simp
      then have "brace_law yy opened ?rest (unescape yy fuel opened (res @ take (quoted_len c cs) (c # cs)) ?rest)"
        by (intro Suc.IH) (use len in linarith)
      then have "brace_law yy opened (c # cs)
          (unescape yy fuel opened (res @ take (quoted_len c cs) (c # cs)) ?rest)"
        by (rule brace_law_mono) (simp, rule balanced_quote [OF 3(1)])
      then show ?thesis unfolding Cons unescape_char using 3 by simp
    next
      case 4
      then have "brace_law yy opened (c # cs) (unescape yy fuel opened (res @ [c]) cs)"
        by (intro brace_law_mono [OF Suc.IH [OF len]]) simp_all
      then show ?thesis unfolding Cons unescape_char using 4 by simp
    qed
  qed
qed simp



section \<open>Parameter markers\<close>

text \<open>
  The reference scanner: the positions of the question marks of a text, at offset \<open>o\<close>, that stand
  outside comments and quoted strings.  A quote that is not closed is skipped with the character
  after it, as the code does.
\<close>

lemma find_char_less: "find_char c s = Some k \<Longrightarrow> k < length s"
  by (induction s arbitrary: k) (auto split: if_splits)

lemma find_close_less: "find_close s = Some k \<Longrightarrow> k + 1 < length s"
proof (induction s arbitrary: k)
  case (Cons x xs)
  then show ?case by (cases xs) (auto split: if_splits)
qed simp

lemma comment_length_bounds:
  assumes "comment_length s = Some (Some k)"
  shows "0 < k" "k \<le> length s"
  using assms
  by (auto simp: comment_length_def split: if_splits dest!: find_char_less find_close_less)

function markers :: "nat \<Rightarrow> string \<Rightarrow> nat list" where
  "markers n s =
    (case s of
       [] \<Rightarrow> []
     | c # cs \<Rightarrow>
         (case comment_length s of
            Some None \<Rightarrow> []
          | Some (Some k) \<Rightarrow> markers (n + k) (drop k s)
          | None \<Rightarrow>
              if c \<in> quotes then
                (if skip_quoted c cs = length cs then markers (n + 2) (drop 2 s)
                 else markers (n + skip_quoted c cs + 2) (drop (skip_quoted c cs + 2) s))
              else if c = CHR ''?'' then n # markers (n + 1) cs
              else markers (n + 1) cs))"
  by pat_completeness auto
termination markers
  by (relation "measure (\<lambda>(n, s). length s)") (auto dest: comment_length_bounds)

declare markers.simps [simp del]

lemma markers_Nil [simp]: "markers n [] = []"
  by (simp add: markers.simps)

lemma comment_start:
  "c \<notin> {CHR ''-'', CHR ''#'', CHR ''/''} \<Longrightarrow> comment_length (c # cs) = None"
  by (simp add: comment_length_def)

text \<open>A character with no meaning to the scanner.\<close>

definition ordinary :: "char \<Rightarrow> bool" where
  "ordinary c \<longleftrightarrow> c \<notin> quotes \<union> {CHR ''?'', CHR ''-'', CHR ''#'', CHR ''/''}"

lemma markers_skip:
  assumes "\<forall>c\<in>set a. ordinary c"
  shows "markers n (a @ s) = markers (n + length a) s"
  using assms
proof (induction a arbitrary: n)
  case (Cons c a)
  have c: "ordinary c" using Cons.prems by simp
  have "comment_length (c # a @ s) = None"
    by (rule comment_start) (use c in \<open>simp add: ordinary_def\<close>)
  then have "markers n (c # a @ s) = markers (n + 1) (a @ s)"
    unfolding markers.simps [of n "c # a @ s"] using c by (simp add: ordinary_def)
  then show ?case using Cons.IH [of "n + 1"] Cons.prems by simp
qed simp

lemma space_ordinary: "isspace c \<Longrightarrow> ordinary c"
  by (auto simp: ordinary_def quotes_def isspace_def)

lemma islower_tolower: "isalpha d \<Longrightarrow> islower (tolower d)"
  by (auto simp: isalpha_def isupper_def islower_def tolower_def)

lemma letter_ordinary:
  assumes "tolower c = tolower d" "isalpha d"
  shows "ordinary c"
proof (rule ccontr)
  assume "\<not> ordinary c"
  then have "\<not> islower (tolower c)"
    by (auto simp: ordinary_def quotes_def islower_def tolower_def isupper_def)
  then show False using assms islower_tolower by simp
qed

subsection \<open>White space and comments\<close>

lemma str_at_rest: "NUL \<notin> set (drop p t) \<Longrightarrow> str_at t p = drop p t"
  by (simp add: str_at_def c_str_id is_cstring_def)

lemma blank_length: "p \<le> q \<Longrightarrow> q \<le> length t \<Longrightarrow> length (blank t p q) = length t"
  by (simp add: blank_def)

lemma blank_drop: "p \<le> q \<Longrightarrow> q \<le> length t \<Longrightarrow> q \<le> r \<Longrightarrow> drop r (blank t p q) = drop r t"
  by (simp add: blank_def)

text \<open>
  The relation between a text and position before and after something was skipped: nothing from the
  new position on has changed, and the markers from there are all there are.
\<close>

definition skipped :: "buffer \<Rightarrow> nat \<Rightarrow> buffer \<Rightarrow> nat \<Rightarrow> bool" where
  "skipped t p t' q \<longleftrightarrow>
     p \<le> q \<and> q \<le> length t \<and> length t' = length t \<and> take p t' = take p t \<and> drop q t' = drop q t
     \<and> markers p (drop p t) = markers q (drop q t)"

lemma drop_eq_mono: "drop q a = drop q b \<Longrightarrow> q \<le> r \<Longrightarrow> drop r a = drop r b"
  by (metis drop_drop le_add_diff_inverse2)

lemma take_eq_mono: "take q a = take q b \<Longrightarrow> p \<le> q \<Longrightarrow> take p a = take p b"
  by (metis min.absorb1 take_take)

lemma skipped_trans:
  assumes "skipped t p t1 q" "skipped t1 q t2 r"
  shows "skipped t p t2 r"
proof -
  have "drop r t1 = drop r t" by (rule drop_eq_mono [of q]) (use assms in \<open>simp_all add: skipped_def\<close>)
  moreover have "take p t2 = take p t1"
    by (rule take_eq_mono [of q]) (use assms in \<open>simp_all add: skipped_def\<close>)
  ultimately show ?thesis using assms by (simp add: skipped_def)
qed

lemma skipped_NUL:
  assumes "skipped t p t' q" "NUL \<notin> set (drop p t)"
  shows "NUL \<notin> set (drop q t')"
  using assms set_drop_subset_set_drop [of p q t] by (auto simp: skipped_def)

lemma ltrim_skipped:
  assumes "NUL \<notin> set (drop p t)" "p \<le> length t"
  shows "skipped t p t (ltrim t p)"
proof -
  let ?w = "takeWhile isspace (drop p t)"
  have w: "drop p t = ?w @ drop (length ?w) (drop p t)"
    by (metis dropWhile_eq_drop takeWhile_dropWhile_id)
  have "markers p (?w @ drop (length ?w) (drop p t)) = markers (p + length ?w) (drop (length ?w) (drop p t))"
    by (rule markers_skip) (auto dest: set_takeWhileD intro: space_ordinary)
  moreover have "length ?w \<le> length t - p" using length_takeWhile_le [of isspace "drop p t"] by simp
  ultimately show ?thesis
    using assms w by (simp add: skipped_def ltrim_def str_at_rest add.commute)
qed

lemma StripLeadingComments_skipped:
  assumes "NUL \<notin> set (drop p t)" "p \<le> length t" "StripLeadingComments t p (length t - p) True = (t1, q, l)"
  shows "skipped t p t1 q"
proof (cases "comment_length (drop p t)")
  case None
  then show ?thesis using assms by (auto simp: StripLeadingComments_def str_at_rest skipped_def split: if_splits)
next
  case (Some k)
  then have ne: "drop p t \<noteq> []" by (auto simp: comment_length_def)
  then have lt: "p < length t" by simp
  obtain c cs where c: "drop p t = c # cs" using ne by (cases "drop p t") auto
  show ?thesis
  proof (cases k)
    case None
    then have "markers p (drop p t) = []"
      using Some by (subst markers.simps) (simp add: c)
    then show ?thesis
      using assms Some None lt
      by (auto simp: StripLeadingComments_def str_at_rest skipped_def blank_length blank_drop blank_def)
  next
    case (Some j)
    have j: "j \<le> length t - p"
      using comment_length_bounds [of "drop p t" j] \<open>comment_length (drop p t) = Some k\<close> Some by simp
    have "markers p (drop p t) = markers (p + j) (drop j (drop p t))"
      using \<open>comment_length (drop p t) = Some k\<close> Some by (subst markers.simps) (simp add: c)
    then show ?thesis
      using assms Some lt j \<open>comment_length (drop p t) = Some k\<close>
      by (auto simp: StripLeadingComments_def str_at_rest skipped_def blank_length blank_drop add.commute blank_def)
  qed
qed

lemma StripLeadingComments_stays:
  assumes "NUL \<notin> set (drop p t)" "p < length t" "StripLeadingComments t p (length t - p) True = (t1, q, l)"
    "q \<le> p"
  shows "t1 = t \<and> comment_length (drop p t) = None"
  using assms
  by (auto simp: StripLeadingComments_def str_at_rest split: option.splits if_splits dest: comment_length_bounds)

lemma SkipSpaces_loop_skipped:
  assumes "NUL \<notin> set (drop p t)" "p \<le> length t" "SkipSpaces_loop True (length t) t p (length t - p) = (t', q, l)"
  shows "skipped t p t' q \<and> comment_length (drop q t') = None"
  using assms
proof (induction "length t - p" arbitrary: t p rule: less_induct)
  case less
  show ?case
  proof (cases "p < length t")
    case False
    then show ?thesis
      using less.prems by (subst (asm) SkipSpaces_loop.simps) (auto simp: skipped_def comment_length_def)
  next
    case True
    obtain t1 p1 l1 where s: "StripLeadingComments t p (length t - p) True = (t1, p1, l1)"
      by (metis prod_cases3)
    have 1: "skipped t p t1 p1" using less.prems s by (intro StripLeadingComments_skipped) auto
    then have n1: "NUL \<notin> set (drop p1 t1)" "p1 \<le> length t1" "length t1 = length t"
      using skipped_NUL less.prems by (auto simp: skipped_def)
    have 2: "skipped t p t1 (ltrim t1 p1)"
      using skipped_trans [OF 1 ltrim_skipped] n1 by simp
    then have n2: "NUL \<notin> set (drop (ltrim t1 p1) t1)" using skipped_NUL less.prems by blast
    have len: "length (str_at t1 (ltrim t1 p1)) = length t1 - ltrim t1 p1"
      using n2 by (simp add: str_at_rest)
    show ?thesis
    proof (cases "ltrim t1 p1 = p")
      case True
      then have "p1 \<le> p" using ltrim_le [of p1 t1] by simp
      then have "t1 = t \<and> comment_length (drop p t) = None"
        using StripLeadingComments_stays [OF less.prems(1) \<open>p < length t\<close> s] by simp
      moreover have "t' = t1 \<and> q = p"
        using less.prems(3) s True \<open>p < length t\<close> by (subst (asm) SkipSpaces_loop.simps) (simp add: Let_def)
      ultimately show ?thesis using 2 True by simp
    next
      case False
      then have gt: "p < ltrim t1 p1" by (rule skip_progress [OF s])
      then have loop: "SkipSpaces_loop True (length t1) t1 (ltrim t1 p1) (length t1 - ltrim t1 p1) = (t', q, l)"
        using less.prems(3) s False \<open>p < length t\<close> n1(3) len
        by (subst (asm) SkipSpaces_loop.simps) (simp add: Let_def)
      have "skipped t1 (ltrim t1 p1) t' q \<and> comment_length (drop q t') = None"
        by (rule less.hyps [OF _ n2 _ loop]) (use 2 gt \<open>p < length t\<close> n1(3) in \<open>auto simp: skipped_def\<close>)
      then show ?thesis using skipped_trans [OF 2] by blast
    qed
  qed
qed

subsection \<open>The invariant of the tokenizer\<close>

text \<open>
  Of the original text \<open>t\<close>: the length is kept, the markers found and those still to be found are the
  markers of \<open>t\<close>, and at every position found the text has a question mark.
\<close>

definition parse_inv :: "buffer \<Rightarrow> MADB_QUERY \<Rightarrow> bool" where
  "parse_inv t Q \<longleftrightarrow>
     length (q_text Q) = length t \<and> NUL \<notin> set (drop (q_p Q) (q_text Q))
     \<and> q_ParamPositions Q @ markers (q_p Q) (drop (q_p Q) (q_text Q)) = markers 0 t
     \<and> q_HasParameters Q = (q_ParamPositions Q \<noteq> [])
     \<and> (\<forall>i\<in>set (q_ParamPositions Q). i < q_p Q \<and> i < length t \<and> q_text Q ! i = CHR ''?'')"

text \<open>The pointer moves on, and the markers in between, \<open>new\<close>, are recorded.\<close>

lemma parse_inv_move:
  assumes inv: "parse_inv t Q" and p: "q_p Q \<le> q_p Q'"
    and same: "length (q_text Q') = length (q_text Q)" "take (q_p Q) (q_text Q') = take (q_p Q) (q_text Q)"
      "drop (q_p Q') (q_text Q') = drop (q_p Q') (q_text Q)"
    and new: "q_ParamPositions Q' = q_ParamPositions Q @ new" "q_HasParameters Q' = (q_HasParameters Q \<or> new \<noteq> [])"
      "markers (q_p Q) (drop (q_p Q) (q_text Q)) = new @ markers (q_p Q') (drop (q_p Q') (q_text Q))"
      "\<forall>i\<in>set new. i < q_p Q' \<and> i < length t \<and> q_text Q' ! i = CHR ''?''"
  shows "parse_inv t Q'"
proof -
  have "i < q_p Q' \<and> i < length t \<and> q_text Q' ! i = CHR ''?''" if "i \<in> set (q_ParamPositions Q)" for i
  proof -
    have "i < q_p Q" "i < length t" "q_text Q ! i = CHR ''?''" using that inv by (auto simp: parse_inv_def)
    moreover have "q_text Q' ! i = q_text Q ! i" using \<open>i < q_p Q\<close> same(2) by (metis nth_take)
    ultimately show ?thesis using p by simp
  qed
  moreover have "NUL \<notin> set (drop (q_p Q') (q_text Q))"
    using inv set_drop_subset_set_drop [OF p, of "q_text Q"] by (auto simp: parse_inv_def)
  ultimately show ?thesis using inv same new by (auto simp: parse_inv_def)
qed

lemma parse_inv_skipped:
  assumes "parse_inv t Q" "skipped (q_text Q) (q_p Q) t1 p1"
  shows "parse_inv t (Q\<lparr>q_text := t1, q_p := p1\<rparr>)"
  by (rule parse_inv_move [OF assms(1), where new = "[]"]) (use assms(2) in \<open>simp_all add: skipped_def\<close>)

lemma classify_frame [simp]:
  "q_text (classify End Q) = q_text Q" "q_ParamPositions (classify End Q) = q_ParamPositions Q"
  "q_HasParameters (classify End Q) = q_HasParameters Q"
  by (auto simp: classify_def Let_def MADB_AddSubQuery_def MADB_ChangeSubQueryType_def)

lemma parse_inv_classify: "parse_inv t (classify End (save_token Q)) = parse_inv t Q"
  by (simp add: parse_inv_def save_token_def)

text \<open>ECHO takes the place of four letters, so nothing changes for the scanner.\<close>

lemma echo_for_call:
  assumes nul: "NUL \<notin> set (drop p t)" and eq: "strnicmp_eq (str_at t p) ''CALL'' 4"
  shows "p + 4 \<le> length t" "markers p (drop p t) = markers p (''ECHO'' @ drop (p + 4) t)"
proof -
  let ?call = "take 4 (drop p t)"
  have call: "map tolower ?call = map tolower ''CALL''"
    using eq by (simp add: strnicmp_eq_def str_at_rest [OF nul])
  then have "length (map tolower ?call) = length (map tolower ''CALL'')" by (rule arg_cong)
  then have four: "length ?call = 4" by simp
  then show "p + 4 \<le> length t" by simp
  have split: "drop p t = ?call @ drop (p + 4) t" by (metis add.commute append_take_drop_id drop_drop)
  have "ordinary c" if "c \<in> set ?call" for c
  proof -
    have "tolower c \<in> set (map tolower ''CALL'')" using that call by (metis image_eqI list.set_map)
    then obtain d where "d \<in> set ''CALL''" "tolower c = tolower d" by auto
    moreover have "isalpha d" using calculation(1) by (auto simp: isalpha_def isupper_def)
    ultimately show ?thesis by (auto intro: letter_ordinary)
  qed
  then have "markers p (drop p t) = markers (p + 4) (drop (p + 4) t)"
    using markers_skip [of ?call p "drop (p + 4) t"] split four by simp
  moreover have "markers p (''ECHO'' @ drop (p + 4) t) = markers (p + length ''ECHO'') (drop (p + 4) t)"
    by (rule markers_skip) (auto simp: ordinary_def quotes_def)
  moreover have "p + length ''ECHO'' = p + 4" by simp
  ultimately show "markers p (drop p t) = markers p (''ECHO'' @ drop (p + 4) t)" by (simp only:)
qed

lemma replace_call_skipped:
  assumes "parse_inv t Q" "comment_length (drop (q_p Q) (q_text Q)) = None"
  shows "parse_inv t (replace_call rc Q) \<and> comment_length (drop (q_p Q) (q_text (replace_call rc Q))) = None"
proof (cases "rc \<and> q_StmtTokensCount Q = 0 \<and> strnicmp_eq (str_at (q_text Q) (q_p Q)) ''CALL'' 4")
  case True
  have nul: "NUL \<notin> set (drop (q_p Q) (q_text Q))" using assms(1) by (simp add: parse_inv_def)
  note echo = echo_for_call [OF nul conjunct2 [OF conjunct2 [OF True]]]
  have "NUL \<notin> set (drop (q_p Q + 4) (q_text Q))"
    using nul set_drop_subset_set_drop [of "q_p Q" "q_p Q + 4" "q_text Q"] by auto
  then show ?thesis
    using assms(1) True echo comment_start [of "CHR ''E''"]
    by (auto simp: parse_inv_def replace_call_def nth_append)
next
  case False
  then have "replace_call rc Q = Q" by (simp only: replace_call_def if_False)
  then show ?thesis using assms by simp
qed

text \<open>The character at the start of a token.\<close>

lemma token_char_inv:
  assumes inv: "parse_inv t Q" and no: "comment_length (drop (q_p Q) (q_text Q)) = None"
  shows "parse_inv t (token_char (length t) Q)"
proof (cases "drop (q_p Q) (q_text Q)")
  case Nil
  then have "token_char (length t) Q = Q\<lparr>q_p := q_p Q + 1\<rparr>"
    by (simp add: token_char_def str_at_def c_str_def)
  then show ?thesis
    using Nil by (intro parse_inv_move [OF inv, where new = "[]"]) simp_all
next
  case (Cons c cs)
  have s: "str_at (q_text Q) (q_p Q) = c # cs" using inv Cons by (simp add: parse_inv_def str_at_rest)
  have len: "length (q_text Q) = length t" using inv by (simp add: parse_inv_def)
  have p: "q_p Q < length t" using Cons len by (metis drop_eq_Nil2 leI list.discI)
  have cs: "drop (Suc (q_p Q)) (q_text Q) = cs" using Cons by (metis drop_Suc list.sel(3) tl_drop)
  have nth: "q_text Q ! q_p Q = c" using Cons p len by (metis hd_drop_conv_nth list.sel(1))
  have rest: "drop (Suc (q_p Q + n)) (q_text Q) = drop n cs" for n
    using cs by (metis add.commute add_Suc drop_drop)
  have lcs: "length cs = length t - Suc (q_p Q)" using cs len by (metis length_drop)
  have m: "markers (q_p Q) (c # cs) =
      (if c \<in> quotes then
         (if skip_quoted c cs = length cs then markers (q_p Q + 2) (drop 1 cs)
          else markers (q_p Q + skip_quoted c cs + 2) (drop (skip_quoted c cs + 1) cs))
       else if c = CHR ''?'' then q_p Q # markers (q_p Q + 1) cs
       else markers (q_p Q + 1) cs)"
    using no Cons by (subst markers.simps) simp
  let ?Q = "token_char (length t) Q"
  have frame: "length (q_text ?Q) = length (q_text Q)" "take (q_p Q) (q_text ?Q) = take (q_p Q) (q_text Q)"
      "drop (q_p ?Q) (q_text ?Q) = drop (q_p ?Q) (q_text Q)"
    using s by (simp_all add: token_char_def Let_def)
  define new where "new = (if c = CHR ''?'' then [q_p Q] else [])"
  have marks: "q_ParamPositions ?Q = q_ParamPositions Q @ new" "q_HasParameters ?Q = (q_HasParameters Q \<or> new \<noteq> [])"
    using s by (simp_all add: token_char_def Let_def new_def)
  have "skip_quoted c cs \<le> length cs" by (rule skip_quoted_le)
  then have "markers (q_p Q) (c # cs) = new @ markers (q_p ?Q) (drop (q_p ?Q) (q_text Q))"
    unfolding m using s cs rest [of 1] rest [of "skip_quoted c cs + 1"] lcs p
    by (auto simp: token_char_def Let_def new_def)
  moreover have "\<forall>i\<in>set new. i < q_p ?Q \<and> i < length t \<and> q_text ?Q ! i = CHR ''?''"
    using p s nth by (simp add: new_def token_char_def Let_def)
  ultimately show ?thesis
    using Cons by (intro parse_inv_move [OF inv _ frame marks] less_imp_le token_char_p) simp_all
qed

lemma parse_step_inv:
  assumes inv: "parse_inv t Q" and p: "q_p Q < length t"
  shows "parse_inv t (parse_step rc (length t) Q)"
proof (cases "q_ReadingToken Q")
  case False
  obtain t1 p1 l1 where s: "SkipSpacesAndComments (q_text Q) (q_p Q) (length t - q_p Q) True = (t1, p1, l1)"
    by (metis prod_cases3)
  have len: "length (q_text Q) = length t" and nul: "NUL \<notin> set (drop (q_p Q) (q_text Q))"
    using inv by (simp_all add: parse_inv_def)
  have sk: "skipped (q_text Q) (q_p Q) t1 p1 \<and> comment_length (drop p1 t1) = None"
    using SkipSpaces_loop_skipped [OF nul, of t1 p1 l1] s p len by (simp add: SkipSpacesAndComments_def)
  let ?R = "replace_call rc (Q\<lparr>q_text := t1, q_p := p1\<rparr>)"
  have "parse_inv t ?R \<and> comment_length (drop p1 (q_text ?R)) = None"
    using replace_call_skipped [OF parse_inv_skipped [OF inv], of t1 p1 rc] sk by simp
  then have "parse_inv t (token_char (length t) (classify (length t) (save_token ?R)))"
    by (intro token_char_inv) (simp_all add: parse_inv_classify, simp add: save_token_def)
  then show ?thesis using False s by (simp add: parse_step_def)
next
  case True
  show ?thesis
  proof (cases "q_text Q ! q_p Q \<in> token_end")
    case end_: True
    moreover have "q_p Q < length (q_text Q)" using p inv by (simp add: parse_inv_def)
    ultimately have "parse_step rc (length t) Q = Q\<lparr>q_ReadingToken := False\<rparr>"
      using True by (simp add: parse_step_def)
    then show ?thesis using inv by (simp add: parse_inv_def)
  next
    case False
    have len: "length (q_text Q) = length t" using inv by (simp add: parse_inv_def)
    have "ordinary (q_text Q ! q_p Q)"
      using False by (auto simp: token_end_def ordinary_def quotes_def)
    then have "markers (q_p Q) (drop (q_p Q) (q_text Q)) = markers (q_p Q + 1) (drop (q_p Q + 1) (q_text Q))"
      using markers_skip [of "[q_text Q ! q_p Q]" "q_p Q" "drop (q_p Q + 1) (q_text Q)"] p len
      by (simp add: Cons_nth_drop_Suc)
    then show ?thesis
      using True False by (intro parse_inv_move [OF inv, where new = "[]"]) (simp_all add: parse_step_def)
  qed
qed

lemma parse_loop_inv:
  assumes "parse_inv t Q"
  shows "parse_inv t (parse_loop rc (length t) Q) \<and> length t \<le> q_p (parse_loop rc (length t) Q)"
  using assms
proof (induction rc "length t" Q rule: parse_loop.induct)
  case (1 rc Q)
  show ?case
  proof (cases "q_p Q < length t")
    case True
    then show ?thesis
      using 1(1) [OF True parse_step_inv [OF 1(2) True]] parse_loop.simps [of rc "length t" Q] by simp
  next
    case False
    then show ?thesis using 1(2) parse_loop.simps [of rc "length t" Q] by simp
  qed
qed

text \<open>
  C1.  The tokenizer finds exactly the parameter markers of a query: the positions it records are, in
  order, those of the question marks outside comments and quoted strings, and the query has parameters
  if and only if there is one.  The tokenizer overwrites comments, separators and CALL in the text,
  but keeps its length and leaves every marker in place.
\<close>

theorem ParseQuery_finds_markers:
  assumes "NUL \<notin> set t"
  shows "q_ParamPositions (ParseQuery replaceCall batch t) = markers 0 t
       \<and> (q_HasParameters (ParseQuery replaceCall batch t) \<longleftrightarrow> markers 0 t \<noteq> [])
       \<and> length (q_text (ParseQuery replaceCall batch t)) = length t
       \<and> (\<forall>i\<in>set (markers 0 t). i < length t \<and> q_text (ParseQuery replaceCall batch t) ! i = CHR ''?'')"
proof -
  let ?Q = "ParseQuery replaceCall batch t"
  have "parse_inv t (new_query t batch)" using assms by (simp add: parse_inv_def new_query_def)
  then have inv: "parse_inv t ?Q" "length t \<le> q_p ?Q"
    using parse_loop_inv unfolding ParseQuery_def by blast+
  then have "q_ParamPositions ?Q = markers 0 t" by (auto simp: parse_inv_def)
  then show ?thesis using inv(1) by (auto simp: parse_inv_def)
qed

theorem ParseQuery_finds_markers_witness:
  "q_ParamPositions (ParseQuery True True ''CALL p(?, `?`) -- ?'') = [7]"
proof -
  have "q_ParamPositions (ParseQuery True True ''CALL p(?, `?`) -- ?'') = markers 0 ''CALL p(?, `?`) -- ?''"
    using ParseQuery_finds_markers [of "''CALL p(?, `?`) -- ?''" True True] by simp
  also have "\<dots> = [7]" by code_simp
  finally show ?thesis .
qed

section \<open>Escape sequences: replacement\<close>

text \<open>Text without brackets and quotes is copied.\<close>

definition no_escape :: "string \<Rightarrow> bool" where
  "no_escape s \<longleftrightarrow> set s \<inter> (quotes \<union> {CHR ''{'', CHR ''}''}) = {}"

lemma unescape_copies:
  "no_escape a \<Longrightarrow> unescape yy (length a + fuel) opened res (a @ s) = unescape yy fuel opened (res @ a) s"
proof (induction a arbitrary: res)
  case (Cons c a)
  have "unescape yy (Suc (length a + fuel)) opened res (c # a @ s)
      = unescape yy (length a + fuel) opened (res @ [c]) (a @ s)"
    using Cons.prems by (subst unescape_char) (auto simp: no_escape_def)
  then show ?case using Cons by (simp add: no_escape_def)
qed simp

lemma unescape_end: "unescape yy (Suc fuel) 0 res [] = Unescaped res []"
  by (simp add: unescape.simps)

lemma unescape_close:
  assumes "no_escape e"
  shows "unescape yy (Suc (length e + fuel)) (Suc k) [] (e @ CHR ''}'' # b)
       = (case yy e of Inl (st, msg) \<Rightarrow> UnescapeError st msg | Inr t \<Rightarrow> Unescaped t b)"
  using unescape_copies [OF assms, of yy "Suc fuel" "Suc k" "[]" "CHR ''}'' # b"]
  by (simp add: unescape_char split: sum.splits prod.splits)



end
