(* ===== verification/Odbc_Dsn.thy ===== *)
theory Odbc_Dsn
  imports Odbc_Error C_Numbers "HOL-Library.Word"
begin

unbundle bit_operations_syntax

text \<open>
  Data source settings (\<open>src/ma_dsn.c\<close>, \<open>src/ma_dsn.h\<close>): the table of keys, storing a value under a
  key with the switches and option bits that depend on it, reading and writing connection strings,
  and reading and saving a data source.

  The C structure is reached through offsets that the key table holds.  Here an offset is a constructor
  of \<open>dsn_field\<close>, and the structure has one area per member type: strings (\<^const>\<open>None\<close> is the null
  pointer), one-byte members and 32-bit members.
\<close>

section \<open>The structure and the key table\<close>

datatype (plugins only: code) dsn_field =
    DSNName | Driver | Description | App | ServerName | UserName | Password | Catalog | CharacterSet
  | InitCommand | TraceFile | Socket | ConnCPluginsDir | ConnAttrs | SslKey | SslCert | SslCa | SslCaPath
  | SslCipher | SslCrl | SslCrlPath | TlsPeerFp | TlsPeerFpList | TlsKeyPwd | ServerKey | SaveFile | JWT
  | IsNamedPipe | IsTcpIp | Reconnect | ConnectPrompt | NoSsps | NoCache | SslVerify | ForceTls
  | ReadMycnf | InteractiveClient | ForceForwardOnly | CompatMode | IsBrowserAuth | IgnoreKeyring
  | RewriteCallSP | UseWcharTypes | FallbackCspsStmt | TlsVersion | Port | Options | ConnectionTimeout
  | ReadTimeout | WriteTimeout | TestMode

record MADB_Dsn =
  d_str :: "dsn_field \<Rightarrow> string option"
  d_char :: "dsn_field \<Rightarrow> int"
  d_int :: "dsn_field \<Rightarrow> 32 word"

datatype enum_dsn_item_type =
  DSN_TYPE_STRING | DSN_TYPE_INT | DSN_TYPE_BOOL | DSN_TYPE_COMBO | DSN_TYPE_OPTION | DSN_TYPE_CBOXGROUP

text \<open>For an alias the offset is the index of the key it stands for.\<close>

datatype dsn_offset = Field dsn_field | Index nat

record MADB_DsnKey =
  k_DsnKey :: string
  k_DsnOffset :: dsn_offset
  k_Type :: enum_dsn_item_type
  k_FlagValue :: "32 word"
  k_IsAlias :: bool

definition dsn_key :: "string \<Rightarrow> dsn_offset \<Rightarrow> enum_dsn_item_type \<Rightarrow> 32 word \<Rightarrow> bool \<Rightarrow> MADB_DsnKey" where
  "dsn_key n off t fl al =
     \<lparr>k_DsnKey = n, k_DsnOffset = off, k_Type = t, k_FlagValue = fl, k_IsAlias = al\<rparr>"

definition DsnKeys :: "MADB_DsnKey list" where
  "DsnKeys = [
     dsn_key ''DSN'' (Field DSNName) DSN_TYPE_STRING 0 False,
     dsn_key ''DESCRIPTION'' (Field Description) DSN_TYPE_STRING 0 False,
     dsn_key ''DRIVER'' (Field Driver) DSN_TYPE_STRING 0 False,
     dsn_key ''OPTIONS'' (Field Options) DSN_TYPE_INT 0 False,
     dsn_key ''OPTION'' (Index 3) DSN_TYPE_INT 0 True,
     dsn_key ''NamedPipe'' (Field IsNamedPipe) DSN_TYPE_OPTION 8192 False,
     dsn_key ''TCPIP'' (Field IsTcpIp) DSN_TYPE_BOOL 0 False,
     dsn_key ''SERVER'' (Field ServerName) DSN_TYPE_STRING 0 False,
     dsn_key ''UID'' (Field UserName) DSN_TYPE_STRING 0 False,
     dsn_key ''PWD'' (Field Password) DSN_TYPE_STRING 0 False,
     dsn_key ''DATABASE'' (Field Catalog) DSN_TYPE_COMBO 0 False,
     dsn_key ''PORT'' (Field Port) DSN_TYPE_INT 0 False,
     dsn_key ''INITSTMT'' (Field InitCommand) DSN_TYPE_STRING 0 False,
     dsn_key ''CONN_TIMEOUT'' (Field ConnectionTimeout) DSN_TYPE_INT 0 False,
     dsn_key ''AUTO_RECONNECT'' (Field Reconnect) DSN_TYPE_OPTION 4194304 False,
     dsn_key ''NO_PROMPT'' (Field ConnectPrompt) DSN_TYPE_OPTION 16 False,
     dsn_key ''CHARSET'' (Field CharacterSet) DSN_TYPE_COMBO 0 False,
     dsn_key ''TRACE'' (Field TraceFile) DSN_TYPE_STRING 0 False,
     dsn_key ''PLUGIN_DIR'' (Field ConnCPluginsDir) DSN_TYPE_STRING 0 False,
     dsn_key ''SSLKEY'' (Field SslKey) DSN_TYPE_STRING 0 False,
     dsn_key ''SSLCERT'' (Field SslCert) DSN_TYPE_STRING 0 False,
     dsn_key ''SSLCA'' (Field SslCa) DSN_TYPE_STRING 0 False,
     dsn_key ''SSLCAPATH'' (Field SslCaPath) DSN_TYPE_STRING 0 False,
     dsn_key ''SSLCIPHER'' (Field SslCipher) DSN_TYPE_STRING 0 False,
     dsn_key ''SSLVERIFY'' (Field SslVerify) DSN_TYPE_BOOL 0 False,
     dsn_key ''TLSPEERFP'' (Field TlsPeerFp) DSN_TYPE_STRING 0 False,
     dsn_key ''TLSPEERFPLIST'' (Field TlsPeerFpList) DSN_TYPE_STRING 0 False,
     dsn_key ''SSLCRL'' (Field SslCrl) DSN_TYPE_STRING 0 False,
     dsn_key ''SSLCRLPATH'' (Field SslCrlPath) DSN_TYPE_STRING 0 False,
     dsn_key ''SOCKET'' (Field Socket) DSN_TYPE_STRING 0 False,
     dsn_key ''SAVEFILE'' (Field SaveFile) DSN_TYPE_STRING 0 False,
     dsn_key ''USE_MYCNF'' (Field ReadMycnf) DSN_TYPE_OPTION 65536 False,
     dsn_key ''TLSVERSION'' (Field TlsVersion) DSN_TYPE_CBOXGROUP 0 False,
     dsn_key ''FORCETLS'' (Field ForceTls) DSN_TYPE_BOOL 0 False,
     dsn_key ''SERVERKEY'' (Field ServerKey) DSN_TYPE_STRING 0 False,
     dsn_key ''TLSKEYPWD'' (Field TlsKeyPwd) DSN_TYPE_STRING 0 False,
     dsn_key ''INTERACTIVE'' (Field InteractiveClient) DSN_TYPE_BOOL 0 False,
     dsn_key ''FORWARDONLY'' (Field ForceForwardOnly) DSN_TYPE_OPTION 2097152 False,
     dsn_key ''COMPAT_MODE'' (Field CompatMode) DSN_TYPE_BOOL 0 False,
     dsn_key ''NO_SSPS'' (Field NoSsps) DSN_TYPE_BOOL 0 False,
     dsn_key ''NO_CACHE'' (Field NoCache) DSN_TYPE_OPTION 1048576 False,
     dsn_key ''APP'' (Field App) DSN_TYPE_STRING 0 False,
     dsn_key ''CONN_ATTRS'' (Field ConnAttrs) DSN_TYPE_STRING 0 False,
     dsn_key ''BROWSER_SSO'' (Field IsBrowserAuth) DSN_TYPE_BOOL 0 False,
     dsn_key ''IGNORE_KEYRING_SSO'' (Field IgnoreKeyring) DSN_TYPE_BOOL 0 False,
     dsn_key ''JWT'' (Field JWT) DSN_TYPE_STRING 0 False,
     dsn_key ''REWRITE_CALL_SP'' (Field RewriteCallSP) DSN_TYPE_BOOL 0 False,
     dsn_key ''USE_WCHAR_TYPES'' (Field UseWcharTypes) DSN_TYPE_BOOL 0 False,
     dsn_key ''FALLBACK_CSPS_STMT'' (Field FallbackCspsStmt) DSN_TYPE_BOOL 0 False,
     dsn_key ''TEST_MODE'' (Field TestMode) DSN_TYPE_INT 0 False,
     dsn_key ''READ_TIMEOUT'' (Field ReadTimeout) DSN_TYPE_INT 0 False,
     dsn_key ''WRITE_TIMEOUT'' (Field WriteTimeout) DSN_TYPE_INT 0 False,
     dsn_key ''SERVERNAME'' (Index 7) DSN_TYPE_STRING 0 True,
     dsn_key ''USER'' (Index 8) DSN_TYPE_STRING 0 True,
     dsn_key ''PASSWORD'' (Index 9) DSN_TYPE_STRING 0 True,
     dsn_key ''DB'' (Index 10) DSN_TYPE_COMBO 0 True,
     dsn_key ''SSLFP'' (Index 25) DSN_TYPE_STRING 0 True,
     dsn_key ''SSLFPLIST'' (Index 26) DSN_TYPE_STRING 0 True]"

abbreviation (input) DSNKEY_OPTIONS_INDEX :: nat where "DSNKEY_OPTIONS_INDEX \<equiv> 3"
abbreviation (input) DSNKEY_NAMEDPIPE_INDEX :: nat where "DSNKEY_NAMEDPIPE_INDEX \<equiv> 5"
abbreviation (input) DSNKEY_TCPIP_INDEX :: nat where "DSNKEY_TCPIP_INDEX \<equiv> 6"

text \<open>Key, dependent, and whether the dependent is switched the same way.\<close>

definition DsnKeysSwitch :: "(nat \<times> nat \<times> bool) list" where
  "DsnKeysSwitch = [(DSNKEY_NAMEDPIPE_INDEX, DSNKEY_TCPIP_INDEX, False),
                    (DSNKEY_TCPIP_INDEX, DSNKEY_NAMEDPIPE_INDEX, False)]"

text \<open>The member a key that is not an alias stands for (\<open>GET_FIELD_PTR\<close>).\<close>

fun offset_field :: "dsn_offset \<Rightarrow> dsn_field" where
  "offset_field (Field f) = f"
| "offset_field (Index i) = DSNName"

definition GET_FIELD :: "nat \<Rightarrow> dsn_field" where
  "GET_FIELD i = offset_field (k_DsnOffset (DsnKeys ! i))"

definition IS_OPTIONS_BITMAP :: "nat \<Rightarrow> bool" where
  "IS_OPTIONS_BITMAP i \<longleftrightarrow> i = DSNKEY_OPTIONS_INDEX \<or> i = DSNKEY_OPTIONS_INDEX"

definition DSN_OPTION :: "MADB_Dsn \<Rightarrow> 32 word \<Rightarrow> bool" where
  "DSN_OPTION d flag \<longleftrightarrow> d_int d Options AND flag \<noteq> 0"

section \<open>Storing values\<close>

definition MADB_DSN_SetDefaults :: "MADB_Dsn \<Rightarrow> MADB_Dsn" where
  "MADB_DSN_SetDefaults d = d\<lparr>d_char := (d_char d)(IsTcpIp := 1, NoSsps := 1, NoCache := 1)\<rparr>"

definition MADB_DSN_Init :: MADB_Dsn where
  "MADB_DSN_Init =
     MADB_DSN_SetDefaults \<lparr>d_str = (\<lambda>_. None), d_char = (\<lambda>_. 0), d_int = (\<lambda>_. 0)\<rparr>"

text \<open>\<open>MADB_DSN_Free\<close> frees these members, in this order, and sets them to null.\<close>

definition DSN_Free_members :: "dsn_field list" where
  "DSN_Free_members =
    [DSNName, Driver, Description, App, ServerName, UserName, Password, Catalog, CharacterSet, InitCommand,
     TraceFile, Socket, ConnCPluginsDir, SslKey, SslCert, SslCa, SslCaPath, SslCipher, SslCrl, SslCrlPath,
     TlsPeerFp, TlsPeerFpList, SaveFile, JWT, ServerKey, TlsKeyPwd, ConnAttrs]"

definition MADB_DSN_Free :: "MADB_Dsn \<Rightarrow> MADB_Dsn" where
  "MADB_DSN_Free d = d\<lparr>d_str := fold (\<lambda>f m. m(f := None)) DSN_Free_members (d_str d)\<rparr>"

definition MADB_SetOptionValue :: "MADB_Dsn \<Rightarrow> nat \<Rightarrow> bool \<Rightarrow> MADB_Dsn" where
  "MADB_SetOptionValue d i v =
    (let flag = k_FlagValue (DsnKeys ! i)
     in d\<lparr>d_char := (d_char d)(GET_FIELD i := if v then 1 else 0),
          d_int := (d_int d)(Options := if v then d_int d Options OR flag else d_int d Options AND NOT flag)\<rparr>)"

text \<open>Whether a key counts as set.\<close>

definition key_set :: "MADB_Dsn \<Rightarrow> nat \<Rightarrow> bool" where
  "key_set d i =
    (case k_Type (DsnKeys ! i) of
       DSN_TYPE_STRING \<Rightarrow> (case d_str d (GET_FIELD i) of None \<Rightarrow> False | Some s \<Rightarrow> s \<noteq> [])
     | DSN_TYPE_COMBO \<Rightarrow> (case d_str d (GET_FIELD i) of None \<Rightarrow> False | Some s \<Rightarrow> s \<noteq> [])
     | DSN_TYPE_INT \<Rightarrow> d_int d (GET_FIELD i) \<noteq> 0
     | _ \<Rightarrow> d_char d (GET_FIELD i) \<noteq> 0)"

text \<open>
  \<open>MADB_DsnSwitchDependents\<close>: the loop over the switch table.  The result has the return value and the
  structure.
\<close>

fun switch_loop :: "(nat \<times> nat \<times> bool) list \<Rightarrow> nat \<Rightarrow> MADB_Dsn \<Rightarrow> bool \<times> MADB_Dsn" where
  "switch_loop [] Changed d = (True, d)"
| "switch_loop ((key, dep, same) # rest) Changed d =
    (if key = Changed then
       (let v = (same = key_set d Changed)
        in if k_IsAlias (DsnKeys ! dep) then (False, d)
           else (case k_Type (DsnKeys ! dep) of
                   DSN_TYPE_BOOL \<Rightarrow>
                     switch_loop rest Changed (d\<lparr>d_char := (d_char d)(GET_FIELD dep := if v then 1 else 0)\<rparr>)
                 | DSN_TYPE_OPTION \<Rightarrow> switch_loop rest Changed (MADB_SetOptionValue d dep v)
                 | _ \<Rightarrow> (False, d)))
     else switch_loop rest Changed d)"

definition MADB_DsnSwitchDependents :: "MADB_Dsn \<Rightarrow> nat \<Rightarrow> bool \<times> MADB_Dsn" where
  "MADB_DsnSwitchDependents d Changed = switch_loop DsnKeysSwitch Changed d"

definition atoi :: "string \<Rightarrow> int" where
  "atoi s = s32 (fst (strtoll s))"

fun strcasestr :: "string \<Rightarrow> string \<Rightarrow> bool" where
  "strcasestr [] needle = (needle = [])"
| "strcasestr (c # cs) needle = (strnicmp_eq (c # cs) needle (length needle) \<or> strcasestr cs needle)"

definition TlsVersions :: "(string \<times> int) list" where
  "TlsVersions = [(''TLSv1.1'', 1), (''TLSv1.2'', 2), (''TLSv1.3'', 4)]"

text \<open>The value of the only group of check boxes, the TLS versions.\<close>

definition cboxgroup_value :: "string \<Rightarrow> int" where
  "cboxgroup_value Value =
    (if s8 (atoi Value) \<noteq> 0 then s8 (atoi Value)
     else fold (\<lambda>(n, b) v. if strcasestr Value n then v OR b else v) TlsVersions 0)"

definition MADB_DsnStoreValue :: "MADB_Dsn \<Rightarrow> nat \<Rightarrow> string \<Rightarrow> bool \<Rightarrow> bool \<times> MADB_Dsn" where
  "MADB_DsnStoreValue d i Value OverWrite =
    (let f = GET_FIELD i in
     if k_IsAlias (DsnKeys ! i) then (False, d)
     else
       MADB_DsnSwitchDependents
         (case k_Type (DsnKeys ! i) of
            DSN_TYPE_STRING \<Rightarrow>
              if d_str d f \<noteq> None \<and> \<not> OverWrite then d else d\<lparr>d_str := (d_str d)(f := Some Value)\<rparr>
          | DSN_TYPE_COMBO \<Rightarrow>
              if d_str d f \<noteq> None \<and> \<not> OverWrite then d else d\<lparr>d_str := (d_str d)(f := Some Value)\<rparr>
          | DSN_TYPE_BOOL \<Rightarrow>
              if d_char d f \<noteq> 0 \<and> \<not> OverWrite then d else d\<lparr>d_char := (d_char d)(f := s8 (atoi Value))\<rparr>
          | DSN_TYPE_CBOXGROUP \<Rightarrow>
              if d_char d f \<noteq> 0 \<and> \<not> OverWrite then d else d\<lparr>d_char := (d_char d)(f := cboxgroup_value Value)\<rparr>
          | DSN_TYPE_INT \<Rightarrow>
              if d_int d f \<noteq> 0 \<and> \<not> OverWrite then d
              else d\<lparr>d_int := (d_int d)(f := word_of_int (fst (strtoull Value)))\<rparr>
          | DSN_TYPE_OPTION \<Rightarrow>
              if d_char d f \<noteq> 0 \<and> \<not> OverWrite then d
              else MADB_SetOptionValue d i (fst (strtoull Value) \<noteq> 0))
         i)"

text \<open>\<open>MADB_DsnUpdateOptionsFields\<close>: every option field is set from its bit, in table order.\<close>

definition option_key :: "nat \<Rightarrow> bool" where
  "option_key i \<longleftrightarrow> i < length DsnKeys \<and> \<not> k_IsAlias (DsnKeys ! i) \<and> k_Type (DsnKeys ! i) = DSN_TYPE_OPTION"

definition update_option :: "nat \<Rightarrow> MADB_Dsn \<Rightarrow> MADB_Dsn" where
  "update_option i d =
    (if option_key i
     then snd (MADB_DsnSwitchDependents
            (d\<lparr>d_char := (d_char d)(GET_FIELD i := if DSN_OPTION d (k_FlagValue (DsnKeys ! i)) then 1 else 0)\<rparr>) i)
     else d)"

definition MADB_DsnUpdateOptionsFields :: "MADB_Dsn \<Rightarrow> MADB_Dsn" where
  "MADB_DsnUpdateOptionsFields d = fold update_option [0..<length DsnKeys] d"

section \<open>Connection strings\<close>

text \<open>\<open>trim\<close> and \<open>ltrim\<close> (\<open>src/ma_common.c\<close>) as functions of the string.\<close>

definition ltrim_str :: "string \<Rightarrow> string" where
  "ltrim_str s = dropWhile isspace s"

definition trim_str :: "string \<Rightarrow> string" where
  "trim_str s = rev (dropWhile isspace (rev (ltrim_str s)))"

text \<open>The index of a key name, aliases resolved.\<close>

fun key_search :: "MADB_DsnKey list \<Rightarrow> nat \<Rightarrow> string \<Rightarrow> nat option" where
  "key_search [] i name = None"
| "key_search (k # ks) i name =
     (if stricmp_eq (k_DsnKey k) name
      then Some (case k_DsnOffset k of Index j \<Rightarrow> j | Field _ \<Rightarrow> i)
      else key_search ks (Suc i) name)"

definition find_key :: "string \<Rightarrow> nat option" where
  "find_key name = key_search DsnKeys 0 name"

text \<open>
  The value in braces: \<open>prev\<close> is the text behind the opening brace, \<open>acc\<close> what has been copied.  A
  doubled closing brace stands for one.  The result is the value and the text behind the closing brace,
  if there is one.
\<close>

function brace_value :: "string \<Rightarrow> string \<Rightarrow> string \<times> string option" where
  "brace_value prev acc =
    (let part = takeWhile (\<lambda>c. c \<noteq> CHR ''}'') prev; rest = drop (length part + 1) prev
     in if length part = length prev then (acc, None)
        else if rest \<noteq> [] \<and> hd rest = CHR ''}'' then brace_value (tl rest) (acc @ part @ ''}'')
        else (acc @ part, Some rest))"
  by pat_completeness auto
termination brace_value
  by (relation "measure (\<lambda>(prev, acc). length prev)") auto

declare brace_value.simps [simp del]

text \<open>
  The part of a string up to the first delimiter, and the string behind it if there is one.  The NUL at
  the end of the C string is found when the delimiter is NUL.
\<close>

definition split_at :: "char \<Rightarrow> string \<Rightarrow> string \<times> string option" where
  "split_at delim s =
    (let v = takeWhile (\<lambda>c. c \<noteq> delim \<and> c \<noteq> NUL) s
     in case drop (length v) s of
          [] \<Rightarrow> (v, if delim = NUL then Some [] else None)
        | c # rest \<Rightarrow> (v, if c = delim then Some rest else None))"

text \<open>
  A value in braces at the start of the buffer \<open>s\<close>, and where the next key is looked for: one character
  behind the closing brace.
\<close>

definition brace_rest :: "buffer \<Rightarrow> string \<times> buffer option" where
  "brace_rest s =
    (case brace_value (tl (c_str s)) [] of
       (v, None) \<Rightarrow> (v, None)
     | (v, Some r) \<Rightarrow> (v, Some (drop (length (c_str s) - length r + 1) s)))"

text \<open>A value, in braces or up to the delimiter: whether it is in braces, the value, and the rest.\<close>

definition conn_value :: "char \<Rightarrow> buffer \<Rightarrow> bool \<times> string \<times> buffer option" where
  "conn_value delim value =
    (let behind = drop (length (takeWhile isspace (c_str value))) value
     in if c_str behind \<noteq> [] \<and> hd behind = CHR ''{'' then (True, brace_rest behind)
        else (False, split_at delim behind))"

definition store_pair :: "nat \<Rightarrow> string \<Rightarrow> buffer option \<Rightarrow> MADB_Dsn \<Rightarrow> buffer option \<times> bool \<times> MADB_Dsn" where
  "store_pair i v next d =
    (case MADB_DsnStoreValue d i (trim_str v) True of
       (False, d1) \<Rightarrow> (None, False, d1)
     | (True, d1) \<Rightarrow> (next, True, if IS_OPTIONS_BITMAP i then MADB_DsnUpdateOptionsFields d1 else d1))"

text \<open>
  One round of the loop of \<open>MADB_ParseConnString\<close> on the rest \<open>key\<close> of the buffer: the rest for the next
  round (\<^const>\<open>None\<close>: the loop ends), the return value so far and the structure.  \<open>room\<close> is the size of
  the block that receives values in braces; the round itself is \<^const>\<open>None\<close> if it writes outside it.
\<close>

definition key_name :: "buffer \<Rightarrow> string" where
  "key_name key = takeWhile (\<lambda>c. c \<noteq> CHR ''='' \<and> c \<noteq> NUL) key"

definition key_value :: "buffer \<Rightarrow> buffer option" where
  "key_value key =
    (case drop (length (key_name key)) key of
       [] \<Rightarrow> None
     | c # value \<Rightarrow> if c = CHR ''='' then Some value else None)"

definition parse_pair ::
  "int \<Rightarrow> char \<Rightarrow> buffer \<Rightarrow> MADB_Dsn \<Rightarrow> (buffer option \<times> bool \<times> MADB_Dsn) option" where
  "parse_pair room delim key d =
    (if delim \<noteq> NUL \<and> hd key = delim then Some (Some (tl key), True, d)
     else (case key_value key of
             None \<Rightarrow> Some (None, False, d)
           | Some value \<Rightarrow>
               (case find_key (trim_str (key_name key)) of
                  None \<Rightarrow> Some (snd (split_at delim value), True, d)
                | Some i \<Rightarrow>
                    (case conn_value delim value of
                       (braced, v, next) \<Rightarrow>
                         if braced \<and> room < int (length v) + 1 then None else Some (store_pair i v next d)))))"

lemma takeWhile_drop_Cons: "drop (length (takeWhile P s)) s = c # r \<Longrightarrow> length r < length s"
  by (metis Suc_le_lessD diff_le_self length_Cons length_drop)

lemma split_at_le: "snd (split_at delim s) = Some r \<Longrightarrow> length r \<le> length s"
  by (auto simp: split_at_def Let_def split: list.splits if_splits dest!: takeWhile_drop_Cons)

lemma brace_rest_le: "snd (brace_rest s) = Some r \<Longrightarrow> length r \<le> length s"
  by (auto simp: brace_rest_def split: prod.splits option.splits)

lemma conn_value_le: "conn_value delim value = (braced, v, Some r) \<Longrightarrow> length r \<le> length value"
proof -
  let ?behind = "drop (length (takeWhile isspace (c_str value))) value"
  assume "conn_value delim value = (braced, v, Some r)"
  then have "snd (brace_rest ?behind) = Some r \<or> snd (split_at delim ?behind) = Some r"
    by (auto simp: conn_value_def Let_def split: if_splits)
  then have "length r \<le> length ?behind" using split_at_le brace_rest_le by blast
  then show "length r \<le> length value" by simp
qed

lemma key_value_shorter: "key_value key = Some value \<Longrightarrow> length value < length key"
  by (auto simp: key_value_def key_name_def split: list.splits if_splits dest!: takeWhile_drop_Cons)

lemma store_pair_next: "store_pair i v next d = (Some r, ret, d1) \<Longrightarrow> next = Some r"
  by (auto simp: store_pair_def split: prod.splits bool.splits)

lemma parse_pair_shorter:
  assumes "key \<noteq> []" "parse_pair room delim key d = Some (Some key1, ret, d1)"
  shows "length key1 < length key"
  using assms
  by (auto simp: parse_pair_def split: if_splits option.splits prod.splits
      dest!: store_pair_next conn_value_le key_value_shorter split_at_le)

text \<open>The loop; the result is the return value and the structure.\<close>

function conn_loop :: "int \<Rightarrow> char \<Rightarrow> string \<Rightarrow> MADB_Dsn \<Rightarrow> (bool \<times> MADB_Dsn) option" where
  "conn_loop room delim key d =
    (if key = [] then Some (True, d)
     else (case parse_pair room delim key d of
             None \<Rightarrow> None
           | Some (None, ret, d1) \<Rightarrow> Some (ret, d1)
           | Some (Some key1, _, d1) \<Rightarrow> conn_loop room delim key1 d1))"
  by pat_completeness auto
termination conn_loop
  by (relation "measure (\<lambda>(room, delim, key, d). length key)") (auto intro: parse_pair_shorter)

declare conn_loop.simps [simp del]

text \<open>
  \<open>ConnStringLength\<close>: with a NUL as delimiter the string is a sequence of NUL-terminated pairs with
  another NUL behind the last.
\<close>

function multi_length :: "buffer \<Rightarrow> nat" where
  "multi_length s =
    (let n = length (c_str s) + 1; rest = drop n s
     in if rest = [] \<or> hd rest = NUL then n else n + multi_length rest)"
  by pat_completeness auto
termination multi_length
  by (relation "measure length") auto

definition ConnStringLength :: "buffer \<Rightarrow> char \<Rightarrow> nat" where
  "ConnStringLength s delim = (if delim \<noteq> NUL then length (c_str s) else multi_length s)"

definition MADB_ParseConnString :: "MADB_Dsn \<Rightarrow> buffer option \<Rightarrow> int \<Rightarrow> char \<Rightarrow> (bool \<times> MADB_Dsn) option" where
  "MADB_ParseConnString d String Length delim =
    (case String of
       None \<Rightarrow> Some (False, d)
     | Some s \<Rightarrow>
         (let n = (if Length = SQL_NTS then int (ConnStringLength s delim) else Length)
          in conn_loop (n - 4) delim (take (nat n) s) d))"

section \<open>Data sources in the profile\<close>

text \<open>
  \<open>SQLGetPrivateProfileString\<close> is the argument \<open>profile\<close>: the value of a key of a data source, empty if
  there is none.  \<open>MADB_ReadDSN\<close> goes through the table from index 1; an option without a value of its
  own takes its bit of OPTIONS.
\<close>

definition read_key ::
  "(string \<Rightarrow> string \<Rightarrow> string) \<Rightarrow> bool \<Rightarrow> nat \<Rightarrow> MADB_Dsn \<Rightarrow> bool \<times> MADB_Dsn" where
  "read_key profile OverWrite i d =
    (let k = DsnKeys ! i;
         idx = (case k_DsnOffset k of Index j \<Rightarrow> j | Field _ \<Rightarrow> i);
         val = profile (case d_str d DSNName of None \<Rightarrow> [] | Some n \<Rightarrow> n) (k_DsnKey k)
     in if val \<noteq> [] then MADB_DsnStoreValue d idx val OverWrite
        else if k_Type k = DSN_TYPE_OPTION
        then (True, d\<lparr>d_char := (d_char d)
                (GET_FIELD idx := if DSN_OPTION d (k_FlagValue (DsnKeys ! idx)) then 1 else 0)\<rparr>)
        else (True, d))"

fun read_loop :: "(string \<Rightarrow> string \<Rightarrow> string) \<Rightarrow> bool \<Rightarrow> nat list \<Rightarrow> MADB_Dsn \<Rightarrow> bool \<times> MADB_Dsn" where
  "read_loop profile ow [] d = (True, d)"
| "read_loop profile ow (i # is) d =
    (case read_key profile ow i d of
       (False, d1) \<Rightarrow> (False, d1)
     | (True, d1) \<Rightarrow> read_loop profile ow is d1)"

definition MADB_ReadDSN ::
  "(string \<Rightarrow> string \<Rightarrow> string) \<Rightarrow> MADB_Dsn \<Rightarrow> string option \<Rightarrow> bool \<Rightarrow> bool \<times> MADB_Dsn" where
  "MADB_ReadDSN profile d KeyValue OverWrite =
    (case KeyValue of
       None \<Rightarrow> (if d_str d DSNName = None then (False, d)
                else read_loop profile OverWrite [1..<length DsnKeys] d)
     | Some kv \<Rightarrow>
         (if CHR ''='' \<in> set kv
          then read_loop profile OverWrite [1..<length DsnKeys]
                 (d\<lparr>d_str := (d_str d)(DSNName := Some (tl (dropWhile (\<lambda>c. c \<noteq> CHR ''='') kv)))\<rparr>)
          else (False, d)))"

text \<open>\<open>MADB_ReadConnString\<close>: the connection string, then the data source, then the string again.\<close>

definition MADB_ReadConnString ::
  "(string \<Rightarrow> string \<Rightarrow> string) \<Rightarrow> MADB_Dsn \<Rightarrow> buffer option \<Rightarrow> int \<Rightarrow> char \<Rightarrow> (bool \<times> MADB_Dsn) option" where
  "MADB_ReadConnString profile d String Length delim =
    (case MADB_ParseConnString d String Length delim of
       None \<Rightarrow> None
     | Some (False, d1) \<Rightarrow> Some (False, d1)
     | Some (True, d1) \<Rightarrow>
         if d_str d1 DSNName \<noteq> None \<and> (d_str d1 Driver = None \<or> d_str d1 Driver = Some [])
         then map_option (\<lambda>(_, d2). (True, d2))
                (MADB_ParseConnString (snd (MADB_ReadDSN profile d1 None True)) String Length delim)
         else Some (True, d1))"

text \<open>
  \<open>MADB_SaveDSN\<close>: the pairs written to the profile, and the return value.  The arguments say whether the
  name is valid, the old entry could be removed and the new one made, and whether a write succeeds.
\<close>

definition hu :: "int \<Rightarrow> string" where
  "hu c = dec_of_int (u16 c)"

definition saved_value :: "MADB_Dsn \<Rightarrow> nat \<Rightarrow> string option" where
  "saved_value d i =
    (let f = GET_FIELD i in
     if k_IsAlias (DsnKeys ! i) then None
     else (case k_Type (DsnKeys ! i) of
             DSN_TYPE_BOOL \<Rightarrow> Some (if d_char d f \<noteq> 0 then ''1'' else ''0'')
           | DSN_TYPE_INT \<Rightarrow> Some (dec_of_int (sint (d_int d f)))
           | DSN_TYPE_CBOXGROUP \<Rightarrow> Some (hu (d_char d f))
           | DSN_TYPE_OPTION \<Rightarrow> None
           | _ \<Rightarrow> (case d_str d f of None \<Rightarrow> None | Some v \<Rightarrow> if v = [] then None else Some v)))"

fun write_all :: "(string \<Rightarrow> string \<Rightarrow> bool) \<Rightarrow> (string \<times> string) list \<Rightarrow> bool \<times> (string \<times> string) list" where
  "write_all writes [] = (True, [])"
| "write_all writes ((k, v) # rest) =
     (if writes k v then (case write_all writes rest of (ok, done) \<Rightarrow> (ok, (k, v) # done)) else (False, []))"

definition MADB_SaveDSN ::
  "bool \<Rightarrow> bool \<Rightarrow> bool \<Rightarrow> (string \<Rightarrow> string \<Rightarrow> bool) \<Rightarrow> MADB_Dsn \<Rightarrow> bool \<times> (string \<times> string) list" where
  "MADB_SaveDSN valid removed created writes d =
    (if \<not> valid \<or> \<not> removed \<or> \<not> created then (False, [])
     else write_all writes
       (List.map_filter (\<lambda>i. map_option (Pair (k_DsnKey (DsnKeys ! i))) (saved_value d i)) [1..<length DsnKeys]
        @ [(''OPTIONS'', dec_of_int (sint (d_int d Options)))]))"

section \<open>Writing a connection string\<close>

text \<open>
  \<open>MADB_DsnToString\<close>: the pairs are printed one after the other into a block of 2048 bytes; \<^const>\<open>None\<close> is a
  write outside it.  The result is the length and what is copied to the application's buffer of
  \<open>OutLength\<close> bytes.
\<close>

definition printed_value :: "MADB_Dsn \<Rightarrow> nat \<Rightarrow> string option" where
  "printed_value d i =
    (let f = GET_FIELD i in
     if k_IsAlias (DsnKeys ! i) then None
     else (case k_Type (DsnKeys ! i) of
             DSN_TYPE_INT \<Rightarrow> if d_int d f \<noteq> 0 then Some (dec_of_int (sint (d_int d f))) else None
           | DSN_TYPE_BOOL \<Rightarrow> if d_char d f \<noteq> 0 then Some ''1'' else None
           | DSN_TYPE_CBOXGROUP \<Rightarrow> if d_char d f \<noteq> 0 then Some (hu (d_char d f)) else None
           | DSN_TYPE_OPTION \<Rightarrow> None
           | _ \<Rightarrow> (case d_str d f of None \<Rightarrow> None | Some v \<Rightarrow> if v = [] then None else Some v)))"

definition is_special :: "string \<Rightarrow> bool" where
  "is_special v \<longleftrightarrow> CHR '' '' \<in> set v \<or> CHR '';'' \<in> set v \<or> CHR ''@'' \<in> set v"

definition pair_text :: "bool \<Rightarrow> nat \<Rightarrow> string \<Rightarrow> string" where
  "pair_text first i v =
    (if first then '''' else '';'') @ k_DsnKey (DsnKeys ! i) @ ''=''
      @ (if is_special v then ''{'' @ v @ ''}'' else v)"

definition put_pair :: "buffer \<times> nat \<Rightarrow> nat \<Rightarrow> string \<Rightarrow> (buffer \<times> nat) option" where
  "put_pair bt i v =
    (case bt of (b, tot) \<Rightarrow>
       let t = pair_text (tot = 0) i v; count = nat (u64 (2048 - int tot))
       in map_option (\<lambda>b1. (b1, nat (u64 (int tot + snprintf_result count t))))
            (mem_write b tot (snprintf_buf count t)))"

fun print_loop :: "MADB_Dsn \<Rightarrow> nat list \<Rightarrow> buffer \<times> nat \<Rightarrow> (buffer \<times> nat) option" where
  "print_loop d [] bt = Some bt"
| "print_loop d (i # is) bt =
    (case printed_value d i of
       None \<Rightarrow> print_loop d is bt
     | Some v \<Rightarrow> (case put_pair bt i v of None \<Rightarrow> None | Some bt1 \<Rightarrow> print_loop d is bt1))"

definition MADB_DsnToString :: "MADB_Dsn \<Rightarrow> nat \<Rightarrow> (nat \<times> buffer) option" where
  "MADB_DsnToString d OutLength =
     map_option (\<lambda>(b, tot). (tot, strncpy_buf (c_str b) OutLength))
       (print_loop d [0..<length DsnKeys] (replicate 2048 NUL, 0))"

section \<open>Facts about the table\<close>

text \<open>The options, with their fields and bits.\<close>

definition options_table :: "(nat \<times> dsn_field \<times> 32 word) list" where
  "options_table = [(5, IsNamedPipe, 8192), (14, Reconnect, 4194304), (15, ConnectPrompt, 16),
                    (31, ReadMycnf, 65536), (37, ForceForwardOnly, 2097152), (40, NoCache, 1048576)]"

lemma length_DsnKeys: "length DsnKeys = 58"
  by (simp add: DsnKeys_def)

lemma options_table_correct:
  "map (\<lambda>i. (i, GET_FIELD i, k_FlagValue (DsnKeys ! i))) (filter option_key [0..<length DsnKeys]) = options_table"
  by code_simp

lemma option_key_iff: "option_key i \<longleftrightarrow> (\<exists>f b. (i, f, b) \<in> set options_table)"
proof -
  have "option_key i \<longleftrightarrow> i \<in> set (filter option_key [0..<length DsnKeys])"
    by (auto simp: option_key_def)
  also have "\<dots> \<longleftrightarrow> i \<in> fst ` set options_table"
    unfolding options_table_correct [symmetric] by force
  finally show ?thesis by force
qed

lemma option_entry:
  assumes "(i, f, b) \<in> set options_table"
  shows "GET_FIELD i = f \<and> k_FlagValue (DsnKeys ! i) = b \<and> k_Type (DsnKeys ! i) = DSN_TYPE_OPTION
    \<and> \<not> k_IsAlias (DsnKeys ! i) \<and> i < length DsnKeys"
proof -
  have "(i, f, b) \<in> set (map (\<lambda>i. (i, GET_FIELD i, k_FlagValue (DsnKeys ! i))) (filter option_key [0..<length DsnKeys]))"
    using assms unfolding options_table_correct .
  then show ?thesis by (auto simp: option_key_def)
qed

text \<open>Which fields a key that is not an option writes.\<close>

definition harmless :: "nat \<Rightarrow> bool" where
  "harmless i \<longleftrightarrow>
    (case k_Type (DsnKeys ! i) of
       DSN_TYPE_BOOL \<Rightarrow> i = 6 \<or> GET_FIELD i \<notin> insert IsTcpIp (set (map (fst \<circ> snd) options_table))
     | DSN_TYPE_CBOXGROUP \<Rightarrow> GET_FIELD i \<notin> insert IsTcpIp (set (map (fst \<circ> snd) options_table))
     | DSN_TYPE_INT \<Rightarrow> i = 3 \<or> GET_FIELD i \<noteq> Options
     | _ \<Rightarrow> True)"

lemma harmless_keys: "i < length DsnKeys \<Longrightarrow> \<not> k_IsAlias (DsnKeys ! i) \<Longrightarrow> harmless i"
proof -
  have "list_all (\<lambda>i. k_IsAlias (DsnKeys ! i) \<or> harmless i) [0..<length DsnKeys]"
    by code_simp
  then show "i < length DsnKeys \<Longrightarrow> \<not> k_IsAlias (DsnKeys ! i) \<Longrightarrow> harmless i"
    by (auto simp: list_all_iff)
qed

lemma key_facts:
  "GET_FIELD 3 = Options" "k_Type (DsnKeys ! 3) = DSN_TYPE_INT"
  "GET_FIELD 5 = IsNamedPipe" "k_Type (DsnKeys ! 5) = DSN_TYPE_OPTION" "\<not> k_IsAlias (DsnKeys ! 5)"
  "k_FlagValue (DsnKeys ! 5) = 8192"
  "GET_FIELD 6 = IsTcpIp" "k_Type (DsnKeys ! 6) = DSN_TYPE_BOOL" "\<not> k_IsAlias (DsnKeys ! 6)"
  by code_simp+

lemma bit_set_other: "a AND b = 0 \<Longrightarrow> (x OR a) AND b = x AND (b :: 32 word)"
  by (simp add: bit.conj_disj_distrib2)

lemma bit_clear_other: "a AND b = 0 \<Longrightarrow> (x AND NOT a) AND b = x AND (b :: 32 word)"
proof -
  assume "a AND b = 0"
  moreover have "b = (a AND b) OR (NOT a AND b)"
    by (simp flip: bit.conj_disj_distrib2)
  ultimately have "NOT a AND b = b" by simp
  then show ?thesis by (simp add: and.assoc)
qed

lemma option_bits_disjoint:
  assumes "(i, f, a) \<in> set options_table" "(j, g, b) \<in> set options_table" "i \<noteq> j"
  shows "a AND b = 0" "f \<noteq> g"
proof -
  have "list_all (\<lambda>(i, f, a). list_all (\<lambda>(j, g, b). i = j \<or> (a AND b = 0 \<and> f \<noteq> g)) options_table) options_table"
    by code_simp
  then show "a AND b = 0" "f \<noteq> g" using assms by (auto simp: list_all_iff)
qed

lemma option_bit_ne: "(i, f, a) \<in> set options_table \<Longrightarrow> a \<noteq> 0"
  by (auto simp: options_table_def)

section \<open>Options and switches stay consistent\<close>

text \<open>
  An option is consistent when its field and its bit agree; the two transports are exclusive.
\<close>

definition option_agrees :: "MADB_Dsn \<Rightarrow> nat \<Rightarrow> bool" where
  "option_agrees d i \<longleftrightarrow> (d_char d (GET_FIELD i) \<noteq> 0 \<longleftrightarrow> DSN_OPTION d (k_FlagValue (DsnKeys ! i)))"

definition transport_ok :: "MADB_Dsn \<Rightarrow> bool" where
  "transport_ok d \<longleftrightarrow> (d_char d IsNamedPipe \<noteq> 0 \<longleftrightarrow> d_char d IsTcpIp = 0)"

text \<open>The options in \<open>X\<close> are left out.\<close>

definition dsn_ok :: "nat set \<Rightarrow> MADB_Dsn \<Rightarrow> bool" where
  "dsn_ok X d \<longleftrightarrow> (\<forall>i. option_key i \<and> i \<notin> X \<longrightarrow> option_agrees d i) \<and> transport_ok d"

lemma switch_other:
  assumes "i \<noteq> 5" "i \<noteq> 6"
  shows "MADB_DsnSwitchDependents d i = (True, d)"
  using assms by (simp add: MADB_DsnSwitchDependents_def DsnKeysSwitch_def)

lemma switch_pipe:
  "MADB_DsnSwitchDependents d 5 = (True, d\<lparr>d_char := (d_char d)(IsTcpIp := if d_char d IsNamedPipe = 0 then 1 else 0)\<rparr>)"
  by (simp add: MADB_DsnSwitchDependents_def DsnKeysSwitch_def key_facts key_set_def)

lemma switch_tcp:
  "MADB_DsnSwitchDependents d 6 = (True, MADB_SetOptionValue d 5 (d_char d IsTcpIp = 0))"
  by (simp add: MADB_DsnSwitchDependents_def DsnKeysSwitch_def key_facts key_set_def)

text \<open>Setting an option keeps the others.\<close>

lemma SetOptionValue_agrees:
  assumes "option_key i" "option_key j"
  shows "option_agrees (MADB_SetOptionValue d i v) j \<longleftrightarrow> (i = j \<or> option_agrees d j)"
proof -
  obtain f a where i: "(i, f, a) \<in> set options_table" using assms(1) option_key_iff by blast
  obtain g b where j: "(j, g, b) \<in> set options_table" using assms(2) option_key_iff by blast
  note ei = option_entry [OF i] and ej = option_entry [OF j]
  show ?thesis
  proof (cases "i = j")
    case True
    have "(x OR a) AND a \<noteq> 0" "(x AND NOT a) AND a = 0" for x
      using option_bit_ne [OF i] by (simp_all add: bit.conj_disj_distrib2 and.assoc)
    then show ?thesis
      using True ei by (simp add: option_agrees_def MADB_SetOptionValue_def DSN_OPTION_def)
  next
    case False
    note d = option_bits_disjoint [OF i j False]
    show ?thesis
      using False ei ej d bit_set_other [OF d(1)] bit_clear_other [OF d(1)]
      by (simp add: option_agrees_def MADB_SetOptionValue_def DSN_OPTION_def)
  qed
qed

lemma option_field:
  assumes "option_key i"
  shows "GET_FIELD i \<noteq> IsTcpIp" "GET_FIELD i = IsNamedPipe \<Longrightarrow> i = 5"
proof -
  obtain f a where i: "(i, f, a) \<in> set options_table" using assms option_key_iff by blast
  then have "f \<noteq> IsTcpIp" "f = IsNamedPipe \<Longrightarrow> i = 5" by (auto simp: options_table_def)
  then show "GET_FIELD i \<noteq> IsTcpIp" "GET_FIELD i = IsNamedPipe \<Longrightarrow> i = 5"
    using option_entry [OF i] by simp_all
qed

lemmas option_field_tcp = option_field(1) and option_field_pipe = option_field(2)

lemma option_key_5: "option_key 5"
  by (auto simp: option_key_iff options_table_def)

lemma not_option: "\<not> option_key 3" "\<not> option_key 6"
  by (auto simp: option_key_iff options_table_def)

lemma agrees_char_other:
  assumes "GET_FIELD i \<noteq> f"
  shows "option_agrees (d\<lparr>d_char := (d_char d)(f := c)\<rparr>) i = option_agrees d i"
  using assms by (simp add: option_agrees_def DSN_OPTION_def)

lemma agrees_int_other:
  assumes "f \<noteq> Options"
  shows "option_agrees (d\<lparr>d_int := (d_int d)(f := c)\<rparr>) i = option_agrees d i"
  using assms by (simp add: option_agrees_def DSN_OPTION_def)

lemma agrees_str: "option_agrees (d\<lparr>d_str := s\<rparr>) i = option_agrees d i"
  by (simp add: option_agrees_def DSN_OPTION_def)

lemma transport_frame:
  "transport_ok (d\<lparr>d_str := s\<rparr>) = transport_ok d" "transport_ok (d\<lparr>d_int := w\<rparr>) = transport_ok d"
  "f \<noteq> IsNamedPipe \<Longrightarrow> f \<noteq> IsTcpIp \<Longrightarrow> transport_ok (d\<lparr>d_char := (d_char d)(f := c)\<rparr>) = transport_ok d"
  by (simp_all add: transport_ok_def)

lemma SetOptionValue_chars:
  "d_char (MADB_SetOptionValue d i v) f = (if f = GET_FIELD i then (if v then 1 else 0) else d_char d f)"
  by (simp add: MADB_SetOptionValue_def)

text \<open>Storing an option, or switching the transport.\<close>

lemma store_option_ok:
  assumes "option_key i" "dsn_ok X d"
  shows "dsn_ok X (snd (MADB_DsnSwitchDependents (MADB_SetOptionValue d i v) i))"
proof (cases "i = 5")
  case True
  have "transport_ok (snd (MADB_DsnSwitchDependents (MADB_SetOptionValue d i v) i))"
    by (simp add: True switch_pipe transport_ok_def SetOptionValue_chars key_facts)
  moreover have "option_agrees (snd (MADB_DsnSwitchDependents (MADB_SetOptionValue d i v) i)) j"
    if "option_key j" "j \<notin> X" for j
    using that assms option_field_tcp [OF that(1)]
    by (simp add: True switch_pipe agrees_char_other SetOptionValue_agrees dsn_ok_def)
  ultimately show ?thesis by (simp add: dsn_ok_def)
next
  case False
  then have "i \<noteq> 6" "GET_FIELD i \<noteq> IsNamedPipe" "GET_FIELD i \<noteq> IsTcpIp"
    using assms(1) not_option option_field_pipe option_field_tcp by auto
  then show ?thesis
    using False assms by (auto simp: switch_other dsn_ok_def SetOptionValue_agrees transport_ok_def SetOptionValue_chars)
qed

lemma switch_tcp_ok:
  assumes "\<forall>j. option_key j \<and> j \<notin> X \<longrightarrow> option_agrees d j"
  shows "dsn_ok X (snd (MADB_DsnSwitchDependents d 6))"
  using assms option_key_5
  by (auto simp: switch_tcp dsn_ok_def SetOptionValue_agrees transport_ok_def SetOptionValue_chars key_facts)

lemma switch_ok:
  assumes "dsn_ok X d"
  shows "dsn_ok X (snd (MADB_DsnSwitchDependents d i))"
proof -
  consider "i = 5" | "i = 6" | "i \<noteq> 5" "i \<noteq> 6" by blast
  then show ?thesis
  proof cases
    case 1
    have "option_agrees (snd (MADB_DsnSwitchDependents d i)) j = option_agrees d j" if "option_key j" for j
      using option_field_tcp [OF that] by (simp add: 1 switch_pipe agrees_char_other)
    then show ?thesis using assms by (auto simp: dsn_ok_def 1 switch_pipe transport_ok_def)
  next
    case 2
    have "\<forall>j. option_key j \<and> j \<notin> X \<longrightarrow> option_agrees d j" using assms by (simp add: dsn_ok_def)
    then show ?thesis unfolding 2 by (rule switch_tcp_ok)
  next
    case 3
    then show ?thesis using assms by (simp add: switch_other)
  qed
qed

text \<open>One option field after the other is set from its bit.\<close>

lemma update_option_agrees:
  assumes "option_key j"
  shows "option_agrees (update_option i d) j \<longleftrightarrow> (i = j \<or> option_agrees d j)"
proof (cases "option_key i")
  case True
  let ?d = "d\<lparr>d_char := (d_char d)(GET_FIELD i := if DSN_OPTION d (k_FlagValue (DsnKeys ! i)) then 1 else 0)\<rparr>"
  have same: "option_agrees (snd (MADB_DsnSwitchDependents ?d i)) j = option_agrees ?d j"
    using option_field_tcp [OF assms] True not_option
    by (cases "i = 5"; cases "i = 6") (simp_all add: switch_pipe option_agrees_def DSN_OPTION_def switch_other)
  show ?thesis
  proof (cases "i = j")
    case True
    have "option_agrees ?d i" by (simp add: option_agrees_def DSN_OPTION_def)
    then show ?thesis using True same \<open>option_key i\<close> by (simp add: update_option_def)
  next
    case False
    then have "GET_FIELD j \<noteq> GET_FIELD i"
      using True assms option_bits_disjoint(2) option_entry by (metis option_key_iff)
    then show ?thesis using True False same by (simp add: update_option_def agrees_char_other)
  qed
next
  case False
  then show ?thesis using assms by (auto simp: update_option_def)
qed

lemma update_option_transport:
  "transport_ok (update_option i d) \<longleftrightarrow> (i = 5 \<or> transport_ok d)"
proof (cases "option_key i \<and> i \<noteq> 5")
  case True
  then have "GET_FIELD i \<noteq> IsTcpIp" "GET_FIELD i \<noteq> IsNamedPipe" "i \<noteq> 6"
    using option_field [of i] not_option by auto
  then show ?thesis using True by (simp add: update_option_def switch_other transport_frame)
next
  case False
  then show ?thesis
    using option_key_5 by (auto simp: update_option_def switch_pipe transport_ok_def key_facts)
qed

lemma update_options_upto:
  "(\<forall>j<n. option_key j \<longrightarrow> option_agrees (fold update_option [0..<n] d) j)
   \<and> (5 < n \<longrightarrow> transport_ok (fold update_option [0..<n] d))"
  by (induction n) (auto simp: update_option_agrees update_option_transport less_Suc_eq)

lemma UpdateOptionsFields_ok: "dsn_ok X (MADB_DsnUpdateOptionsFields d)"
  using update_options_upto [of "length DsnKeys" d]
  by (auto simp: dsn_ok_def MADB_DsnUpdateOptionsFields_def option_key_def length_DsnKeys)

lemma store_ok:
  assumes i: "i < length DsnKeys" "i \<noteq> 3" and ok: "dsn_ok X d"
  shows "dsn_ok X (snd (MADB_DsnStoreValue d i v ow))"
proof (cases "k_IsAlias (DsnKeys ! i) \<or> option_key i")
  case True
  then show ?thesis
    using assms store_option_ok switch_ok
    by (auto simp: MADB_DsnStoreValue_def Let_def option_key_def)
next
  case False
  then have h: "harmless i" using i harmless_keys by blast
  show ?thesis
  proof (cases "i = 6")
    case True
    have "\<forall>j. option_key j \<and> j \<notin> X \<longrightarrow> option_agrees (d\<lparr>d_char := (d_char d)(IsTcpIp := c)\<rparr>) j" for c
      using ok option_field_tcp by (simp add: dsn_ok_def agrees_char_other)
    note stored = switch_tcp_ok [OF this]
    show ?thesis
      using True stored switch_ok [OF ok, of 6] by (simp add: MADB_DsnStoreValue_def key_facts)
  next
    case False
    have fields: "GET_FIELD i \<notin> insert IsTcpIp (set (map (fst \<circ> snd) options_table)) \<Longrightarrow>
        dsn_ok X (d\<lparr>d_char := (d_char d)(GET_FIELD i := c)\<rparr>)" for c
    proof -
      assume f: "GET_FIELD i \<notin> insert IsTcpIp (set (map (fst \<circ> snd) options_table))"
      have "GET_FIELD j \<noteq> GET_FIELD i" if j: "option_key j" for j
      proof -
        obtain g b where "(j, g, b) \<in> set options_table" using j option_key_iff by blast
        then show ?thesis using f option_entry by force
      qed
      moreover have "GET_FIELD i \<noteq> IsNamedPipe" using f by (simp add: options_table_def)
      ultimately show ?thesis using ok f by (simp add: dsn_ok_def agrees_char_other transport_frame)
    qed
    have "\<not> option_key i" "\<not> k_IsAlias (DsnKeys ! i)" using \<open>\<not> (k_IsAlias _ \<or> option_key i)\<close> by auto
    then have "k_Type (DsnKeys ! i) \<noteq> DSN_TYPE_OPTION" using i by (simp add: option_key_def)
    then show ?thesis
      using False h i ok fields \<open>\<not> k_IsAlias (DsnKeys ! i)\<close>
      by (cases "k_Type (DsnKeys ! i)")
        (auto simp: MADB_DsnStoreValue_def Let_def harmless_def intro!: switch_ok,
         auto simp: dsn_ok_def agrees_str agrees_int_other transport_frame)
  qed
qed

text \<open>The key found is a key of the table that is not an alias.\<close>

lemma key_search_mem:
  "key_search ks n name = Some i \<Longrightarrow>
   \<exists>j<length ks. i = (case k_DsnOffset (ks ! j) of Index k \<Rightarrow> k | Field _ \<Rightarrow> n + j)"
proof (induction ks arbitrary: n)
  case (Cons k ks)
  show ?case
  proof (cases "stricmp_eq (k_DsnKey k) name")
    case True
    then show ?thesis using Cons.prems by (intro exI [of _ 0]) (simp cong: dsn_offset.case_cong)
  next
    case False
    then obtain j where "j < length ks" "i = (case k_DsnOffset (ks ! j) of Index k \<Rightarrow> k | Field _ \<Rightarrow> Suc n + j)"
      using Cons by force
    then show ?thesis by (intro exI [of _ "Suc j"]) (simp cong: dsn_offset.case_cong)
  qed
qed simp

lemma find_key_primary:
  assumes "find_key name = Some i"
  shows "i < length DsnKeys \<and> \<not> k_IsAlias (DsnKeys ! i)"
proof -
  have "list_all (\<lambda>j. case k_DsnOffset (DsnKeys ! j) of
      Index k \<Rightarrow> k < length DsnKeys \<and> \<not> k_IsAlias (DsnKeys ! k) | Field _ \<Rightarrow> \<not> k_IsAlias (DsnKeys ! j)) [0..<length DsnKeys]"
    by code_simp
  moreover obtain j where "j < length DsnKeys" "i = (case k_DsnOffset (DsnKeys ! j) of Index k \<Rightarrow> k | Field _ \<Rightarrow> j)"
    using key_search_mem [of DsnKeys 0 name i] assms by (auto simp: find_key_def cong: dsn_offset.case_cong)
  ultimately show ?thesis by (auto simp: list_all_iff split: dsn_offset.splits)
qed

lemma switch_succeeds: "fst (MADB_DsnSwitchDependents d i)"
  by (cases "i = 5"; cases "i = 6") (simp_all add: switch_pipe switch_tcp switch_other)

lemma store_succeeds: "\<not> k_IsAlias (DsnKeys ! i) \<Longrightarrow> fst (MADB_DsnStoreValue d i v ow)"
  by (simp add: MADB_DsnStoreValue_def Let_def switch_succeeds)

lemma store_pair_primary:
  assumes "find_key name = Some i"
  shows "store_pair i v next d =
    (next, True, let d1 = snd (MADB_DsnStoreValue d i (trim_str v) True)
                 in if IS_OPTIONS_BITMAP i then MADB_DsnUpdateOptionsFields d1 else d1)"
  using store_succeeds [of i d "trim_str v" True] find_key_primary [OF assms]
  by (auto simp: store_pair_def Let_def split: prod.splits)

lemma store_pair_ok:
  assumes "find_key name = Some i" "dsn_ok X d" "store_pair i v next d = (next1, ret, d1)"
  shows "dsn_ok X d1"
  using assms store_ok [of i X d "trim_str v" True] find_key_primary [OF assms(1)] UpdateOptionsFields_ok
  by (auto simp: store_pair_primary [OF assms(1)] Let_def IS_OPTIONS_BITMAP_def)

lemma parse_pair_ok:
  assumes "parse_pair room delim key d = Some (next, ret, d1)" "dsn_ok X d"
  shows "dsn_ok X d1"
  using assms
  by (auto simp: parse_pair_def split: if_splits option.splits prod.splits intro: store_pair_ok)

lemma conn_loop_ok:
  "conn_loop room delim key d = Some (ret, d1) \<Longrightarrow> dsn_ok X d \<Longrightarrow> dsn_ok X d1"
proof (induction room delim key d arbitrary: ret d1 rule: conn_loop.induct)
  case (1 room delim key d)
  show ?case
  proof (cases "key = []")
    case True
    then show ?thesis using "1.prems" by (simp add: conn_loop.simps)
  next
    case False
    then obtain nxt r d2 where pair: "parse_pair room delim key d = Some (nxt, r, d2)"
      using "1.prems"(1) by (subst (asm) conn_loop.simps) (auto split: option.splits)
    note ok = parse_pair_ok [OF pair "1.prems"(2)]
    show ?thesis
    proof (cases nxt)
      case None
      then show ?thesis using "1.prems"(1) False pair ok by (subst (asm) conn_loop.simps) simp
    next
      case (Some key1)
      then have "conn_loop room delim key1 d2 = Some (ret, d1)"
        using "1.prems"(1) False pair by (subst (asm) conn_loop.simps) simp
      then show ?thesis using "1.IH" [OF False pair refl] Some ok by blast
    qed
  qed
qed

text \<open>
  C26.  A connection string keeps the settings consistent: whatever it contains, if every option outside
  \<open>X\<close> has the value of its bit in OPTIONS and exactly one of the two transports is chosen, this is so
  after \<open>MADB_ParseConnString\<close>, in whatever order keys, their aliases and OPTIONS come and however often.
  (In the initial settings this holds for every option but NO_CACHE.)
\<close>

theorem ParseConnString_keeps_consistent:
  assumes "dsn_ok X d" "MADB_ParseConnString d String Length delim = Some (ret, d1)"
  shows "dsn_ok X d1"
  using assms conn_loop_ok by (auto simp: MADB_ParseConnString_def Let_def split: option.splits)

lemma Init_ok: "dsn_ok {40} MADB_DSN_Init"
proof -
  have "list_all (\<lambda>i. i = 40 \<or> \<not> option_key i \<or> option_agrees MADB_DSN_Init i) [0..<length DsnKeys]
      \<and> transport_ok MADB_DSN_Init"
    by code_simp
  then show ?thesis by (auto simp: list_all_iff dsn_ok_def option_key_def)
qed

theorem ParseConnString_keeps_consistent_witness:
  "\<exists>d1. MADB_ParseConnString MADB_DSN_Init (Some ''tcpip=0'') SQL_NTS (CHR '';'') = Some (True, d1)
      \<and> dsn_ok {40} d1 \<and> DSN_OPTION d1 8192"
proof -
  let ?r = "MADB_ParseConnString MADB_DSN_Init (Some ''tcpip=0'') SQL_NTS (CHR '';'')"
  have "case ?r of None \<Rightarrow> False | Some (ret, d) \<Rightarrow> ret \<and> DSN_OPTION d 8192"
    by code_simp
  then obtain d1 where "?r = Some (True, d1)" "DSN_OPTION d1 8192"
    by (auto split: option.splits)
  then show ?thesis using ParseConnString_keeps_consistent [OF Init_ok] by blast
qed

section \<open>The block for values in braces\<close>

lemma brace_value_length:
  "brace_value prev acc = (v, r) \<Longrightarrow> v = acc \<or> length v < length acc + length prev"
proof (induction prev acc arbitrary: v r rule: brace_value.induct)
  case (1 prev acc)
  define part where "part = takeWhile (\<lambda>c. c \<noteq> CHR ''}'') prev"
  define rest where "rest = drop (length part + 1) prev"
  have le: "length part \<le> length prev" by (simp add: part_def length_takeWhile_le)
  show ?case
  proof (cases "length part = length prev")
    case True
    then show ?thesis using "1.prems" by (simp add: brace_value.simps [of prev] part_def Let_def)
  next
    case open_: False
    show ?thesis
    proof (cases "rest \<noteq> [] \<and> hd rest = CHR ''}''")
      case True
      then have "brace_value (tl rest) (acc @ part @ ''}'') = (v, r)"
        using "1.prems" open_ by (simp add: brace_value.simps [of prev] part_def rest_def Let_def)
      then have "v = acc @ part @ ''}'' \<or> length v < length (acc @ part @ ''}'') + length (tl rest)"
        using "1.IH" [OF part_def rest_def] open_ True by blast
      moreover have "length rest = length prev - (length part + 1)" "0 < length rest"
        using True by (simp_all add: rest_def)
      ultimately show ?thesis using le open_ by auto
    next
      case False
      then have "v = acc @ part"
        using "1.prems" open_ by (auto simp: brace_value.simps [of prev] part_def rest_def Let_def)
      then show ?thesis using le open_ by simp
    qed
  qed
qed

lemma find_key_two: "find_key name = Some i \<Longrightarrow> 2 \<le> length name"
proof -
  have "list_all (\<lambda>k. 2 \<le> length (k_DsnKey k)) DsnKeys" by code_simp
  moreover have "key_search ks n name = Some i \<Longrightarrow> list_all (\<lambda>k. 2 \<le> length (k_DsnKey k)) ks \<Longrightarrow> 2 \<le> length name" for ks n
    by (induction ks arbitrary: n) (auto simp: stricmp_eq_def split: if_splits dest: arg_cong [where f = length])
  ultimately show "find_key name = Some i \<Longrightarrow> 2 \<le> length name" by (simp add: find_key_def)
qed

lemma trim_str_length: "length (trim_str s) \<le> length s"
  by (simp add: trim_str_def ltrim_str_def) (metis length_dropWhile_le length_rev order_trans)

lemma key_value_length:
  assumes "key_value key = Some value"
  shows "length key = length (key_name key) + 1 + length value"
proof -
  have "drop (length (key_name key)) key = CHR ''='' # value"
    using assms by (auto simp: key_value_def split: list.splits if_splits)
  then have "length key - length (key_name key) = Suc (length value)" by (metis length_Cons length_drop)
  then show ?thesis by simp
qed

lemma conn_value_room:
  assumes "conn_value delim value = (True, v, next)"
  shows "v = [] \<and> value \<noteq> [] \<or> length v + 1 < length value"
proof -
  define behind where "behind = drop (length (takeWhile isspace (c_str value))) value"
  have b: "c_str behind \<noteq> []" "(v, next) = brace_rest behind"
    using assms by (auto simp: conn_value_def behind_def Let_def split: if_splits)
  then obtain r where "brace_value (tl (c_str behind)) [] = (v, r)"
    by (auto simp: brace_rest_def split: prod.splits option.splits)
  then have "v = [] \<or> length v < length (tl (c_str behind))" using brace_value_length by fastforce
  moreover have "length (c_str behind) \<le> length behind" by (simp add: c_str_def length_takeWhile_le)
  moreover have "length behind \<le> length value" by (simp add: behind_def)
  moreover have "value \<noteq> []" using b(1) by (auto simp: behind_def c_str_def)
  ultimately show ?thesis by auto
qed

lemma conn_loop_inside:
  "int (length key) \<le> room + 4 \<Longrightarrow> room \<noteq> 0 \<Longrightarrow> conn_loop room delim key d \<noteq> None"
proof (induction room delim key d rule: conn_loop.induct)
  case (1 room delim key d)
  show ?case
  proof (cases "key = []")
    case True
    then show ?thesis by (simp add: conn_loop.simps)
  next
    case False
    have room: "\<not> room < int (length v) + 1"
      if k: "key_value key = Some val" "find_key (trim_str (key_name key)) = Some i"
        "conn_value delim val = (True, v, nxt)" for val i v nxt
    proof -
      have "2 \<le> length (key_name key)"
        using find_key_two [OF k(2)] trim_str_length order_trans by blast
      then have "int (length val) + 3 \<le> room + 4" using "1.prems"(1) key_value_length [OF k(1)] by linarith
      then show ?thesis using conn_value_room [OF k(3)] "1.prems"(2) by (cases val) auto
    qed
    then have "parse_pair room delim key d \<noteq> None"
      by (auto simp: parse_pair_def simp del: not_None_eq split: option.splits prod.splits)
    then obtain nxt r d2 where pair: "parse_pair room delim key d = Some (nxt, r, d2)" by auto
    show ?thesis
    proof (cases nxt)
      case None
      then show ?thesis using False pair by (subst conn_loop.simps) simp
    next
      case (Some key1)
      then have "conn_loop room delim key1 d2 \<noteq> None"
        using "1.IH" [OF False pair refl] "1.prems" parse_pair_shorter [OF False, of room delim d key1 r d2] pair by simp
      then show ?thesis using Some False pair by (subst conn_loop.simps) simp
    qed
  qed
qed

lemma multi_length_pos: "0 < multi_length s"
  by (subst multi_length.simps) (simp add: Let_def)



section \<open>Freeing\<close>

lemma fold_clear: "fold (\<lambda>f m. m(f := None)) fs m x = (if x \<in> set fs then None else m x)"
  by (induction fs arbitrary: m) auto

text \<open>
  C39. \<open>MADB_DSN_Free\<close> frees every string that a connection string or a stored data source can put into
  the structure, and no member twice.
\<close>

theorem DSN_Free_frees_strings:
  assumes "i < length DsnKeys" "\<not> k_IsAlias (DsnKeys ! i)" "k_Type (DsnKeys ! i) \<in> {DSN_TYPE_STRING, DSN_TYPE_COMBO}"
  shows "d_str (MADB_DSN_Free d) (GET_FIELD i) = None \<and> distinct DSN_Free_members"
proof -
  have "list_all (\<lambda>i. k_IsAlias (DsnKeys ! i) \<or> k_Type (DsnKeys ! i) \<notin> {DSN_TYPE_STRING, DSN_TYPE_COMBO}
      \<or> GET_FIELD i \<in> set DSN_Free_members) [0..<length DsnKeys] \<and> distinct DSN_Free_members"
    by code_simp
  then have "GET_FIELD i \<in> set DSN_Free_members" "distinct DSN_Free_members"
    using assms by (auto simp: list_all_iff)
  then show ?thesis by (simp add: MADB_DSN_Free_def fold_clear)
qed

theorem DSN_Free_frees_strings_witness:
  "d_str (MADB_DSN_Free (MADB_DSN_Init\<lparr>d_str := (\<lambda>_. Some ''x'')\<rparr>)) Password = None"
proof -
  have "9 < length DsnKeys" "\<not> k_IsAlias (DsnKeys ! 9)" "k_Type (DsnKeys ! 9) \<in> {DSN_TYPE_STRING, DSN_TYPE_COMBO}"
    "GET_FIELD 9 = Password" by code_simp+
  then show ?thesis using DSN_Free_frees_strings [of 9] by simp
qed

end
