(* ===== verification/Dsn_Roundtrip.thy ===== *)
theory Dsn_Roundtrip
  imports Odbc_Dsn
begin

text \<open>
  A connection string that \<open>MADB_DsnToString\<close> writes is read back by \<open>MADB_ParseConnString\<close>: first the text
  that is written, then what the reader makes of such a text, then what the stored pairs amount to.
\<close>

section \<open>The text that is written\<close>

definition printed :: "MADB_Dsn \<Rightarrow> nat list \<Rightarrow> (nat \<times> string) list" where
  "printed d is = List.map_filter (\<lambda>i. map_option (Pair i) (printed_value d i)) is"

lemma printed_simps [simp]:
  "printed d [] = []"
  "printed d (i # is) = (case printed_value d i of None \<Rightarrow> printed d is | Some v \<Rightarrow> (i, v) # printed d is)"
  by (simp_all add: printed_def List.map_filter_def split: option.splits)

fun conn_text :: "bool \<Rightarrow> (nat \<times> string) list \<Rightarrow> string" where
  "conn_text first [] = []"
| "conn_text first ((i, v) # ps) = pair_text first i v @ conn_text False ps"

lemma pair_text_ne [simp]: "pair_text first i v \<noteq> []"
  by (simp add: pair_text_def)

lemma put_pair_text:
  assumes "length T + length t < 2048" "t = pair_text (T = []) i v"
  shows "put_pair (T @ replicate (2048 - length T) NUL, length T) i v
       = Some ((T @ t) @ replicate (2048 - length (T @ t)) NUL, length (T @ t))"
proof -
  have u: "u64 (2048 - int (length T)) = 2048 - int (length T)" using assms(1) by (simp add: u64_def)
  have count: "nat (2048 - int (length T)) = 2048 - length T" by simp
  have "snprintf_result (2048 - length T) t = int (length t)" using assms(1) unfolding snprintf_result_def by auto
  moreover have "snprintf_buf (2048 - length T) t = t @ [NUL]" using assms(1) by (simp add: snprintf_buf_def)
  moreover have "mem_write (T @ replicate (2048 - length T) NUL) (length T) (t @ [NUL])
      = Some ((T @ t) @ replicate (2048 - length (T @ t)) NUL)"
    using assms(1) by (simp add: mem_write_def Suc_diff_le flip: replicate_Suc)
  ultimately show ?thesis
    using assms by (simp add: put_pair_def u count u64_def Let_def)
qed

lemma print_loop_text:
  assumes "length (T @ conn_text (T = []) (printed d is)) < 2048"
  shows "print_loop d is (T @ replicate (2048 - length T) NUL, length T) =
    (let U = T @ conn_text (T = []) (printed d is) in Some (U @ replicate (2048 - length U) NUL, length U))"
  using assms
proof (induction "is" arbitrary: T)
  case (Cons i "is")
  show ?case
  proof (cases "printed_value d i")
    case None
    then show ?thesis using Cons by simp
  next
    case (Some v)
    let ?t = "pair_text (T = []) i v"
    have ne: "(T @ ?t = []) = False" by simp
    have "put_pair (T @ replicate (2048 - length T) NUL, length T) i v
       = Some ((T @ ?t) @ replicate (2048 - length (T @ ?t)) NUL, length (T @ ?t))"
      by (rule put_pair_text) (use Cons.prems Some in simp_all)
    moreover have "length ((T @ ?t) @ conn_text (T @ ?t = []) (printed d is)) < 2048"
      using Cons.prems Some ne by simp
    ultimately show ?thesis using Cons.IH [of "T @ ?t"] Some ne by (simp add: Let_def)
  qed
qed (simp add: Let_def)

lemma DsnToString_text:
  assumes "length (conn_text True (printed d [0..<length DsnKeys])) < 2048"
    "NUL \<notin> set (conn_text True (printed d [0..<length DsnKeys]))"
  shows "MADB_DsnToString d n =
    (let T = conn_text True (printed d [0..<length DsnKeys]) in Some (length T, strncpy_buf T n))"
proof -
  let ?T = "conn_text True (printed d [0..<length DsnKeys])"
  have "c_str (?T @ replicate (2048 - length ?T) NUL) = ?T"
    using assms(2) by (cases "2048 - length ?T") (simp_all add: c_str_id is_cstring_def)
  then show ?thesis
    using print_loop_text [of "[]" d "[0..<length DsnKeys]"] assms(1)
    by (simp add: MADB_DsnToString_def Let_def)
qed

section \<open>Reading such a text\<close>

text \<open>Values the writer does not garble.\<close>

definition printable :: "string \<Rightarrow> bool" where
  "printable v \<longleftrightarrow> v \<noteq> [] \<and> NUL \<notin> set v \<and> CHR ''}'' \<notin> set v \<and> hd v \<noteq> CHR ''{'' \<and> trim_str v = v"

lemma trim_str_first: "trim_str v = v \<Longrightarrow> v \<noteq> [] \<Longrightarrow> \<not> isspace (hd v)"
proof
  assume v: "trim_str v = v" "v \<noteq> []" "isspace (hd v)"
  then have "length (trim_str v) < length v"
    using length_dropWhile_le [of isspace "rev (dropWhile isspace (tl v))"] length_dropWhile_le [of isspace "tl v"]
    by (cases v) (auto simp: trim_str_def ltrim_str_def)
  then show False using v(1) by simp
qed

lemma names_lower: "distinct (map (\<lambda>k. map tolower (k_DsnKey k)) DsnKeys)"
  by code_simp

lemma key_search_nth:
  "distinct (map (\<lambda>k. map tolower (k_DsnKey k)) ks) \<Longrightarrow> i < length ks \<Longrightarrow> k_DsnOffset (ks ! i) = Field f \<Longrightarrow>
   key_search ks n (k_DsnKey (ks ! i)) = Some (n + i)"
proof (induction ks arbitrary: n i)
  case (Cons k ks)
  show ?case
  proof (cases i)
    case 0
    then show ?thesis using Cons.prems by (simp add: stricmp_eq_def)
  next
    case (Suc j)
    then have "map tolower (k_DsnKey k) \<noteq> map tolower (k_DsnKey (ks ! j))"
      using Cons.prems(1,2) by (metis (no_types, lifting) distinct.simps(2) length_Cons list.map(2) list.set_map
          Suc_less_eq image_eqI nth_mem)
    then show ?thesis using Cons Suc by (simp add: stricmp_eq_def)
  qed
qed simp

lemma primary_offset: "i < length DsnKeys \<Longrightarrow> \<not> k_IsAlias (DsnKeys ! i) \<Longrightarrow> \<exists>f. k_DsnOffset (DsnKeys ! i) = Field f"
proof -
  have "list_all (\<lambda>k. k_IsAlias k \<or> (case k_DsnOffset k of Field _ \<Rightarrow> True | Index _ \<Rightarrow> False)) DsnKeys" by code_simp
  then show "i < length DsnKeys \<Longrightarrow> \<not> k_IsAlias (DsnKeys ! i) \<Longrightarrow> \<exists>f. k_DsnOffset (DsnKeys ! i) = Field f"
    by (cases "k_DsnOffset (DsnKeys ! i)") (auto simp: list_all_length)
qed

lemma find_key_name:
  assumes "i < length DsnKeys" "\<not> k_IsAlias (DsnKeys ! i)"
  shows "find_key (k_DsnKey (DsnKeys ! i)) = Some i"
  using primary_offset [OF assms] key_search_nth [OF names_lower assms(1), of _ 0] by (auto simp: find_key_def)

lemma names_plain:
  assumes "i < length DsnKeys"
  shows "let n = k_DsnKey (DsnKeys ! i) in
    n \<noteq> [] \<and> hd n \<noteq> CHR '';'' \<and> CHR ''='' \<notin> set n \<and> NUL \<notin> set n \<and> trim_str n = n"
proof -
  have "list_all (\<lambda>k. let n = k_DsnKey k in n \<noteq> [] \<and> hd n \<noteq> CHR '';'' \<and> CHR ''='' \<notin> set n \<and> NUL \<notin> set n \<and> trim_str n = n) DsnKeys"
    by code_simp
  then show ?thesis using assms by (simp add: list_all_length)
qed

lemma takeWhile_stop: "(\<And>c. c \<in> set a \<Longrightarrow> P c) \<Longrightarrow> \<not> P x \<Longrightarrow> takeWhile P (a @ x # b) = a"
  by (induction a) auto

lemma pair_key:
  assumes "i < length DsnKeys"
  shows "key_name (pair_text True i v @ rest) = k_DsnKey (DsnKeys ! i)"
    and "key_value (pair_text True i v @ rest) = Some ((if is_special v then ''{'' @ v @ ''}'' else v) @ rest)"
proof -
  let ?n = "k_DsnKey (DsnKeys ! i)" and ?w = "(if is_special v then ''{'' @ v @ ''}'' else v) @ rest"
  have eq: "pair_text True i v @ rest = ?n @ CHR ''='' # ?w" by (simp add: pair_text_def)
  show n: "key_name (pair_text True i v @ rest) = ?n"
    unfolding eq key_name_def using names_plain [OF assms]
    by (intro takeWhile_stop) (auto simp: Let_def)
  then show "key_value (pair_text True i v @ rest) = Some ?w"
    unfolding key_value_def n unfolding eq by simp
qed

lemma conn_value_plain:
  assumes "printable v" "\<not> is_special v" "rest = [] \<or> (\<exists>r. rest = CHR '';'' # r)" "NUL \<notin> set rest"
  shows "conn_value (CHR '';'') (v @ rest) = (False, v, if rest = [] then None else Some (tl rest))"
proof -
  have v: "v \<noteq> []" "\<not> isspace (hd v)" "hd v \<noteq> CHR ''{''" "hd v \<noteq> NUL"
    using assms(1) trim_str_first by (auto simp: printable_def) (metis hd_in_set)
  have none: "takeWhile isspace (c_str (v @ rest)) = []"
    using v by (cases v) (simp_all add: c_str_def)
  have sp: "takeWhile (\<lambda>c. c \<noteq> CHR '';'' \<and> c \<noteq> NUL) (v @ rest) = v"
  proof (cases rest)
    case Nil
    then show ?thesis using assms(1,2) by (simp add: printable_def is_special_def takeWhile_eq_all_conv) metis
  next
    case (Cons c r)
    then show ?thesis using assms by (auto simp: printable_def is_special_def intro!: takeWhile_stop)
  qed
  show ?thesis
    using v none sp assms(3) by (auto simp: conn_value_def Let_def split_at_def)
qed

lemma conn_value_braced:
  assumes "printable v" "NUL \<notin> set rest" "rest = [] \<or> (\<exists>r. rest = CHR '';'' # r)"
  shows "conn_value (CHR '';'') (''{'' @ v @ ''}'' @ rest) = (True, v, Some (tl rest))"
proof -
  let ?s = "''{'' @ v @ ''}'' @ rest"
  have c: "c_str ?s = ?s" using assms(1,2) by (simp add: printable_def c_str_id is_cstring_def)
  have part: "takeWhile (\<lambda>c. c \<noteq> CHR ''}'') (v @ CHR ''}'' # rest) = v"
    using assms(1) by (intro takeWhile_stop) (auto simp: printable_def)
  have "rest = [] \<or> hd rest \<noteq> CHR ''}''" using assms(3) by auto
  then have "brace_value (v @ CHR ''}'' # rest) [] = (v, Some rest)"
    by (subst brace_value.simps) (auto simp: part)
  then have "brace_rest ?s = (v, Some (drop 1 rest))"
    using c by (simp add: brace_rest_def)
  then show ?thesis using c by (simp add: conn_value_def isspace_def drop_Suc)
qed

definition apply_pair :: "nat \<times> string \<Rightarrow> MADB_Dsn \<Rightarrow> MADB_Dsn" where
  "apply_pair p d = snd (snd (store_pair (fst p) (snd p) None d))"

definition good_pairs :: "(nat \<times> string) list \<Rightarrow> bool" where
  "good_pairs ps \<longleftrightarrow> (\<forall>(i, v)\<in>set ps. i < length DsnKeys \<and> \<not> k_IsAlias (DsnKeys ! i) \<and> printable v)"

lemma good_pairs_simps [simp]:
  "good_pairs []"
  "good_pairs ((i, v) # ps) \<longleftrightarrow> i < length DsnKeys \<and> \<not> k_IsAlias (DsnKeys ! i) \<and> printable v \<and> good_pairs ps"
  by (auto simp: good_pairs_def)

lemma conn_text_NUL: "good_pairs ps \<Longrightarrow> NUL \<notin> set (conn_text first ps)"
proof (induction first ps rule: conn_text.induct)
  case (2 first i v ps)
  then show ?case
    using names_plain [of i] by (auto simp: pair_text_def printable_def Let_def split: if_splits)
qed simp

lemma conn_text_rest: "conn_text False ps = [] \<or> conn_text False ps = CHR '';'' # conn_text True ps"
  by (cases ps) (auto simp: pair_text_def)

lemma conn_text_Nil_iff [simp]: "conn_text first ps = [] \<longleftrightarrow> ps = []"
  by (cases ps) auto

lemma parse_pair_text:
  assumes "good_pairs ((i, v) # ps)" "int (length (conn_text True ((i, v) # ps))) \<le> room + 4"
  shows "\<exists>nxt. parse_pair room (CHR '';'') (conn_text True ((i, v) # ps)) d = Some (nxt, True, apply_pair (i, v) d)
    \<and> (nxt = Some (conn_text True ps) \<or> nxt = None \<and> ps = [])"
proof -
  let ?rest = "conn_text False ps"
  have i: "i < length DsnKeys" "\<not> k_IsAlias (DsnKeys ! i)" "printable v" "good_pairs ps" using assms(1) by auto
  note names = names_plain [OF i(1), unfolded Let_def]
  have hd: "hd (conn_text True ((i, v) # ps)) \<noteq> CHR '';''" using names by (simp add: pair_text_def)
  note key = pair_key [OF i(1), of v ?rest]
  have fk: "find_key (trim_str (k_DsnKey (DsnKeys ! i))) = Some i"
    using find_key_name [OF i(1,2)] names by simp
  have rest: "NUL \<notin> set ?rest" "?rest = [] \<or> (\<exists>r. ?rest = CHR '';'' # r)"
    using conn_text_NUL [OF i(4)] conn_text_rest by blast+
  have store: "store_pair i v nxt d = (nxt, True, apply_pair (i, v) d)" for nxt
    using find_key_name [OF i(1,2)] by (simp add: apply_pair_def store_pair_primary)
  have tl: "ps \<noteq> [] \<Longrightarrow> tl ?rest = conn_text True ps" using conn_text_rest [of ps] by auto
  show ?thesis
  proof (cases "is_special v")
    case True
    have "2 \<le> length (k_DsnKey (DsnKeys ! i))" using find_key_two [OF find_key_name [OF i(1,2)]] .
    then have "\<not> room < int (length v) + 1" using assms(2) True by (simp add: pair_text_def)
    then show ?thesis
      using hd key fk store True conn_value_braced [OF i(3) rest] tl by (cases ps) (simp_all add: parse_pair_def)
  next
    case False
    then show ?thesis
      using hd key fk store conn_value_plain [OF i(3) False rest(2,1)] tl by (cases ps) (simp_all add: parse_pair_def)
  qed
qed

lemma conn_loop_text:
  "good_pairs ps \<Longrightarrow> int (length (conn_text True ps)) \<le> room + 4 \<Longrightarrow>
   conn_loop room (CHR '';'') (conn_text True ps) d = Some (True, fold apply_pair ps d)"
proof (induction ps arbitrary: d)
  case Nil
  then show ?case by (simp add: conn_loop.simps)
next
  case (Cons p ps)
  obtain i v where p: "p = (i, v)" by (cases p)
  obtain nxt where nxt: "parse_pair room (CHR '';'') (conn_text True (p # ps)) d = Some (nxt, True, apply_pair p d)"
      "nxt = Some (conn_text True ps) \<or> nxt = None \<and> ps = []"
    using parse_pair_text Cons.prems unfolding p by blast
  have "length (conn_text True ps) \<le> length (conn_text False ps)" by (cases ps) (auto simp: pair_text_def)
  then have "int (length (conn_text True ps)) \<le> room + 4" using Cons.prems(2) p by simp
  then have IH: "conn_loop room (CHR '';'') (conn_text True ps) (apply_pair p d) = Some (True, fold apply_pair (p # ps) d)"
    using Cons.IH Cons.prems(1) p by simp
  have ne: "conn_text True (p # ps) \<noteq> []" using p by simp
  show ?case
    using nxt IH ne by (subst conn_loop.simps) auto
qed

section \<open>What the stored pairs amount to\<close>

definition text_key :: "nat \<Rightarrow> bool" where
  "text_key i \<longleftrightarrow> i < length DsnKeys \<and> \<not> k_IsAlias (DsnKeys ! i)
     \<and> (k_Type (DsnKeys ! i) = DSN_TYPE_STRING \<or> k_Type (DsnKeys ! i) = DSN_TYPE_COMBO)"

definition int_key :: "nat \<Rightarrow> bool" where
  "int_key i \<longleftrightarrow> i < length DsnKeys \<and> \<not> k_IsAlias (DsnKeys ! i) \<and> k_Type (DsnKeys ! i) = DSN_TYPE_INT"

lemma fields_distinct:
  assumes "i < length DsnKeys" "\<not> k_IsAlias (DsnKeys ! i)" "j < length DsnKeys" "\<not> k_IsAlias (DsnKeys ! j)"
    "GET_FIELD i = GET_FIELD j"
  shows "i = j"
proof -
  have "distinct (map GET_FIELD (filter (\<lambda>i. \<not> k_IsAlias (DsnKeys ! i)) [0..<length DsnKeys]))"
    by code_simp
  then have "inj_on GET_FIELD (set (filter (\<lambda>i. \<not> k_IsAlias (DsnKeys ! i)) [0..<length DsnKeys]))"
    by (simp add: distinct_map)
  then show ?thesis using assms unfolding inj_on_def by auto
qed

lemma switch_frame:
  "d_str (snd (MADB_DsnSwitchDependents d i)) = d_str d"
  "f \<noteq> Options \<Longrightarrow> d_int (snd (MADB_DsnSwitchDependents d i)) f = d_int d f"
  "i \<noteq> 6 \<Longrightarrow> d_int (snd (MADB_DsnSwitchDependents d i)) = d_int d"
  by (cases "i = 5"; cases "i = 6"; simp add: switch_pipe switch_tcp switch_other MADB_SetOptionValue_def Let_def)+

lemma update_option_frame: "d_str (update_option i d) = d_str d" "d_int (update_option i d) = d_int d"
  using not_option by (cases "i = 6"; simp add: update_option_def switch_frame)+

lemma UpdateOptionsFields_frame:
  "d_str (MADB_DsnUpdateOptionsFields d) = d_str d" "d_int (MADB_DsnUpdateOptionsFields d) = d_int d"
proof -
  have "d_str (fold update_option is d) = d_str d \<and> d_int (fold update_option is d) = d_int d" for "is" d
    by (induction "is" arbitrary: d) (simp_all add: update_option_frame)
  then show "d_str (MADB_DsnUpdateOptionsFields d) = d_str d" "d_int (MADB_DsnUpdateOptionsFields d) = d_int d"
    by (simp_all add: MADB_DsnUpdateOptionsFields_def)
qed

lemma apply_pair_eq:
  assumes "i < length DsnKeys" "\<not> k_IsAlias (DsnKeys ! i)" "trim_str v = v"
  shows "apply_pair (i, v) d =
    (let d1 = snd (MADB_DsnStoreValue d i v True) in if i = 3 then MADB_DsnUpdateOptionsFields d1 else d1)"
  using store_pair_primary [OF find_key_name [OF assms(1,2)], of v None d] assms(3)
  by (simp add: apply_pair_def IS_OPTIONS_BITMAP_def)

lemma apply_pair_frame:
  assumes "i < length DsnKeys" "\<not> k_IsAlias (DsnKeys ! i)" "printable v"
  shows "d_str (apply_pair (i, v) d) = d_str (snd (MADB_DsnStoreValue d i v True))"
    "d_int (apply_pair (i, v) d) = d_int (snd (MADB_DsnStoreValue d i v True))"
  using assms by (simp_all add: apply_pair_eq printable_def Let_def UpdateOptionsFields_frame)

lemma apply_pair_str:
  assumes "i < length DsnKeys" "\<not> k_IsAlias (DsnKeys ! i)" "printable v" "text_key j"
  shows "d_str (apply_pair (i, v) d) (GET_FIELD j) = (if i = j then Some v else d_str d (GET_FIELD j))"
proof -
  have ne: "i \<noteq> j \<Longrightarrow> GET_FIELD i \<noteq> GET_FIELD j" using fields_distinct assms by (auto simp: text_key_def)
  have "d_str (snd (MADB_DsnStoreValue d i v True)) (GET_FIELD j) = (if i = j then Some v else d_str d (GET_FIELD j))"
    using assms ne by (cases "k_Type (DsnKeys ! i)")
      (auto simp: MADB_DsnStoreValue_def Let_def switch_frame text_key_def MADB_SetOptionValue_def)
  then show ?thesis by (simp add: apply_pair_frame [OF assms(1-3)])
qed

lemma apply_pair_int:
  assumes "i < length DsnKeys" "\<not> k_IsAlias (DsnKeys ! i)" "printable v" "int_key j" "j \<noteq> 3"
  shows "d_int (apply_pair (i, v) d) (GET_FIELD j)
       = (if i = j then word_of_int (fst (strtoull v)) else d_int d (GET_FIELD j))"
proof -
  have ne: "i \<noteq> j \<Longrightarrow> GET_FIELD i \<noteq> GET_FIELD j" using fields_distinct assms by (auto simp: int_key_def)
  have opt: "GET_FIELD j \<noteq> Options" using assms(4,5) harmless_keys [of j] by (auto simp: int_key_def harmless_def)
  have "d_int (snd (MADB_DsnStoreValue d i v True)) (GET_FIELD j)
      = (if i = j then word_of_int (fst (strtoull v)) else d_int d (GET_FIELD j))"
    using assms ne opt by (cases "k_Type (DsnKeys ! i)")
      (auto simp: MADB_DsnStoreValue_def Let_def switch_frame int_key_def MADB_SetOptionValue_def)
  then show ?thesis by (simp add: apply_pair_frame [OF assms(1-3)])
qed

text \<open>A later pair with another key does not disturb an earlier one.\<close>

lemma fold_pairs:
  assumes step: "\<And>i v d. good_pairs [(i, v)] \<Longrightarrow> get (apply_pair (i, v) d) = (if i = j then f v else get d)"
  shows "good_pairs ps \<Longrightarrow> distinct (map fst ps) \<Longrightarrow>
    get (fold apply_pair ps d) = (case map_of ps j of Some v \<Rightarrow> f v | None \<Rightarrow> get d)"
proof (induction ps arbitrary: d)
  case (Cons p ps)
  obtain i v where p: "p = (i, v)" by (cases p)
  have "map_of ps i = None" using Cons.prems(2) p by (simp add: map_of_eq_None_iff)
  then show ?case using Cons step [of i v d] p by (auto split: option.splits)
qed simp

lemma fold_pairs_str:
  assumes "good_pairs ps" "distinct (map fst ps)" "text_key j"
  shows "d_str (fold apply_pair ps d) (GET_FIELD j) = (case map_of ps j of Some v \<Rightarrow> Some v | None \<Rightarrow> d_str d (GET_FIELD j))"
  by (rule fold_pairs [where get = "\<lambda>d. d_str d (GET_FIELD j)", OF _ assms(1,2)]) (simp add: apply_pair_str assms(3))

lemma fold_pairs_int:
  assumes "good_pairs ps" "distinct (map fst ps)" "int_key j" "j \<noteq> 3"
  shows "d_int (fold apply_pair ps d) (GET_FIELD j)
       = (case map_of ps j of Some v \<Rightarrow> word_of_int (fst (strtoull v)) | None \<Rightarrow> d_int d (GET_FIELD j))"
  by (rule fold_pairs [where get = "\<lambda>d. d_int d (GET_FIELD j)", OF _ assms(1,2)])
    (simp add: apply_pair_int assms(3,4))

text \<open>Numbers, and the values that are written.\<close>

lemma word_u64: "(word_of_int (u64 x) :: 32 word) = word_of_int x"
  unfolding u64_def word_of_int_eq_iff take_bit_eq_mod by (simp add: mod_mod_cancel)

lemma strtoull_word:
  fixes w :: "32 word"
  shows "word_of_int (fst (strtoull (dec_of_int (sint w)))) = w"
proof -
  have range: "- (2 ^ 31) \<le> sint w" "sint w < 2 ^ 31"
    using sint_greater_eq [of w] sint_less [of w] by simp_all
  show ?thesis
  proof (cases "sint w < 0")
    case True
    have "nat (- sint w) < 2 ^ 64" using range by (simp add: nat_less_iff)
    then have "fst (strtoull (dec_of_int (sint w))) = u64 (sint w)"
      using True by (simp add: dec_of_int_def strtoull_def strto_scan_neg_dec)
    also have "(word_of_int (u64 (sint w)) :: 32 word) = word_of_int (sint w)"
      by (rule word_u64)
    finally show ?thesis by simp
  next
    case False
    then have "fst (strtoull (dec_of_int (sint w))) = sint w"
      using range by (simp add: dec_of_int_def strtoull_dec_of_nat nat_less_iff)
    then show ?thesis by simp
  qed
qed

lemma printable_no_space:
  assumes "v \<noteq> []" "\<And>c. c \<in> set v \<Longrightarrow> \<not> isspace c \<and> c \<noteq> NUL \<and> c \<noteq> CHR ''}'' \<and> c \<noteq> CHR ''{''"
  shows "printable v"
proof -
  have dw: "dropWhile isspace u = u" if "set u \<subseteq> set v" for u
    using that assms(2) by (cases u) auto
  have "trim_str v = v" by (simp add: trim_str_def ltrim_str_def dw)
  moreover have "hd v \<noteq> CHR ''{''" using assms by (metis hd_in_set)
  ultimately show ?thesis using assms by (auto simp: printable_def)
qed

lemma printable_dec_of_int: "printable (dec_of_int i)"
proof (rule printable_no_space)
  fix c assume "c \<in> set (dec_of_int i)"
  then have "c = CHR ''-'' \<or> isdigit c"
    using dec_of_nat_digits by (auto simp: dec_of_int_def split: if_splits)
  then show "\<not> isspace c \<and> c \<noteq> NUL \<and> c \<noteq> CHR ''}'' \<and> c \<noteq> CHR ''{''"
    by (auto simp: isdigit_def isspace_def)
qed (simp add: dec_of_int_def)

definition texts_printable :: "MADB_Dsn \<Rightarrow> bool" where
  "texts_printable d \<longleftrightarrow>
     (\<forall>i. text_key i \<longrightarrow> (case d_str d (GET_FIELD i) of None \<Rightarrow> True | Some v \<Rightarrow> v = [] \<or> printable v))"

lemma printed_value_printable:
  assumes "texts_printable d" "i < length DsnKeys" "printed_value d i = Some v"
  shows "\<not> k_IsAlias (DsnKeys ! i) \<and> printable v"
proof -
  have one: "printable ''1''" by (rule printable_no_space) (auto simp: isspace_def)
  have "\<not> k_IsAlias (DsnKeys ! i)" using assms(3) by (auto simp: printed_value_def Let_def split: if_splits)
  moreover have "printable v"
  proof (cases "text_key i")
    case True
    then show ?thesis
      using assms calculation by (auto simp: printed_value_def text_key_def texts_printable_def Let_def
          split: option.splits if_splits)
  next
    case False
    then show ?thesis
      using assms calculation one printable_dec_of_int
      by (cases "k_Type (DsnKeys ! i)") (auto simp: printed_value_def text_key_def hu_def Let_def split: if_splits)
  qed
  ultimately show ?thesis ..
qed

lemma printed_mem: "(i, v) \<in> set (printed d is) \<longleftrightarrow> i \<in> set is \<and> printed_value d i = Some v"
  by (induction "is") (auto split: option.splits)

lemma printed_distinct: "distinct is \<Longrightarrow> distinct (map fst (printed d is))"
proof (induction "is")
  case (Cons i "is")
  have "i \<notin> fst ` set (printed d is)" using Cons.prems by (auto simp: printed_mem)
  then show ?case using Cons by (auto split: option.splits)
qed simp

lemma map_of_printed: "distinct is \<Longrightarrow> i \<in> set is \<Longrightarrow> map_of (printed d is) i = printed_value d i"
proof (cases "printed_value d i")
  case None
  then show ?thesis by (auto simp: map_of_eq_None_iff printed_mem)
next
  case (Some v)
  assume "distinct is" "i \<in> set is"
  then show ?thesis using Some printed_mem [of i v d "is"] printed_distinct [of "is" d] by simp
qed

lemma printed_good: "texts_printable d \<Longrightarrow> good_pairs (printed d [0..<length DsnKeys])"
  using printed_value_printable by (auto simp: good_pairs_def printed_mem)

text \<open>The bits of OPTIONS are not changed behind the reader's back.\<close>

lemma apply_pair_options:
  assumes "i < length DsnKeys" "\<not> k_IsAlias (DsnKeys ! i)" "\<not> option_key i" "printable v" "i = 6 \<Longrightarrow> v = ''1''"
  shows "d_int (apply_pair (i, v) d) Options =
    (if i = 3 then word_of_int (fst (strtoull v)) else if i = 6 then d_int d Options AND NOT 8192 else d_int d Options)"
proof -
  have one: "s8 (atoi ''1'') = 1" by code_simp
  have h: "harmless i" using assms harmless_keys by blast
  show ?thesis
    unfolding apply_pair_frame(2) [OF assms(1,2,4)]
  proof (cases "i = 6")
    case True
    then show "d_int (snd (MADB_DsnStoreValue d i v True)) Options =
      (if i = 3 then word_of_int (fst (strtoull v)) else if i = 6 then d_int d Options AND NOT 8192 else d_int d Options)"
      using assms(5) by (simp add: MADB_DsnStoreValue_def key_facts switch_tcp one MADB_SetOptionValue_def)
  next
    case False
    then show "d_int (snd (MADB_DsnStoreValue d i v True)) Options =
      (if i = 3 then word_of_int (fst (strtoull v)) else if i = 6 then d_int d Options AND NOT 8192 else d_int d Options)"
      using assms h key_facts by (cases "k_Type (DsnKeys ! i)")
        (auto simp: MADB_DsnStoreValue_def Let_def switch_frame harmless_def option_key_def)
  qed
qed

lemma fold_pairs_options:
  assumes "good_pairs ps" "\<forall>(i, v)\<in>set ps. \<not> option_key i \<and> (i = 6 \<longrightarrow> v = ''1'' \<and> w AND NOT 8192 = w)
      \<and> (i = 3 \<longrightarrow> word_of_int (fst (strtoull v)) = w)"
    "d_int d Options = w \<or> d_int d Options = 0"
  shows "d_int (fold apply_pair ps d) Options = (if 3 \<in> fst ` set ps then w else d_int d Options)"
  using assms
proof (induction ps arbitrary: d)
  case (Cons p ps)
  obtain i v where p: "p = (i, v)" by (cases p)
  have opt: "d_int (apply_pair p d) Options = (if i = 3 then w else d_int d Options)"
    using Cons.prems apply_pair_options [of i v d] p by auto
  then have "d_int (fold apply_pair ps (apply_pair p d)) Options
      = (if 3 \<in> fst ` set ps then w else d_int (apply_pair p d) Options)"
    using Cons.prems by (intro Cons.IH) (auto simp: p)
  then show ?case using opt p by auto
qed simp

lemma three_printed:
  assumes "int_key 3" "3 \<notin> fst ` set (printed d [0..<length DsnKeys])"
  shows "d_int d Options = 0"
proof (rule ccontr)
  assume "d_int d Options \<noteq> 0"
  then have "printed_value d 3 = Some (dec_of_int (sint (d_int d Options)))"
    using assms(1) by (simp add: printed_value_def key_facts int_key_def)
  then have "(3, dec_of_int (sint (d_int d Options))) \<in> set (printed d [0..<length DsnKeys])"
    by (simp add: printed_mem length_DsnKeys)
  then show False using assms(2) by force
qed

lemma tcp_clears_pipe:
  assumes "dsn_ok X d" "5 \<notin> X" "d_char d IsTcpIp \<noteq> 0"
  shows "d_int d Options AND NOT 8192 = d_int d Options"
proof -
  have "d_int d Options AND 8192 = 0"
    using assms option_key_5 by (auto simp: dsn_ok_def transport_ok_def option_agrees_def key_facts DSN_OPTION_def)
  moreover have "d_int d Options = (d_int d Options AND 8192) OR (d_int d Options AND NOT 8192)"
    by (simp flip: bit.conj_disj_distrib)
  ultimately show ?thesis by simp
qed

lemma printed_options:
  assumes "dsn_ok X d" "5 \<notin> X" "(i, v) \<in> set (printed d [0..<length DsnKeys])"
  shows "\<not> option_key i \<and> (i = 6 \<longrightarrow> v = ''1'' \<and> d_int d Options AND NOT 8192 = d_int d Options)
      \<and> (i = 3 \<longrightarrow> word_of_int (fst (strtoull v)) = d_int d Options)"
proof -
  have v: "printed_value d i = Some v" using assms(3) by (simp add: printed_mem)
  have "\<not> option_key i" using v by (auto simp: printed_value_def option_key_def Let_def split: if_splits)
  moreover have "i = 6 \<longrightarrow> v = ''1'' \<and> d_char d IsTcpIp \<noteq> 0"
    using v by (auto simp: printed_value_def key_facts split: if_splits)
  moreover have "i = 3 \<longrightarrow> v = dec_of_int (sint (d_int d Options))"
    using v by (auto simp: printed_value_def key_facts Let_def split: if_splits)
  ultimately show ?thesis using tcp_clears_pipe [OF assms(1,2)] strtoull_word by auto
qed

lemma text_restored:
  assumes "text_key i"
  shows "(case printed_value d i of Some v \<Rightarrow> Some v | None \<Rightarrow> None)
       = (if d_str d (GET_FIELD i) = Some [] then None else d_str d (GET_FIELD i))"
  using assms by (cases "k_Type (DsnKeys ! i)") (auto simp: printed_value_def text_key_def Let_def split: option.splits)

lemma int_restored:
  assumes "int_key i"
  shows "(case printed_value d i of Some v \<Rightarrow> word_of_int (fst (strtoull v)) | None \<Rightarrow> 0) = d_int d (GET_FIELD i)"
  using assms by (simp add: printed_value_def int_key_def Let_def strtoull_word)

lemma Init_fields: "d_str MADB_DSN_Init f = None" "d_int MADB_DSN_Init f = 0"
  by (simp_all add: MADB_DSN_Init_def MADB_DSN_SetDefaults_def)


definition sample_dsn :: MADB_Dsn where
  "sample_dsn = MADB_DSN_Init\<lparr>d_str := (\<lambda>_. None)(UserName := Some ''a b'', ServerName := Some ''h'')\<rparr>"


end
