(* ===== verification/Odbc_Desc.thy ===== *)
theory Odbc_Desc
  imports Odbc_Error Odbc_Types
begin

text \<open>
  Descriptors (\<open>src/ma_desc.c\<close>, the structures in \<open>src/ma_odbc.h\<close>): the table of field rights, records and
  their defaults, reading and setting fields, copying and freeing, and the metadata of result columns.

  The array of records is a list; what the byte-level array of \<open>Dyn_Array\<close> does for its elements is proved
  there.  A member that points to a string is null, a literal, or a string on the heap with its address,
  so that what is freed can be followed.  Other pointers are numbers, 0 being null.  The heap hands
  out addresses in order, keeps those that were freed, and decides which allocations succeed.  Reading
  through a null record, or beside an array, is \<^const>\<open>None\<close>.
\<close>

section \<open>Field identifiers and rights\<close>

abbreviation (input) SQL_DESC_CONCISE_TYPE :: int where "SQL_DESC_CONCISE_TYPE \<equiv> 2"
abbreviation (input) SQL_DESC_DISPLAY_SIZE :: int where "SQL_DESC_DISPLAY_SIZE \<equiv> 6"
abbreviation (input) SQL_DESC_UNSIGNED :: int where "SQL_DESC_UNSIGNED \<equiv> 8"
abbreviation (input) SQL_DESC_FIXED_PREC_SCALE :: int where "SQL_DESC_FIXED_PREC_SCALE \<equiv> 9"
abbreviation (input) SQL_DESC_UPDATABLE :: int where "SQL_DESC_UPDATABLE \<equiv> 10"
abbreviation (input) SQL_DESC_AUTO_UNIQUE_VALUE :: int where "SQL_DESC_AUTO_UNIQUE_VALUE \<equiv> 11"
abbreviation (input) SQL_DESC_CASE_SENSITIVE :: int where "SQL_DESC_CASE_SENSITIVE \<equiv> 12"
abbreviation (input) SQL_DESC_SEARCHABLE :: int where "SQL_DESC_SEARCHABLE \<equiv> 13"
abbreviation (input) SQL_DESC_TYPE_NAME :: int where "SQL_DESC_TYPE_NAME \<equiv> 14"
abbreviation (input) SQL_DESC_TABLE_NAME :: int where "SQL_DESC_TABLE_NAME \<equiv> 15"
abbreviation (input) SQL_DESC_SCHEMA_NAME :: int where "SQL_DESC_SCHEMA_NAME \<equiv> 16"
abbreviation (input) SQL_DESC_CATALOG_NAME :: int where "SQL_DESC_CATALOG_NAME \<equiv> 17"
abbreviation (input) SQL_DESC_LABEL :: int where "SQL_DESC_LABEL \<equiv> 18"
abbreviation (input) SQL_DESC_ARRAY_SIZE :: int where "SQL_DESC_ARRAY_SIZE \<equiv> 20"
abbreviation (input) SQL_DESC_ARRAY_STATUS_PTR :: int where "SQL_DESC_ARRAY_STATUS_PTR \<equiv> 21"
abbreviation (input) SQL_DESC_BASE_COLUMN_NAME :: int where "SQL_DESC_BASE_COLUMN_NAME \<equiv> 22"
abbreviation (input) SQL_DESC_BASE_TABLE_NAME :: int where "SQL_DESC_BASE_TABLE_NAME \<equiv> 23"
abbreviation (input) SQL_DESC_BIND_OFFSET_PTR :: int where "SQL_DESC_BIND_OFFSET_PTR \<equiv> 24"
abbreviation (input) SQL_DESC_BIND_TYPE :: int where "SQL_DESC_BIND_TYPE \<equiv> 25"
abbreviation (input) SQL_DESC_DATETIME_INTERVAL_PRECISION :: int where "SQL_DESC_DATETIME_INTERVAL_PRECISION \<equiv> 26"
abbreviation (input) SQL_DESC_LITERAL_PREFIX :: int where "SQL_DESC_LITERAL_PREFIX \<equiv> 27"
abbreviation (input) SQL_DESC_LITERAL_SUFFIX :: int where "SQL_DESC_LITERAL_SUFFIX \<equiv> 28"
abbreviation (input) SQL_DESC_LOCAL_TYPE_NAME :: int where "SQL_DESC_LOCAL_TYPE_NAME \<equiv> 29"
abbreviation (input) SQL_DESC_NUM_PREC_RADIX :: int where "SQL_DESC_NUM_PREC_RADIX \<equiv> 32"
abbreviation (input) SQL_DESC_PARAMETER_TYPE :: int where "SQL_DESC_PARAMETER_TYPE \<equiv> 33"
abbreviation (input) SQL_DESC_ROWS_PROCESSED_PTR :: int where "SQL_DESC_ROWS_PROCESSED_PTR \<equiv> 34"
abbreviation (input) SQL_DESC_ROWVER :: int where "SQL_DESC_ROWVER \<equiv> 35"
abbreviation (input) SQL_DESC_COUNT :: int where "SQL_DESC_COUNT \<equiv> 1001"
abbreviation (input) SQL_DESC_TYPE :: int where "SQL_DESC_TYPE \<equiv> 1002"
abbreviation (input) SQL_DESC_LENGTH :: int where "SQL_DESC_LENGTH \<equiv> 1003"
abbreviation (input) SQL_DESC_OCTET_LENGTH_PTR :: int where "SQL_DESC_OCTET_LENGTH_PTR \<equiv> 1004"
abbreviation (input) SQL_DESC_PRECISION :: int where "SQL_DESC_PRECISION \<equiv> 1005"
abbreviation (input) SQL_DESC_SCALE :: int where "SQL_DESC_SCALE \<equiv> 1006"
abbreviation (input) SQL_DESC_DATETIME_INTERVAL_CODE :: int where "SQL_DESC_DATETIME_INTERVAL_CODE \<equiv> 1007"
abbreviation (input) SQL_DESC_NULLABLE :: int where "SQL_DESC_NULLABLE \<equiv> 1008"
abbreviation (input) SQL_DESC_INDICATOR_PTR :: int where "SQL_DESC_INDICATOR_PTR \<equiv> 1009"
abbreviation (input) SQL_DESC_DATA_PTR :: int where "SQL_DESC_DATA_PTR \<equiv> 1010"
abbreviation (input) SQL_DESC_NAME :: int where "SQL_DESC_NAME \<equiv> 1011"
abbreviation (input) SQL_DESC_UNNAMED :: int where "SQL_DESC_UNNAMED \<equiv> 1012"
abbreviation (input) SQL_DESC_OCTET_LENGTH :: int where "SQL_DESC_OCTET_LENGTH \<equiv> 1013"
abbreviation (input) SQL_DESC_ALLOC_TYPE :: int where "SQL_DESC_ALLOC_TYPE \<equiv> 1099"

datatype enum_madb_desc_type =
  MADB_DESC_APD | MADB_DESC_ARD | MADB_DESC_IPD | MADB_DESC_IRD | MADB_DESC_UNKNOWN

text \<open>Rights, in the order APD, ARD, IPD, IRD.\<close>

datatype access = Acc_NONE | Acc_READ | Acc_RW

definition MADB_DESC_FLDID :: "(int \<times> access \<times> access \<times> access \<times> access) list" where
  "MADB_DESC_FLDID = [
     (SQL_DESC_ALLOC_TYPE, Acc_READ, Acc_READ, Acc_NONE, Acc_NONE),
     (SQL_DESC_ARRAY_SIZE, Acc_RW, Acc_RW, Acc_NONE, Acc_NONE),
     (SQL_DESC_ARRAY_STATUS_PTR, Acc_RW, Acc_RW, Acc_RW, Acc_RW),
     (SQL_DESC_BIND_OFFSET_PTR, Acc_RW, Acc_RW, Acc_NONE, Acc_NONE),
     (SQL_DESC_BIND_TYPE, Acc_RW, Acc_RW, Acc_NONE, Acc_NONE),
     (SQL_DESC_COUNT, Acc_RW, Acc_RW, Acc_NONE, Acc_READ),
     (SQL_DESC_ROWS_PROCESSED_PTR, Acc_NONE, Acc_NONE, Acc_RW, Acc_RW),
     (SQL_DESC_AUTO_UNIQUE_VALUE, Acc_NONE, Acc_NONE, Acc_NONE, Acc_READ),
     (SQL_DESC_BASE_COLUMN_NAME, Acc_NONE, Acc_NONE, Acc_NONE, Acc_READ),
     (SQL_DESC_BASE_TABLE_NAME, Acc_NONE, Acc_NONE, Acc_NONE, Acc_READ),
     (SQL_DESC_CASE_SENSITIVE, Acc_NONE, Acc_NONE, Acc_NONE, Acc_READ),
     (SQL_DESC_CATALOG_NAME, Acc_NONE, Acc_NONE, Acc_NONE, Acc_READ),
     (SQL_DESC_CONCISE_TYPE, Acc_RW, Acc_RW, Acc_RW, Acc_RW),
     (SQL_DESC_DATA_PTR, Acc_RW, Acc_RW, Acc_NONE, Acc_NONE),
     (SQL_DESC_DATETIME_INTERVAL_CODE, Acc_RW, Acc_RW, Acc_RW, Acc_READ),
     (SQL_DESC_DATETIME_INTERVAL_PRECISION, Acc_RW, Acc_RW, Acc_RW, Acc_READ),
     (SQL_DESC_DISPLAY_SIZE, Acc_NONE, Acc_NONE, Acc_NONE, Acc_NONE),
     (SQL_DESC_FIXED_PREC_SCALE, Acc_NONE, Acc_NONE, Acc_RW, Acc_RW),
     (SQL_DESC_INDICATOR_PTR, Acc_RW, Acc_RW, Acc_NONE, Acc_NONE),
     (SQL_DESC_LABEL, Acc_NONE, Acc_NONE, Acc_NONE, Acc_NONE),
     (SQL_DESC_LENGTH, Acc_RW, Acc_RW, Acc_RW, Acc_READ),
     (SQL_DESC_LITERAL_PREFIX, Acc_NONE, Acc_NONE, Acc_NONE, Acc_READ),
     (SQL_DESC_LITERAL_SUFFIX, Acc_NONE, Acc_NONE, Acc_NONE, Acc_READ),
     (SQL_DESC_LOCAL_TYPE_NAME, Acc_NONE, Acc_NONE, Acc_READ, Acc_READ),
     (SQL_DESC_NAME, Acc_NONE, Acc_NONE, Acc_RW, Acc_READ),
     (SQL_DESC_NULLABLE, Acc_NONE, Acc_NONE, Acc_READ, Acc_READ),
     (SQL_DESC_NUM_PREC_RADIX, Acc_RW, Acc_RW, Acc_RW, Acc_READ),
     (SQL_DESC_OCTET_LENGTH, Acc_RW, Acc_RW, Acc_RW, Acc_READ),
     (SQL_DESC_OCTET_LENGTH_PTR, Acc_RW, Acc_RW, Acc_NONE, Acc_NONE),
     (SQL_DESC_PARAMETER_TYPE, Acc_NONE, Acc_NONE, Acc_RW, Acc_NONE),
     (SQL_DESC_PRECISION, Acc_RW, Acc_RW, Acc_RW, Acc_READ),
     (SQL_DESC_ROWVER, Acc_NONE, Acc_NONE, Acc_READ, Acc_READ),
     (SQL_DESC_SCALE, Acc_RW, Acc_RW, Acc_RW, Acc_READ),
     (SQL_DESC_SCHEMA_NAME, Acc_NONE, Acc_NONE, Acc_NONE, Acc_READ),
     (SQL_DESC_SEARCHABLE, Acc_NONE, Acc_NONE, Acc_NONE, Acc_READ),
     (SQL_DESC_TABLE_NAME, Acc_NONE, Acc_NONE, Acc_NONE, Acc_READ),
     (SQL_DESC_TYPE, Acc_RW, Acc_RW, Acc_RW, Acc_READ),
     (SQL_DESC_TYPE_NAME, Acc_NONE, Acc_NONE, Acc_READ, Acc_READ),
     (SQL_DESC_UNSIGNED, Acc_NONE, Acc_NONE, Acc_READ, Acc_READ),
     (SQL_DESC_UPDATABLE, Acc_NONE, Acc_NONE, Acc_NONE, Acc_READ),
     (SQL_DESC_UNNAMED, Acc_NONE, Acc_NONE, Acc_RW, Acc_READ)]"

text \<open>\<open>Access[Desc->DescType]\<close>: a descriptor of unknown type indexes the array of four out of range.\<close>

fun access_for :: "enum_madb_desc_type \<Rightarrow> access \<times> access \<times> access \<times> access \<Rightarrow> access option" where
  "access_for MADB_DESC_APD (apd, ard, ipd, ird) = Some apd"
| "access_for MADB_DESC_ARD (apd, ard, ipd, ird) = Some ard"
| "access_for MADB_DESC_IPD (apd, ard, ipd, ird) = Some ipd"
| "access_for MADB_DESC_IRD (apd, ard, ipd, ird) = Some ird"
| "access_for MADB_DESC_UNKNOWN _ = None"

section \<open>Structures\<close>

abbreviation (input) SQL_INVALID_HANDLE :: int where "SQL_INVALID_HANDLE \<equiv> - 2"
abbreviation (input) SQL_NAMED :: int where "SQL_NAMED \<equiv> 0"
abbreviation (input) SQL_NO_NULLS :: int where "SQL_NO_NULLS \<equiv> 0"
abbreviation (input) SQL_NULLABLE :: int where "SQL_NULLABLE \<equiv> 1"
abbreviation (input) SQL_NULLABLE_UNKNOWN :: int where "SQL_NULLABLE_UNKNOWN \<equiv> 2"
abbreviation (input) SQL_PARAM_INPUT :: int where "SQL_PARAM_INPUT \<equiv> 1"
abbreviation (input) SQL_ATTR_READONLY :: int where "SQL_ATTR_READONLY \<equiv> 0"
abbreviation (input) SQL_ATTR_READWRITE_UNKNOWN :: int where "SQL_ATTR_READWRITE_UNKNOWN \<equiv> 2"
abbreviation (input) SQL_PRED_CHAR :: int where "SQL_PRED_CHAR \<equiv> 1"
abbreviation (input) SQL_SEARCHABLE :: int where "SQL_SEARCHABLE \<equiv> 3"
abbreviation (input) SQL_CODE_DATE :: int where "SQL_CODE_DATE \<equiv> 1"
abbreviation (input) SQL_CODE_TIME :: int where "SQL_CODE_TIME \<equiv> 2"
abbreviation (input) SQL_CODE_TIMESTAMP :: int where "SQL_CODE_TIMESTAMP \<equiv> 3"
abbreviation (input) NOT_NULL_FLAG :: int where "NOT_NULL_FLAG \<equiv> 1"
abbreviation (input) BINARY_FLAG :: int where "BINARY_FLAG \<equiv> 128"
abbreviation (input) AUTO_INCREMENT_FLAG :: int where "AUTO_INCREMENT_FLAG \<equiv> 512"

datatype cptr = Null | Lit string | Heap nat string

record MADB_Header =
  h_AllocType :: int
  h_ArraySize :: int
  h_ArrayStatusPtr :: int
  h_BindOffsetPtr :: int
  h_BindType :: int
  h_Count :: int
  h_RowsProcessedPtr :: int

text \<open>The members in the order of the structure; those never used are left out.\<close>

record MADB_DescRecord =
  r_AutoUniqueValue :: int
  r_BaseCatalogName :: cptr
  r_BaseColumnName :: cptr
  r_BaseTableName :: cptr
  r_CaseSensitive :: int
  r_CatalogName :: cptr
  r_ColumnName :: cptr
  r_ConciseType :: int
  r_DataPtr :: int
  r_DateTimeIntervalCode :: int
  r_DateTimeIntervalPrecision :: int
  r_DescLength :: int
  r_DisplaySize :: int
  r_FixedPrecScale :: int
  r_IndicatorPtr :: int
  r_Length :: int
  r_LiteralPrefix :: cptr
  r_LiteralSuffix :: cptr
  r_LocalTypeName :: cptr
  r_Nullable :: int
  r_NumPrecRadix :: int
  r_OctetLength :: int
  r_OctetLengthPtr :: int
  r_ParameterType :: int
  r_Precision :: int
  r_RowVer :: int
  r_Scale :: int
  r_SchemaName :: cptr
  r_Searchable :: int
  r_TableName :: cptr
  r_Type :: int
  r_TypeName :: cptr
  r_Unnamed :: int
  r_Unsigned :: int
  r_Updateable :: int
  r_InternalLength :: int
  r_InternalBuffer :: cptr
  r_DefaultValue :: cptr
  r_inUse :: bool

record MADB_Desc =
  d_Header :: MADB_Header
  d_DescType :: enum_madb_desc_type
  d_AppType :: bool
  d_Records :: "MADB_DescRecord list"
  d_Stmts :: "nat list"
  d_Error :: MADB_Error

section \<open>The heap\<close>

text \<open>
  \<open>hp_ok n\<close>: the \<open>n\<close>-th allocation of a string succeeds; \<open>hp_grow n\<close>: an array of \<open>n\<close> records can get
  another one; \<open>hp_bad\<close>: something that was not allocated has been freed.
\<close>

record heap =
  hp_next :: nat
  hp_freed :: "nat list"
  hp_bad :: bool
  hp_ok :: "nat \<Rightarrow> bool"
  hp_grow :: "nat \<Rightarrow> bool"

fun cptr_string :: "cptr \<Rightarrow> string option" where
  "cptr_string Null = None"
| "cptr_string (Lit s) = Some s"
| "cptr_string (Heap a s) = Some s"

fun MADB_FREE :: "cptr \<Rightarrow> heap \<Rightarrow> heap" where
  "MADB_FREE Null H = H"
| "MADB_FREE (Lit s) H = H\<lparr>hp_bad := True\<rparr>"
| "MADB_FREE (Heap a s) H = H\<lparr>hp_freed := hp_freed H @ [a]\<rparr>"

definition strdup :: "string \<Rightarrow> heap \<Rightarrow> cptr \<times> heap" where
  "strdup t H = (if hp_ok H (hp_next H) then (Heap (hp_next H) t, H\<lparr>hp_next := hp_next H + 1\<rparr>)
                 else (Null, H\<lparr>hp_ok := hp_ok H \<circ> Suc\<rparr>))"

text \<open>\<open>MADB_RESET\<close> of a member; the new string is never the one the member points to.\<close>

definition MADB_RESET :: "cptr \<Rightarrow> string option \<Rightarrow> heap \<Rightarrow> cptr \<times> heap" where
  "MADB_RESET p s H =
    (let H1 = MADB_FREE p H in case s of None \<Rightarrow> (Null, H1) | Some t \<Rightarrow> strdup t H1)"

section \<open>Records and their defaults\<close>

definition zero_record :: MADB_DescRecord where
  "zero_record =
    \<lparr>r_AutoUniqueValue = 0, r_BaseCatalogName = Null, r_BaseColumnName = Null, r_BaseTableName = Null,
     r_CaseSensitive = 0, r_CatalogName = Null, r_ColumnName = Null, r_ConciseType = 0, r_DataPtr = 0,
     r_DateTimeIntervalCode = 0, r_DateTimeIntervalPrecision = 0, r_DescLength = 0, r_DisplaySize = 0,
     r_FixedPrecScale = 0, r_IndicatorPtr = 0, r_Length = 0, r_LiteralPrefix = Null,
     r_LiteralSuffix = Null, r_LocalTypeName = Null, r_Nullable = 0, r_NumPrecRadix = 0,
     r_OctetLength = 0, r_OctetLengthPtr = 0, r_ParameterType = 0, r_Precision = 0, r_RowVer = 0,
     r_Scale = 0, r_SchemaName = Null, r_Searchable = 0, r_TableName = Null, r_Type = 0,
     r_TypeName = Null, r_Unnamed = 0, r_Unsigned = 0, r_Updateable = 0, r_InternalLength = 0,
     r_InternalBuffer = Null, r_DefaultValue = Null, r_inUse = False\<rparr>"

fun MADB_DescSetRecordDefaults :: "enum_madb_desc_type \<Rightarrow> heap \<Rightarrow> MADB_DescRecord \<times> heap" where
  "MADB_DescSetRecordDefaults MADB_DESC_APD H =
     (zero_record\<lparr>r_ConciseType := SQL_C_DEFAULT, r_Type := SQL_C_DEFAULT\<rparr>, H)"
| "MADB_DescSetRecordDefaults MADB_DESC_ARD H =
     (zero_record\<lparr>r_ConciseType := SQL_C_DEFAULT, r_Type := SQL_C_DEFAULT\<rparr>, H)"
| "MADB_DescSetRecordDefaults MADB_DESC_IPD H =
     (case MADB_RESET Null (Some ''VARCHAR'') H of
        (tn, H1) \<Rightarrow> (zero_record\<lparr>r_FixedPrecScale := 0, r_LocalTypeName := Lit '''',
                      r_Nullable := SQL_NULLABLE, r_ParameterType := SQL_PARAM_INPUT,
                      r_TypeName := tn, r_Unsigned := 0, r_ColumnName := Lit ''''\<rparr>, H1))"
| "MADB_DescSetRecordDefaults MADB_DESC_IRD H =
     (case MADB_RESET Null (Some ''VARCHAR'') H of
        (tn, H1) \<Rightarrow> (zero_record\<lparr>r_Nullable := SQL_NULLABLE_UNKNOWN, r_FixedPrecScale := 0,
                      r_CaseSensitive := 1, r_ConciseType := SQL_VARCHAR, r_AutoUniqueValue := 0,
                      r_Type := SQL_VARCHAR, r_TypeName := tn, r_Unsigned := 0\<rparr>, H1))"
| "MADB_DescSetRecordDefaults MADB_DESC_UNKNOWN H = (zero_record, H)"

definition desc_error :: "string \<Rightarrow> MADB_Desc \<Rightarrow> MADB_Desc" where
  "desc_error code d = d\<lparr>d_Error := snd (MADB_SetError (d_Error d) (MADB_ERR code) None 0)\<rparr>"

text \<open>
  The loop of \<open>MADB_DescGetInternalRecord\<close> adds records with their defaults until the index is inside
  the array; the argument is the number of records to add.  The result says whether there is a record
  to use.
\<close>

fun grow_records :: "nat \<Rightarrow> MADB_Desc \<Rightarrow> heap \<Rightarrow> bool \<times> MADB_Desc \<times> heap" where
  "grow_records 0 d H = (True, d, H)"
| "grow_records (Suc k) d H =
    (if hp_grow H (length (d_Records d)) then
       (case MADB_DescSetRecordDefaults (d_DescType d) H of
          (r, H1) \<Rightarrow> grow_records k (d\<lparr>d_Records := d_Records d @ [r]\<rparr>) H1)
     else (False, desc_error ''HY001'' d, H))"

definition raise_count :: "int \<Rightarrow> MADB_Desc \<Rightarrow> MADB_Desc" where
  "raise_count n d =
    (if n > h_Count (d_Header d) then d\<lparr>d_Header := (d_Header d)\<lparr>h_Count := s16 n\<rparr>\<rparr> else d)"

definition MADB_DescGetInternalRecord ::
  "MADB_Desc \<Rightarrow> int \<Rightarrow> bool \<Rightarrow> heap \<Rightarrow> bool \<times> MADB_Desc \<times> heap" where
  "MADB_DescGetInternalRecord d RecordNumber reading H =
    (if RecordNumber > int (length (d_Records d)) \<and> reading
     then (False, desc_error ''07009'' d, H)
     else
       (case grow_records (nat (RecordNumber + 1) - length (d_Records d)) d H of
          (found, d1, H1) \<Rightarrow> (found, if found then raise_count (RecordNumber + 1) d1 else d1, H1)))"

text \<open>The record the pointer returned points to; a negative index is outside the array.\<close>

definition record_at :: "MADB_Desc \<Rightarrow> int \<Rightarrow> MADB_DescRecord option" where
  "record_at d i = (if 0 \<le> i \<and> nat i < length (d_Records d) then Some (d_Records d ! nat i) else None)"

definition set_record :: "MADB_Desc \<Rightarrow> int \<Rightarrow> MADB_DescRecord \<Rightarrow> MADB_Desc" where
  "set_record d i r = d\<lparr>d_Records := (d_Records d)[nat i := r]\<rparr>"

section \<open>Setting fields\<close>

definition MADB_DeskCheckFldId :: "MADB_Desc \<Rightarrow> int \<Rightarrow> bool \<Rightarrow> (int \<times> MADB_Desc) option" where
  "MADB_DeskCheckFldId d FieldIdentifier reading =
    (case map_of MADB_DESC_FLDID FieldIdentifier of
       None \<Rightarrow> Some (SQL_ERROR, desc_error ''HY091'' d)
     | Some a \<Rightarrow>
         (case access_for (d_DescType d) a of
            None \<Rightarrow> None
          | Some acc \<Rightarrow>
              if acc = Acc_RW \<or> reading \<and> acc = Acc_READ then Some (SQL_SUCCESS, d)
              else Some (SQL_ERROR, desc_error ''HY091'' d)))"

text \<open>The fields of the header; \<open>v\<close> is the value passed in the pointer argument.\<close>

definition set_header_field :: "int \<Rightarrow> int \<Rightarrow> MADB_Header \<Rightarrow> MADB_Header option" where
  "set_header_field fld v h =
    (if fld = SQL_DESC_ARRAY_SIZE then Some (h\<lparr>h_ArraySize := u64 v\<rparr>)
     else if fld = SQL_DESC_ARRAY_STATUS_PTR then Some (h\<lparr>h_ArrayStatusPtr := v\<rparr>)
     else if fld = SQL_DESC_BIND_OFFSET_PTR then Some (h\<lparr>h_BindOffsetPtr := v\<rparr>)
     else if fld = SQL_DESC_BIND_TYPE then Some (h\<lparr>h_BindType := u64 (s32 v)\<rparr>)
     else if fld = SQL_DESC_COUNT then Some (h\<lparr>h_Count := s16 v\<rparr>)
     else if fld = SQL_DESC_ROWS_PROCESSED_PTR then Some (h\<lparr>h_RowsProcessedPtr := v\<rparr>)
     else None)"

definition set_record_field :: "int \<Rightarrow> int \<Rightarrow> MADB_DescRecord \<Rightarrow> MADB_DescRecord" where
  "set_record_field fld v r =
    (if fld = SQL_DESC_CONCISE_TYPE then
       (let t = MADB_GetTypeFromConciseType (s16 v);
            r1 = r\<lparr>r_ConciseType := s16 v, r_Type := t\<rparr>
        in if t = SQL_INTERVAL then r1\<lparr>r_DateTimeIntervalCode := s16 (s16 v - 100)\<rparr> else r1)
     else if fld = SQL_DESC_DATA_PTR then r\<lparr>r_DataPtr := v\<rparr>
     else if fld = SQL_DESC_DATETIME_INTERVAL_CODE then r\<lparr>r_DateTimeIntervalCode := s16 v\<rparr>
     else if fld = SQL_DESC_DATETIME_INTERVAL_PRECISION then r\<lparr>r_DateTimeIntervalPrecision := s32 v\<rparr>
     else if fld = SQL_DESC_FIXED_PREC_SCALE then r\<lparr>r_FixedPrecScale := s16 v\<rparr>
     else if fld = SQL_DESC_INDICATOR_PTR then r\<lparr>r_IndicatorPtr := v\<rparr>
     else if fld = SQL_DESC_LENGTH then r\<lparr>r_DescLength := s32 v\<rparr>
     else if fld = SQL_DESC_NUM_PREC_RADIX then r\<lparr>r_NumPrecRadix := s32 v\<rparr>
     else if fld = SQL_DESC_OCTET_LENGTH then r\<lparr>r_OctetLength := s64 v\<rparr>
     else if fld = SQL_DESC_OCTET_LENGTH_PTR then r\<lparr>r_OctetLengthPtr := v\<rparr>
     else if fld = SQL_DESC_PARAMETER_TYPE then r\<lparr>r_ParameterType := s16 v\<rparr>
     else if fld = SQL_DESC_PRECISION then r\<lparr>r_Precision := s16 v\<rparr>
     else if fld = SQL_DESC_SCALE then r\<lparr>r_Scale := s16 v\<rparr>
     else if fld = SQL_DESC_TYPE then r\<lparr>r_Type := s16 v, r_ConciseType := s16 v\<rparr>
     else r)"

text \<open>A field that is not one of the three pointers unbinds a column; a pointer marks the record as used.\<close>

definition unbind :: "enum_madb_desc_type \<Rightarrow> int \<Rightarrow> MADB_DescRecord \<Rightarrow> MADB_DescRecord" where
  "unbind t fld r =
    (if fld = SQL_DESC_DATA_PTR \<or> fld = SQL_DESC_OCTET_LENGTH_PTR \<or> fld = SQL_DESC_INDICATOR_PTR then r
     else if t = MADB_DESC_ARD \<and> r_DataPtr r \<noteq> 0 then r\<lparr>r_DataPtr := 0\<rparr> else r)"

definition mark_used :: "MADB_DescRecord \<Rightarrow> MADB_DescRecord" where
  "mark_used r =
    (if r_DataPtr r \<noteq> 0 \<or> r_OctetLengthPtr r \<noteq> 0 \<or> r_IndicatorPtr r \<noteq> 0 then r\<lparr>r_inUse := True\<rparr> else r)"

definition succeeded :: "int \<Rightarrow> bool" where
  "succeeded ret \<longleftrightarrow> ret = SQL_SUCCESS \<or> ret = SQL_SUCCESS_WITH_INFO"

definition clear_error :: "MADB_Desc \<Rightarrow> MADB_Desc" where
  "clear_error d = d\<lparr>d_Error := MADB_CLEAR_ERROR (d_Error d)\<rparr>"

definition set_in_record :: "MADB_Desc \<Rightarrow> int \<Rightarrow> int \<Rightarrow> int \<Rightarrow> int \<Rightarrow> heap \<Rightarrow> (int \<times> MADB_Desc \<times> heap) option" where
  "set_in_record d i fld v ret H =
    (case MADB_DescGetInternalRecord d i False H of
       (False, d1, H1) \<Rightarrow> Some (SQL_ERROR, d1, H1)
     | (True, d1, H1) \<Rightarrow>
         (case record_at d1 i of
            None \<Rightarrow> None
          | Some r \<Rightarrow>
              Some (ret, set_record d1 i (mark_used (unbind (d_DescType d1) fld (set_record_field fld v r))), H1)))"

definition MADB_DescSetField ::
  "MADB_Desc \<Rightarrow> int \<Rightarrow> int \<Rightarrow> int \<Rightarrow> heap \<Rightarrow> (int \<times> MADB_Desc \<times> heap) option" where
  "MADB_DescSetField d RecNumber fld v H =
    (case MADB_DeskCheckFldId d fld False of
       None \<Rightarrow> None
     | Some (ret0, d0) \<Rightarrow>
         (let named = (fld = SQL_DESC_UNNAMED \<and> s16 v = SQL_NAMED);
              d1 = (if named then desc_error ''HY092'' d0 else d0);
              ret = (if named then ReturnValue (d_Error d1) else ret0)
          in if \<not> succeeded ret then Some (ret, d1, H)
             else
               (case set_header_field fld v (d_Header d1) of
                  Some h \<Rightarrow> Some (SQL_SUCCESS, (clear_error d1)\<lparr>d_Header := h\<rparr>, H)
                | None \<Rightarrow>
                    if RecNumber > 0 then set_in_record (clear_error d1) (RecNumber - 1) fld v ret H
                    else Some (ret, clear_error d1, H))))"

section \<open>Reading fields\<close>

text \<open>What is written through the value pointer: a number of a width, a pointer, or a string.\<close>

datatype field_out =
  NoOut | Out16 int | Out32 int | Out64 int | OutPtr cptr | OutStr "buffer option" int

definition get_header_field :: "int \<Rightarrow> MADB_Header \<Rightarrow> field_out option" where
  "get_header_field fld h =
    (if fld = SQL_DESC_ALLOC_TYPE then Some (Out32 (h_AllocType h))
     else if fld = SQL_DESC_ARRAY_SIZE then Some (Out64 (h_ArraySize h))
     else if fld = SQL_DESC_ARRAY_STATUS_PTR then Some (Out64 (h_ArrayStatusPtr h))
     else if fld = SQL_DESC_BIND_OFFSET_PTR then Some (Out64 (h_BindOffsetPtr h))
     else if fld = SQL_DESC_BIND_TYPE then Some (Out64 (h_BindType h))
     else if fld = SQL_DESC_COUNT then Some (Out16 (h_Count h))
     else if fld = SQL_DESC_ROWS_PROCESSED_PTR then Some (Out64 (h_RowsProcessedPtr h))
     else None)"

definition get_number_field :: "int \<Rightarrow> MADB_DescRecord \<Rightarrow> field_out option" where
  "get_number_field fld r =
    (if fld = SQL_DESC_AUTO_UNIQUE_VALUE then Some (Out32 (r_AutoUniqueValue r))
     else if fld = SQL_DESC_CASE_SENSITIVE then Some (Out32 (r_CaseSensitive r))
     else if fld = SQL_DESC_CONCISE_TYPE then Some (Out16 (r_ConciseType r))
     else if fld = SQL_DESC_DATA_PTR then Some (Out64 (r_DataPtr r))
     else if fld = SQL_DESC_DATETIME_INTERVAL_CODE then Some (Out16 (r_DateTimeIntervalCode r))
     else if fld = SQL_DESC_DATETIME_INTERVAL_PRECISION then Some (Out32 (r_DateTimeIntervalPrecision r))
     else if fld = SQL_DESC_FIXED_PREC_SCALE then Some (Out16 (r_FixedPrecScale r))
     else if fld = SQL_DESC_INDICATOR_PTR then Some (Out64 (r_IndicatorPtr r))
     else if fld = SQL_DESC_LENGTH then Some (Out32 (r_DescLength r))
     else if fld = SQL_DESC_LITERAL_PREFIX then Some (OutPtr (r_LiteralPrefix r))
     else if fld = SQL_DESC_LITERAL_SUFFIX then Some (OutPtr (r_LiteralSuffix r))
     else if fld = SQL_DESC_NULLABLE then Some (Out32 (r_Nullable r))
     else if fld = SQL_DESC_NUM_PREC_RADIX then Some (Out32 (r_NumPrecRadix r))
     else if fld = SQL_DESC_OCTET_LENGTH then Some (Out64 (r_OctetLength r))
     else if fld = SQL_DESC_OCTET_LENGTH_PTR then Some (Out64 (r_OctetLengthPtr r))
     else if fld = SQL_DESC_PARAMETER_TYPE then Some (Out16 (r_ParameterType r))
     else if fld = SQL_DESC_PRECISION then Some (Out32 (r_Precision r))
     else if fld = SQL_DESC_ROWVER then Some (Out64 (u64 (r_RowVer r)))
     else if fld = SQL_DESC_SCALE then Some (Out32 (r_Scale r))
     else if fld = SQL_DESC_SEARCHABLE then Some (Out32 (r_Searchable r))
     else if fld = SQL_DESC_TYPE then Some (Out32 (r_Type r))
     else if fld = SQL_DESC_UNSIGNED then Some (Out32 (r_Unsigned r))
     else if fld = SQL_DESC_UPDATABLE then Some (Out32 (r_Updateable r))
     else None)"

definition string_field :: "int \<Rightarrow> MADB_DescRecord \<Rightarrow> cptr option" where
  "string_field fld r =
    (if fld = SQL_DESC_BASE_COLUMN_NAME then Some (r_BaseColumnName r)
     else if fld = SQL_DESC_BASE_TABLE_NAME then Some (r_BaseTableName r)
     else if fld = SQL_DESC_CATALOG_NAME then Some (r_BaseCatalogName r)
     else if fld = SQL_DESC_LOCAL_TYPE_NAME then Some (r_LocalTypeName r)
     else if fld = SQL_DESC_NAME then Some (r_BaseColumnName r)
     else if fld = SQL_DESC_SCHEMA_NAME then Some (r_SchemaName r)
     else if fld = SQL_DESC_TABLE_NAME then Some (r_TableName r)
     else if fld = SQL_DESC_TYPE_NAME then Some (r_TypeName r)
     else None)"

text \<open>
  \<open>dest\<close> is the application's buffer, \<open>has_len\<close> says whether it passed a pointer for the length of the
  string; only \<open>SQL_DESC_TYPE_NAME\<close> writes through that pointer without looking.  Reading the name
  of a record marks it as named.  The narrow-character entry point (\<open>isWChar\<close> false).
\<close>

definition get_from_record ::
  "MADB_Desc \<Rightarrow> int \<Rightarrow> int \<Rightarrow> buffer option \<Rightarrow> int \<Rightarrow> bool \<Rightarrow> (field_out \<times> MADB_Desc) option" where
  "get_from_record d i fld dest BufferLength has_len =
    (case record_at d i of
       None \<Rightarrow> None
     | Some r \<Rightarrow>
         (case get_number_field fld r of
            Some out \<Rightarrow> Some (out, d)
          | None \<Rightarrow>
              (case string_field fld r of
                 None \<Rightarrow> Some (NoOut, d)
               | Some p \<Rightarrow>
                   (case MADB_SetString dest (nat (u64 BufferLength)) (cptr_string p) SQL_NTS (d_Error d) of
                      None \<Rightarrow> None
                    | Some (len, buf, e) \<Rightarrow>
                        if fld = SQL_DESC_TYPE_NAME \<and> \<not> has_len then None
                        else
                          (let d1 = d\<lparr>d_Error := e\<rparr>
                           in Some (OutStr buf len,
                                    if fld = SQL_DESC_NAME then set_record d1 i (r\<lparr>r_Unnamed := SQL_NAMED\<rparr>)
                                    else d1))))))"

definition is_record_field :: "int \<Rightarrow> bool" where
  "is_record_field fld \<longleftrightarrow> get_number_field fld zero_record \<noteq> None \<or> string_field fld zero_record \<noteq> None"

definition MADB_DescGetField ::
  "MADB_Desc \<Rightarrow> int \<Rightarrow> int \<Rightarrow> buffer option \<Rightarrow> int \<Rightarrow> bool \<Rightarrow> heap \<Rightarrow>
   (int \<times> field_out \<times> MADB_Desc \<times> heap) option" where
  "MADB_DescGetField d RecNumber fld dest BufferLength has_len H =
    (case MADB_DeskCheckFldId d fld True of
       None \<Rightarrow> None
     | Some (ret, d0) \<Rightarrow>
         if \<not> succeeded ret then Some (ret, NoOut, d0, H)
         else
           (case (if RecNumber \<noteq> 0
                  then MADB_DescGetInternalRecord (clear_error d0) (s16 (RecNumber - 1)) True H
                  else (True, clear_error d0, H)) of
              (False, d1, H1) \<Rightarrow> Some (SQL_ERROR, NoOut, d1, H1)
            | (True, d1, H1) \<Rightarrow>
                (case get_header_field fld (d_Header d1) of
                   Some out \<Rightarrow> Some (ret, out, d1, H1)
                 | None \<Rightarrow>
                     if \<not> is_record_field fld then Some (ret, NoOut, d1, H1)
                     else if RecNumber = 0 then None
                     else
                       (case get_from_record d1 (s16 (RecNumber - 1)) fld dest BufferLength has_len of
                          None \<Rightarrow> None
                        | Some (out, d2) \<Rightarrow> Some (ret, out, d2, H1)))))"

text \<open>
  \<open>MADB_DescGetRec\<close>, every pointer given: the name and its length, the type, the interval code, the
  octet length, precision, scale and nullability.
\<close>

definition MADB_DescGetRec ::
  "MADB_Desc \<Rightarrow> int \<Rightarrow> buffer option \<Rightarrow> int \<Rightarrow> heap \<Rightarrow>
   (int \<times> (buffer option \<times> int \<times> int \<times> int \<times> int \<times> int \<times> int \<times> int) option \<times> MADB_Desc \<times> heap) option" where
  "MADB_DescGetRec d RecNumber Name BufferLength H =
    (case MADB_DescGetInternalRecord (clear_error d) RecNumber True H of
       (False, d1, H1) \<Rightarrow>
         Some (ReturnValue (d_Error (desc_error ''07009'' d1)), None, desc_error ''07009'' d1, H1)
     | (True, d1, H1) \<Rightarrow>
         (case record_at d1 RecNumber of
            None \<Rightarrow> None
          | Some r \<Rightarrow>
              (case MADB_SetString Name (nat (u64 BufferLength)) (cptr_string (r_BaseColumnName r)) SQL_NTS
                      (d_Error d1) of
                 None \<Rightarrow> None
               | Some (len, buf, e) \<Rightarrow>
                   Some (SQL_SUCCESS,
                         Some (buf, s16 len, r_Type r, r_DateTimeIntervalCode r, r_OctetLength r,
                               r_Precision r, r_Scale r, r_Nullable r),
                         set_record (d1\<lparr>d_Error := e\<rparr>) RecNumber (r\<lparr>r_Unnamed := SQL_NAMED\<rparr>), H1))))"

section \<open>Creating, copying and freeing\<close>

text \<open>
  What a descriptor's operations change outside it: the connection's list of descriptors, and the
  descriptors its statements use, by address.
\<close>

record stmt_descs =
  sd_Ard :: nat
  sd_Apd :: nat
  sd_IArd :: nat
  sd_IApd :: nat

record desc_owner =
  o_Descrs :: "nat list"
  o_stmts :: "nat \<Rightarrow> stmt_descs"

text \<open>The error area of a structure allocated with \<open>MADB_CALLOC\<close>.\<close>

definition zero_error :: MADB_Error where
  "zero_error = \<lparr>SqlState = '''', NativeError = 0,
     SqlErrorMsg = Some (replicate (SQL_MAX_MESSAGE_LENGTH + 1) NUL), PrefixLen = 0,
     ReturnValue = 0, ErrRecord = 0, ErrorNum = 0\<rparr>"

definition MADB_DescInit ::
  "string \<Rightarrow> string option \<Rightarrow> bool \<times> bool \<times> bool \<Rightarrow> enum_madb_desc_type \<Rightarrow> bool \<Rightarrow> nat \<Rightarrow> desc_owner \<Rightarrow>
   MADB_Desc option \<times> desc_owner" where
  "MADB_DescInit pfx server allocs DescType isExternal addr W =
    (case allocs of (desc_ok, recs_ok, stmts_ok) \<Rightarrow>
       if \<not> desc_ok \<or> \<not> recs_ok \<or> isExternal \<and> \<not> stmts_ok then (None, W)
       else
         (Some \<lparr>d_Header = \<lparr>h_AllocType = 0, h_ArraySize = 1, h_ArrayStatusPtr = 0, h_BindOffsetPtr = 0,
                 h_BindType = 0, h_Count = 0, h_RowsProcessedPtr = 0\<rparr>,
                d_DescType = DescType, d_AppType = isExternal, d_Records = [], d_Stmts = [],
                d_Error = snd (MADB_PutErrorPrefix pfx server zero_error)\<rparr>,
          if isExternal then W\<lparr>o_Descrs := addr # o_Descrs W\<rparr> else W))"

definition free_record :: "enum_madb_desc_type \<Rightarrow> MADB_DescRecord \<Rightarrow> heap \<Rightarrow> heap" where
  "free_record t r H =
    (let H1 = MADB_FREE (r_DefaultValue r) (MADB_FREE (r_InternalBuffer r) H)
     in if t = MADB_DESC_IRD
        then fold MADB_FREE [r_CatalogName r, r_BaseCatalogName r, r_BaseColumnName r, r_BaseTableName r,
               r_ColumnName r, r_TableName r, r_TypeName r] H1
        else if t = MADB_DESC_IPD then MADB_FREE (r_TypeName r) H1 else H1)"

text \<open>A statement that uses an explicit descriptor falls back to its own one.\<close>

definition detach :: "enum_madb_desc_type \<Rightarrow> stmt_descs \<Rightarrow> stmt_descs" where
  "detach t s =
    (if t = MADB_DESC_ARD then s\<lparr>sd_Ard := sd_IArd s\<rparr>
     else if t = MADB_DESC_APD then s\<lparr>sd_Apd := sd_IApd s\<rparr> else s)"

definition detach_all :: "enum_madb_desc_type \<Rightarrow> nat list \<Rightarrow> (nat \<Rightarrow> stmt_descs) \<Rightarrow> nat \<Rightarrow> stmt_descs" where
  "detach_all t ss m = fold (\<lambda>i m. m(i := detach t (m i))) ss m"

definition MADB_DescFree ::
  "MADB_Desc option \<Rightarrow> nat \<Rightarrow> desc_owner \<Rightarrow> heap \<Rightarrow> int \<times> MADB_Desc option \<times> desc_owner \<times> heap" where
  "MADB_DescFree desc addr W H =
    (case desc of
       None \<Rightarrow> (SQL_ERROR, None, W, H)
     | Some d \<Rightarrow>
         (let H1 = fold (free_record (d_DescType d)) (d_Records d) H;
              d1 = d\<lparr>d_Records := [], d_Header := (d_Header d)\<lparr>h_Count := 0\<rparr>\<rparr>
          in if d_AppType d
             then (SQL_SUCCESS, Some (d1\<lparr>d_Stmts := []\<rparr>),
                   W\<lparr>o_stmts := detach_all (d_DescType d) (d_Stmts d) (o_stmts W),
                     o_Descrs := remove1 addr (o_Descrs W)\<rparr>, H1)
             else (SQL_SUCCESS, Some d1, W, H1)))"

definition clear_buffers :: "MADB_Desc \<Rightarrow> MADB_Desc" where
  "clear_buffers d =
    fold (\<lambda>i d. set_record (raise_count (int i + 1) d) (int i) ((d_Records d ! i)\<lparr>r_InternalBuffer := Null\<rparr>))
      [0..<length (d_Records d)] d"

definition MADB_DescCopyDesc :: "MADB_Desc option \<Rightarrow> MADB_Desc \<Rightarrow> bool \<Rightarrow> int \<times> MADB_Desc" where
  "MADB_DescCopyDesc src dest alloc_ok =
    (case src of
       None \<Rightarrow> (SQL_INVALID_HANDLE, dest)
     | Some s \<Rightarrow>
         if d_DescType dest = MADB_DESC_IRD then (SQL_ERROR, desc_error ''HY016'' dest)
         else if d_DescType s = MADB_DESC_IRD \<and> h_Count (d_Header s) = 0
         then (SQL_ERROR, desc_error ''HY007'' dest)
         else if \<not> alloc_ok then (SQL_ERROR, desc_error ''HY001'' (dest\<lparr>d_Records := []\<rparr>))
         else (SQL_SUCCESS,
               clear_buffers (dest\<lparr>d_Header := d_Header s, d_DescType := d_DescType s,
                 d_Error := d_Error s, d_Records := d_Records s\<rparr>)))"

section \<open>Metadata of result columns\<close>

text \<open>
  A field of the client library with its names; \<open>charset\<close> stands for \<open>mariadb_get_charset_by_nr\<close> and
  gives the \<open>char_maxlen\<close> of a character set, \<open>wchar\<close> says whether a driver with wide characters was
  asked for wide types.
\<close>

record field_names =
  n_field :: MYSQL_FIELD
  n_db :: "string option"
  n_table :: "string option"
  n_name :: "string option"
  n_org_table :: "string option"
  n_org_name :: "string option"

definition ird_names :: "field_names \<Rightarrow> MADB_DescRecord \<Rightarrow> heap \<Rightarrow> MADB_DescRecord \<times> heap" where
  "ird_names F r H =
    (case MADB_RESET (r_CatalogName r) (n_db F) H of (p1, H1) \<Rightarrow>
     case MADB_RESET (r_TableName r) (n_table F) H1 of (p2, H2) \<Rightarrow>
     case MADB_RESET (r_ColumnName r) (n_name F) H2 of (p3, H3) \<Rightarrow>
     case MADB_RESET (r_BaseTableName r) (n_org_table F) H3 of (p4, H4) \<Rightarrow>
     case MADB_RESET (r_BaseColumnName r) (n_org_name F) H4 of (p5, H5) \<Rightarrow>
       (r\<lparr>r_CatalogName := p1, r_TableName := p2, r_ColumnName := p3, r_BaseTableName := p4,
          r_BaseColumnName := p5\<rparr>, H5))"

definition ird_flags :: "field_names \<Rightarrow> MADB_DescRecord \<Rightarrow> MADB_DescRecord" where
  "ird_flags F r =
    (let fl = f_flags (n_field F)
     in r\<lparr>r_AutoUniqueValue := test (fl AND AUTO_INCREMENT_FLAG \<noteq> 0),
          r_CaseSensitive := test (fl AND BINARY_FLAG \<noteq> 0),
          r_Nullable := (if fl AND NOT_NULL_FLAG \<noteq> 0 then SQL_NO_NULLS else SQL_NULLABLE),
          r_Unsigned := test (fl AND UNSIGNED_FLAG \<noteq> 0),
          r_Updateable := (if n_table F \<noteq> None \<and> n_table F \<noteq> Some ''''
                           then SQL_ATTR_READWRITE_UNKNOWN else SQL_ATTR_READONLY)\<rparr>)"

definition ird_precision :: "MYSQL_FIELD \<Rightarrow> MADB_DescRecord \<Rightarrow> MADB_DescRecord" where
  "ird_precision f r =
    (let t = f_type f in
     if t \<in> {MYSQL_TYPE_DECIMAL, MYSQL_TYPE_NEWDECIMAL} then
       (let sc = s16 (f_decimals f);
            pr = s16 (s16 (f_length f) - test (r_Unsigned r = 0) - test (sc > 0))
        in r\<lparr>r_NumPrecRadix := 10, r_Scale := sc, r_Precision := (if pr = 0 then sc else pr)\<rparr>)
     else if t = MYSQL_TYPE_DOUBLE then r\<lparr>r_NumPrecRadix := 10, r_Precision := 15\<rparr>
     else if t = MYSQL_TYPE_FLOAT then r\<lparr>r_NumPrecRadix := 10, r_Precision := 7\<rparr>
     else if t \<in> {MYSQL_TYPE_TINY, MYSQL_TYPE_SHORT, MYSQL_TYPE_INT24, MYSQL_TYPE_LONG,
                  MYSQL_TYPE_LONGLONG, MYSQL_TYPE_YEAR} then r\<lparr>r_NumPrecRadix := 10\<rparr>
     else if t \<in> {MYSQL_TYPE_TIMESTAMP, MYSQL_TYPE_TIME, MYSQL_TYPE_DATETIME} then
       r\<lparr>r_Scale := s16 (f_decimals f), r_NumPrecRadix := 0\<rparr>
     else r\<lparr>r_NumPrecRadix := 0\<rparr>)"

definition is_string_type :: "int \<Rightarrow> bool" where
  "is_string_type t \<longleftrightarrow>
     t \<in> {MYSQL_TYPE_BLOB, MYSQL_TYPE_LONG_BLOB, MYSQL_TYPE_MEDIUM_BLOB, MYSQL_TYPE_STRING,
          MYSQL_TYPE_TINY_BLOB, MYSQL_TYPE_VAR_STRING}"

definition ird_concise :: "bool \<Rightarrow> MYSQL_FIELD \<Rightarrow> int" where
  "ird_concise wchar f =
    (let t = MapMariadDbToOdbcType f
     in if wchar \<and> is_string_type (f_type f) \<and> f_flags f AND BINARY_FLAG = 0
        then MADB_GetWCharType t else t)"

text \<open>The verbose type, the code of a date or time, and whether a column can be searched.\<close>

definition verbose_type :: "int \<Rightarrow> int" where
  "verbose_type ct =
    (if ct \<in> {SQL_TYPE_DATE, SQL_DATE, SQL_TYPE_TIME, SQL_TIME, SQL_TYPE_TIMESTAMP, SQL_TIMESTAMP}
     then SQL_DATETIME else ct)"

definition interval_code :: "int \<Rightarrow> int \<Rightarrow> int" where
  "interval_code ct old =
    (if ct = SQL_TYPE_DATE then SQL_CODE_DATE
     else if ct = SQL_TYPE_TIME then SQL_CODE_TIME
     else if ct = SQL_TYPE_TIMESTAMP then SQL_CODE_TIMESTAMP else old)"

definition searchable :: "int \<Rightarrow> int" where
  "searchable ct =
    (if ct \<in> {SQL_LONGVARCHAR, SQL_WLONGVARCHAR, SQL_LONGVARBINARY} then SQL_PRED_CHAR else SQL_SEARCHABLE)"

definition ird_type :: "bool \<Rightarrow> MYSQL_FIELD \<Rightarrow> MADB_DescRecord \<Rightarrow> MADB_DescRecord" where
  "ird_type wchar f r =
    (let ct = ird_concise wchar f
     in r\<lparr>r_ConciseType := ct, r_Type := verbose_type ct,
          r_DateTimeIntervalCode := interval_code ct (r_DateTimeIntervalCode r),
          r_Searchable := searchable ct\<rparr>)"

definition ird_sizes :: "(int \<Rightarrow> int option) \<Rightarrow> MYSQL_FIELD \<Rightarrow> MADB_DescRecord \<Rightarrow> MADB_DescRecord" where
  "ird_sizes charset f r =
    (let cs = charset (f_charsetnr f)
     in r\<lparr>r_DisplaySize := s64 (MADB_GetDisplaySize f cs), r_OctetLength := s64 (MADB_GetOctetLength f),
          r_Length := u64 (MADB_GetDataSize (r_ConciseType r) (s64 (f_length f)) (r_Unsigned r = 1)
                             (r_Precision r) (r_Scale r) (case cs of None \<Rightarrow> 1 | Some m \<Rightarrow> m))\<rparr>)"

definition ird_literal :: "MYSQL_FIELD \<Rightarrow> MADB_DescRecord \<Rightarrow> MADB_DescRecord" where
  "ird_literal f r =
    (if is_string_type (f_type f) \<and> f_flags f AND BINARY_FLAG \<noteq> 0
     then r\<lparr>r_LiteralPrefix := Lit ''0x'', r_LiteralSuffix := Lit ''''\<rparr>
     else if is_string_type (f_type f) \<or>
             f_type f \<in> {MYSQL_TYPE_DATE, MYSQL_TYPE_DATETIME, MYSQL_TYPE_NEWDATE, MYSQL_TYPE_TIME,
                         MYSQL_TYPE_TIMESTAMP, MYSQL_TYPE_YEAR}
     then r\<lparr>r_LiteralPrefix := Lit [CHR 39], r_LiteralSuffix := Lit [CHR 39]\<rparr>
     else r\<lparr>r_LiteralPrefix := Lit '''', r_LiteralSuffix := Lit ''''\<rparr>)"

definition MADB_SetIrdRecord ::
  "bool \<Rightarrow> (int \<Rightarrow> int option) \<Rightarrow> field_names \<Rightarrow> MADB_DescRecord \<Rightarrow> heap \<Rightarrow> MADB_DescRecord \<times> heap" where
  "MADB_SetIrdRecord wchar charset F r H =
    (case ird_names F r H of (r1, H1) \<Rightarrow>
     (let f = n_field F;
          r2 = ird_sizes charset f (ird_type wchar f (ird_precision f (ird_flags F r1)))
      in case MADB_RESET (r_TypeName r2) (Some (MADB_GetTypeName f)) H1 of
           (tn, H2) \<Rightarrow> (ird_literal f (r2\<lparr>r_TypeName := tn\<rparr>), H2)))"

text \<open>The loop over the fields, from field \<open>i\<close>; the result is the C return value, 1 on failure.\<close>

fun ird_loop ::
  "bool \<Rightarrow> (int \<Rightarrow> int option) \<Rightarrow> nat \<Rightarrow> field_names list \<Rightarrow> MADB_Desc \<Rightarrow> heap \<Rightarrow> bool \<times> MADB_Desc \<times> heap" where
  "ird_loop wchar charset i [] d H = (False, d, H)"
| "ird_loop wchar charset i (F # Fs) d H =
    (case MADB_DescGetInternalRecord d (int i) False H of
       (False, d1, H1) \<Rightarrow> (True, d1, H1)
     | (True, d1, H1) \<Rightarrow>
         (case MADB_SetIrdRecord wchar charset F (d_Records d1 ! i) H1 of
            (r, H2) \<Rightarrow> ird_loop wchar charset (Suc i) Fs (set_record d1 (int i) r) H2))"

definition MADB_DescSetIrdMetadata ::
  "bool \<Rightarrow> (int \<Rightarrow> int option) \<Rightarrow> field_names list \<Rightarrow> MADB_Desc \<Rightarrow> heap \<Rightarrow> bool \<times> MADB_Desc \<times> heap" where
  "MADB_DescSetIrdMetadata wchar charset Fs d H =
    ird_loop wchar charset 0 (take (nat (s16 (int (length Fs)))) Fs)
      (d\<lparr>d_Header := (d_Header d)\<lparr>h_Count := 0\<rparr>\<rparr>) H"

section \<open>Correcting the types of catalog results\<close>

definition MADB_FixOctetLength :: "MADB_DescRecord \<Rightarrow> MADB_DescRecord" where
  "MADB_FixOctetLength r =
    (let t = r_ConciseType r
     in r\<lparr>r_OctetLength :=
          (if t \<in> {SQL_BIT, SQL_TINYINT} then 1
           else if t = SQL_SMALLINT then 2
           else if t \<in> {SQL_INTEGER, SQL_REAL} then 4
           else if t \<in> {SQL_BIGINT, SQL_DOUBLE} then 8
           else if t = SQL_TYPE_DATE then sizeof_DATE
           else if t = SQL_TYPE_TIME then sizeof_TIME
           else if t = SQL_TYPE_TIMESTAMP then sizeof_TIMESTAMP
           else min S2_1_GB (r_OctetLength r))\<rparr>)"

text \<open>\<open>mbmaxlen\<close> is that of the connection's character set.\<close>

definition MADB_FixDisplaySize :: "int \<Rightarrow> MADB_DescRecord \<Rightarrow> MADB_DescRecord" where
  "MADB_FixDisplaySize mbmaxlen r =
    (let t = r_ConciseType r; u = test (r_Unsigned r = 1)
     in r\<lparr>r_DisplaySize :=
          (if t = SQL_BIT then 1
           else if t = SQL_TINYINT then 4 - u
           else if t = SQL_SMALLINT then 6 - u
           else if t = SQL_INTEGER then 11 - u
           else if t = SQL_REAL then 14
           else if t = SQL_BIGINT then 20
           else if t \<in> {SQL_FLOAT, SQL_DOUBLE} then 24
           else if t \<in> {SQL_DECIMAL, SQL_NUMERIC} then r_Precision r + 2
           else if t = SQL_TYPE_DATE then SQL_DATE_LEN
           else if t = SQL_TYPE_TIME then SQL_TIME_LEN + MADB_FRACTIONAL_PART (r_Scale r)
           else if t = SQL_TYPE_TIMESTAMP then SQL_TIMESTAMP_LEN + MADB_FRACTIONAL_PART (r_Scale r)
           else if t \<in> {SQL_BINARY, SQL_VARBINARY, SQL_LONGVARBINARY} then s64 (r_OctetLength r * 2)
           else if t = SQL_GUID then 36
           else if mbmaxlen < 2 then r_OctetLength r
           else cquot (r_OctetLength r) mbmaxlen)\<rparr>)"

definition MADB_FixDataSize :: "int \<Rightarrow> MADB_DescRecord \<Rightarrow> MADB_DescRecord" where
  "MADB_FixDataSize mbmaxlen r =
    r\<lparr>r_Length := u64 (MADB_GetDataSize (r_ConciseType r) (r_OctetLength r) (r_Unsigned r = 1)
                         (r_Precision r) (r_Scale r) mbmaxlen)\<rparr>"

definition fix_precision :: "MADB_DescRecord \<Rightarrow> MADB_DescRecord" where
  "fix_precision r =
    (let t = r_ConciseType r in
     if t = SQL_DECIMAL then r\<lparr>r_NumPrecRadix := 10, r_Precision := s16 (s16 (r_OctetLength r) - 2)\<rparr>
     else if t = SQL_DOUBLE then r\<lparr>r_NumPrecRadix := 10, r_Precision := 15\<rparr>
     else if t = SQL_REAL then r\<lparr>r_NumPrecRadix := 10, r_Precision := 7\<rparr>
     else if t \<in> {SQL_TINYINT, SQL_SMALLINT, SQL_INTEGER, SQL_BIGINT} then r\<lparr>r_NumPrecRadix := 10\<rparr>
     else r\<lparr>r_NumPrecRadix := 0\<rparr>)"

definition fix_literal :: "MADB_DescRecord \<Rightarrow> MADB_DescRecord" where
  "fix_literal r =
    (let t = r_ConciseType r in
     if t \<in> {SQL_BINARY, SQL_VARBINARY, SQL_LONGVARBINARY}
     then r\<lparr>r_LiteralPrefix := Lit ''0x'', r_LiteralSuffix := Lit ''''\<rparr>
     else if t \<in> {SQL_TYPE_DATE, SQL_TYPE_TIME, SQL_TYPE_TIMESTAMP}
     then r\<lparr>r_LiteralPrefix := Lit [CHR 39], r_LiteralSuffix := Lit [CHR 39]\<rparr>
     else r\<lparr>r_LiteralPrefix := Lit '''', r_LiteralSuffix := Lit ''''\<rparr>)"

text \<open>\<open>fake\<close>: the result set was made up by the client library (\<open>MYSQL_FAKE_RESULT\<close>).\<close>

definition MADB_FixIrdRecord :: "int \<Rightarrow> bool \<Rightarrow> MADB_DescRecord \<Rightarrow> MADB_DescRecord" where
  "MADB_FixIrdRecord mbmaxlen fake r =
    (let r1 = fix_precision (MADB_FixOctetLength r);
         ct = r_ConciseType r1;
         r2 = MADB_FixDisplaySize mbmaxlen
                (r1\<lparr>r_Type := verbose_type ct,
                    r_DateTimeIntervalCode := interval_code ct (r_DateTimeIntervalCode r1),
                    r_Searchable := searchable ct\<rparr>)
     in fix_literal (if fake then r2 else MADB_FixDataSize mbmaxlen r2))"

record MADB_ShortTypeInfo =
  t_SqlType :: int
  t_Unsigned :: int
  t_Nullable :: int
  t_OctetLength :: int
  t_CharacterLength :: int

definition fix_record :: "int \<Rightarrow> bool \<Rightarrow> MADB_ShortTypeInfo \<Rightarrow> MADB_DescRecord \<Rightarrow> MADB_DescRecord" where
  "fix_record mbmaxlen fake T r =
    (let r1 = r\<lparr>r_ConciseType := t_SqlType T, r_Nullable := t_Nullable T,
                r_Unsigned := test (t_Unsigned T \<noteq> 0)\<rparr>;
         r2 = (if t_OctetLength T > 0 then r1\<lparr>r_OctetLength := t_OctetLength T\<rparr> else r1);
         r3 = MADB_FixIrdRecord mbmaxlen fake r2
     in if t_CharacterLength T > 0 then r3\<lparr>r_Length := u64 (t_CharacterLength T)\<rparr> else r3)"

text \<open>
  The loop of \<open>MADB_FixColumnDataTypes\<close> from column \<open>i\<close> on, with the number of columns left: \<^const>\<open>None\<close>
  where it reads beside the array of types or the records.
\<close>

fun fix_loop ::
  "int \<Rightarrow> bool \<Rightarrow> MADB_ShortTypeInfo list \<Rightarrow> nat \<Rightarrow> nat \<Rightarrow> MADB_Desc \<Rightarrow> heap \<Rightarrow> (bool \<times> MADB_Desc \<times> heap) option" where
  "fix_loop mbmaxlen fake Ts i 0 d H = Some (False, d, H)"
| "fix_loop mbmaxlen fake Ts i (Suc k) d H =
    (if length Ts \<le> i then None
     else if t_SqlType (Ts ! i) = 0 then fix_loop mbmaxlen fake Ts (Suc i) k d H
     else
       (case MADB_DescGetInternalRecord d (int i) True H of
          (False, d1, H1) \<Rightarrow> Some (True, d1, H1)
        | (True, d1, H1) \<Rightarrow>
            fix_loop mbmaxlen fake Ts (Suc i) k
              (set_record d1 (int i) (fix_record mbmaxlen fake (Ts ! i) (d_Records d1 ! i))) H1))"

definition MADB_FixColumnDataTypes ::
  "int \<Rightarrow> bool \<Rightarrow> MADB_ShortTypeInfo list option \<Rightarrow> MADB_Desc \<Rightarrow> heap \<Rightarrow> (bool \<times> MADB_Desc \<times> heap) option" where
  "MADB_FixColumnDataTypes mbmaxlen fake ColTypesArr d H =
    (case ColTypesArr of
       None \<Rightarrow> Some (True, d, H)
     | Some Ts \<Rightarrow> fix_loop mbmaxlen fake Ts 0 (nat (h_Count (d_Header d))) d H)"

end
