(* ===== verification/Desc_Memory.thy ===== *)
theory Desc_Memory
  imports Odbc_Desc "HOL-Library.Multiset"
begin

text \<open>
  The strings the records of a descriptor own: every operation on a descriptor keeps the account of
  what was allocated and what was freed, so that freeing the descriptor frees the rest, each string
  once; copying a descriptor does not keep it.
\<close>

section \<open>The account\<close>

text \<open>The members that \<open>MADB_DescFree\<close> frees, in its order.\<close>

definition rec_ptrs :: "enum_madb_desc_type \<Rightarrow> MADB_DescRecord \<Rightarrow> cptr list" where
  "rec_ptrs t r =
    [r_InternalBuffer r, r_DefaultValue r] @
    (if t = MADB_DESC_IRD
     then [r_CatalogName r, r_BaseCatalogName r, r_BaseColumnName r, r_BaseTableName r,
           r_ColumnName r, r_TableName r, r_TypeName r]
     else if t = MADB_DESC_IPD then [r_TypeName r] else [])"

fun ptr_addr :: "cptr \<Rightarrow> nat list" where
  "ptr_addr (Heap a s) = [a]"
| "ptr_addr _ = []"

fun no_lit :: "cptr \<Rightarrow> bool" where
  "no_lit (Lit s) = False"
| "no_lit _ = True"

definition rec_owns :: "enum_madb_desc_type \<Rightarrow> MADB_DescRecord \<Rightarrow> nat multiset" where
  "rec_owns t r = mset (concat (map ptr_addr (rec_ptrs t r)))"

definition owned :: "MADB_Desc \<Rightarrow> nat multiset" where
  "owned d = sum_list (map (rec_owns (d_DescType d)) (d_Records d))"

text \<open>Of the addresses handed out, those in \<open>X\<close> are in use and the rest were freed, each once.\<close>

definition accounts :: "nat multiset \<Rightarrow> heap \<Rightarrow> bool" where
  "accounts X H \<longleftrightarrow> \<not> hp_bad H \<and> X + mset (hp_freed H) = mset [0..<hp_next H]"

definition balanced :: "MADB_Desc \<Rightarrow> heap \<Rightarrow> bool" where
  "balanced d H \<longleftrightarrow> accounts (owned d) H
     \<and> (\<forall>r \<in> set (d_Records d). list_all no_lit (rec_ptrs (d_DescType d) r))"

lemma MADB_FREE_accounts:
  "accounts (Y + mset (ptr_addr p)) H \<Longrightarrow> no_lit p \<Longrightarrow> accounts Y (MADB_FREE p H)"
  by (cases p) (auto simp: accounts_def ac_simps)

lemma strdup_accounts:
  "accounts Y H \<Longrightarrow> strdup t H = (q, H1) \<Longrightarrow> accounts (Y + mset (ptr_addr q)) H1 \<and> no_lit q"
  by (auto simp: accounts_def strdup_def simp del: mset_upt split: if_splits)

lemma MADB_RESET_accounts:
  assumes "accounts (Y + mset (ptr_addr p)) H" "no_lit p" "MADB_RESET p s H = (q, H1)"
  shows "accounts (Y + mset (ptr_addr q)) H1 \<and> no_lit q"
  using MADB_FREE_accounts [OF assms(1,2)] strdup_accounts assms(3)
  by (cases s) (auto simp: MADB_RESET_def Let_def)

lemma fold_FREE_accounts:
  "accounts (Y + mset (concat (map ptr_addr ps))) H \<Longrightarrow> list_all no_lit ps \<Longrightarrow>
   accounts Y (fold MADB_FREE ps H)"
proof (induction ps arbitrary: H)
  case (Cons p ps)
  have "accounts ((Y + mset (concat (map ptr_addr ps))) + mset (ptr_addr p)) H"
    using Cons.prems(1) by (simp add: ac_simps)
  then show ?case using Cons MADB_FREE_accounts by simp
qed simp

lemma free_record_fold: "free_record t r H = fold MADB_FREE (rec_ptrs t r) H"
  by (simp add: free_record_def rec_ptrs_def Let_def)

lemma free_records_accounts:
  "accounts (Y + sum_list (map (rec_owns t) rs)) H \<Longrightarrow> \<forall>r \<in> set rs. list_all no_lit (rec_ptrs t r) \<Longrightarrow>
   accounts Y (fold (free_record t) rs H)"
proof (induction rs arbitrary: H)
  case (Cons r rs)
  have "accounts ((Y + sum_list (map (rec_owns t) rs)) + mset (concat (map ptr_addr (rec_ptrs t r)))) H"
    using Cons.prems(1) by (simp add: rec_owns_def [of t r] ac_simps)
  then have "accounts (Y + sum_list (map (rec_owns t) rs)) (free_record t r H)"
    using fold_FREE_accounts Cons.prems(2) by (simp add: free_record_fold)
  then show ?case using Cons by simp
qed simp

lemma sum_list_update_split:
  fixes f :: "'a \<Rightarrow> 'b multiset"
  assumes "i < length xs"
  obtains Y where "sum_list (map f xs) = Y + f (xs ! i)"
    "\<And>x. sum_list (map f (xs[i := x])) = Y + f x"
proof
  show "sum_list (map f xs) = (sum_list (map f (take i xs)) + sum_list (map f (drop (Suc i) xs))) + f (xs ! i)"
    using assms by (subst id_take_nth_drop [OF assms]) (simp add: ac_simps)
  show "\<And>x. sum_list (map f (xs[i := x])) =
      (sum_list (map f (take i xs)) + sum_list (map f (drop (Suc i) xs))) + f x"
    using assms by (simp add: upd_conv_take_nth_drop ac_simps)
qed

text \<open>A record may be replaced by one that accounts for the same strings.\<close>

lemma balanced_set_record:
  assumes "balanced d H" "i < length (d_Records d)"
    and "\<And>Y. accounts (Y + rec_owns (d_DescType d) (d_Records d ! i)) H \<Longrightarrow>
              accounts (Y + rec_owns (d_DescType d) r) H1"
    and "list_all no_lit (rec_ptrs (d_DescType d) r)"
  shows "balanced (set_record d (int i) r) H1"
proof -
  obtain Y where Y: "owned d = Y + rec_owns (d_DescType d) (d_Records d ! i)"
    "\<And>x. sum_list (map (rec_owns (d_DescType d)) ((d_Records d)[i := x])) = Y + rec_owns (d_DescType d) x"
    using sum_list_update_split [OF assms(2)] unfolding owned_def by metis
  have "accounts (Y + rec_owns (d_DescType d) r) H1"
    using assms(1,3) Y(1) by (simp add: balanced_def)
  moreover have "owned (set_record d (int i) r) = Y + rec_owns (d_DescType d) r"
    using Y(2) by (simp add: owned_def set_record_def)
  moreover have "\<forall>x \<in> set ((d_Records d)[i := r]). list_all no_lit (rec_ptrs (d_DescType d) x)"
    using assms(1,4) set_update_subset_insert [of "d_Records d" i r] by (auto simp: balanced_def)
  ultimately show ?thesis by (simp add: balanced_def set_record_def)
qed

lemma balanced_same_ptrs:
  assumes "balanced d H" "i < length (d_Records d)"
    and "rec_ptrs (d_DescType d) r = rec_ptrs (d_DescType d) (d_Records d ! i)"
  shows "balanced (set_record d (int i) r) H"
  by (rule balanced_set_record [OF assms(1,2)])
     (use assms in \<open>auto simp: rec_owns_def balanced_def\<close>)

section \<open>Every operation keeps it\<close>

lemma error_ops_keep [simp]:
  "d_Records (desc_error c d) = d_Records d" "d_DescType (desc_error c d) = d_DescType d"
  "d_Records (clear_error d) = d_Records d" "d_DescType (clear_error d) = d_DescType d"
  "d_Records (raise_count n d) = d_Records d" "d_DescType (raise_count n d) = d_DescType d"
  "d_DescType (set_record d i r) = d_DescType d"
  "length (d_Records (set_record d i r)) = length (d_Records d)"
  by (simp_all add: desc_error_def clear_error_def raise_count_def set_record_def)

lemma balanced_cong:
  "d_Records d = d_Records d' \<Longrightarrow> d_DescType d = d_DescType d' \<Longrightarrow> balanced d H = balanced d' H"
  by (simp add: balanced_def owned_def)

lemma balanced_error_ops [simp]:
  "balanced (desc_error c d) H = balanced d H" "balanced (clear_error d) H = balanced d H"
  "balanced (raise_count n d) H = balanced d H" "balanced (d\<lparr>d_Error := e\<rparr>) H = balanced d H"
  "balanced (d\<lparr>d_Header := h\<rparr>) H = balanced d H"
  by (rule balanced_cong; simp)+

lemma defaults_accounts:
  assumes "accounts Y H" "MADB_DescSetRecordDefaults t H = (r, H1)"
  shows "accounts (Y + rec_owns t r) H1 \<and> list_all no_lit (rec_ptrs t r)"
proof (cases t)
  case MADB_DESC_IPD
  then obtain tn where tn: "MADB_RESET Null (Some ''VARCHAR'') H = (tn, H1)" "r_TypeName r = tn"
    "r_InternalBuffer r = Null" "r_DefaultValue r = Null"
    using assms(2) by (auto split: prod.splits simp: zero_record_def)
  then show ?thesis using MADB_RESET_accounts [of Y Null] assms(1) MADB_DESC_IPD
    by (simp add: rec_owns_def rec_ptrs_def)
next
  case MADB_DESC_IRD
  then obtain tn where tn: "MADB_RESET Null (Some ''VARCHAR'') H = (tn, H1)"
    "r = zero_record\<lparr>r_Nullable := SQL_NULLABLE_UNKNOWN, r_FixedPrecScale := 0,
                      r_CaseSensitive := 1, r_ConciseType := SQL_VARCHAR, r_AutoUniqueValue := 0,
                      r_Type := SQL_VARCHAR, r_TypeName := tn, r_Unsigned := 0\<rparr>"
    using assms(2) by (auto split: prod.splits)
  then show ?thesis using MADB_RESET_accounts [of Y Null] assms(1) MADB_DESC_IRD
    by (simp add: rec_owns_def rec_ptrs_def zero_record_def)
qed (use assms in \<open>auto simp: rec_owns_def rec_ptrs_def zero_record_def\<close>)

lemma grow_records_length:
  "grow_records k d H = (True, d1, H1) \<Longrightarrow> length (d_Records d1) = length (d_Records d) + k"
  by (induction k d H rule: grow_records.induct) (auto split: if_splits prod.splits)

lemma grow_records_balanced:
  "balanced d H \<Longrightarrow> grow_records k d H = (found, d1, H1) \<Longrightarrow>
   balanced d1 H1 \<and> d_DescType d1 = d_DescType d"
proof (induction k d H rule: grow_records.induct)
  case (2 k d H)
  show ?case
  proof (cases "hp_grow H (length (d_Records d))")
    case True
    obtain r H2 where r: "MADB_DescSetRecordDefaults (d_DescType d) H = (r, H2)" by fastforce
    have "balanced (d\<lparr>d_Records := d_Records d @ [r]\<rparr>) H2"
      using defaults_accounts [OF _ r] 2(2) by (auto simp: balanced_def owned_def)
    then show ?thesis using 2(1) [OF True r [symmetric]] 2(3) True r by simp
  qed (use 2 in auto)
qed simp

lemma GetInternalRecord_balanced:
  assumes "balanced d H" "MADB_DescGetInternalRecord d i reading H = (found, d1, H1)"
  shows "balanced d1 H1 \<and> d_DescType d1 = d_DescType d"
proof (cases "i > int (length (d_Records d)) \<and> reading")
  case False
  obtain f d2 H2 where g: "grow_records (nat (i + 1) - length (d_Records d)) d H = (f, d2, H2)"
    by (metis prod_cases3)
  show ?thesis using grow_records_balanced [OF assms(1) g] assms(2) False g
    by (auto simp: MADB_DescGetInternalRecord_def)
qed (use assms in \<open>auto simp: MADB_DescGetInternalRecord_def\<close>)

lemma GetInternalRecord_inside:
  assumes "MADB_DescGetInternalRecord d i reading H = (True, d1, H1)"
  shows "i < int (length (d_Records d1))"
proof -
  have "\<not> (i > int (length (d_Records d)) \<and> reading)"
    using assms by (auto simp: MADB_DescGetInternalRecord_def)
  moreover obtain f d2 H2 where g: "grow_records (nat (i + 1) - length (d_Records d)) d H = (f, d2, H2)"
    by (metis prod_cases3)
  ultimately have "f" "d1 = raise_count (i + 1) d2" using assms
    by (auto simp: MADB_DescGetInternalRecord_def)
  then show ?thesis using grow_records_length g by fastforce
qed

lemma set_field_ptrs:
  "rec_ptrs t (mark_used (unbind t' fld (set_record_field fld v r))) = rec_ptrs t r"
  by (simp add: rec_ptrs_def mark_used_def unbind_def set_record_field_def Let_def)

lemma CheckFldId_keeps:
  "MADB_DeskCheckFldId d fld reading = Some (ret, d1) \<Longrightarrow>
   balanced d1 H = balanced d H \<and> d_DescType d1 = d_DescType d"
  by (auto simp: MADB_DeskCheckFldId_def split: option.splits if_splits)

lemma set_in_record_balanced:
  assumes "balanced d H" "set_in_record d i fld v ret H = Some (ret1, d1, H1)"
  shows "balanced d1 H1 \<and> d_DescType d1 = d_DescType d"
proof -
  obtain found d2 H2 where g: "MADB_DescGetInternalRecord d i False H = (found, d2, H2)"
    by (metis prod_cases3)
  note b = GetInternalRecord_balanced [OF assms(1) g]
  show ?thesis
  proof (cases found)
    case True
    then have i: "0 \<le> i" "nat i < length (d_Records d2)"
      and d1: "H1 = H2" "d1 = set_record d2 (int (nat i))
        (mark_used (unbind (d_DescType d2) fld (set_record_field fld v (d_Records d2 ! nat i))))"
      using assms(2) g by (auto simp: set_in_record_def record_at_def split: if_splits)
    show ?thesis using balanced_same_ptrs [OF _ i(2) set_field_ptrs] b d1 by simp
  qed (use assms(2) g b in \<open>auto simp: set_in_record_def\<close>)
qed

lemma SetField_unfold:
  assumes "MADB_DeskCheckFldId d fld False = Some (ret0, d0)"
    and "d1 = (if fld = SQL_DESC_UNNAMED \<and> s16 v = SQL_NAMED then desc_error ''HY092'' d0 else d0)"
    and "ret = (if fld = SQL_DESC_UNNAMED \<and> s16 v = SQL_NAMED then ReturnValue (d_Error d1) else ret0)"
  shows "MADB_DescSetField d RecNumber fld v H =
    (if \<not> succeeded ret then Some (ret, d1, H)
     else (case set_header_field fld v (d_Header d1) of
             Some h \<Rightarrow> Some (SQL_SUCCESS, (clear_error d1)\<lparr>d_Header := h\<rparr>, H)
           | None \<Rightarrow>
               if RecNumber > 0 then set_in_record (clear_error d1) (RecNumber - 1) fld v ret H
               else Some (ret, clear_error d1, H)))"
  unfolding MADB_DescSetField_def assms by (simp only: option.case prod.case Let_def)

lemma SetField_balanced:
  assumes "balanced d H" "MADB_DescSetField d RecNumber fld v H = Some (ret, d1, H1)"
  shows "balanced d1 H1 \<and> d_DescType d1 = d_DescType d"
proof -
  obtain ret0 d0 where c: "MADB_DeskCheckFldId d fld False = Some (ret0, d0)"
    using assms(2) by (auto simp: MADB_DescSetField_def split: option.splits)
  then have d0: "balanced d0 H" "d_DescType d0 = d_DescType d"
    using CheckFldId_keeps assms(1) by auto
  define d2 where "d2 = (if fld = SQL_DESC_UNNAMED \<and> s16 v = SQL_NAMED then desc_error ''HY092'' d0 else d0)"
  have d2: "balanced d2 H" "balanced (clear_error d2) H" "d_DescType d2 = d_DescType d"
    using d0 by (simp_all add: d2_def)
  show ?thesis
    using assms(2) d2 set_in_record_balanced [OF d2(2)] unfolding SetField_unfold [OF c d2_def refl]
    by (auto split: if_splits option.splits)
qed

lemma get_from_record_balanced:
  assumes "balanced d H" "get_from_record d i fld dest n has_len = Some (out, d1)"
  shows "balanced d1 H \<and> d_DescType d1 = d_DescType d"
proof -
  have "balanced (set_record (d\<lparr>d_Error := e\<rparr>) i (r\<lparr>r_Unnamed := u\<rparr>)) H"
    if "record_at d i = Some r" for e r u
    using that assms(1) balanced_same_ptrs [of "d\<lparr>d_Error := e\<rparr>" H "nat i" "r\<lparr>r_Unnamed := u\<rparr>"]
    by (auto simp: record_at_def rec_ptrs_def split: if_splits)
  then show ?thesis using assms
    by (auto simp: get_from_record_def Let_def split: option.splits if_splits)
qed

lemma GetField_balanced:
  assumes "balanced d H" "MADB_DescGetField d RecNumber fld dest n has_len H = Some (ret, out, d1, H1)"
  shows "balanced d1 H1 \<and> d_DescType d1 = d_DescType d"
proof -
  obtain ret0 d0 where c: "MADB_DeskCheckFldId d fld True = Some (ret0, d0)"
    using assms(2) by (auto simp: MADB_DescGetField_def split: option.splits)
  then have d0: "balanced d0 H" "balanced (clear_error d0) H" "d_DescType d0 = d_DescType d"
    using CheckFldId_keeps assms(1) by auto
  obtain found d2 H2 where g: "(if RecNumber \<noteq> 0
      then MADB_DescGetInternalRecord (clear_error d0) (s16 (RecNumber - 1)) True H
      else (True, clear_error d0, H)) = (found, d2, H2)" by (metis prod_cases3)
  then have b: "balanced d2 H2" "d_DescType d2 = d_DescType d"
    using GetInternalRecord_balanced [OF d0(2)] d0 by (auto split: if_splits)
  show ?thesis
    using assms(2) d0 b get_from_record_balanced [OF b(1)] unfolding MADB_DescGetField_def c
    by (auto simp: g split: if_splits option.splits bool.splits)
qed

lemma GetRec_balanced:
  assumes "balanced d H" "MADB_DescGetRec d RecNumber Name n H = Some (ret, out, d1, H1)"
  shows "balanced d1 H1 \<and> d_DescType d1 = d_DescType d"
proof -
  obtain found d2 H2 where g: "MADB_DescGetInternalRecord (clear_error d) RecNumber True H = (found, d2, H2)"
    by (metis prod_cases3)
  then have b: "balanced d2 H2" "d_DescType d2 = d_DescType d"
    using GetInternalRecord_balanced [OF _ g] assms(1) by auto
  have "balanced (set_record (d2\<lparr>d_Error := e\<rparr>) RecNumber (r\<lparr>r_Unnamed := u\<rparr>)) H2"
    if "record_at d2 RecNumber = Some r" for e r u
    using that b balanced_same_ptrs [of "d2\<lparr>d_Error := e\<rparr>" H2 "nat RecNumber" "r\<lparr>r_Unnamed := u\<rparr>"]
    by (auto simp: record_at_def rec_ptrs_def split: if_splits)
  then show ?thesis using assms(2) b unfolding MADB_DescGetRec_def g
    by (auto split: option.splits bool.splits)
qed

lemma ird_names_accounts:
  assumes "accounts (Y + rec_owns MADB_DESC_IRD r) H" "list_all no_lit (rec_ptrs MADB_DESC_IRD r)"
    and "ird_names F r H = (r1, H1)"
  shows "accounts (Y + rec_owns MADB_DESC_IRD r1) H1 \<and> list_all no_lit (rec_ptrs MADB_DESC_IRD r1)"
proof -
  define X where "X = Y + mset (ptr_addr (r_InternalBuffer r)) + mset (ptr_addr (r_DefaultValue r))
    + mset (ptr_addr (r_BaseCatalogName r)) + mset (ptr_addr (r_TypeName r))"
  define own where "own p = mset (ptr_addr p)" for p
  obtain p1 H1' where 1: "MADB_RESET (r_CatalogName r) (n_db F) H = (p1, H1')" by fastforce
  obtain p2 H2 where 2: "MADB_RESET (r_TableName r) (n_table F) H1' = (p2, H2)" by fastforce
  obtain p3 H3 where 3: "MADB_RESET (r_ColumnName r) (n_name F) H2 = (p3, H3)" by fastforce
  obtain p4 H4 where 4: "MADB_RESET (r_BaseTableName r) (n_org_table F) H3 = (p4, H4)" by fastforce
  obtain p5 H5 where 5: "MADB_RESET (r_BaseColumnName r) (n_org_name F) H4 = (p5, H5)" by fastforce
  have r1: "r1 = r\<lparr>r_CatalogName := p1, r_TableName := p2, r_ColumnName := p3, r_BaseTableName := p4,
          r_BaseColumnName := p5\<rparr>" "H1 = H5"
    using assms(3) by (simp_all add: ird_names_def 1 2 3 4 5)
  have nl: "no_lit (r_CatalogName r)" "no_lit (r_TableName r)" "no_lit (r_ColumnName r)"
    "no_lit (r_BaseTableName r)" "no_lit (r_BaseColumnName r)" using assms(2) by (auto simp: rec_ptrs_def)
  have "accounts ((X + own (r_TableName r) + own (r_ColumnName r) + own (r_BaseTableName r)
    + own (r_BaseColumnName r)) + own (r_CatalogName r)) H"
    using assms(1) by (simp add: X_def own_def rec_owns_def rec_ptrs_def ac_simps)
  from MADB_RESET_accounts [OF this [unfolded own_def] nl(1) 1, folded own_def]
  have s1: "accounts ((X + own (r_ColumnName r) + own (r_BaseTableName r) + own (r_BaseColumnName r)
    + own p1) + own (r_TableName r)) H1'" "no_lit p1" by (simp_all add: ac_simps)
  from MADB_RESET_accounts [OF s1(1) [unfolded own_def] nl(2) 2, folded own_def]
  have s2: "accounts ((X + own (r_BaseTableName r) + own (r_BaseColumnName r) + own p1 + own p2)
    + own (r_ColumnName r)) H2" "no_lit p2" by (simp_all add: ac_simps)
  from MADB_RESET_accounts [OF s2(1) [unfolded own_def] nl(3) 3, folded own_def]
  have s3: "accounts ((X + own (r_BaseColumnName r) + own p1 + own p2 + own p3)
    + own (r_BaseTableName r)) H3" "no_lit p3" by (simp_all add: ac_simps)
  from MADB_RESET_accounts [OF s3(1) [unfolded own_def] nl(4) 4, folded own_def]
  have s4: "accounts ((X + own p1 + own p2 + own p3 + own p4) + own (r_BaseColumnName r)) H4" "no_lit p4"
    by (simp_all add: ac_simps)
  from MADB_RESET_accounts [OF s4(1) [unfolded own_def] nl(5) 5, folded own_def]
  show ?thesis using assms(2) s1(2) s2(2) s3(2) s4(2)
    by (simp add: r1 X_def own_def rec_owns_def rec_ptrs_def ac_simps)
qed

lemma ird_members_ptrs:
  "rec_ptrs t (ird_sizes charset f (ird_type wchar f (ird_precision f (ird_flags F r)))) = rec_ptrs t r"
  "rec_ptrs t (ird_literal f r) = rec_ptrs t r"
  by (simp_all add: rec_ptrs_def ird_sizes_def ird_type_def ird_precision_def ird_flags_def
      ird_literal_def Let_def)

lemma SetIrdRecord_accounts:
  assumes "accounts (Y + rec_owns MADB_DESC_IRD r) H" "list_all no_lit (rec_ptrs MADB_DESC_IRD r)"
    and "MADB_SetIrdRecord wchar charset F r H = (r1, H1)"
  shows "accounts (Y + rec_owns MADB_DESC_IRD r1) H1 \<and> list_all no_lit (rec_ptrs MADB_DESC_IRD r1)"
proof -
  obtain r2 H2 where 2: "ird_names F r H = (r2, H2)" by fastforce
  define f where "f = n_field F"
  define r3 where "r3 = ird_sizes charset f (ird_type wchar f (ird_precision f (ird_flags F r2)))"
  obtain tn H3 where 3: "MADB_RESET (r_TypeName r3) (Some (MADB_GetTypeName f)) H2 = (tn, H3)" by fastforce
  have r1: "r1 = ird_literal f (r3\<lparr>r_TypeName := tn\<rparr>)" "H1 = H3"
    using assms(3) 3 by (simp_all add: MADB_SetIrdRecord_def 2 f_def r3_def Let_def)
  define X where "X = Y + mset (concat (map ptr_addr (butlast (rec_ptrs MADB_DESC_IRD r3))))"
  have p: "rec_ptrs MADB_DESC_IRD (r3\<lparr>r_TypeName := q\<rparr>) = butlast (rec_ptrs MADB_DESC_IRD r3) @ [q]" for q
    by (simp add: rec_ptrs_def)
  have r3: "rec_ptrs MADB_DESC_IRD r3 = rec_ptrs MADB_DESC_IRD r2" by (simp add: r3_def ird_members_ptrs)
  have n: "accounts (Y + rec_owns MADB_DESC_IRD r3) H2" "list_all no_lit (rec_ptrs MADB_DESC_IRD r3)"
    using ird_names_accounts [OF assms(1,2) 2] r3 by (simp_all add: rec_owns_def)
  have "rec_owns MADB_DESC_IRD r3 =
      mset (concat (map ptr_addr (butlast (rec_ptrs MADB_DESC_IRD r3)))) + mset (ptr_addr (r_TypeName r3))"
    by (simp add: rec_owns_def rec_ptrs_def)
  then have "accounts (X + mset (ptr_addr (r_TypeName r3))) H2" using n(1) by (simp add: X_def ac_simps)
  moreover have "no_lit (r_TypeName r3)" using n(2) by (simp add: rec_ptrs_def)
  ultimately have t: "accounts (X + mset (ptr_addr tn)) H3" "no_lit tn"
    using MADB_RESET_accounts [OF _ _ 3] by auto
  show ?thesis using t n(2) p [of tn]
    by (simp add: r1 ird_members_ptrs rec_owns_def X_def ac_simps) (simp add: rec_ptrs_def)
qed

lemma ird_loop_balanced:
  "balanced d H \<Longrightarrow> d_DescType d = MADB_DESC_IRD \<Longrightarrow> ird_loop wchar charset i Fs d H = (failed, d1, H1) \<Longrightarrow>
   balanced d1 H1 \<and> d_DescType d1 = MADB_DESC_IRD"
proof (induction Fs arbitrary: i d H)
  case (Cons F Fs)
  obtain found d2 H2 where g: "MADB_DescGetInternalRecord d (int i) False H = (found, d2, H2)"
    by (metis prod_cases3)
  note b = GetInternalRecord_balanced [OF Cons.prems(1) g]
  show ?case
  proof (cases found)
    case True
    obtain r H3 where r: "MADB_SetIrdRecord wchar charset F (d_Records d2 ! i) H2 = (r, H3)" by fastforce
    have i: "i < length (d_Records d2)" using GetInternalRecord_inside g True by fastforce
    have nl: "list_all no_lit (rec_ptrs MADB_DESC_IRD (d_Records d2 ! i))"
      using b i Cons.prems(2) by (auto simp: balanced_def)
    have "list_all no_lit (rec_ptrs MADB_DESC_IRD r)"
    proof -
      obtain Y where "owned d2 = Y + rec_owns (d_DescType d2) (d_Records d2 ! i)"
        using sum_list_update_split [OF i] unfolding owned_def by metis
      then show ?thesis using b Cons.prems(2) SetIrdRecord_accounts [of Y, OF _ nl r]
        by (simp add: balanced_def)
    qed
    then have "balanced (set_record d2 (int i) r) H3"
      using balanced_set_record [of d2 H2 i r H3] SetIrdRecord_accounts [OF _ nl r] b i Cons.prems(2)
      by simp
    then show ?thesis using Cons.IH [of "set_record d2 (int i) r" H3 "Suc i"] Cons.prems b g True r by simp
  qed (use Cons.prems g b in auto)
qed simp

lemma SetIrdMetadata_balanced:
  assumes "balanced d H" "d_DescType d = MADB_DESC_IRD"
    and "MADB_DescSetIrdMetadata wchar charset Fs d H = (failed, d1, H1)"
  shows "balanced d1 H1 \<and> d_DescType d1 = d_DescType d"
  using ird_loop_balanced [OF _ _ assms(3) [unfolded MADB_DescSetIrdMetadata_def]] assms by simp

lemma fix_members_ptrs:
  "rec_ptrs t (MADB_FixOctetLength r) = rec_ptrs t r" "rec_ptrs t (MADB_FixDisplaySize m r) = rec_ptrs t r"
  "rec_ptrs t (MADB_FixDataSize m r) = rec_ptrs t r" "rec_ptrs t (fix_precision r) = rec_ptrs t r"
  "rec_ptrs t (fix_literal r) = rec_ptrs t r"
  "rec_ptrs t (r\<lparr>r_Type := ty, r_DateTimeIntervalCode := c, r_Searchable := se\<rparr>) = rec_ptrs t r"
  "rec_ptrs t (r\<lparr>r_ConciseType := ct, r_Nullable := nu, r_Unsigned := un\<rparr>) = rec_ptrs t r"
  "rec_ptrs t (r\<lparr>r_OctetLength := ol\<rparr>) = rec_ptrs t r" "rec_ptrs t (r\<lparr>r_Length := le\<rparr>) = rec_ptrs t r"
  by (simp_all add: rec_ptrs_def MADB_FixOctetLength_def MADB_FixDisplaySize_def MADB_FixDataSize_def
      fix_precision_def fix_literal_def Let_def)

lemma fix_record_ptrs: "rec_ptrs t (fix_record m fake T r) = rec_ptrs t r"
  unfolding fix_record_def MADB_FixIrdRecord_def Let_def
  by (simp only: fix_members_ptrs if_distrib [of "rec_ptrs t"] if_cancel)

lemma fix_loop_balanced:
  "balanced d H \<Longrightarrow> fix_loop m fake Ts i k d H = Some (failed, d1, H1) \<Longrightarrow>
   balanced d1 H1 \<and> d_DescType d1 = d_DescType d"
proof (induction k arbitrary: i d H)
  case (Suc k)
  obtain found d2 H2 where g: "MADB_DescGetInternalRecord d (int i) True H = (found, d2, H2)"
    by (metis prod_cases3)
  note b = GetInternalRecord_balanced [OF Suc.prems(1) g]
  consider "t_SqlType (Ts ! i) = 0" | "t_SqlType (Ts ! i) \<noteq> 0" "found" | "t_SqlType (Ts ! i) \<noteq> 0" "\<not> found"
    by blast
  then show ?case
  proof cases
    case 2
    then have "i < length (d_Records d2)" using GetInternalRecord_inside g by fastforce
    then have "balanced (set_record d2 (int i) (fix_record m fake (Ts ! i) (d_Records d2 ! i))) H2"
      using balanced_same_ptrs fix_record_ptrs b by simp
    then show ?thesis using Suc.IH [of _ H2 "Suc i"] Suc.prems 2 g b by (auto split: if_splits)
  qed (use Suc g b in \<open>auto split: if_splits\<close>)
qed simp

lemma FixColumnDataTypes_balanced:
  "balanced d H \<Longrightarrow> MADB_FixColumnDataTypes m fake Ts d H = Some (failed, d1, H1) \<Longrightarrow>
   balanced d1 H1 \<and> d_DescType d1 = d_DescType d"
  by (auto simp: MADB_FixColumnDataTypes_def fix_loop_balanced split: option.splits)

lemma DescFree_balanced:
  assumes "balanced d H" "MADB_DescFree (Some d) addr W H = (ret, Some d1, W1, H1)"
  shows "balanced d1 H1 \<and> owned d1 = {#}"
proof -
  define H2 where "H2 = fold (free_record (d_DescType d)) (d_Records d) H"
  have "accounts {#} H2" unfolding H2_def
    by (rule free_records_accounts) (use assms(1) in \<open>auto simp: balanced_def owned_def\<close>)
  moreover have "H1 = H2" "d_Records d1 = []"
    using assms(2) by (auto simp: MADB_DescFree_def H2_def Let_def split: if_splits)
  ultimately show ?thesis by (simp add: balanced_def owned_def)
qed

section \<open>The life of a descriptor\<close>

text \<open>
  The operations on one descriptor, with any arguments; the metadata of a result is only stored in an
  implementation row descriptor, and \<open>MADB_DescFree\<close> with \<open>RecordsOnly\<close> leaves a descriptor to be used again.
\<close>

inductive desc_step :: "MADB_Desc \<times> desc_owner \<times> heap \<Rightarrow> MADB_Desc \<times> desc_owner \<times> heap \<Rightarrow> bool" where
  set_field: "MADB_DescSetField d RecNumber fld v H = Some (ret, d1, H1) \<Longrightarrow> desc_step (d, W, H) (d1, W, H1)"
| get_field: "MADB_DescGetField d RecNumber fld dest n has_len H = Some (ret, out, d1, H1) \<Longrightarrow>
              desc_step (d, W, H) (d1, W, H1)"
| get_rec: "MADB_DescGetRec d RecNumber Name len H = Some (ret, res, d1, H1) \<Longrightarrow> desc_step (d, W, H) (d1, W, H1)"
| ird_metadata: "d_DescType d = MADB_DESC_IRD \<Longrightarrow>
              MADB_DescSetIrdMetadata wchar charset Fs d H = (failed, d1, H1) \<Longrightarrow> desc_step (d, W, H) (d1, W, H1)"
| fix_types: "MADB_FixColumnDataTypes m fake Ts d H = Some (failed, d1, H1) \<Longrightarrow> desc_step (d, W, H) (d1, W, H1)"
| free_records: "MADB_DescFree (Some d) addr W H = (ret, Some d1, W1, H1) \<Longrightarrow> desc_step (d, W, H) (d1, W1, H1)"

lemma desc_step_balanced:
  "desc_step (d, W, H) (d1, W1, H1) \<Longrightarrow> balanced d H \<Longrightarrow> balanced d1 H1"
  by (cases rule: desc_step.cases)
     (auto dest: SetField_balanced GetField_balanced GetRec_balanced SetIrdMetadata_balanced
        FixColumnDataTypes_balanced DescFree_balanced)

lemma desc_steps_balanced:
  "desc_step\<^sup>*\<^sup>* (d, W, H) (d1, W1, H1) \<Longrightarrow> balanced d H \<Longrightarrow> balanced d1 H1"
proof (induction "(d1, W1, H1)" arbitrary: d1 W1 H1 rule: rtranclp_induct)
  case (step y)
  then show ?case using desc_step_balanced by (cases y) blast
qed simp

text \<open>A heap from which nothing was allocated yet.\<close>

definition new_heap :: "heap \<Rightarrow> bool" where
  "new_heap H \<longleftrightarrow> hp_next H = 0 \<and> hp_freed H = [] \<and> \<not> hp_bad H"

text \<open>
  C4. Memory of descriptors: start with a descriptor that \<open>MADB_DescInit\<close> creates, do any sequence of
  setting and reading fields and records, storing and correcting the metadata of results and dropping
  the records, whatever the arguments and whichever allocations fail, and free the descriptor at the
  end.  Then every string allocated on the way has been freed exactly once, and nothing else has been
  freed: there is no leak, no double free and no free of a literal.
\<close>

theorem descriptor_frees_once:
  assumes "MADB_DescInit pfx server allocs t isExternal addr W0 = (Some d0, W)" "new_heap H0"
    and "desc_step\<^sup>*\<^sup>* (d0, W, H0) (d, W1, H)"
    and "MADB_DescFree (Some d) addr W1 H = (ret, d', W2, H1)"
  shows "ret = SQL_SUCCESS \<and> \<not> hp_bad H1 \<and> mset (hp_freed H1) = mset [0..<hp_next H1]"
proof -
  have "d_Records d0 = []"
    using assms(1) by (auto simp: MADB_DescInit_def split: prod.splits if_splits)
  then have "balanced d0 H0" using assms(2) by (simp add: balanced_def owned_def accounts_def new_heap_def)
  then have b: "balanced d H" using desc_steps_balanced [OF assms(3)] by blast
  obtain d1 where d1: "d' = Some d1" "ret = SQL_SUCCESS"
    using assms(4) by (cases d') (auto simp: MADB_DescFree_def Let_def split: if_splits)
  then have "balanced d1 H1 \<and> owned d1 = {#}" using DescFree_balanced [OF b] assms(4) by blast
  then show ?thesis using d1(2) by (auto simp: balanced_def accounts_def)
qed

text \<open>A row descriptor that gets the metadata of one column twice and is freed.\<close>

definition sample_heap :: heap where
  "sample_heap = \<lparr>hp_next = 0, hp_freed = [], hp_bad = False, hp_ok = (\<lambda>n. n \<noteq> 3), hp_grow = (\<lambda>n. True)\<rparr>"

definition sample_owner :: desc_owner where
  "sample_owner = \<lparr>o_Descrs = [], o_stmts = (\<lambda>i. \<lparr>sd_Ard = 0, sd_Apd = 0, sd_IArd = 0, sd_IApd = 0\<rparr>)\<rparr>"

definition sample_field :: field_names where
  "sample_field = \<lparr>n_field = text_column, n_db = Some ''db'', n_table = Some ''t'', n_name = Some ''c'',
     n_org_table = Some ''t'', n_org_name = None\<rparr>"

definition sample_ird :: MADB_Desc where
  "sample_ird = the (fst (MADB_DescInit ''[x]'' None (True, True, True) MADB_DESC_IRD False 1 sample_owner))"

definition sample_ird_set :: "MADB_Desc \<times> heap" where
  "sample_ird_set = snd (MADB_DescSetIrdMetadata False (\<lambda>n. None) [sample_field] sample_ird sample_heap)"

definition sample_freed :: heap where
  "sample_freed = snd (snd (snd (MADB_DescFree (Some (fst sample_ird_set)) 1 sample_owner (snd sample_ird_set))))"

theorem descriptor_frees_once_witness:
  "\<not> hp_bad sample_freed \<and> mset (hp_freed sample_freed) = mset [0..<hp_next sample_freed]
   \<and> hp_next sample_freed = 5 \<and> hp_freed sample_freed = [0, 1, 3, 2, 4]"
proof -
  have i: "MADB_DescInit ''[x]'' None (True, True, True) MADB_DESC_IRD False 1 sample_owner =
      (Some sample_ird, sample_owner)"
    by (simp add: sample_ird_def MADB_DescInit_def)
  have t: "d_DescType sample_ird = MADB_DESC_IRD" by (simp add: sample_ird_def MADB_DescInit_def)
  have "desc_step (sample_ird, sample_owner, sample_heap) (fst sample_ird_set, sample_owner, snd sample_ird_set)"
    by (rule desc_step.ird_metadata [OF t, of False "\<lambda>n. None" "[sample_field]" _
          "fst (MADB_DescSetIrdMetadata False (\<lambda>n. None) [sample_field] sample_ird sample_heap)"])
       (simp add: sample_ird_set_def)
  then have s: "desc_step\<^sup>*\<^sup>* (sample_ird, sample_owner, sample_heap)
      (fst sample_ird_set, sample_owner, snd sample_ird_set)" by blast
  have n: "new_heap sample_heap" by (simp add: new_heap_def sample_heap_def)
  obtain ret d' W2 where f: "MADB_DescFree (Some (fst sample_ird_set)) 1 sample_owner (snd sample_ird_set) =
      (ret, d', W2, sample_freed)"
    unfolding sample_freed_def by (metis prod.collapse)
  have "hp_next sample_freed = 5 \<and> hp_freed sample_freed = [0, 1, 3, 2, 4]" by code_simp
  then show ?thesis using descriptor_frees_once [OF i n s f] by simp
qed

section \<open>Copying\<close>

lemma clear_buffers_fold:
  assumes "k \<le> length (d_Records d)"
  shows "d_Records (fold (\<lambda>i d. set_record (raise_count (int i + 1) d) (int i)
      ((d_Records d ! i)\<lparr>r_InternalBuffer := Null\<rparr>)) [0..<k] d) =
    map (\<lambda>r. r\<lparr>r_InternalBuffer := Null\<rparr>) (take k (d_Records d)) @ drop k (d_Records d)"
  using assms
proof (induction k)
  case (Suc k)
  then show ?case
    by (simp add: set_record_def nth_append take_Suc_conv_app_nth list_update_append Cons_nth_drop_Suc
        flip: Cons_nth_drop_Suc)
qed simp

lemma clear_buffers_records:
  "d_Records (clear_buffers d) = map (\<lambda>r. r\<lparr>r_InternalBuffer := Null\<rparr>) (d_Records d)"
  using clear_buffers_fold [of "length (d_Records d)" d] by (simp add: clear_buffers_def)

lemma clear_buffers_type: "d_DescType (clear_buffers d) = d_DescType d"
proof -
  have "d_DescType (fold (\<lambda>i d. set_record (raise_count (int i + 1) d) (int i) (g i d)) xs e) = d_DescType e"
    for g xs e by (induction xs arbitrary: e) auto
  then show ?thesis by (simp add: clear_buffers_def)
qed

lemma fold_FREE_freed:
  "mset (hp_freed (fold MADB_FREE ps H)) = mset (hp_freed H) + mset (concat (map ptr_addr ps))"
proof (induction ps arbitrary: H)
  case (Cons p ps)
  then show ?case by (cases p) (simp_all add: ac_simps)
qed simp

lemma free_records_freed:
  "mset (hp_freed (fold (free_record t) rs H)) = mset (hp_freed H) + sum_list (map (rec_owns t) rs)"
  by (induction rs arbitrary: H) (simp_all add: free_record_fold fold_FREE_freed rec_owns_def ac_simps)

lemma DescFree_freed:
  "mset (hp_freed (snd (snd (snd (MADB_DescFree (Some d) addr W H))))) = mset (hp_freed H) + owned d"
  by (simp add: MADB_DescFree_def Let_def free_records_freed owned_def)

lemma owned_member: "r \<in> set (d_Records d) \<Longrightarrow> a \<in># rec_owns (d_DescType d) r \<Longrightarrow> a \<in># owned d"
  by (auto simp: owned_def dest!: split_list)

text \<open>
  C29. \<open>MADB_DescCopyDesc\<close> gives the target the header, the type and the records of the source, without
  their conversion buffers, and leaves it explicit or implicit as it was.  But the records of an
  implementation descriptor own strings, which the target now points to as well, against the comment
  that no pointers are ever allocated: when source and target are both freed, the type name of every
  record that has one is freed twice.
\<close>

theorem CopyDesc_frees_twice:
  fixes H :: heap and W :: desc_owner and addr_to addr_from :: nat
  assumes "d_DescType dest \<noteq> MADB_DESC_IRD" "d_DescType src \<in> {MADB_DESC_IPD, MADB_DESC_IRD}"
    and "h_Count (d_Header src) \<noteq> 0" "r \<in> set (d_Records src)" "r_TypeName r = Heap a s"
  defines "dest1 \<equiv> snd (MADB_DescCopyDesc (Some src) dest True)"
  defines "H1 \<equiv> snd (snd (snd (MADB_DescFree (Some dest1) addr_to W H)))"
  defines "H2 \<equiv> snd (snd (snd (MADB_DescFree (Some src) addr_from W H1)))"
  shows "fst (MADB_DescCopyDesc (Some src) dest True) = SQL_SUCCESS
    \<and> d_Records dest1 = map (\<lambda>r. r\<lparr>r_InternalBuffer := Null\<rparr>) (d_Records src)
    \<and> d_DescType dest1 = d_DescType src
    \<and> \<not> distinct (hp_freed H2) \<and> count (mset (hp_freed H2)) a \<ge> 2"
proof -
  have c: "MADB_DescCopyDesc (Some src) dest True =
      (SQL_SUCCESS, clear_buffers (dest\<lparr>d_Header := d_Header src, d_DescType := d_DescType src,
                 d_Error := d_Error src, d_Records := d_Records src\<rparr>))"
    using assms(1,3) by (simp add: MADB_DescCopyDesc_def)
  have d1: "d_Records dest1 = map (\<lambda>r. r\<lparr>r_InternalBuffer := Null\<rparr>) (d_Records src)"
    "d_DescType dest1 = d_DescType src"
    by (simp_all add: dest1_def c clear_buffers_records clear_buffers_type)
  have m: "a \<in># rec_owns (d_DescType src) r" "a \<in># rec_owns (d_DescType src) (r\<lparr>r_InternalBuffer := Null\<rparr>)"
    using assms(2,5) by (auto simp: rec_owns_def rec_ptrs_def)
  have "a \<in># owned src" "a \<in># owned dest1"
    using owned_member [OF assms(4) m(1)] owned_member [of "r\<lparr>r_InternalBuffer := Null\<rparr>" dest1 a] m(2) d1 assms(4)
    by auto
  then have o: "count (owned src) a \<ge> 1" "count (owned dest1) a \<ge> 1" by simp_all
  have "mset (hp_freed H2) = mset (hp_freed H) + owned dest1 + owned src"
    by (simp add: H2_def H1_def DescFree_freed)
  then have "count (mset (hp_freed H2)) a = count (mset (hp_freed H)) a + count (owned dest1) a + count (owned src) a"
    by simp
  then have n: "count (mset (hp_freed H2)) a \<ge> 2" using o by linarith
  then have "0 < count (mset (hp_freed H2)) a" by linarith
  then have "a \<in> set (hp_freed H2)" by simp
  then have "count (mset (hp_freed H2)) a \<noteq> (if a \<in> set (hp_freed H2) then 1 else 0)" using n by simp
  then have "\<not> distinct (hp_freed H2)" unfolding distinct_count_atmost_1 by blast
  then show ?thesis using n d1 c by simp
qed

definition sample_app :: MADB_Desc where
  "sample_app = the (fst (MADB_DescInit ''[x]'' None (True, True, True) MADB_DESC_ARD True 2 sample_owner))"

theorem CopyDesc_frees_twice_witness:
  "fst (MADB_DescCopyDesc (Some (fst sample_ird_set)) sample_app True) = SQL_SUCCESS
   \<and> \<not> distinct (hp_freed (snd (snd (snd (MADB_DescFree (Some (fst sample_ird_set)) 1 sample_owner
        (snd (snd (snd (MADB_DescFree
           (Some (snd (MADB_DescCopyDesc (Some (fst sample_ird_set)) sample_app True))) 2 sample_owner
           (snd sample_ird_set))))))))))"
proof -
  have a: "d_DescType sample_app \<noteq> MADB_DESC_IRD" by (simp add: sample_app_def MADB_DescInit_def)
  have s: "d_DescType (fst sample_ird_set) \<in> {MADB_DESC_IPD, MADB_DESC_IRD}"
    "h_Count (d_Header (fst sample_ird_set)) \<noteq> 0" by code_simp+
  have r: "d_Records (fst sample_ird_set) ! 0 \<in> set (d_Records (fst sample_ird_set))"
    by (rule nth_mem) code_simp
  have t: "r_TypeName (d_Records (fst sample_ird_set) ! 0) = Heap 4 ''longtext''" by code_simp
  show ?thesis using CopyDesc_frees_twice [OF a s r t, where addr_to = 2 and W = sample_owner and addr_from = 1
        and H = "snd sample_ird_set"] by blast
qed

end
