(* ===== verification/Desc_Fields.thy ===== *)
theory Desc_Fields
  imports Desc_Memory
begin

text \<open>
  The fields of descriptors: the rights table decides what can be set, what was set is what is read
  back, and every member stays within its C type.
\<close>

section \<open>Rights\<close>

lemma desc_error_state:
  assumes "c \<in> set MadbErrNo" "take 1 c \<noteq> ''0''"
  shows "SqlState (d_Error (desc_error c d)) = c" "ReturnValue (d_Error (desc_error c d)) = SQL_ERROR"
  using SetError_class [OF assms(1), of "d_Error d" None] sqlstate_return_error [OF assms(2)]
  by (simp_all add: desc_error_def SetError_eq [OF assms(1)] reported_state_def connection_lost_def)

lemma desc_error_header [simp]: "d_Header (desc_error c d) = d_Header d"
  by (simp add: desc_error_def)

definition writable :: "enum_madb_desc_type \<Rightarrow> int \<Rightarrow> bool" where
  "writable t fld \<longleftrightarrow> Option.bind (map_of MADB_DESC_FLDID fld) (access_for t) = Some Acc_RW"

definition readable :: "enum_madb_desc_type \<Rightarrow> int \<Rightarrow> bool" where
  "readable t fld \<longleftrightarrow> Option.bind (map_of MADB_DESC_FLDID fld) (access_for t) \<in> {Some Acc_RW, Some Acc_READ}"

lemma access_known: "t \<noteq> MADB_DESC_UNKNOWN \<Longrightarrow> access_for t a \<noteq> None"
  by (cases "(t, a)" rule: access_for.cases) auto

lemma access_unknown: "access_for MADB_DESC_UNKNOWN a = None"
  by (cases a) simp

lemma CheckFldId_eq:
  assumes "d_DescType d \<noteq> MADB_DESC_UNKNOWN"
  shows "MADB_DeskCheckFldId d fld reading =
    (if writable (d_DescType d) fld \<or> reading \<and> readable (d_DescType d) fld
     then Some (SQL_SUCCESS, d) else Some (SQL_ERROR, desc_error ''HY091'' d))"
proof (cases "map_of MADB_DESC_FLDID fld")
  case (Some a)
  then obtain acc where "access_for (d_DescType d) a = Some acc" using access_known [OF assms] by blast
  then show ?thesis using Some by (auto simp: MADB_DeskCheckFldId_def writable_def readable_def)
qed (simp add: MADB_DeskCheckFldId_def writable_def readable_def)

lemma CheckFldId_None:
  "MADB_DeskCheckFldId d fld reading = None \<longleftrightarrow>
   d_DescType d = MADB_DESC_UNKNOWN \<and> map_of MADB_DESC_FLDID fld \<noteq> None"
proof (cases "d_DescType d = MADB_DESC_UNKNOWN")
  case True
  then show ?thesis
    by (cases "map_of MADB_DESC_FLDID fld") (simp_all add: MADB_DeskCheckFldId_def access_unknown)
qed (simp add: CheckFldId_eq)

lemma set_in_record_inside: "0 \<le> i \<Longrightarrow> set_in_record d i fld v ret H \<noteq> None"
  by (auto simp: set_in_record_def record_at_def nat_less_iff split: prod.splits bool.splits
      dest: GetInternalRecord_inside)

lemma SetField_None:
  "MADB_DescSetField d n fld v H = None \<longleftrightarrow>
   d_DescType d = MADB_DESC_UNKNOWN \<and> map_of MADB_DESC_FLDID fld \<noteq> None"
proof (cases "MADB_DeskCheckFldId d fld False")
  case None
  then show ?thesis using CheckFldId_None [of d fld False] by (simp add: MADB_DescSetField_def)
next
  case (Some a)
  obtain ret0 d0 where a: "a = (ret0, d0)" by fastforce
  have "MADB_DescSetField d n fld v H \<noteq> None"
    unfolding SetField_unfold [OF Some [unfolded a] refl refl]
    using set_in_record_inside [of "n - 1"]
    by (simp del: not_None_eq split: option.split)
  then show ?thesis using CheckFldId_None [of d fld False] Some by (metis option.distinct(1))
qed

text \<open>
  C27. The rights table decides what an application can set: a field that is not in the table, or not
  writable for this kind of descriptor, is refused with HY091 (HY092 for an attempt to name a record),
  and no header field and no record changes.  The check itself reads the table out of range for, and
  only for, a known field of an explicit descriptor that no statement uses yet, whose kind is unknown.
\<close>

theorem SetField_rights:
  "(MADB_DescSetField d n fld v H = None \<longleftrightarrow>
      d_DescType d = MADB_DESC_UNKNOWN \<and> map_of MADB_DESC_FLDID fld \<noteq> None)
   \<and> (d_DescType d \<noteq> MADB_DESC_UNKNOWN \<and> \<not> writable (d_DescType d) fld \<longrightarrow>
      (\<exists>d1. MADB_DescSetField d n fld v H = Some (SQL_ERROR, d1, H)
         \<and> d_Header d1 = d_Header d \<and> d_Records d1 = d_Records d
         \<and> SqlState (d_Error d1) = (if fld = SQL_DESC_UNNAMED \<and> s16 v = SQL_NAMED then ''HY092'' else ''HY091'')))"
proof -
  have e: "''HY091'' \<in> set MadbErrNo" "''HY092'' \<in> set MadbErrNo" by (simp_all add: MadbErrNo_def)
  show ?thesis
    unfolding SetField_None
    by (auto simp: CheckFldId_eq SetField_unfold [OF _ refl refl] succeeded_def
        desc_error_state [OF e(1)] desc_error_state [OF e(2)])
qed

theorem SetField_rights_witness:
  "\<not> writable (d_DescType sample_ird) SQL_DESC_COUNT \<and>
   (\<exists>d1. MADB_DescSetField sample_ird 0 SQL_DESC_COUNT 5 sample_heap = Some (SQL_ERROR, d1, sample_heap)
      \<and> h_Count (d_Header d1) = 0 \<and> SqlState (d_Error d1) = ''HY091'')"
proof -
  have w: "d_DescType sample_ird \<noteq> MADB_DESC_UNKNOWN \<and> \<not> writable (d_DescType sample_ird) SQL_DESC_COUNT"
    "h_Count (d_Header sample_ird) = 0" by code_simp+
  from SetField_rights [of sample_ird 0 SQL_DESC_COUNT 5 sample_heap] w show ?thesis by auto
qed

section \<open>What is set is read back\<close>

text \<open>
  What reading a field gives after setting it to \<open>v\<close>: the value cut to the type of the member, in the
  width the reading function writes.  Fields that are not here are not stored.
\<close>

definition stored_value :: "int \<Rightarrow> int \<Rightarrow> field_out option" where
  "stored_value fld v =
    (if fld = SQL_DESC_ARRAY_SIZE then Some (Out64 (u64 v))
     else if fld = SQL_DESC_BIND_TYPE then Some (Out64 (u64 (s32 v)))
     else if fld = SQL_DESC_OCTET_LENGTH then Some (Out64 (s64 v))
     else if fld \<in> {SQL_DESC_ARRAY_STATUS_PTR, SQL_DESC_BIND_OFFSET_PTR, SQL_DESC_ROWS_PROCESSED_PTR,
                    SQL_DESC_DATA_PTR, SQL_DESC_INDICATOR_PTR, SQL_DESC_OCTET_LENGTH_PTR}
     then Some (Out64 v)
     else if fld \<in> {SQL_DESC_COUNT, SQL_DESC_CONCISE_TYPE, SQL_DESC_DATETIME_INTERVAL_CODE,
                    SQL_DESC_FIXED_PREC_SCALE, SQL_DESC_PARAMETER_TYPE} then Some (Out16 (s16 v))
     else if fld \<in> {SQL_DESC_PRECISION, SQL_DESC_SCALE, SQL_DESC_TYPE} then Some (Out32 (s16 v))
     else if fld \<in> {SQL_DESC_DATETIME_INTERVAL_PRECISION, SQL_DESC_LENGTH, SQL_DESC_NUM_PREC_RADIX}
     then Some (Out32 (s32 v))
     else None)"

lemma defaults_grow: "MADB_DescSetRecordDefaults t H = (r, H1) \<Longrightarrow> hp_grow H1 = hp_grow H"
  by (cases t) (auto simp: MADB_RESET_def strdup_def Let_def split: if_splits)

lemma grow_records_found:
  assumes "\<forall>n. hp_grow H n"
  obtains d1 H1 where "grow_records k d H = (True, d1, H1)" "\<forall>n. hp_grow H1 n" "d_DescType d1 = d_DescType d"
    "d_Header d1 = d_Header d"
proof -
  have "\<exists>d1 H1. grow_records k d H = (True, d1, H1) \<and> (\<forall>n. hp_grow H1 n) \<and> d_DescType d1 = d_DescType d
      \<and> d_Header d1 = d_Header d" using assms
  proof (induction k arbitrary: d H)
    case (Suc k)
    obtain r H2 where r: "MADB_DescSetRecordDefaults (d_DescType d) H = (r, H2)" by fastforce
    show ?case using Suc.IH [of H2 "d\<lparr>d_Records := d_Records d @ [r]\<rparr>"] Suc.prems r defaults_grow [OF r] by simp
  qed simp
  then show ?thesis using that by blast
qed

lemma raise_count_header: "h_Count (d_Header (raise_count n d)) = (if n > h_Count (d_Header d) then s16 n else h_Count (d_Header d))"
  by (simp add: raise_count_def)

lemma GetInternalRecord_found:
  assumes "\<forall>n. hp_grow H n" "0 \<le> i"
  obtains d1 H1 where "MADB_DescGetInternalRecord d i False H = (True, d1, H1)" "\<forall>n. hp_grow H1 n"
    "d_DescType d1 = d_DescType d" "nat i < length (d_Records d1)"
proof -
  obtain d1 H1 where g: "grow_records (nat (i + 1) - length (d_Records d)) d H = (True, d1, H1)"
    "\<forall>n. hp_grow H1 n" "d_DescType d1 = d_DescType d" using grow_records_found [OF assms(1)] by metis
  then have "MADB_DescGetInternalRecord d i False H = (True, raise_count (i + 1) d1, H1)"
    by (simp add: MADB_DescGetInternalRecord_def)
  moreover have "nat i < length (d_Records (raise_count (i + 1) d1))"
    using GetInternalRecord_inside calculation assms(2) by fastforce
  ultimately show ?thesis using that g by simp
qed

lemma GetInternalRecord_present:
  "0 \<le> i \<Longrightarrow> nat i < length (d_Records d) \<Longrightarrow>
   MADB_DescGetInternalRecord d i reading H = (True, raise_count (i + 1) d, H)"
  by (auto simp: MADB_DescGetInternalRecord_def nat_add_distrib)

lemma stored_header:
  "set_header_field fld v h = Some h1 \<Longrightarrow> stored_value fld v = Some out \<Longrightarrow> get_header_field fld h1 = Some out"
  by (auto simp: set_header_field_def stored_value_def get_header_field_def split: if_splits)

lemma stored_record:
  assumes "set_header_field fld v h = None" "stored_value fld v = Some out"
  shows "get_number_field fld (mark_used (unbind t fld (set_record_field fld v r))) = Some out
   \<and> get_header_field fld h1 = None \<and> is_record_field fld"
proof -
  have "fld \<in> {SQL_DESC_CONCISE_TYPE, SQL_DESC_DATA_PTR, SQL_DESC_DATETIME_INTERVAL_CODE,
      SQL_DESC_DATETIME_INTERVAL_PRECISION, SQL_DESC_FIXED_PREC_SCALE, SQL_DESC_INDICATOR_PTR,
      SQL_DESC_LENGTH, SQL_DESC_NUM_PREC_RADIX, SQL_DESC_OCTET_LENGTH, SQL_DESC_OCTET_LENGTH_PTR,
      SQL_DESC_PARAMETER_TYPE, SQL_DESC_PRECISION, SQL_DESC_SCALE, SQL_DESC_TYPE}"
    using assms by (auto simp: set_header_field_def stored_value_def split: if_splits)
  then show ?thesis using assms(2)
    by (elim insertE emptyE; auto simp: stored_value_def get_number_field_def get_header_field_def
        mark_used_def unbind_def set_record_field_def is_record_field_def Let_def)
qed

lemma unnamed_not_stored: "stored_value fld v = Some out \<Longrightarrow> fld \<noteq> SQL_DESC_UNNAMED"
  by (auto simp: stored_value_def split: if_splits)

lemma writable_known: "writable t fld \<Longrightarrow> t \<noteq> MADB_DESC_UNKNOWN"
  by (auto simp: writable_def access_unknown bind_eq_Some_conv)

lemma SetField_writable:
  assumes "writable (d_DescType d) fld" "fld \<noteq> SQL_DESC_UNNAMED"
  shows "MADB_DescSetField d n fld v H =
    (case set_header_field fld v (d_Header d) of
       Some h \<Rightarrow> Some (SQL_SUCCESS, (clear_error d)\<lparr>d_Header := h\<rparr>, H)
     | None \<Rightarrow> if n > 0 then set_in_record (clear_error d) (n - 1) fld v SQL_SUCCESS H
               else Some (SQL_SUCCESS, clear_error d, H))"
proof -
  have "MADB_DeskCheckFldId d fld False = Some (SQL_SUCCESS, d)"
    using assms writable_known by (simp add: CheckFldId_eq)
  from SetField_unfold [OF this refl refl] show ?thesis using assms(2) by (simp add: succeeded_def)
qed

lemma set_in_record_found:
  assumes "\<forall>k. hp_grow H k" "0 \<le> i"
  obtains d1 H1 r where "set_in_record d i fld v ret H = Some (ret, d1, H1)"
    "d_DescType d1 = d_DescType d" "nat i < length (d_Records d1)"
    "d_Records d1 ! nat i = mark_used (unbind (d_DescType d) fld (set_record_field fld v r))"
    "\<forall>k. hp_grow H1 k"
proof -
  obtain d1 H1 where g: "MADB_DescGetInternalRecord d i False H = (True, d1, H1)" "\<forall>n. hp_grow H1 n"
    "d_DescType d1 = d_DescType d" "nat i < length (d_Records d1)"
    using GetInternalRecord_found [OF assms] by metis
  define r where "r = d_Records d1 ! nat i"
  define r1 where "r1 = mark_used (unbind (d_DescType d) fld (set_record_field fld v r))"
  have "set_in_record d i fld v ret H = Some (ret, set_record d1 i r1, H1)"
    using g assms(2) by (simp add: set_in_record_def record_at_def r_def r1_def)
  moreover have "d_Records (set_record d1 i r1) ! nat i = r1" using g(4) by (simp add: set_record_def)
  ultimately show ?thesis using that [of "set_record d1 i r1" H1 r] g r1_def by simp
qed

lemma clear_raise_header [simp]: "d_Header (clear_error d) = d_Header d"
  by (simp add: clear_error_def)



section \<open>Types\<close>

text \<open>The range of every member is that of its C type; pointers are unsigned 64-bit numbers.\<close>

definition in_bits :: "nat \<Rightarrow> int \<Rightarrow> bool" where
  "in_bits w x \<longleftrightarrow> - (2 ^ (w - 1)) \<le> x \<and> x < 2 ^ (w - 1)"

definition in_ubits :: "nat \<Rightarrow> int \<Rightarrow> bool" where
  "in_ubits w x \<longleftrightarrow> 0 \<le> x \<and> x < 2 ^ w"

definition header_typed :: "MADB_Header \<Rightarrow> bool" where
  "header_typed h \<longleftrightarrow> in_bits 16 (h_AllocType h) \<and> in_ubits 64 (h_ArraySize h)
     \<and> in_ubits 64 (h_ArrayStatusPtr h) \<and> in_ubits 64 (h_BindOffsetPtr h) \<and> in_ubits 64 (h_BindType h)
     \<and> in_bits 16 (h_Count h) \<and> in_ubits 64 (h_RowsProcessedPtr h)"

definition record_typed :: "MADB_DescRecord \<Rightarrow> bool" where
  "record_typed r \<longleftrightarrow> list_all (in_bits 32) [r_AutoUniqueValue r, r_CaseSensitive r,
       r_DateTimeIntervalPrecision r, r_DescLength r, r_NumPrecRadix r]
     \<and> list_all (in_bits 16) [r_ConciseType r, r_DateTimeIntervalCode r, r_FixedPrecScale r, r_Nullable r,
       r_ParameterType r, r_Precision r, r_RowVer r, r_Scale r, r_Searchable r, r_Type r, r_Unnamed r,
       r_Unsigned r, r_Updateable r]
     \<and> list_all (in_bits 64) [r_DisplaySize r, r_OctetLength r]
     \<and> list_all (in_ubits 64) [r_DataPtr r, r_IndicatorPtr r, r_Length r, r_OctetLengthPtr r, r_InternalLength r]"

definition desc_typed :: "MADB_Desc \<Rightarrow> bool" where
  "desc_typed d \<longleftrightarrow> header_typed (d_Header d) \<and> list_all record_typed (d_Records d)"

lemma casts_typed [simp]:
  "in_bits 16 (s16 x)" "in_bits 32 (s32 x)" "in_bits 64 (s64 x)" "in_ubits 64 (u64 x)"
  using signed_take_bit_int_greater_eq_minus_exp [of 15 x] signed_take_bit_int_less_exp [of 15 x]
    signed_take_bit_int_greater_eq_minus_exp [of 31 x] signed_take_bit_int_less_exp [of 31 x]
    signed_take_bit_int_greater_eq_minus_exp [of 63 x] signed_take_bit_int_less_exp [of 63 x]
  by (simp_all add: in_bits_def in_ubits_def s16_def s32_def s64_def u64_def)

lemma in_bits_simps [simp]:
  "in_bits w (numeral k) \<longleftrightarrow> numeral k < (2 :: int) ^ (w - 1)"
  "in_bits w (- numeral k) \<longleftrightarrow> numeral k \<le> (2 :: int) ^ (w - 1)"
  "in_bits w 0" "in_bits w (- 1)" "1 < w \<Longrightarrow> in_bits w 1" "1 < w \<Longrightarrow> in_bits w (test b)"
  "in_ubits 64 0" "in_ubits 64 1"
proof -
  have p: "0 < (2 :: int) ^ (w - 1)" by simp
  have q: "1 < (2 :: int) ^ (w - 1)" if "1 < w" using that by (simp add: one_less_power)
  show "in_bits w (numeral k) \<longleftrightarrow> numeral k < (2 :: int) ^ (w - 1)"
    "in_bits w (- numeral k) \<longleftrightarrow> numeral k \<le> (2 :: int) ^ (w - 1)"
    unfolding in_bits_def using p zero_less_numeral [of k, where 'a = int] by linarith+
  show "in_bits w (- 1)" unfolding in_bits_def using p by linarith
  show one: "in_bits w 1" if "1 < w" unfolding in_bits_def using p q [OF that] by linarith
  show "in_bits w (test b)" if "1 < w" using one [OF that] by (simp add: test_def in_bits_def)
qed (simp_all add: in_bits_def in_ubits_def)

lemma zero_record_typed: "record_typed zero_record"
  by (simp add: record_typed_def zero_record_def)

lemma defaults_typed: "MADB_DescSetRecordDefaults t H = (r, H1) \<Longrightarrow> record_typed r"
  by (cases t) (auto simp: record_typed_def zero_record_def split: prod.splits)

lemma error_ops_typed [simp]:
  "desc_typed (desc_error c d) = desc_typed d" "desc_typed (clear_error d) = desc_typed d"
  "desc_typed d \<Longrightarrow> desc_typed (raise_count n d)" "desc_typed (d\<lparr>d_Error := e\<rparr>) = desc_typed d"
  by (simp_all add: desc_typed_def desc_error_def clear_error_def raise_count_def header_typed_def)

lemma set_record_typed: "desc_typed d \<Longrightarrow> record_typed r \<Longrightarrow> desc_typed (set_record d i r)"
  using set_update_subset_insert [of "d_Records d" "nat i" r]
  by (auto simp: desc_typed_def set_record_def list_all_iff)

lemma record_at_typed: "desc_typed d \<Longrightarrow> record_at d i = Some r \<Longrightarrow> record_typed r"
  by (auto simp: desc_typed_def record_at_def list_all_iff split: if_splits)

lemma grow_records_typed:
  "desc_typed d \<Longrightarrow> grow_records k d H = (found, d1, H1) \<Longrightarrow> desc_typed d1"
proof (induction k arbitrary: d H)
  case (Suc k)
  obtain r H2 where r: "MADB_DescSetRecordDefaults (d_DescType d) H = (r, H2)" by fastforce
  have "desc_typed (d\<lparr>d_Records := d_Records d @ [r]\<rparr>)"
    using Suc.prems(1) defaults_typed [OF r] by (simp add: desc_typed_def)
  then show ?case using Suc.IH [of "d\<lparr>d_Records := d_Records d @ [r]\<rparr>" H2] Suc.prems r
    by (auto split: if_splits)
qed simp

lemma GetInternalRecord_typed:
  assumes "desc_typed d" "MADB_DescGetInternalRecord d i reading H = (found, d1, H1)"
  shows "desc_typed d1"
proof -
  obtain f d2 H2 where g: "grow_records (nat (i + 1) - length (d_Records d)) d H = (f, d2, H2)"
    by (metis prod_cases3)
  show ?thesis using grow_records_typed [OF assms(1) g] assms g
    by (auto simp: MADB_DescGetInternalRecord_def split: if_splits)
qed

lemma ConciseType_typed: "in_bits 16 x \<Longrightarrow> in_bits 16 (MADB_GetTypeFromConciseType x)"
  by (simp add: MADB_GetTypeFromConciseType_def)

lemma set_field_typed:
  "record_typed r \<Longrightarrow> in_ubits 64 v \<Longrightarrow> record_typed (mark_used (unbind t fld (set_record_field fld v r)))"
proof -
  assume r: "record_typed r" "in_ubits 64 v"
  then have "record_typed (set_record_field fld v r)"
    by (simp add: set_record_field_def record_typed_def ConciseType_typed Let_def)
  then show ?thesis by (simp add: mark_used_def unbind_def record_typed_def)
qed

lemma SetField_typed:
  assumes "desc_typed d" "in_ubits 64 v" "MADB_DescSetField d n fld v H = Some (ret, d1, H1)"
  shows "desc_typed d1"
proof -
  have rec: "desc_typed d3" if "set_in_record d2 i fld v rv H = Some (ret, d3, H1)" "desc_typed d2" for d2 d3 i rv
  proof -
    obtain found d4 H4 where g: "MADB_DescGetInternalRecord d2 i False H = (found, d4, H4)" by (metis prod_cases3)
    have "record_typed (mark_used (unbind t fld (set_record_field fld v r)))" if "record_at d4 i = Some r" for t r
      using record_at_typed [OF GetInternalRecord_typed [OF \<open>desc_typed d2\<close> g] that] assms(2) set_field_typed by blast
    then show ?thesis using that(1) g GetInternalRecord_typed [OF that(2) g]
      by (auto simp: set_in_record_def intro!: set_record_typed split: bool.splits option.splits)
  qed
  have header: "header_typed h1" if "set_header_field fld v h = Some h1" "header_typed h" for h h1
    using that assms(2) by (auto simp: set_header_field_def header_typed_def split: if_splits)
  obtain ret0 d0 where c: "MADB_DeskCheckFldId d fld False = Some (ret0, d0)"
    using assms(3) by (auto simp: MADB_DescSetField_def split: option.splits)
  then have d0: "desc_typed d0" using assms(1) by (auto simp: MADB_DeskCheckFldId_def split: option.splits if_splits)
  define d2 where "d2 = (if fld = SQL_DESC_UNNAMED \<and> s16 v = SQL_NAMED then desc_error ''HY092'' d0 else d0)"
  have d2: "desc_typed d2" "desc_typed (clear_error d2)" using d0 by (simp_all add: d2_def)
  show ?thesis
    using assms(3) d2 rec [OF _ d2(2)] header unfolding SetField_unfold [OF c d2_def refl]
    by (auto simp: desc_typed_def split: if_splits option.splits)
qed

lemma unnamed_typed: "record_typed r \<Longrightarrow> record_typed (r\<lparr>r_Unnamed := SQL_NAMED\<rparr>)"
  by (simp add: record_typed_def)

lemma GetField_typed:
  assumes "desc_typed d" "MADB_DescGetField d n fld dest len has_len H = Some (ret, out, d1, H1)"
  shows "desc_typed d1"
proof -
  obtain ret0 d0 where c: "MADB_DeskCheckFldId d fld True = Some (ret0, d0)"
    using assms(2) by (auto simp: MADB_DescGetField_def split: option.splits)
  then have d0: "desc_typed d0" using assms(1) by (auto simp: MADB_DeskCheckFldId_def split: option.splits if_splits)
  obtain found d2 H2 where g: "(if n \<noteq> 0
      then MADB_DescGetInternalRecord (clear_error d0) (s16 (n - 1)) True H
      else (True, clear_error d0, H)) = (found, d2, H2)" by (metis prod_cases3)
  then have d2: "desc_typed d2"
    using GetInternalRecord_typed [of "clear_error d0"] d0 by (auto split: if_splits)
  have "desc_typed d3" if "get_from_record d2 i fld dest len has_len = Some (out, d3)" for d3 i
    using that d2 unnamed_typed [OF record_at_typed [OF d2]]
    by (auto simp: get_from_record_def Let_def intro!: set_record_typed split: option.splits if_splits)
  then show ?thesis using assms(2) d0 d2 unfolding MADB_DescGetField_def c
    by (auto simp: g split: if_splits option.splits bool.splits)
qed

lemma GetRec_typed:
  assumes "desc_typed d" "MADB_DescGetRec d n Name len H = Some (ret, res, d1, H1)"
  shows "desc_typed d1"
proof -
  obtain found d2 H2 where g: "MADB_DescGetInternalRecord (clear_error d) n True H = (found, d2, H2)"
    by (metis prod_cases3)
  then have d2: "desc_typed d2" using GetInternalRecord_typed [OF _ g] assms(1) by simp
  show ?thesis using assms(2) d2 unnamed_typed [OF record_at_typed [OF d2]] unfolding MADB_DescGetRec_def g
    by (auto intro!: set_record_typed split: option.splits bool.splits)
qed

lemma MapMariadDbToOdbcType_typed: "in_bits 16 (MapMariadDbToOdbcType f)"
  by (simp add: MapMariadDbToOdbcType_def Let_def)

lemma ird_concise_typed: "in_bits 16 (ird_concise wchar f)"
  using MapMariadDbToOdbcType_typed [of f] by (simp add: ird_concise_def MADB_GetWCharType_def Let_def)

lemma type_members_typed:
  "in_bits 16 ct \<Longrightarrow> in_bits 16 (verbose_type ct)" "in_bits 16 c \<Longrightarrow> in_bits 16 (interval_code ct c)"
  "in_bits 16 (searchable ct)"
  by (simp_all add: verbose_type_def interval_code_def searchable_def)

lemma ird_steps_typed:
  "record_typed r \<Longrightarrow> ird_names F r H = (r1, H1) \<Longrightarrow> record_typed r1"
  "record_typed r \<Longrightarrow> record_typed (ird_flags F r)"
  "record_typed r \<Longrightarrow> record_typed (ird_precision f r)"
  "record_typed r \<Longrightarrow> record_typed (ird_type wchar f r)"
  "record_typed r \<Longrightarrow> record_typed (ird_sizes charset f r)"
  "record_typed r \<Longrightarrow> record_typed (ird_literal f r)"
  "record_typed r \<Longrightarrow> record_typed (r\<lparr>r_TypeName := tn\<rparr>)"
  subgoal by (auto simp: ird_names_def record_typed_def split: prod.splits)
  subgoal by (simp add: ird_flags_def record_typed_def Let_def)
  subgoal by (simp add: ird_precision_def record_typed_def Let_def)
  subgoal by (simp add: ird_type_def record_typed_def Let_def ird_concise_typed type_members_typed)
  subgoal by (simp add: ird_sizes_def record_typed_def Let_def)
  subgoal by (simp add: ird_literal_def record_typed_def)
  subgoal by (simp add: record_typed_def)
  done

lemma SetIrdRecord_typed:
  assumes "record_typed r" "MADB_SetIrdRecord wchar charset F r H = (r1, H1)"
  shows "record_typed r1"
  using assms by (auto simp: MADB_SetIrdRecord_def Let_def split: prod.splits intro!: ird_steps_typed(2-7)
      dest: ird_steps_typed(1))

lemma ird_loop_typed:
  "desc_typed d \<Longrightarrow> ird_loop wchar charset i Fs d H = (failed, d1, H1) \<Longrightarrow> desc_typed d1"
proof (induction Fs arbitrary: i d H)
  case (Cons F Fs)
  obtain found d2 H2 where g: "MADB_DescGetInternalRecord d (int i) False H = (found, d2, H2)"
    by (metis prod_cases3)
  note d2 = GetInternalRecord_typed [OF Cons.prems(1) g]
  obtain r H3 where r: "MADB_SetIrdRecord wchar charset F (d_Records d2 ! i) H2 = (r, H3)" by fastforce
  show ?case
  proof (cases found)
    case True
    then have "i < length (d_Records d2)" using GetInternalRecord_inside g by fastforce
    then have "record_typed r" using d2 SetIrdRecord_typed [OF _ r] by (simp add: desc_typed_def list_all_length)
    then show ?thesis using Cons.IH [OF set_record_typed [OF d2]] Cons.prems(2) g r True by simp
  qed (use Cons.prems g d2 in auto)
qed simp

lemma SetIrdMetadata_typed:
  assumes "desc_typed d" "MADB_DescSetIrdMetadata wchar charset Fs d H = (failed, d1, H1)"
  shows "desc_typed d1"
  using ird_loop_typed [OF _ assms(2) [unfolded MADB_DescSetIrdMetadata_def]] assms(1)
  by (simp add: desc_typed_def header_typed_def)

lemma cquot_typed:
  assumes "in_bits 64 x" "0 < m"
  shows "in_bits 64 (cquot x m)"
proof -
  have d: "0 \<le> y div m \<and> y div m \<le> y" if "0 \<le> y" for y :: int
    using that assms(2) zdiv_mono2 [of y 1 m] by (simp add: pos_imp_zdiv_nonneg_iff)
  show ?thesis using d [of x] d [of "- x"] assms(1) by (auto simp: cquot_def in_bits_def)
qed

lemma widened_typed:
  "in_bits 16 x \<Longrightarrow> in_bits 64 (x + 2)" "in_bits 16 x \<Longrightarrow> in_bits 64 (8 + MADB_FRACTIONAL_PART x)"
  "in_bits 16 x \<Longrightarrow> in_bits 64 (19 + MADB_FRACTIONAL_PART x)" "in_bits 64 x \<Longrightarrow> in_bits 64 (min 1073741823 x)"
  "in_bits 64 (4 - test b)" "in_bits 64 (6 - test b)" "in_bits 64 (11 - test b)"
  by (auto simp: in_bits_def MADB_FRACTIONAL_PART_def test_def)

definition type_info_typed :: "MADB_ShortTypeInfo \<Rightarrow> bool" where
  "type_info_typed T \<longleftrightarrow> in_bits 16 (t_SqlType T) \<and> in_bits 16 (t_Nullable T) \<and> in_bits 64 (t_OctetLength T)"

lemma fix_steps_typed:
  "record_typed r \<Longrightarrow> record_typed (MADB_FixOctetLength r)"
  "record_typed r \<Longrightarrow> 0 \<le> m \<Longrightarrow> record_typed (MADB_FixDisplaySize m r)"
  "record_typed r \<Longrightarrow> record_typed (MADB_FixDataSize m r)"
  "record_typed r \<Longrightarrow> record_typed (fix_precision r)"
  "record_typed r \<Longrightarrow> record_typed (fix_literal r)"
  "record_typed r \<Longrightarrow> record_typed (r\<lparr>r_Type := verbose_type (r_ConciseType r),
     r_DateTimeIntervalCode := interval_code ct (r_DateTimeIntervalCode r), r_Searchable := searchable ct\<rparr>)"
  subgoal by (simp add: MADB_FixOctetLength_def record_typed_def Let_def widened_typed)
  subgoal by (simp add: MADB_FixDisplaySize_def record_typed_def Let_def widened_typed cquot_typed)
  subgoal by (simp add: MADB_FixDataSize_def record_typed_def)
  subgoal by (simp add: fix_precision_def record_typed_def Let_def)
  subgoal by (simp add: fix_literal_def record_typed_def Let_def)
  subgoal by (simp add: record_typed_def type_members_typed)
  done

lemma FixIrdRecord_typed: "record_typed r \<Longrightarrow> 0 \<le> m \<Longrightarrow> record_typed (MADB_FixIrdRecord m fake r)"
  unfolding MADB_FixIrdRecord_def Let_def by (simp add: fix_steps_typed)

lemma fix_record_typed:
  assumes "record_typed r" "type_info_typed T" "0 \<le> m"
  shows "record_typed (fix_record m fake T r)"
proof -
  define r1 where "r1 = r\<lparr>r_ConciseType := t_SqlType T, r_Nullable := t_Nullable T, r_Unsigned := test (t_Unsigned T \<noteq> 0)\<rparr>"
  define r2 where "r2 = (if t_OctetLength T > 0 then r1\<lparr>r_OctetLength := t_OctetLength T\<rparr> else r1)"
  have "record_typed r2" using assms(1,2) by (simp add: r1_def r2_def record_typed_def type_info_typed_def)
  then have "record_typed (MADB_FixIrdRecord m fake r2)" using FixIrdRecord_typed assms(3) by blast
  then show ?thesis unfolding fix_record_def Let_def r1_def [symmetric] r2_def [symmetric]
    by (simp add: record_typed_def)
qed

lemma fix_loop_typed:
  "desc_typed d \<Longrightarrow> list_all type_info_typed Ts \<Longrightarrow> 0 \<le> m \<Longrightarrow>
   fix_loop m fake Ts i k d H = Some (failed, d1, H1) \<Longrightarrow> desc_typed d1"
proof (induction k arbitrary: i d H)
  case (Suc k)
  obtain found d2 H2 where g: "MADB_DescGetInternalRecord d (int i) True H = (found, d2, H2)"
    by (metis prod_cases3)
  note d2 = GetInternalRecord_typed [OF Suc.prems(1) g]
  show ?case
  proof (cases "t_SqlType (Ts ! i) \<noteq> 0 \<and> found")
    case True
    then have i: "i < length (d_Records d2)" "i < length Ts"
      using GetInternalRecord_inside g Suc.prems(4) by (fastforce split: if_splits)+
    then have "record_typed (fix_record m fake (Ts ! i) (d_Records d2 ! i))"
      using d2 Suc.prems(2,3) fix_record_typed by (simp add: desc_typed_def list_all_length)
    then show ?thesis using Suc.IH [OF set_record_typed [OF d2]] Suc.prems g True i by simp
  qed (use Suc g d2 in \<open>auto split: if_splits\<close>)
qed simp

lemma FixColumnDataTypes_typed:
  "desc_typed d \<Longrightarrow> list_all type_info_typed Ts \<and> 0 \<le> m \<and>
   MADB_FixColumnDataTypes m fake (Some Ts) d H = Some (failed, d1, H1) \<Longrightarrow> desc_typed d1"
  unfolding MADB_FixColumnDataTypes_def option.case by (elim conjE) (rule fix_loop_typed)

lemma DescInit_typed:
  "MADB_DescInit pfx server allocs t isExternal addr W = (Some d0, W1) \<Longrightarrow> desc_typed d0"
  by (auto simp: MADB_DescInit_def desc_typed_def header_typed_def split: prod.splits if_splits)


definition sample_types :: "MADB_ShortTypeInfo list" where
  "sample_types = [\<lparr>t_SqlType = SQL_DECIMAL, t_Unsigned = 0, t_Nullable = 1, t_OctetLength = 70001,
     t_CharacterLength = - 1\<rparr>]"


end
