(* ===== verification/Stmt_Dae.thy ===== *)
theory Stmt_Dae
  imports Desc_Fields
begin

text \<open>
  Parameters whose data is sent at execution time
  (\<open>src/ma_statement.c\<close>: \<open>MADB_StmtParamData\<close>, \<open>MADB_StmtPutData\<close>, \<open>MADB_CspsFreeDAE\<close>; \<open>src/ma_helper.c\<close>: \<open>GetBindOffset\<close>, \<open>MADB_FindNextDaeParam\<close>,
  \<open>MADB_ColumnIgnoredInAllRows\<close>).

  The application's memory is read through a function from addresses to 64-bit values.  What the
  execution of the statement does is a parameter.
\<close>

abbreviation (input) SQL_NULL_DATA :: int where "SQL_NULL_DATA \<equiv> - 1"
abbreviation (input) SQL_DATA_AT_EXEC :: int where "SQL_DATA_AT_EXEC \<equiv> - 2"
abbreviation (input) SQL_LEN_DATA_AT_EXEC_OFFSET :: int where "SQL_LEN_DATA_AT_EXEC_OFFSET \<equiv> - 100"
abbreviation (input) SQL_COLUMN_IGNORE :: int where "SQL_COLUMN_IGNORE \<equiv> - 6"
abbreviation (input) SQL_NEED_DATA :: int where "SQL_NEED_DATA \<equiv> 99"
abbreviation (input) SQL_TYPE_NULL :: int where "SQL_TYPE_NULL \<equiv> 0"
abbreviation (input) SQL_BIND_BY_COLUMN :: int where "SQL_BIND_BY_COLUMN \<equiv> 0"
abbreviation (input) SQL_PARAM_BIND_BY_COLUMN :: int where "SQL_PARAM_BIND_BY_COLUMN \<equiv> 0"
abbreviation (input) SQL_UB_OFF :: int where "SQL_UB_OFF \<equiv> 0"
abbreviation (input) SQL_C_VARBOOKMARK :: int where "SQL_C_VARBOOKMARK \<equiv> SQL_C_BINARY"

section \<open>Addresses of bound values\<close>

definition GetBindOffset :: "(int \<Rightarrow> int) \<Rightarrow> MADB_Header \<Rightarrow> int \<Rightarrow> int \<Rightarrow> int \<Rightarrow> int" where
  "GetBindOffset mem h Ptr RowNumber PtrSize =
    (if Ptr = 0 then 0
     else
       (let off0 = (if h_BindOffsetPtr h \<noteq> 0 then u64 (mem (h_BindOffsetPtr h)) else 0);
            off = (if h_BindType h = SQL_BIND_BY_COLUMN \<or> h_BindType h = SQL_PARAM_BIND_BY_COLUMN
                   then u64 (off0 + PtrSize * RowNumber) else u64 (off0 + h_BindType h * RowNumber))
        in u64 (Ptr + off)))"

definition PARAM_IS_DAE :: "(int \<Rightarrow> int) \<Rightarrow> int \<Rightarrow> bool" where
  "PARAM_IS_DAE mem p \<longleftrightarrow>
     p \<noteq> 0 \<and> (mem p = SQL_DATA_AT_EXEC \<or> mem p \<le> SQL_LEN_DATA_AT_EXEC_OFFSET)"

text \<open>The rows from \<open>row\<close> on, \<open>k\<close> of them.\<close>

fun ignored_rows :: "(int \<Rightarrow> int) \<Rightarrow> MADB_Header \<Rightarrow> MADB_DescRecord \<Rightarrow> int \<Rightarrow> nat \<Rightarrow> bool" where
  "ignored_rows mem h r row 0 = True"
| "ignored_rows mem h r row (Suc k) =
    (let p = GetBindOffset mem h (r_IndicatorPtr r) row 8
     in if p = 0 \<or> mem p \<noteq> SQL_COLUMN_IGNORE then False else ignored_rows mem h r (row + 1) k)"

definition MADB_ColumnIgnoredInAllRows :: "(int \<Rightarrow> int) \<Rightarrow> MADB_Desc \<Rightarrow> MADB_DescRecord \<Rightarrow> bool" where
  "MADB_ColumnIgnoredInAllRows mem d r = ignored_rows mem (d_Header d) r 0 (nat (h_ArraySize (d_Header d)))"

section \<open>Looking for the next parameter\<close>

text \<open>
  The loop of \<open>MADB_FindNextDaeParam\<close> and \<open>MADB_StmtParamData\<close>, from parameter \<open>i\<close>, \<open>k\<close> of them left; \<open>row\<close>
  counts from 0.  Reading a record may create it.
\<close>

fun dae_scan :: "(int \<Rightarrow> int) \<Rightarrow> int \<Rightarrow> int \<Rightarrow> nat \<Rightarrow> MADB_Desc \<Rightarrow> heap \<Rightarrow> int option \<times> MADB_Desc \<times> heap" where
  "dae_scan mem row i 0 d H = (None, d, H)"
| "dae_scan mem row i (Suc k) d H =
    (case MADB_DescGetInternalRecord d (s16 i) True H of
       (found, d1, H1) \<Rightarrow>
         if found \<and> (case record_at d1 (s16 i) of None \<Rightarrow> False | Some r \<Rightarrow>
              r_OctetLengthPtr r \<noteq> 0 \<and>
              PARAM_IS_DAE mem (GetBindOffset mem (d_Header d1) (r_OctetLengthPtr r) row 8))
         then (Some i, d1, H1) else dae_scan mem row (i + 1) k d1 H1)"

definition dae_start :: "int \<Rightarrow> int" where
  "dae_start p = (if p > - 1 then p + 1 else 0)"

definition dae_row :: "int \<Rightarrow> int" where
  "dae_row n = (if n > 1 then n - 1 else 0)"

definition MADB_FindNextDaeParam ::
  "(int \<Rightarrow> int) \<Rightarrow> MADB_Desc \<Rightarrow> int \<Rightarrow> int \<Rightarrow> heap \<Rightarrow> int \<times> MADB_Desc \<times> heap" where
  "MADB_FindNextDaeParam mem d InitialParam RowNumber H =
    (case dae_scan mem (dae_row RowNumber) (dae_start InitialParam)
            (nat (h_Count (d_Header d) - dae_start InitialParam)) d H of
       (Some i, d1, H1) \<Rightarrow> (i, d1, H1)
     | (None, d1, H1) \<Rightarrow> (- 1, d1, H1))"

section \<open>Statements\<close>

datatype MADB_DaeType = MADB_DAE_NORMAL | MADB_DAE_ADD | MADB_DAE_UPDATE | MADB_DAE_DELETE

text \<open>
  What these functions use of a statement; \<open>e_main\<close> is the statement itself, \<open>e_dae\<close> its helper statement
  for positioned operations.  Blocks of data sent by the application are kept by address.
\<close>

record dae_part =
  p_ParamCount :: int
  p_Status :: int
  p_PutParam :: int
  p_Apd :: MADB_Desc
  p_Ipd :: MADB_Desc
  p_Error :: MADB_Error

record dae_stmt =
  e_main :: dae_part
  e_dae :: dae_part
  e_DataExecutionType :: MADB_DaeType
  e_DaeRowNumber :: int
  e_text_protocol :: bool
  e_heap :: heap
  e_blocks :: "int \<Rightarrow> buffer option"
  e_next_block :: int

definition RESET_DAE_STATUS :: "dae_part \<Rightarrow> dae_part" where
  "RESET_DAE_STATUS p = p\<lparr>p_Status := 0, p_PutParam := - 1\<rparr>"

definition MARK_DAE_DONE :: "dae_part \<Rightarrow> dae_part" where
  "MARK_DAE_DONE p = p\<lparr>p_Status := 0, p_PutParam := p_ParamCount p\<rparr>"

definition stmt_error :: "string \<Rightarrow> string option \<Rightarrow> dae_part \<Rightarrow> dae_part" where
  "stmt_error code msg p = p\<lparr>p_Error := snd (MADB_SetError (p_Error p) (MADB_ERR code) msg 0)\<rparr>"

text \<open>The statement whose parameters are sent.\<close>

definition dae_target :: "dae_stmt \<Rightarrow> dae_part" where
  "dae_target S = (if e_DataExecutionType S = MADB_DAE_NORMAL then e_main S else e_dae S)"

definition set_target :: "dae_part \<Rightarrow> dae_stmt \<Rightarrow> dae_stmt" where
  "set_target p S = (if e_DataExecutionType S = MADB_DAE_NORMAL then S\<lparr>e_main := p\<rparr> else S\<lparr>e_dae := p\<rparr>)"

text \<open>\<open>MADB_CspsFreeDAE\<close>: the blocks sent for the statement itself are freed.\<close>

definition free_dae_record :: "MADB_DescRecord \<Rightarrow> MADB_DescRecord" where
  "free_dae_record r = r\<lparr>r_DataPtr := 0, r_OctetLength := 0, r_InternalLength := 0\<rparr>"

definition MADB_CspsFreeDAE :: "dae_stmt \<Rightarrow> dae_stmt" where
  "MADB_CspsFreeDAE S =
    (let d = p_Ipd (e_main S); freed = set (map r_DataPtr (d_Records d))
     in S\<lparr>e_main := (e_main S)\<lparr>p_Ipd := d\<lparr>d_Records := map free_dae_record (d_Records d)\<rparr>\<rparr>,
          e_blocks := (\<lambda>a. if a \<in> freed then None else e_blocks S a)\<rparr>)"

section \<open>The protocol\<close>

text \<open>
  \<open>exec t\<close> stands for executing the statement (\<open>MADB_DAE_NORMAL\<close>), for \<open>MADB_StmtSetPos\<close> with \<open>SQL_UPDATE\<close>
  and for executing the helper statement (\<open>MADB_DAE_ADD\<close>).  \<open>MADB_StmtParamData\<close> asks for the data of a
  parameter, giving the pointer it was bound with, or is done.
\<close>

datatype dae_reply = Need_Data int | Done int

definition param_found :: "(int \<Rightarrow> int) \<Rightarrow> dae_stmt \<Rightarrow> int \<Rightarrow> MADB_Desc \<Rightarrow> heap \<Rightarrow> dae_reply \<times> dae_stmt" where
  "param_found mem S i d H =
    (let r = d_Records d ! nat i;
         S1 = set_target ((dae_target S)\<lparr>p_Apd := d\<rparr>) (S\<lparr>e_heap := H\<rparr>)
     in (Need_Data (GetBindOffset mem (d_Header d) (r_DataPtr r) (dae_row (e_DaeRowNumber S)) (r_OctetLength r)),
         S1\<lparr>e_main := (e_main S1)\<lparr>p_PutParam := i, p_Status := SQL_NEED_DATA\<rparr>\<rparr>))"

definition run_dae :: "(MADB_DaeType \<Rightarrow> dae_stmt \<Rightarrow> int \<times> dae_stmt) \<Rightarrow> dae_stmt \<Rightarrow> int \<times> dae_stmt" where
  "run_dae exec S =
    (case e_DataExecutionType S of
       MADB_DAE_NORMAL \<Rightarrow>
         (case exec MADB_DAE_NORMAL S of (ret, S1) \<Rightarrow> (ret, S1\<lparr>e_main := RESET_DAE_STATUS (e_main S1)\<rparr>))
     | MADB_DAE_UPDATE \<Rightarrow>
         (case exec MADB_DAE_UPDATE S of (ret, S1) \<Rightarrow> (ret, S1\<lparr>e_main := RESET_DAE_STATUS (e_main S1)\<rparr>))
     | MADB_DAE_ADD \<Rightarrow>
         (case exec MADB_DAE_ADD S of (ret, S1) \<Rightarrow>
            (ret, S1\<lparr>e_main := (e_main S1)\<lparr>p_Error := MADB_CopyError (p_Error (e_main S1)) (p_Error (e_dae S1))\<rparr>,
                    e_dae := RESET_DAE_STATUS (e_dae S1)\<rparr>))
     | MADB_DAE_DELETE \<Rightarrow> (SQL_ERROR, S))"

definition MADB_StmtParamData ::
  "(MADB_DaeType \<Rightarrow> dae_stmt \<Rightarrow> int \<times> dae_stmt) \<Rightarrow> (int \<Rightarrow> int) \<Rightarrow> dae_stmt \<Rightarrow> dae_reply \<times> dae_stmt" where
  "MADB_StmtParamData exec mem S =
    (let n = p_ParamCount (dae_target S); start = dae_start (p_PutParam (e_main S))
     in if n = 0 then
          (let p = stmt_error ''HY010'' None (e_main S) in (Done (ReturnValue (p_Error p)), S\<lparr>e_main := p\<rparr>))
        else
          (case dae_scan mem (dae_row (e_DaeRowNumber S)) start (nat (n - start)) (p_Apd (dae_target S)) (e_heap S) of
             (Some i, d, H) \<Rightarrow> param_found mem S i d H
           | (None, d, H) \<Rightarrow>
               (let S1 = set_target ((dae_target S)\<lparr>p_Apd := d\<rparr>) (S\<lparr>e_heap := H\<rparr>);
                    S2 = S1\<lparr>e_main := MARK_DAE_DONE (e_main S1)\<rparr>;
                    S3 = (if e_DataExecutionType S \<in> {MADB_DAE_ADD, MADB_DAE_UPDATE}
                          then S2\<lparr>e_dae := MARK_DAE_DONE (e_dae S2)\<rparr> else S2)
                in case run_dae exec S3 of (ret, S4) \<Rightarrow> (Done ret, MADB_CspsFreeDAE S4))))"

definition is_char_type :: "int \<Rightarrow> bool" where
  "is_char_type t \<longleftrightarrow>
     t \<in> {SQL_C_CHAR, SQL_VARCHAR, SQL_LONGVARCHAR, SQL_C_WCHAR, SQL_WVARCHAR, SQL_WLONGVARCHAR,
          SQL_C_BINARY, SQL_VARBINARY, SQL_LONGVARBINARY}"

definition put_error :: "string \<Rightarrow> string option \<Rightarrow> dae_stmt \<Rightarrow> int \<times> dae_stmt" where
  "put_error code msg S =
    (let p = stmt_error code msg (e_main S) in (ReturnValue (p_Error p), S\<lparr>e_main := p\<rparr>))"

text \<open>
  The data is stored with the implementation parameter record \<open>i\<close> of the target: a first piece in a new
  block, a further piece behind the data there.  \<open>alloc\<close> says whether the allocation succeeds.
\<close>

definition store_piece ::
  "bool \<Rightarrow> bool \<Rightarrow> int \<Rightarrow> buffer \<Rightarrow> dae_stmt \<Rightarrow> (int \<times> dae_stmt) option" where
  "store_piece alloc is_string i piece S =
    (case MADB_DescGetInternalRecord (p_Ipd (dae_target S)) i False (e_heap S) of
       (found, d, H) \<Rightarrow>
         (case (if found then record_at d i else None) of
            None \<Rightarrow> None
          | Some r \<Rightarrow>
              (let S1 = set_target ((dae_target S)\<lparr>p_Ipd := d\<rparr>) (S\<lparr>e_heap := H\<rparr>);
                   failed = Some (put_error ''HY001'' (Some ''Failed to allocate memory for the long data'') S1);
                   stored = (\<lambda>addr block blocks next.
                     Some (SQL_SUCCESS,
                           set_target ((dae_target S1)\<lparr>p_Ipd := set_record d i
                               (r\<lparr>r_DataPtr := addr,
                                  r_InternalLength := u64 (r_InternalLength r + int (length piece)),
                                  r_OctetLength := s64 (u64 (r_InternalLength r + int (length piece)))\<rparr>)\<rparr>)
                             (S1\<lparr>e_blocks := blocks(addr \<mapsto> block), e_next_block := next\<rparr>)))
               in if r_InternalLength r = 0 then
                    (if \<not> alloc then failed
                     else stored (e_next_block S) (if is_string then piece @ [NUL] else piece)
                            (e_blocks S) (e_next_block S + 1))
                  else if \<not> is_string then
                    Some (put_error ''HY019'' (Some ''Non-character and non-binary data sent in pieces'') S1)
                  else
                    (case e_blocks S (r_DataPtr r) of
                       None \<Rightarrow> None
                     | Some b \<Rightarrow>
                         if \<not> alloc then failed
                         else stored (e_next_block S) (take (nat (r_InternalLength r)) b @ piece @ [NUL])
                                ((e_blocks S)(r_DataPtr r := None)) (e_next_block S + 1)))))"

text \<open>
  \<open>data\<close> is what the data pointer points to, \<open>wchar\<close> stands for the conversion of wide characters (\<^const>\<open>None\<close>: it
  failed), \<open>long_used\<close> for the flag of the client library.  A read beside the application's data is \<^const>\<open>None\<close>.
\<close>

definition piece_of ::
  "(buffer \<Rightarrow> int \<Rightarrow> buffer option) \<Rightarrow> int \<Rightarrow> buffer option \<Rightarrow> int \<Rightarrow> buffer option option" where
  "piece_of wchar ctype data len =
    (if ctype = SQL_C_WCHAR then
       (let conv = (case data of None \<Rightarrow> None | Some b \<Rightarrow> wchar b len)
        in if (conv = None \<or> conv = Some []) \<and> len > 0 then Some None
           else Some (Some (case conv of None \<Rightarrow> [] | Some b \<Rightarrow> b)))
     else
       (case data of
          None \<Rightarrow> Some (Some [])
        | Some b \<Rightarrow>
            if len = SQL_NTS then (if NUL \<in> set b then Some (Some (c_str b)) else None)
            else if int (length b) < len then None else Some (Some (take (nat len) b))))"

definition MADB_StmtPutData ::
  "(buffer \<Rightarrow> int \<Rightarrow> buffer option) \<Rightarrow> (int \<Rightarrow> bool) \<Rightarrow> bool \<Rightarrow> buffer option \<Rightarrow> int \<Rightarrow> dae_stmt \<Rightarrow>
   (int \<times> dae_stmt) option" where
  "MADB_StmtPutData wchar long_used alloc data StrLen_or_Ind S0 =
    (let S = S0\<lparr>e_main := (e_main S0)\<lparr>p_Error := MADB_CLEAR_ERROR (p_Error (e_main S0))\<rparr>\<rparr>;
         i = s16 (p_PutParam (e_main S))
     in if data \<noteq> None \<and> StrLen_or_Ind < 0 \<and> StrLen_or_Ind \<noteq> SQL_NTS \<and> StrLen_or_Ind \<noteq> SQL_NULL_DATA
        then Some (put_error ''HY090'' None S)
        else
          (case MADB_DescGetInternalRecord (p_Apd (dae_target S)) i True (e_heap S) of
             (found, d, H) \<Rightarrow>
               (case (if found then record_at d i else None) of
                  None \<Rightarrow> None
                | Some r \<Rightarrow>
                    (let S1 = set_target ((dae_target S)\<lparr>p_Apd := d\<rparr>) (S\<lparr>e_heap := H\<rparr>)
                     in if StrLen_or_Ind = SQL_NULL_DATA then
                          (if long_used i \<or> r_InternalLength r > 0
                           then Some (put_error ''HY020'' (Some ''Concatenation of a null value is forbidden'') S1)
                           else Some (SQL_SUCCESS,
                                      set_target ((dae_target S1)\<lparr>p_Apd := set_record d i (r\<lparr>r_Type := SQL_TYPE_NULL\<rparr>)\<rparr>) S1))
                        else if data = None \<and> StrLen_or_Ind \<noteq> 0 then Some (put_error ''HY009'' None S1)
                        else
                          (case piece_of wchar (r_ConciseType r) data StrLen_or_Ind of
                             None \<Rightarrow> None
                           | Some None \<Rightarrow> Some (put_error ''HY001'' None S1)
                           | Some (Some piece) \<Rightarrow>
                               if \<not> e_text_protocol S1 then
                                 Some (put_error ''HYC00''
                                   (Some (CHR 39 # ''Long Data'' @ CHR 39 # '' feature is not supported in the binary protocol'')) S1)
                               else if h_ArraySize (d_Header d) > 1 then
                                 Some (put_error ''HY000''
                                   (Some ''SQLPutData for paramsets of size > 1 is not supported in the text protocol mode'') S1)
                               else store_piece alloc (is_char_type (r_ConciseType r)) i piece S1)))))"

section \<open>What the operations keep\<close>

text \<open>What the protocol reads of an application parameter descriptor; a missing record counts as unbound.\<close>

type_synonym apd_view = "(int \<Rightarrow> int \<times> int \<times> int) \<times> int \<times> int"

definition view :: "MADB_Desc \<Rightarrow> apd_view" where
  "view d = (\<lambda>i. case record_at d i of None \<Rightarrow> (0, 0, 0)
               | Some r \<Rightarrow> (r_OctetLengthPtr r, r_DataPtr r, r_OctetLength r),
             h_BindOffsetPtr (d_Header d), h_BindType (d_Header d))"

lemma view_simps [simp]:
  "view (desc_error c d) = view d" "view (raise_count n d) = view d" "view (clear_error d) = view d"
  by (auto simp: view_def record_at_def raise_count_def clear_error_def)

lemma grow_records_appends:
  "grow_records k d H = (found, d1, H1) \<Longrightarrow>
   \<exists>rs. d_Records d1 = d_Records d @ rs \<and> d_Header d1 = d_Header d \<and> d_DescType d1 = d_DescType d
     \<and> (\<forall>r \<in> set rs. \<exists>H' H''. MADB_DescSetRecordDefaults (d_DescType d) H' = (r, H''))
     \<and> hp_grow H1 = hp_grow H"
proof (induction k arbitrary: d H)
  case (Suc k)
  obtain r H2 where r: "MADB_DescSetRecordDefaults (d_DescType d) H = (r, H2)" by fastforce
  show ?case
  proof (cases "hp_grow H (length (d_Records d))")
    case True
    then have "grow_records k (d\<lparr>d_Records := d_Records d @ [r]\<rparr>) H2 = (found, d1, H1)"
      using Suc.prems r by simp
    from Suc.IH [OF this] show ?thesis using r defaults_grow [OF r] by fastforce
  qed (use Suc.prems in auto)
qed simp

lemma defaults_unbound:
  "MADB_DescSetRecordDefaults t H = (r, H1) \<Longrightarrow>
   r_OctetLengthPtr r = 0 \<and> r_DataPtr r = 0 \<and> r_OctetLength r = 0 \<and> r_InternalLength r = 0"
  by (cases t) (auto simp: zero_record_def split: prod.splits)

lemma GetInternalRecord_appends:
  assumes "MADB_DescGetInternalRecord d i reading H = (found, d1, H1)"
  shows "\<exists>rs. d_Records d1 = d_Records d @ rs \<and> d_DescType d1 = d_DescType d
     \<and> (\<forall>r \<in> set rs. \<exists>H' H''. MADB_DescSetRecordDefaults (d_DescType d) H' = (r, H''))
     \<and> h_BindOffsetPtr (d_Header d1) = h_BindOffsetPtr (d_Header d)
     \<and> h_BindType (d_Header d1) = h_BindType (d_Header d)
     \<and> h_ArraySize (d_Header d1) = h_ArraySize (d_Header d) \<and> hp_grow H1 = hp_grow H"
proof (cases "i > int (length (d_Records d)) \<and> reading")
  case False
  obtain f d2 H2 where g: "grow_records (nat (i + 1) - length (d_Records d)) d H = (f, d2, H2)"
    by (metis prod_cases3)
  have "d1 = (if f then raise_count (i + 1) d2 else d2)" "H1 = H2"
    using assms False g by (auto simp: MADB_DescGetInternalRecord_def)
  then show ?thesis using grow_records_appends [OF g] by (auto simp: raise_count_def)
qed (use assms in \<open>auto simp: MADB_DescGetInternalRecord_def\<close>)

lemma GetInternalRecord_view:
  assumes "MADB_DescGetInternalRecord d i reading H = (found, d1, H1)"
  shows "view d1 = view d \<and> hp_grow H1 = hp_grow H"
proof -
  obtain rs where rs: "d_Records d1 = d_Records d @ rs"
    "\<forall>r \<in> set rs. \<exists>H' H''. MADB_DescSetRecordDefaults (d_DescType d) H' = (r, H'')"
    "h_BindOffsetPtr (d_Header d1) = h_BindOffsetPtr (d_Header d)"
    "h_BindType (d_Header d1) = h_BindType (d_Header d)" "hp_grow H1 = hp_grow H"
    using GetInternalRecord_appends [OF assms] by blast
  have new: "r_OctetLengthPtr r = 0 \<and> r_DataPtr r = 0 \<and> r_OctetLength r = 0" if "r \<in> set rs" for r
    using rs(2) that defaults_unbound by blast
  have "record_at d1 j = (if nat j < length (d_Records d) \<or> j < 0 then record_at d j
      else if nat j < length (d_Records d1) then Some (rs ! (nat j - length (d_Records d))) else None)" for j
    by (auto simp: record_at_def rs(1) nth_append)
  moreover have "rs ! (nat j - length (d_Records d)) \<in> set rs"
    if "\<not> nat j < length (d_Records d)" "nat j < length (d_Records d1)" for j
    using that rs(1) by (intro nth_mem) auto
  ultimately have "(case record_at d1 j of None \<Rightarrow> (0, 0, 0) | Some r \<Rightarrow> (r_OctetLengthPtr r, r_DataPtr r, r_OctetLength r))
      = (case record_at d j of None \<Rightarrow> (0, 0, 0) | Some r \<Rightarrow> (r_OctetLengthPtr r, r_DataPtr r, r_OctetLength r))" for j
    using new by (auto simp: record_at_def)
  then show ?thesis using rs(3-5) by (simp add: view_def)
qed

text \<open>A parameter whose data is sent at execution, and the pointer it is asked for with.\<close>

definition dae_header :: "apd_view \<Rightarrow> MADB_Header" where
  "dae_header V = \<lparr>h_AllocType = 0, h_ArraySize = 1, h_ArrayStatusPtr = 0, h_BindOffsetPtr = fst (snd V),
     h_BindType = snd (snd V), h_Count = 0, h_RowsProcessedPtr = 0\<rparr>"

definition is_dae :: "(int \<Rightarrow> int) \<Rightarrow> int \<Rightarrow> apd_view \<Rightarrow> int \<Rightarrow> bool" where
  "is_dae mem row V i \<longleftrightarrow> (case fst V i of (olp, dp, ol) \<Rightarrow>
     olp \<noteq> 0 \<and> PARAM_IS_DAE mem (GetBindOffset mem (dae_header V) olp row 8))"

definition asked :: "(int \<Rightarrow> int) \<Rightarrow> int \<Rightarrow> apd_view \<Rightarrow> int \<Rightarrow> int" where
  "asked mem row V i = (case fst V i of (olp, dp, ol) \<Rightarrow> GetBindOffset mem (dae_header V) dp row ol)"

lemma GetBindOffset_view: "GetBindOffset mem (d_Header d) p row sz = GetBindOffset mem (dae_header (view d)) p row sz"
  by (simp add: GetBindOffset_def dae_header_def view_def)

lemma is_dae_record:
  "is_dae mem row (view d) i \<longleftrightarrow> (case record_at d i of None \<Rightarrow> False | Some r \<Rightarrow>
     r_OctetLengthPtr r \<noteq> 0 \<and> PARAM_IS_DAE mem (GetBindOffset mem (d_Header d) (r_OctetLengthPtr r) row 8))"
  unfolding is_dae_def GetBindOffset_view by (auto simp: view_def split: option.splits)

lemma GetInternalRecord_in_range:
  "nat i < length (d_Records d) \<Longrightarrow> 0 \<le> i \<Longrightarrow> fst (MADB_DescGetInternalRecord d i reading H)"
  by (auto simp: GetInternalRecord_present)

lemma dae_scan_finds:
  "0 \<le> i \<Longrightarrow> i + int k \<le> 32768 \<Longrightarrow> dae_scan mem row i k d H = (res, d1, H1) \<Longrightarrow>
   view d1 = view d \<and> hp_grow H1 = hp_grow H \<and>
   res = find (is_dae mem row (view d)) [i..i + int k - 1]"
proof (induction k arbitrary: i d H)
  case (Suc k)
  obtain found d2 H2 where g: "MADB_DescGetInternalRecord d i True H = (found, d2, H2)" by (metis prod_cases3)
  note v = GetInternalRecord_view [OF g]
  have s: "s16 i = i" using Suc.prems(1,2) by (simp add: cast_simps)
  have u: "[i..i + int (Suc k) - 1] = i # [i + 1..i + 1 + int k - 1]" by (simp add: upto_rec1)
  have f: "found" if "is_dae mem row (view d) i"
    using that GetInternalRecord_in_range [of i d True H] g
    by (auto simp: is_dae_record record_at_def split: if_splits)
  show ?case
  proof (cases "is_dae mem row (view d) i")
    case True
    then have "dae_scan mem row i (Suc k) d H = (Some i, d2, H2)"
      using f is_dae_record [of mem row d2 i] v g by (simp add: s)
    then show ?thesis using Suc.prems(3) True v u by simp
  next
    case False
    then have "dae_scan mem row (i + 1) k d2 H2 = (res, d1, H1)"
      using Suc.prems(3) is_dae_record [of mem row d2 i] v g by (simp add: s)
    then show ?thesis using Suc.IH [of "i + 1" d2 H2] Suc.prems(1,2) False v u by simp
  qed
qed simp

section \<open>The state the protocol keeps\<close>

text \<open>Every piece of data received is in a block of its own.\<close>

definition has_piece :: "dae_stmt \<Rightarrow> MADB_DescRecord \<Rightarrow> bool" where
  "has_piece S r \<longleftrightarrow> r_InternalLength r = 0 \<or>
     (0 < r_InternalLength r \<and> r_DataPtr r < e_next_block S \<and>
      (case e_blocks S (r_DataPtr r) of None \<Rightarrow> False | Some b \<Rightarrow> nat (r_InternalLength r) \<le> length b))"

definition blocks_ok :: "dae_stmt \<Rightarrow> bool" where
  "blocks_ok S \<longleftrightarrow>
     (let rs = d_Records (p_Ipd (dae_target S))
      in (\<forall>r \<in> set rs. has_piece S r) \<and>
         (\<forall>i < length rs. \<forall>j < length rs. i \<noteq> j \<and> r_InternalLength (rs ! i) \<noteq> 0 \<and> r_InternalLength (rs ! j) \<noteq> 0 \<longrightarrow>
            r_DataPtr (rs ! i) \<noteq> r_DataPtr (rs ! j)))"

definition same_protocol :: "dae_stmt \<Rightarrow> dae_stmt \<Rightarrow> bool" where
  "same_protocol S S1 \<longleftrightarrow> e_DataExecutionType S1 = e_DataExecutionType S \<and> e_DaeRowNumber S1 = e_DaeRowNumber S
     \<and> p_PutParam (e_main S1) = p_PutParam (e_main S)
     \<and> p_ParamCount (dae_target S1) = p_ParamCount (dae_target S)
     \<and> view (p_Apd (dae_target S1)) = view (p_Apd (dae_target S))
     \<and> length (d_Records (p_Apd (dae_target S))) \<le> length (d_Records (p_Apd (dae_target S1)))
     \<and> hp_grow (e_heap S1) = hp_grow (e_heap S)"

lemma same_protocol_trans: "same_protocol S S1 \<Longrightarrow> same_protocol S1 S2 \<Longrightarrow> same_protocol S S2"
  by (auto simp: same_protocol_def)

lemma target_simps [simp]:
  "dae_target (set_target p S) = p" "e_DataExecutionType (set_target p S) = e_DataExecutionType S"
  "e_DaeRowNumber (set_target p S) = e_DaeRowNumber S" "e_heap (set_target p S) = e_heap S"
  "e_blocks (set_target p S) = e_blocks S" "e_next_block (set_target p S) = e_next_block S"
  "dae_target (S\<lparr>e_heap := H\<rparr>) = dae_target S" "dae_target (S\<lparr>e_blocks := B\<rparr>) = dae_target S"
  "dae_target (S\<lparr>e_next_block := nb\<rparr>) = dae_target S" "set_target (dae_target S) S = S"
  "e_text_protocol (set_target p S) = e_text_protocol S"
  by (simp_all add: dae_target_def set_target_def)

lemma target_PutParam:
  "p_PutParam p = p_PutParam (dae_target S) \<Longrightarrow> p_PutParam (e_main (set_target p S)) = p_PutParam (e_main S)"
  by (simp add: set_target_def dae_target_def)

lemma main_error_target [simp]:
  "p_Apd (dae_target (S\<lparr>e_main := (e_main S)\<lparr>p_Error := e\<rparr>\<rparr>)) = p_Apd (dae_target S)"
  "p_Ipd (dae_target (S\<lparr>e_main := (e_main S)\<lparr>p_Error := e\<rparr>\<rparr>)) = p_Ipd (dae_target S)"
  "p_ParamCount (dae_target (S\<lparr>e_main := (e_main S)\<lparr>p_Error := e\<rparr>\<rparr>)) = p_ParamCount (dae_target S)"
  by (simp_all add: dae_target_def)

lemma error_same: "same_protocol S (S\<lparr>e_main := (e_main S)\<lparr>p_Error := e\<rparr>\<rparr>)"
  by (simp add: same_protocol_def)

lemma error_blocks: "blocks_ok (S\<lparr>e_main := (e_main S)\<lparr>p_Error := e\<rparr>\<rparr>) = blocks_ok S"
  by (simp add: blocks_ok_def has_piece_def)

lemma put_error_keeps:
  "put_error c m S = (ret, S1) \<Longrightarrow> same_protocol S S1 \<and> blocks_ok S1 = blocks_ok S"
  using error_same error_blocks by (auto simp: put_error_def stmt_error_def Let_def)

lemma has_piece_default: "MADB_DescSetRecordDefaults t H = (r, H1) \<Longrightarrow> has_piece S r"
  using defaults_unbound by (simp add: has_piece_def)

text \<open>Creating parameter records does not touch the blocks.\<close>

lemma blocks_ok_grow:
  assumes "blocks_ok S" "MADB_DescGetInternalRecord (p_Ipd (dae_target S)) i reading H0 = (found, d, H)"
  shows "blocks_ok (set_target ((dae_target S)\<lparr>p_Ipd := d\<rparr>) (S\<lparr>e_heap := H\<rparr>))"
proof -
  obtain rs where rs: "d_Records d = d_Records (p_Ipd (dae_target S)) @ rs"
    "\<forall>r \<in> set rs. \<exists>H' H''. MADB_DescSetRecordDefaults (d_DescType (p_Ipd (dae_target S))) H' = (r, H'')"
    using GetInternalRecord_appends [OF assms(2)] by blast
  then have new: "r_InternalLength r = 0" if "r \<in> set rs" for r using that defaults_unbound by blast
  have old: "nat_i < length (d_Records (p_Ipd (dae_target S)))"
    if "nat_i < length (d_Records d)" "r_InternalLength (d_Records d ! nat_i) \<noteq> 0" for nat_i
    using that new rs(1) by (metis (no_types, lifting) add.commute length_append less_diff_conv2 linorder_not_less
        nth_append nth_mem)
  show ?thesis using assms(1) rs(1) new old
    by (auto simp: blocks_ok_def has_piece_def Let_def nth_append)
qed

text \<open>Giving record \<open>i\<close> a new block keeps the others.\<close>

lemma blocks_ok_store:
  assumes "blocks_ok S" "i < length (d_Records (p_Ipd (dae_target S)))"
    and "0 \<le> r_InternalLength r" "nat (r_InternalLength r) \<le> length b" "r_DataPtr r = e_next_block S"
    and "B = e_blocks S \<or> B = (e_blocks S)(a := None) \<and> r_InternalLength (d_Records (p_Ipd (dae_target S)) ! i) \<noteq> 0
           \<and> a = r_DataPtr (d_Records (p_Ipd (dae_target S)) ! i)"
  shows "blocks_ok (set_target ((dae_target S)\<lparr>p_Ipd := set_record (p_Ipd (dae_target S)) (int i) r\<rparr>)
           (S\<lparr>e_blocks := B(e_next_block S \<mapsto> b), e_next_block := e_next_block S + 1\<rparr>))"
proof -
  define rs where "rs = d_Records (p_Ipd (dae_target S))"
  have inv: "has_piece S (rs ! j)" if "j < length rs" for j
    using assms(1) that by (auto simp: blocks_ok_def rs_def Let_def)
  have apart: "r_DataPtr (rs ! j) \<noteq> r_DataPtr (rs ! k)"
    if "j < length rs" "k < length rs" "j \<noteq> k" "r_InternalLength (rs ! j) \<noteq> 0" "r_InternalLength (rs ! k) \<noteq> 0" for j k
    using assms(1) that by (simp add: blocks_ok_def rs_def Let_def)
  have other: "r_DataPtr (rs ! j) \<noteq> e_next_block S \<and> B (r_DataPtr (rs ! j)) = e_blocks S (r_DataPtr (rs ! j))"
    if "j < length rs" "j \<noteq> i" "r_InternalLength (rs ! j) \<noteq> 0" for j
    using inv [of j] apart [of j i] assms(2,6) that by (auto simp: has_piece_def rs_def)
  have upd: "rs[i := r] ! j = (if j = i then r else rs ! j)" if "j < length rs" for j using that by (simp add: nth_list_update)
  have p: "has_piece (set_target q (S\<lparr>e_blocks := B(e_next_block S \<mapsto> b), e_next_block := e_next_block S + 1\<rparr>)) (rs[i := r] ! j)"
    if "j < length rs" for j q
    using inv [OF that] other [OF that] assms(3-5) upd [OF that] by (auto simp: has_piece_def)
  have q: "r_DataPtr (rs[i := r] ! j) \<noteq> r_DataPtr (rs[i := r] ! k)"
    if "j < length rs" "k < length rs" "j \<noteq> k" "r_InternalLength (rs[i := r] ! j) \<noteq> 0"
      "r_InternalLength (rs[i := r] ! k) \<noteq> 0" for j k
    using that upd apart [of j k] other [of j] other [of k] assms(5) by (auto split: if_splits)
  show ?thesis unfolding blocks_ok_def Let_def
    using p q by (simp add: set_record_def rs_def [symmetric] all_set_conv_all_nth)
qed

lemma u64_le: "0 \<le> x \<Longrightarrow> u64 x \<le> x"
  using zmod_le_nonneg_dividend [of x "2 ^ 64"] by (simp add: u64_def)

lemma store_piece_total:
  assumes "blocks_ok S" "\<forall>n. hp_grow (e_heap S) n" "0 \<le> i"
  shows "\<exists>ret S1. store_piece alloc is_string i piece S = Some (ret, S1) \<and> same_protocol S S1 \<and> blocks_ok S1"
proof -
  obtain d H where g: "MADB_DescGetInternalRecord (p_Ipd (dae_target S)) i False (e_heap S) = (True, d, H)"
    "\<forall>n. hp_grow H n" "nat i < length (d_Records d)"
    using GetInternalRecord_found [OF assms(2,3)] by metis
  define r where "r = d_Records d ! nat i"
  have r: "record_at d i = Some r" using g(3) assms(3) by (simp add: record_at_def r_def)
  define S1 where "S1 = set_target ((dae_target S)\<lparr>p_Ipd := d\<rparr>) (S\<lparr>e_heap := H\<rparr>)"
  have S1: "blocks_ok S1" unfolding S1_def by (rule blocks_ok_grow [OF assms(1) g(1)])
  have t: "dae_target S1 = (dae_target S)\<lparr>p_Ipd := d\<rparr>" "e_blocks S1 = e_blocks S" "e_next_block S1 = e_next_block S"
    by (simp_all add: S1_def)
  have sp: "same_protocol S S1" "same_protocol S (set_target ((dae_target S1)\<lparr>p_Ipd := x\<rparr>) (S1\<lparr>e_blocks := B, e_next_block := nb\<rparr>))" for x B nb
    using GetInternalRecord_view [OF g(1)]
    by (auto simp: same_protocol_def S1_def set_target_def dae_target_def)
  have piece: "has_piece S1 r" using S1 g(3) by (auto simp: blocks_ok_def t r_def Let_def)
  define n where "n = r_InternalLength r + int (length piece)"
  define r1 where "r1 a = r\<lparr>r_DataPtr := a, r_InternalLength := u64 n, r_OctetLength := s64 (u64 n)\<rparr>" for a
  define stored where "stored B b = set_target ((dae_target S1)\<lparr>p_Ipd := set_record d i (r1 (e_next_block S))\<rparr>)
      (S1\<lparr>e_blocks := B(e_next_block S \<mapsto> b), e_next_block := e_next_block S + 1\<rparr>)" for B b
  have n: "0 \<le> u64 n" "u64 n \<le> n" using piece u64_le [of n]
    by (auto simp: n_def has_piece_def u64_def split: option.splits)
  have ok: "blocks_ok (stored B b)" if "B = e_blocks S \<or> B = (e_blocks S)(r_DataPtr r := None) \<and> r_InternalLength r \<noteq> 0"
    "nat n \<le> length b" for B b
    using blocks_ok_store [OF S1, of "nat i" "r1 (e_next_block S)" b B "r_DataPtr r"] that n g(3) assms(3)
    by (auto simp: stored_def r1_def t r_def)
  have err: "\<exists>ret S2. Some (put_error c m S1) = Some (ret, S2) \<and> same_protocol S S2 \<and> blocks_ok S2" for c m
    using put_error_keeps [of c m S1] sp(1) S1 same_protocol_trans by (metis surj_pair)
  have "store_piece alloc is_string i piece S =
     (if r_InternalLength r = 0 then
        (if \<not> alloc then Some (put_error ''HY001'' (Some ''Failed to allocate memory for the long data'') S1)
         else Some (SQL_SUCCESS, stored (e_blocks S) (if is_string then piece @ [NUL] else piece)))
      else if \<not> is_string then
        Some (put_error ''HY019'' (Some ''Non-character and non-binary data sent in pieces'') S1)
      else case e_blocks S (r_DataPtr r) of None \<Rightarrow> None | Some b \<Rightarrow>
        if \<not> alloc then Some (put_error ''HY001'' (Some ''Failed to allocate memory for the long data'') S1)
        else Some (SQL_SUCCESS, stored ((e_blocks S)(r_DataPtr r := None))
               (take (nat (r_InternalLength r)) b @ piece @ [NUL])))"
    by (cases "r_InternalLength r = 0"; cases alloc; cases is_string; cases "e_blocks S (r_DataPtr r)")
      (simp_all add: store_piece_def g(1) r Let_def S1_def stored_def r1_def n_def)
  moreover have "same_protocol S (stored B b)" for B b using sp(2) by (simp add: stored_def)
  ultimately show ?thesis using err ok piece n
    by (auto simp: has_piece_def t n_def nat_add_distrib split: option.splits)
qed

text \<open>The application passes a pointer to as many bytes as it says.\<close>

definition readable_data :: "buffer option \<Rightarrow> int \<Rightarrow> bool" where
  "readable_data data len \<longleftrightarrow>
     (case data of None \<Rightarrow> True | Some b \<Rightarrow> if len = SQL_NTS then NUL \<in> set b else len \<le> int (length b))"

lemma piece_of_readable: "readable_data data len \<Longrightarrow> piece_of wchar ct data len \<noteq> None"
  by (auto simp: readable_data_def piece_of_def Let_def split: option.splits if_splits)

lemma apd_update_keeps:
  assumes "view d = view (p_Apd (dae_target S))" "hp_grow H = hp_grow (e_heap S)"
    "length (d_Records (p_Apd (dae_target S))) \<le> length (d_Records d)"
  shows "same_protocol S (set_target ((dae_target S)\<lparr>p_Apd := d\<rparr>) (S\<lparr>e_heap := H\<rparr>))"
    "blocks_ok (set_target ((dae_target S)\<lparr>p_Apd := d\<rparr>) (S\<lparr>e_heap := H\<rparr>)) = blocks_ok S"
  using assms by (simp_all add: same_protocol_def blocks_ok_def has_piece_def target_PutParam)

lemma view_set_type:
  "record_at d i = Some r \<Longrightarrow> view (set_record d i (r\<lparr>r_Type := t\<rparr>)) = view d"
  by (auto simp: view_def record_at_def set_record_def nth_list_update fun_eq_iff split: if_splits)

lemma PutData_total:
  assumes "blocks_ok S0" "\<forall>n. hp_grow (e_heap S0) n" "0 \<le> p_PutParam (e_main S0)" "p_PutParam (e_main S0) \<le> 32767"
    and "nat (p_PutParam (e_main S0)) < length (d_Records (p_Apd (dae_target S0)))" "readable_data data len"
  shows "\<exists>ret S1. MADB_StmtPutData wchar long_used alloc data len S0 = Some (ret, S1)
    \<and> same_protocol S0 S1 \<and> blocks_ok S1"
proof -
  define S where "S = S0\<lparr>e_main := (e_main S0)\<lparr>p_Error := MADB_CLEAR_ERROR (p_Error (e_main S0))\<rparr>\<rparr>"
  define i where "i = p_PutParam (e_main S)"
  have S: "same_protocol S0 S" "blocks_ok S" "\<forall>n. hp_grow (e_heap S) n"
    using assms(1,2) error_same error_blocks by (simp_all add: S_def)
  have i: "s16 i = i" "0 \<le> i" "nat i < length (d_Records (p_Apd (dae_target S)))"
    using assms(3-5) by (simp_all add: i_def S_def cast_simps)
  define d where "d = raise_count (i + 1) (p_Apd (dae_target S))"
  have g: "MADB_DescGetInternalRecord (p_Apd (dae_target S)) i True (e_heap S) = (True, d, e_heap S)"
    using GetInternalRecord_present i by (simp add: d_def)
  obtain r where r: "record_at d i = Some r" using i by (auto simp: record_at_def d_def)
  define S1 where "S1 = set_target ((dae_target S)\<lparr>p_Apd := d\<rparr>) (S\<lparr>e_heap := e_heap S\<rparr>)"
  have S1: "same_protocol S S1" "blocks_ok S1" "\<forall>n. hp_grow (e_heap S1) n"
    using apd_update_keeps [of d S "e_heap S"] S by (simp_all add: S1_def d_def)
  have err: "\<exists>ret S2. Some (put_error c m S') = Some (ret, S2) \<and> same_protocol S0 S2 \<and> blocks_ok S2"
    if "same_protocol S0 S'" "blocks_ok S'" for c m S'
    using put_error_keeps [of c m S'] that same_protocol_trans by (metis surj_pair)
  have S01: "same_protocol S0 S1" using S(1) S1(1) same_protocol_trans by blast
  have null: "same_protocol S0 (set_target ((dae_target S1)\<lparr>p_Apd := set_record d i (r\<lparr>r_Type := t\<rparr>)\<rparr>) S1)
      \<and> blocks_ok (set_target ((dae_target S1)\<lparr>p_Apd := set_record d i (r\<lparr>r_Type := t\<rparr>)\<rparr>) S1)" for t
  proof -
    have a: "p_Apd (dae_target S1) = d" "S1\<lparr>e_heap := e_heap S1\<rparr> = S1" by (simp_all add: S1_def)
    have "view (set_record d i (r\<lparr>r_Type := t\<rparr>)) = view (p_Apd (dae_target S1))"
      "length (d_Records (p_Apd (dae_target S1))) \<le> length (d_Records (set_record d i (r\<lparr>r_Type := t\<rparr>)))"
      using view_set_type [OF r] by (simp_all add: a)
    from apd_update_keeps [OF this(1) refl this(2)] show ?thesis
      unfolding a(2) using S01 S1(2) same_protocol_trans by blast
  qed
  have store: "\<exists>ret S2. store_piece alloc b i piece S1 = Some (ret, S2) \<and> same_protocol S0 S2 \<and> blocks_ok S2" for b piece
    using store_piece_total [OF S1(2,3) i(2)] S01 same_protocol_trans by blast
  have s: "s16 (p_PutParam (e_main S)) = i" using i(1) by (simp add: i_def)
  obtain pc where pc: "piece_of wchar (r_ConciseType r) data len = Some pc"
    using piece_of_readable [OF assms(6)] by blast
  have "MADB_StmtPutData wchar long_used alloc data len S0 =
    (if data \<noteq> None \<and> len < 0 \<and> len \<noteq> SQL_NTS \<and> len \<noteq> SQL_NULL_DATA then Some (put_error ''HY090'' None S)
     else if len = SQL_NULL_DATA then
       (if long_used i \<or> r_InternalLength r > 0
        then Some (put_error ''HY020'' (Some ''Concatenation of a null value is forbidden'') S1)
        else Some (SQL_SUCCESS, set_target ((dae_target S1)\<lparr>p_Apd := set_record d i (r\<lparr>r_Type := SQL_TYPE_NULL\<rparr>)\<rparr>) S1))
     else if data = None \<and> len \<noteq> 0 then Some (put_error ''HY009'' None S1)
     else case pc of None \<Rightarrow> Some (put_error ''HY001'' None S1)
       | Some piece \<Rightarrow>
           if \<not> e_text_protocol S1 then Some (put_error ''HYC00''
               (Some (CHR 39 # ''Long Data'' @ CHR 39 # '' feature is not supported in the binary protocol'')) S1)
           else if h_ArraySize (d_Header d) > 1 then Some (put_error ''HY000''
               (Some ''SQLPutData for paramsets of size > 1 is not supported in the text protocol mode'') S1)
           else store_piece alloc (is_char_type (r_ConciseType r)) i piece S1)"
    unfolding MADB_StmtPutData_def Let_def S_def [symmetric] s g
    by (simp only: prod.case if_True r option.case pc S1_def [symmetric])
  then show ?thesis using err [OF S(1,2)] err [OF S01 S1(2)] null store by (auto split: option.split)
qed

section \<open>Progress\<close>

text \<open>The parameters the application will still be asked for, in order.\<close>

definition remaining :: "(int \<Rightarrow> int) \<Rightarrow> dae_stmt \<Rightarrow> int list" where
  "remaining mem S =
    filter (is_dae mem (dae_row (e_DaeRowNumber S)) (view (p_Apd (dae_target S))))
      [dae_start (p_PutParam (e_main S))..p_ParamCount (dae_target S) - 1]"

definition ask :: "(int \<Rightarrow> int) \<Rightarrow> dae_stmt \<Rightarrow> int \<Rightarrow> dae_reply" where
  "ask mem S i = Need_Data (asked mem (dae_row (e_DaeRowNumber S)) (view (p_Apd (dae_target S))) i)"

lemma find_filter: "find P xs = (case filter P xs of [] \<Rightarrow> None | x # ys \<Rightarrow> Some x)"
  by (induction xs) auto

lemma filter_upto_tail:
  "filter P [a..b] = x # xs \<Longrightarrow> filter P [x + 1..b] = xs \<and> a \<le> x \<and> x \<le> b \<and> P x"
proof (induction "nat (b + 1 - a)" arbitrary: a)
  case 0
  then show ?case by simp
next
  case (Suc n)
  then have u: "[a..b] = a # [a + 1..b]" by (simp add: upto_rec1)
  show ?case
  proof (cases "P a")
    case True
    then show ?thesis using Suc.prems Suc.hyps(2) u by auto
  next
    case False
    have "n = nat (b - a)" using Suc.hyps(2) by linarith
    then show ?thesis using Suc.hyps(1) [of "a + 1"] Suc.prems u False by auto
  qed
qed

lemma same_protocol_remaining:
  "same_protocol S S1 \<Longrightarrow> remaining mem S1 = remaining mem S \<and> ask mem S1 = ask mem S"
  by (auto simp: same_protocol_def remaining_def ask_def fun_eq_iff)

lemma asked_record:
  "record_at d i = Some r \<Longrightarrow>
   asked mem row (view d) i = GetBindOffset mem (d_Header d) (r_DataPtr r) row (r_OctetLength r)"
  unfolding asked_def GetBindOffset_view by (simp add: view_def)

lemma param_found_target [simp]:
  "dae_target (T\<lparr>e_main := (e_main T)\<lparr>p_PutParam := i, p_Status := st\<rparr>\<rparr>) =
   (if e_DataExecutionType T = MADB_DAE_NORMAL then (dae_target T)\<lparr>p_PutParam := i, p_Status := st\<rparr> else dae_target T)"
  by (simp add: dae_target_def)

text \<open>One call: it asks for the next parameter, and that one is not asked for again.\<close>

lemma ParamData_asks:
  assumes "remaining mem S = i # is" "- 1 \<le> p_PutParam (e_main S)"
    and "0 < p_ParamCount (dae_target S)" "p_ParamCount (dae_target S) \<le> 32767"
  shows "\<exists>S1. MADB_StmtParamData exec mem S = (ask mem S i, S1) \<and> remaining mem S1 = is \<and> ask mem S1 = ask mem S
    \<and> p_PutParam (e_main S1) = i \<and> 0 \<le> i \<and> i \<le> 32767 \<and> nat i < length (d_Records (p_Apd (dae_target S1)))
    \<and> p_ParamCount (dae_target S1) = p_ParamCount (dae_target S) \<and> hp_grow (e_heap S1) = hp_grow (e_heap S)
    \<and> blocks_ok S1 = blocks_ok S"
proof -
  define row where "row = dae_row (e_DaeRowNumber S)"
  define n where "n = p_ParamCount (dae_target S)"
  define start where "start = dae_start (p_PutParam (e_main S))"
  define V where "V = view (p_Apd (dae_target S))"
  have rem: "filter (is_dae mem row V) [start..n - 1] = i # is"
    using assms(1) by (simp add: remaining_def row_def V_def start_def n_def)
  note t = filter_upto_tail [OF rem]
  have st: "0 \<le> start" using assms(2) by (simp add: start_def dae_start_def)
  obtain res d H where sc: "dae_scan mem row start (nat (n - start)) (p_Apd (dae_target S)) (e_heap S) = (res, d, H)"
    by (metis prod_cases3)
  have k: "start + int (nat (n - start)) - 1 = n - 1" using t by simp
  have v: "view d = V" "hp_grow H = hp_grow (e_heap S)" "res = Some i"
    using dae_scan_finds [OF st _ sc] rem t assms(4) k by (auto simp: V_def find_filter n_def)
  obtain r where r: "record_at d i = Some r"
    using t v(1) is_dae_record [of mem row d i] by (auto split: option.splits)
  then have ri: "d_Records d ! nat i = r" "nat i < length (d_Records d)" by (auto simp: record_at_def split: if_splits)
  define T where "T = set_target ((dae_target S)\<lparr>p_Apd := d\<rparr>) (S\<lparr>e_heap := H\<rparr>)"
  define S1 where "S1 = T\<lparr>e_main := (e_main T)\<lparr>p_PutParam := i, p_Status := SQL_NEED_DATA\<rparr>\<rparr>"
  have p: "MADB_StmtParamData exec mem S = (ask mem S i, S1)"
    using assms(3) asked_record [OF r] v(1)
    by (simp add: MADB_StmtParamData_def sc [unfolded row_def start_def n_def] v(3) param_found_def ri(1) S1_def T_def
        ask_def V_def row_def Let_def)
  have "e_DataExecutionType S1 = e_DataExecutionType S" "e_DaeRowNumber S1 = e_DaeRowNumber S"
    "p_Apd (dae_target S1) = d" "p_ParamCount (dae_target S1) = n" "p_PutParam (e_main S1) = i"
    "p_Ipd (dae_target S1) = p_Ipd (dae_target S)" "e_blocks S1 = e_blocks S" "e_next_block S1 = e_next_block S"
    "hp_grow (e_heap S1) = hp_grow (e_heap S)"
    using v(2) by (simp_all add: S1_def T_def n_def)
  then show ?thesis using p t v(1) ri(2) st assms(4)
    by (auto simp: remaining_def ask_def dae_start_def V_def row_def n_def fun_eq_iff blocks_ok_def has_piece_def)
qed

lemma ParamData_executes:
  assumes "remaining mem S = []" "- 1 \<le> p_PutParam (e_main S)" "p_ParamCount (dae_target S) \<le> 32767"
  shows "\<exists>ret S1. MADB_StmtParamData exec mem S = (Done ret, S1)"
proof -
  define n where "n = p_ParamCount (dae_target S)"
  define start where "start = dae_start (p_PutParam (e_main S))"
  obtain res d H where sc: "dae_scan mem (dae_row (e_DaeRowNumber S)) start (nat (n - start)) (p_Apd (dae_target S))
      (e_heap S) = (res, d, H)" by (metis prod_cases3)
  have st: "0 \<le> start" using assms(2) by (simp add: start_def dae_start_def)
  have "res = None"
  proof (cases "start \<le> n")
    case True
    then show ?thesis using dae_scan_finds [OF st _ sc] assms(1,3)
      by (simp add: find_filter remaining_def start_def n_def)
  qed (use sc in simp)
  then show ?thesis using sc
    by (auto simp: MADB_StmtParamData_def Let_def n_def start_def split: prod.split)
qed

text \<open>
  What an application does between the call that returned \<open>SQL_NEED_DATA\<close> and the execution: calls of
  \<open>SQLParamData\<close>, and any number of calls of \<open>SQLPutData\<close> in between.  The result is what the calls of
  \<open>SQLParamData\<close> returned, up to the one that executed the statement.
\<close>

datatype dae_call =
  Param_Data | Put_Data "buffer \<Rightarrow> int \<Rightarrow> buffer option" "int \<Rightarrow> bool" bool "buffer option" int

fun dae_run ::
  "(MADB_DaeType \<Rightarrow> dae_stmt \<Rightarrow> int \<times> dae_stmt) \<Rightarrow> (int \<Rightarrow> int) \<Rightarrow> dae_call list \<Rightarrow> dae_stmt \<Rightarrow> dae_reply list option" where
  "dae_run exec mem [] S = Some []"
| "dae_run exec mem (Param_Data # calls) S =
    (case MADB_StmtParamData exec mem S of
       (Done ret, S1) \<Rightarrow> Some [Done ret]
     | (Need_Data p, S1) \<Rightarrow> map_option ((#) (Need_Data p)) (dae_run exec mem calls S1))"
| "dae_run exec mem (Put_Data wchar long_used alloc data len # calls) S =
    (case MADB_StmtPutData wchar long_used alloc data len S of
       None \<Rightarrow> None | Some (ret, S1) \<Rightarrow> dae_run exec mem calls S1)"

fun call_readable :: "dae_call \<Rightarrow> bool" where
  "call_readable Param_Data = True"
| "call_readable (Put_Data wchar long_used alloc data len) = readable_data data len"

definition param_calls :: "dae_call list \<Rightarrow> nat" where
  "param_calls calls = length (filter (\<lambda>c. c = Param_Data) calls)"

definition dae_ready :: "dae_stmt \<Rightarrow> bool" where
  "dae_ready S \<longleftrightarrow> - 1 \<le> p_PutParam (e_main S) \<and> 0 < p_ParamCount (dae_target S)
     \<and> p_ParamCount (dae_target S) \<le> 32767 \<and> (\<forall>n. hp_grow (e_heap S) n) \<and> blocks_ok S"

text \<open>A parameter has been asked for.\<close>

definition dae_asked :: "dae_stmt \<Rightarrow> bool" where
  "dae_asked S \<longleftrightarrow> 0 \<le> p_PutParam (e_main S) \<and> p_PutParam (e_main S) \<le> 32767
     \<and> nat (p_PutParam (e_main S)) < length (d_Records (p_Apd (dae_target S)))"

lemma ask_Need_Data: "\<exists>p. ask mem S i = Need_Data p"
  by (simp add: ask_def)


section \<open>Data sent in pieces\<close>

fun send_pieces ::
  "(buffer \<Rightarrow> int \<Rightarrow> buffer option) \<Rightarrow> (int \<Rightarrow> bool) \<Rightarrow> buffer list \<Rightarrow> dae_stmt \<Rightarrow> dae_stmt option" where
  "send_pieces wchar long_used [] S = Some S"
| "send_pieces wchar long_used (b # bs) S =
    (case MADB_StmtPutData wchar long_used True (Some b) (int (length b)) S of
       None \<Rightarrow> None
     | Some (ret, S1) \<Rightarrow> if ret = SQL_SUCCESS then send_pieces wchar long_used bs S1 else None)"

text \<open>Parameter \<open>i\<close> has been asked for, has a character or binary type, and its data so far is \<open>sent\<close>.\<close>

definition takes_data :: "int \<Rightarrow> dae_stmt \<Rightarrow> bool" where
  "takes_data i S \<longleftrightarrow> 0 \<le> i \<and> i \<le> 32767 \<and> p_PutParam (e_main S) = i \<and> e_text_protocol S
     \<and> h_ArraySize (d_Header (p_Apd (dae_target S))) \<le> 1
     \<and> (case record_at (p_Apd (dae_target S)) i of None \<Rightarrow> False
         | Some r \<Rightarrow> is_char_type (r_ConciseType r) \<and> r_ConciseType r \<noteq> SQL_C_WCHAR)"

definition holds_data :: "int \<Rightarrow> buffer \<Rightarrow> dae_stmt \<Rightarrow> bool" where
  "holds_data i sent S \<longleftrightarrow>
     (case record_at (p_Ipd (dae_target S)) i of None \<Rightarrow> False
      | Some r \<Rightarrow> r_InternalLength r = int (length sent) \<and> r_OctetLength r = int (length sent)
          \<and> e_blocks S (r_DataPtr r) = Some (sent @ [NUL]))"

definition no_data :: "int \<Rightarrow> dae_stmt \<Rightarrow> bool" where
  "no_data i S \<longleftrightarrow>
     (case record_at (p_Ipd (dae_target S)) i of None \<Rightarrow> False | Some r \<Rightarrow> r_InternalLength r = 0)"

lemma set_target_twice:
  "set_target p ((set_target q S)\<lparr>e_blocks := B, e_next_block := n\<rparr>) =
   set_target p (S\<lparr>e_blocks := B, e_next_block := n\<rparr>)"
  by (simp add: set_target_def)

lemma PutData_stores:
  assumes "takes_data i S0" "holds_data i sent S0 \<or> sent = [] \<and> no_data i S0"
    and "length sent + length b < 2 ^ 63"
  shows "\<exists>S1. MADB_StmtPutData wchar long_used True (Some b) (int (length b)) S0 = Some (SQL_SUCCESS, S1)
    \<and> takes_data i S1 \<and> holds_data i (sent @ b) S1"
proof -
  define S where "S = S0\<lparr>e_main := (e_main S0)\<lparr>p_Error := MADB_CLEAR_ERROR (p_Error (e_main S0))\<rparr>\<rparr>"
  obtain a where a: "record_at (p_Apd (dae_target S)) i = Some a" "is_char_type (r_ConciseType a)" "r_ConciseType a \<noteq> SQL_C_WCHAR"
    using assms(1) by (auto simp: takes_data_def S_def split: option.splits)
  obtain r where r: "record_at (p_Ipd (dae_target S)) i = Some r" "r_InternalLength r = int (length sent)"
    "sent = [] \<or> e_blocks S (r_DataPtr r) = Some (sent @ [NUL])"
    using assms(2) by (auto simp: holds_data_def no_data_def S_def split: option.splits)
  have i: "0 \<le> i" "s16 (p_PutParam (e_main S)) = i" "e_text_protocol S" "h_ArraySize (d_Header (p_Apd (dae_target S))) \<le> 1"
    using assms(1) by (simp_all add: takes_data_def S_def cast_simps)
  define d where "d = raise_count (i + 1) (p_Apd (dae_target S))"
  define e where "e = raise_count (i + 1) (p_Ipd (dae_target S))"
  have g: "MADB_DescGetInternalRecord (p_Apd (dae_target S)) i True (e_heap S) = (True, d, e_heap S)"
    "MADB_DescGetInternalRecord (p_Ipd (dae_target S)) i False (e_heap S) = (True, e, e_heap S)"
    using GetInternalRecord_present i(1) a(1) r(1) by (auto simp: d_def e_def record_at_def split: if_splits)
  have at: "record_at d i = Some a" "record_at e i = Some r" "h_ArraySize (d_Header d) \<le> 1"
    using a(1) r(1) i(4) by (auto simp: d_def e_def raise_count_def record_at_def split: if_splits)
  define S1 where "S1 = set_target ((dae_target S)\<lparr>p_Apd := d\<rparr>) S"
  have S1: "dae_target S1 = (dae_target S)\<lparr>p_Apd := d\<rparr>" "e_heap S1 = e_heap S" "e_blocks S1 = e_blocks S"
    "e_text_protocol S1" "p_PutParam (e_main S1) = p_PutParam (e_main S)"
    using i(3) by (simp_all add: S1_def target_PutParam)
  have p: "piece_of wchar (r_ConciseType a) (Some b) (int (length b)) = Some (Some b)"
    using a(3) by (simp add: piece_of_def)
  have put: "MADB_StmtPutData wchar long_used True (Some b) (int (length b)) S0 = store_piece True True i b S1"
    unfolding MADB_StmtPutData_def Let_def S_def [symmetric] i(2) g
    using at(1,3) a(2) p S1(4) by (simp add: S1_def)
  define n where "n = int (length sent) + int (length b)"
  have n: "u64 n = n" "s64 n = n" using assms(3) by (simp_all add: n_def cast_simps)
  define r1 where "r1 = r\<lparr>r_DataPtr := e_next_block S1, r_InternalLength := n, r_OctetLength := n\<rparr>"
  define B where "B = (if sent = [] then e_blocks S1 else (e_blocks S1)(r_DataPtr r := None))"
  define S2 where "S2 = set_target ((dae_target S1)\<lparr>p_Ipd := set_record e i r1\<rparr>)
     (S1\<lparr>e_blocks := B(e_next_block S1 \<mapsto> sent @ b @ [NUL]), e_next_block := e_next_block S1 + 1\<rparr>)"
  have g1: "MADB_DescGetInternalRecord (p_Ipd (dae_target S1)) i False (e_heap S1) = (True, e, e_heap S1)"
    using g(2) by (simp add: S1)
  have st: "store_piece True True i b S1 = Some (SQL_SUCCESS, S2)"
    using r(2,3) n at(2) S1(3) unfolding store_piece_def g1
    by (cases "sent = []") (simp_all add: S2_def r1_def B_def n_def Let_def set_target_twice)
  have "takes_data i S2"
    using assms(1) at(1,3) a i(3) S1 by (simp add: takes_data_def S2_def target_PutParam S_def)
  moreover have "record_at (set_record e i r1) i = Some r1"
    using at(2) by (auto simp: record_at_def set_record_def split: if_splits)
  then have "holds_data i (sent @ b) S2" by (simp add: holds_data_def S2_def r1_def n_def)
  ultimately show ?thesis using put st by simp
qed

lemma send_pieces_holds:
  "takes_data i S \<Longrightarrow> holds_data i sent S \<Longrightarrow> length sent + length (concat bs) < 2 ^ 63 \<Longrightarrow>
   \<exists>S1. send_pieces wchar long_used bs S = Some S1 \<and> holds_data i (sent @ concat bs) S1"
proof (induction bs arbitrary: S sent)
  case (Cons b bs)
  obtain S1 where "MADB_StmtPutData wchar long_used True (Some b) (int (length b)) S = Some (SQL_SUCCESS, S1)"
    "takes_data i S1" "holds_data i (sent @ b) S1"
    using PutData_stores [OF Cons.prems(1), of sent b wchar long_used] Cons.prems(2,3) by auto
  then show ?case using Cons.IH [of S1 "sent @ b"] Cons.prems(3) by simp
qed simp

text \<open>
  C23.  Pieces are concatenated.  After the pieces of a character or binary parameter have been sent one by one,
  the block kept with its implementation parameter record holds them one behind the other and a terminating
  zero, and the record gives their total length.
\<close>

theorem PutData_concatenates:
  assumes "takes_data i S" "no_data i S" "bs \<noteq> []" "length (concat bs) < 2 ^ 63"
  shows "\<exists>S1. send_pieces wchar long_used bs S = Some S1 \<and> holds_data i (concat bs) S1"
proof -
  obtain b bs1 where bs: "bs = b # bs1" using assms(3) by (cases bs) auto
  obtain S1 where "MADB_StmtPutData wchar long_used True (Some b) (int (length b)) S = Some (SQL_SUCCESS, S1)"
    "takes_data i S1" "holds_data i b S1"
    using PutData_stores [OF assms(1), of "[]" b wchar long_used] assms(2,4) bs by auto
  then show ?thesis using send_pieces_holds [of i S1 b bs1 wchar long_used] assms(4) bs by simp
qed

section \<open>A statement with three parameters\<close>

text \<open>The first and the third are sent at execution time; their length indicators are at 100 and 116.\<close>

definition sample_mem :: "int \<Rightarrow> int" where
  "sample_mem a = (if a = 100 then SQL_DATA_AT_EXEC else if a = 116 then - 105 else 4)"

definition sample_apd :: MADB_Desc where
  "sample_apd = (the (fst (MADB_DescInit ''[x]'' None (True, True, True) MADB_DESC_APD False 3 sample_owner)))\<lparr>d_Records :=
     [zero_record\<lparr>r_ConciseType := SQL_C_CHAR, r_OctetLengthPtr := 100, r_DataPtr := 1000\<rparr>,
      zero_record\<lparr>r_ConciseType := SQL_C_CHAR, r_OctetLengthPtr := 108, r_DataPtr := 2000\<rparr>,
      zero_record\<lparr>r_ConciseType := SQL_C_CHAR, r_OctetLengthPtr := 116, r_DataPtr := 3000\<rparr>]\<rparr>"

definition sample_ipd :: MADB_Desc where
  "sample_ipd = (the (fst (MADB_DescInit ''[x]'' None (True, True, True) MADB_DESC_IPD False 4 sample_owner)))\<lparr>d_Records :=
     [zero_record, zero_record, zero_record]\<rparr>"

definition sample_dae :: "int \<Rightarrow> dae_stmt" where
  "sample_dae k =
    (let p = \<lparr>p_ParamCount = 3, p_Status = 0, p_PutParam = k, p_Apd = sample_apd, p_Ipd = sample_ipd,
              p_Error = d_Error sample_apd\<rparr>
     in \<lparr>e_main = p, e_dae = p, e_DataExecutionType = MADB_DAE_NORMAL, e_DaeRowNumber = 0, e_text_protocol = True,
         e_heap = sample_heap, e_blocks = (\<lambda>a. None), e_next_block = 5000\<rparr>)"

definition sample_calls :: "dae_call list" where
  "sample_calls =
    [Param_Data, Put_Data (\<lambda>b n. None) (\<lambda>i. False) True (Some ''ab'') 2,
     Put_Data (\<lambda>b n. None) (\<lambda>i. False) True (Some ''c'') 1, Param_Data, Param_Data]"


theorem PutData_concatenates_witness:
  "takes_data 2 (sample_dae 2) \<and> no_data 2 (sample_dae 2)
   \<and> (\<exists>S1. send_pieces (\<lambda>b n. None) (\<lambda>i. False) [''ab'', '''', ''cde''] (sample_dae 2) = Some S1
        \<and> holds_data 2 ''abcde'' S1)"
proof -
  have t: "takes_data 2 (sample_dae 2)" by code_simp
  have n: "no_data 2 (sample_dae 2)" by code_simp
  show ?thesis
    using PutData_concatenates [OF t n, of "[''ab'', '''', ''cde'']" "\<lambda>b n. None" "\<lambda>i. False"] t n by simp
qed

end
