(* ===== verification/Stmt_Bind.thy ===== *)
theory Stmt_Bind
  imports Stmt_Dae
begin

text \<open>
  Binding of columns and parameters (\<open>src/ma_statement.c\<close>: \<open>MADB_StmtBindCol\<close>, \<open>MADB_StmtBindParam\<close>), on top of
  the descriptors of the statement, and what it means for the parameters sent at execution time.
\<close>

section \<open>The operations\<close>

abbreviation (input) SQL_INTERVAL_SECOND :: int where "SQL_INTERVAL_SECOND \<equiv> 106"
abbreviation (input) SQL_INTERVAL_DAY_TO_SECOND :: int where "SQL_INTERVAL_DAY_TO_SECOND \<equiv> 110"
abbreviation (input) SQL_INTERVAL_HOUR_TO_SECOND :: int where "SQL_INTERVAL_HOUR_TO_SECOND \<equiv> 112"
abbreviation (input) SQL_INTERVAL_MINUTE_TO_SECOND :: int where "SQL_INTERVAL_MINUTE_TO_SECOND \<equiv> 113"

record bound_stmt =
  b_stmt :: dae_stmt
  b_Ard :: MADB_Desc
  b_UseBookmarks :: int
  b_BookmarkPtr :: int
  b_BookmarkLength :: int
  b_BookmarkType :: int
  b_field_count :: int
  b_executed :: bool
  b_RebindParams :: bool

definition bound_error :: "MADB_Error \<Rightarrow> bound_stmt \<Rightarrow> bound_stmt" where
  "bound_error e S = S\<lparr>b_stmt := (b_stmt S)\<lparr>e_main := (e_main (b_stmt S))\<lparr>p_Error := e\<rparr>\<rparr>\<rparr>"

definition the_error :: "bound_stmt \<Rightarrow> MADB_Error" where
  "the_error S = p_Error (e_main (b_stmt S))"

definition bind_error :: "string \<Rightarrow> bound_stmt \<Rightarrow> bound_stmt" where
  "bind_error code S = bound_error (snd (MADB_SetError (the_error S) (MADB_ERR code) None 0)) S"

definition copy_desc_error :: "MADB_Desc \<Rightarrow> bound_stmt \<Rightarrow> int \<times> bound_stmt" where
  "copy_desc_error d S =
    (let S1 = bound_error (MADB_CopyError (the_error S) (d_Error d)) S in (ReturnValue (the_error S1), S1))"

definition set_ard :: "MADB_Desc \<Rightarrow> heap \<Rightarrow> bound_stmt \<Rightarrow> bound_stmt" where
  "set_ard d H S = S\<lparr>b_Ard := d, b_stmt := (b_stmt S)\<lparr>e_heap := H\<rparr>\<rparr>"

definition set_apd :: "MADB_Desc \<Rightarrow> heap \<Rightarrow> bound_stmt \<Rightarrow> bound_stmt" where
  "set_apd d H S =
    S\<lparr>b_stmt := (b_stmt S)\<lparr>e_main := (e_main (b_stmt S))\<lparr>p_Apd := d\<rparr>, e_heap := H\<rparr>\<rparr>"

definition set_ipd :: "MADB_Desc \<Rightarrow> heap \<Rightarrow> bound_stmt \<Rightarrow> bound_stmt" where
  "set_ipd d H S =
    S\<lparr>b_stmt := (b_stmt S)\<lparr>e_main := (e_main (b_stmt S))\<lparr>p_Ipd := d\<rparr>, e_heap := H\<rparr>\<rparr>"

text \<open>Calls of \<open>MADB_DescSetField\<close> one after the other, up to the first that fails.\<close>

fun set_fields :: "MADB_Desc \<Rightarrow> int \<Rightarrow> (int \<times> int) list \<Rightarrow> heap \<Rightarrow> (int \<times> MADB_Desc \<times> heap) option" where
  "set_fields d n [] H = Some (SQL_SUCCESS, d, H)"
| "set_fields d n ((fld, v) # fs) H =
    (case MADB_DescSetField d n fld (u64 v) H of
       None \<Rightarrow> None
     | Some (ret, d1, H1) \<Rightarrow> if succeeded ret then set_fields d1 n fs H1 else Some (ret, d1, H1))"

text \<open>The loop that looks for the last column still bound, among the first \<open>k\<close>.\<close>

fun last_used :: "nat \<Rightarrow> MADB_Desc \<Rightarrow> heap \<Rightarrow> (int \<times> MADB_Desc \<times> heap) option" where
  "last_used 0 d H = Some (0, d, H)"
| "last_used (Suc k) d H =
    (case MADB_DescGetInternalRecord d (s16 (int k)) True H of
       (found, d1, H1) \<Rightarrow>
         if found then
           (case record_at d1 (s16 (int k)) of
              None \<Rightarrow> None
            | Some r \<Rightarrow> if r_inUse r then Some (int (Suc k), d1, H1) else last_used k d1 H1)
         else last_used k d1 H1)"

definition unbind_column :: "int \<Rightarrow> MADB_Desc \<Rightarrow> heap \<Rightarrow> (MADB_Desc \<times> heap) option" where
  "unbind_column i d H =
    (case record_at d i of
       None \<Rightarrow> None
     | Some r \<Rightarrow>
         (let d1 = set_record d i (r\<lparr>r_inUse := False\<rparr>)
          in case last_used (length (d_Records d1)) d1 H of
               None \<Rightarrow> None
             | Some (n, d2, H2) \<Rightarrow> Some (d2\<lparr>d_Header := (d_Header d2)\<lparr>h_Count := s16 n\<rparr>\<rparr>, H2)))"

definition col_fields :: "int \<Rightarrow> int \<Rightarrow> int \<Rightarrow> int \<Rightarrow> (int \<times> int) list" where
  "col_fields TargetType TargetValuePtr BufferLength StrLen_or_Ind =
    [(SQL_DESC_TYPE, TargetType), (SQL_DESC_OCTET_LENGTH_PTR, StrLen_or_Ind), (SQL_DESC_INDICATOR_PTR, StrLen_or_Ind),
     (SQL_DESC_OCTET_LENGTH, MADB_GetTypeLength TargetType BufferLength), (SQL_DESC_DATA_PTR, TargetValuePtr)]"

definition MADB_StmtBindCol ::
  "int \<Rightarrow> int \<Rightarrow> int \<Rightarrow> int \<Rightarrow> int \<Rightarrow> int \<Rightarrow> bound_stmt \<Rightarrow> (int \<times> bound_stmt) option" where
  "MADB_StmtBindCol SQL_C_BOOKMARK ColumnNumber TargetType TargetValuePtr BufferLength StrLen_or_Ind S =
    (if ColumnNumber < 1 \<and> b_UseBookmarks S = SQL_UB_OFF \<or>
        b_field_count S \<noteq> 0 \<and> b_executed S \<and> ColumnNumber > b_field_count S
     then Some (SQL_ERROR, bind_error ''07009'' S)
     else if ColumnNumber = 0 then
       (if TargetType = SQL_C_BOOKMARK \<or> TargetType = SQL_C_VARBOOKMARK
        then Some (SQL_SUCCESS, S\<lparr>b_BookmarkPtr := TargetValuePtr, b_BookmarkLength := BufferLength,
                                  b_BookmarkType := TargetType\<rparr>)
        else (let S1 = bind_error ''07006'' S in Some (ReturnValue (the_error S1), S1)))
     else
       (case MADB_DescGetInternalRecord (b_Ard S) (s16 (ColumnNumber - 1)) False (e_heap (b_stmt S)) of
          (found, d, H) \<Rightarrow>
            if \<not> found then Some (copy_desc_error d (set_ard d H S))
            else if TargetValuePtr = 0 \<and> StrLen_or_Ind = 0 then
              (case unbind_column (s16 (ColumnNumber - 1)) d H of
                 None \<Rightarrow> None
               | Some (d1, H1) \<Rightarrow> Some (SQL_SUCCESS, set_ard d1 H1 S))
            else
              (case set_fields d (s16 ColumnNumber) (col_fields TargetType TargetValuePtr BufferLength StrLen_or_Ind) H of
                 None \<Rightarrow> None
               | Some (ret, d1, H1) \<Rightarrow>
                   if succeeded ret then Some (SQL_SUCCESS, set_ard d1 H1 S)
                   else Some (copy_desc_error d1 (set_ard d1 H1 S)))))"

text \<open>The fields set for a parameter, by its SQL type.\<close>

definition apd_fields :: "int \<Rightarrow> int \<Rightarrow> int \<Rightarrow> int \<Rightarrow> (int \<times> int) list" where
  "apd_fields ValueType ParameterValuePtr BufferLength StrLen_or_IndPtr =
    [(SQL_DESC_CONCISE_TYPE, ValueType), (SQL_DESC_OCTET_LENGTH_PTR, StrLen_or_IndPtr),
     (SQL_DESC_OCTET_LENGTH, MADB_GetTypeLength ValueType BufferLength), (SQL_DESC_INDICATOR_PTR, StrLen_or_IndPtr),
     (SQL_DESC_DATA_PTR, ParameterValuePtr)]"

definition size_fields :: "int \<Rightarrow> int \<Rightarrow> int \<Rightarrow> (int \<times> int) list" where
  "size_fields ParameterType ColumnSize DecimalDigits =
    (if ParameterType \<in> {SQL_BINARY, SQL_VARBINARY, SQL_LONGVARBINARY, SQL_CHAR, SQL_VARCHAR, SQL_LONGVARCHAR,
                         SQL_WCHAR, SQL_WLONGVARCHAR, SQL_WVARCHAR} then [(SQL_DESC_LENGTH, ColumnSize)]
     else if ParameterType \<in> {SQL_FLOAT, SQL_REAL, SQL_DOUBLE} then [(SQL_DESC_PRECISION, ColumnSize)]
     else if ParameterType \<in> {SQL_DECIMAL, SQL_NUMERIC}
     then [(SQL_DESC_PRECISION, ColumnSize), (SQL_DESC_SCALE, DecimalDigits)]
     else if ParameterType \<in> {SQL_INTERVAL_MINUTE_TO_SECOND, SQL_INTERVAL_HOUR_TO_SECOND, SQL_INTERVAL_DAY_TO_SECOND,
                              SQL_INTERVAL_SECOND, SQL_TYPE_TIMESTAMP, SQL_TYPE_TIME}
     then [(SQL_DESC_PRECISION, DecimalDigits)]
     else [])"

text \<open>The data kept for a parameter sent at execution time is released when the parameter is bound anew.\<close>

definition release_dae :: "int \<Rightarrow> MADB_DescRecord \<Rightarrow> bound_stmt \<Rightarrow> bound_stmt" where
  "release_dae i r S =
    (if r_DataPtr r = 0 then S
     else S\<lparr>b_stmt := (b_stmt S)\<lparr>
              e_main := (e_main (b_stmt S))\<lparr>p_Ipd := set_record (p_Ipd (e_main (b_stmt S))) i (free_dae_record r)\<rparr>,
              e_blocks := (e_blocks (b_stmt S))(r_DataPtr r := None)\<rparr>\<rparr>)"

text \<open>Whether all fields were set; otherwise the error of the descriptor is that of the statement.\<close>

definition bind_apd :: "int \<Rightarrow> (int \<times> int) list \<Rightarrow> bound_stmt \<Rightarrow> (bool \<times> bound_stmt) option" where
  "bind_apd n fs S =
    (case set_fields (p_Apd (e_main (b_stmt S))) n fs (e_heap (b_stmt S)) of
       None \<Rightarrow> None
     | Some (ret, d, H) \<Rightarrow>
         Some (succeeded ret, if succeeded ret then set_apd d H S else snd (copy_desc_error d (set_apd d H S))))"

definition bind_ipd :: "int \<Rightarrow> (int \<times> int) list \<Rightarrow> bound_stmt \<Rightarrow> (int \<times> bound_stmt) option" where
  "bind_ipd n fs S =
    (case set_fields (p_Ipd (e_main (b_stmt S))) n fs (e_heap (b_stmt S)) of
       None \<Rightarrow> None
     | Some (ret, d, H) \<Rightarrow>
         Some (ret, if succeeded ret then set_ipd d H S else snd (copy_desc_error d (set_ipd d H S))))"

definition value_type :: "int \<Rightarrow> int \<Rightarrow> int" where
  "value_type ValueType ParameterType =
    (if ValueType = SQL_C_DEFAULT then MADB_GetDefaultType ParameterType else ValueType)"

text \<open>The part of \<open>MADB_StmtBindParam\<close> after both records have been found.\<close>

definition bind_records ::
  "int \<Rightarrow> int \<Rightarrow> int \<Rightarrow> int \<Rightarrow> int \<Rightarrow> int \<Rightarrow> int \<Rightarrow> int \<Rightarrow> int \<Rightarrow> bound_stmt \<Rightarrow> (int \<times> bound_stmt) option" where
  "bind_records n InputOutputType ValueType ParameterType ColumnSize DecimalDigits ParameterValuePtr BufferLength
     StrLen_or_IndPtr S =
    (case bind_apd n (apd_fields (value_type ValueType ParameterType) ParameterValuePtr BufferLength StrLen_or_IndPtr) S of
       None \<Rightarrow> None
     | Some (False, S1) \<Rightarrow> Some (ReturnValue (the_error S1), S1)
     | Some (True, S1) \<Rightarrow>
         (case bind_ipd n [(SQL_DESC_CONCISE_TYPE, ParameterType), (SQL_DESC_PARAMETER_TYPE, InputOutputType)] S1 of
            None \<Rightarrow> None
          | Some (ret, S2) \<Rightarrow>
              if \<not> succeeded ret then Some (ReturnValue (the_error S2), S2)
              else
                (case bind_ipd n (size_fields ParameterType ColumnSize DecimalDigits) S2 of
                   None \<Rightarrow> None
                 | Some (ret1, S3) \<Rightarrow> Some (ret1, S3\<lparr>b_RebindParams := True\<rparr>))))"

definition MADB_StmtBindParam ::
  "int \<Rightarrow> int \<Rightarrow> int \<Rightarrow> int \<Rightarrow> int \<Rightarrow> int \<Rightarrow> int \<Rightarrow> int \<Rightarrow> int \<Rightarrow> bound_stmt \<Rightarrow> (int \<times> bound_stmt) option" where
  "MADB_StmtBindParam ParameterNumber InputOutputType ValueType ParameterType ColumnSize DecimalDigits
     ParameterValuePtr BufferLength StrLen_or_IndPtr S0 =
    (let S = bound_error (MADB_CLEAR_ERROR (the_error S0)) S0; i = s16 (ParameterNumber - 1)
     in case MADB_DescGetInternalRecord (p_Apd (e_main (b_stmt S))) i False (e_heap (b_stmt S)) of
          (found, d, H) \<Rightarrow>
            if \<not> found then Some (copy_desc_error d (set_apd d H S))
            else
              (case MADB_DescGetInternalRecord (p_Ipd (e_main (b_stmt S))) i False H of
                 (found1, d1, H1) \<Rightarrow>
                   (let S1 = set_ipd d1 H1 (set_apd d H S)
                    in if \<not> found1 then Some (copy_desc_error d1 S1)
                       else
                         (case record_at d1 i of
                            None \<Rightarrow> None
                          | Some r \<Rightarrow>
                              bind_records (s16 ParameterNumber) InputOutputType ValueType ParameterType ColumnSize
                                DecimalDigits ParameterValuePtr BufferLength StrLen_or_IndPtr (release_dae i r S1)))))"

section \<open>What is bound\<close>

text \<open>What one call of \<open>MADB_DescSetField\<close> makes of the record.\<close>

definition put_field :: "enum_madb_desc_type \<Rightarrow> int \<times> int \<Rightarrow> MADB_DescRecord \<Rightarrow> MADB_DescRecord" where
  "put_field t fv r = mark_used (unbind t (fst fv) (set_record_field (fst fv) (u64 (snd fv)) r))"

definition settable :: "enum_madb_desc_type \<Rightarrow> int \<Rightarrow> bool" where
  "settable t fld \<longleftrightarrow> writable t fld \<and> fld \<noteq> SQL_DESC_UNNAMED
     \<and> fld \<notin> {SQL_DESC_ARRAY_SIZE, SQL_DESC_ARRAY_STATUS_PTR, SQL_DESC_BIND_OFFSET_PTR, SQL_DESC_BIND_TYPE,
               SQL_DESC_COUNT, SQL_DESC_ROWS_PROCESSED_PTR}"

lemma SetField_present:
  assumes "settable (d_DescType d) fld" "0 \<le> i" "nat i < length (d_Records d)"
  shows "MADB_DescSetField d (i + 1) fld (u64 v) H =
    Some (SQL_SUCCESS, set_record (raise_count (i + 1) (clear_error d)) i
                         (put_field (d_DescType d) (fld, v) (d_Records d ! nat i)), H)"
proof -
  have h: "set_header_field fld x h = None" for x h using assms(1) by (simp add: settable_def set_header_field_def)
  have g: "MADB_DescGetInternalRecord (clear_error d) i False H = (True, raise_count (i + 1) (clear_error d), H)"
    using GetInternalRecord_present [of i "clear_error d"] assms(2,3) by simp
  have "record_at (raise_count (i + 1) (clear_error d)) i = Some (d_Records d ! nat i)"
    using assms(2,3) by (simp add: record_at_def)
  then show ?thesis using assms(1,2) h g
    by (simp add: SetField_writable settable_def set_in_record_def put_field_def)
qed

lemma set_fields_present:
  assumes "\<forall>f \<in> set fs. settable (d_DescType d) (fst f)" "0 \<le> i" "nat i < length (d_Records d)"
  shows "\<exists>d1. set_fields d (i + 1) fs H = Some (SQL_SUCCESS, d1, H) \<and> d_DescType d1 = d_DescType d
    \<and> d_Records d1 = (d_Records d)[nat i := fold (put_field (d_DescType d)) fs (d_Records d ! nat i)]
    \<and> h_BindOffsetPtr (d_Header d1) = h_BindOffsetPtr (d_Header d) \<and> h_BindType (d_Header d1) = h_BindType (d_Header d)
    \<and> (i \<le> 32766 \<longrightarrow> h_Count (d_Header d) \<le> h_Count (d_Header d1))"
  using assms
proof (induction fs arbitrary: d)
  case (Cons f fs)
  define d1 where "d1 = set_record (raise_count (i + 1) (clear_error d)) i (put_field (d_DescType d) f (d_Records d ! nat i))"
  have s: "MADB_DescSetField d (i + 1) (fst f) (u64 (snd f)) H = Some (SQL_SUCCESS, d1, H)"
    using SetField_present [of d "fst f" i "snd f" H] Cons.prems by (simp add: d1_def)
  have d1: "d_DescType d1 = d_DescType d" "h_BindOffsetPtr (d_Header d1) = h_BindOffsetPtr (d_Header d)"
    "h_BindType (d_Header d1) = h_BindType (d_Header d)"
    "d_Records d1 = (d_Records d)[nat i := put_field (d_DescType d) f (d_Records d ! nat i)]"
    by (simp_all add: d1_def set_record_def raise_count_def)
  moreover have "i \<le> 32766 \<longrightarrow> h_Count (d_Header d) \<le> h_Count (d_Header d1)"
    using Cons.prems(2) by (auto simp: d1_def set_record_def raise_count_def cast_simps)
  ultimately show ?case using Cons.IH [of d1] s Cons.prems by (cases f) (auto simp: succeeded_def)
qed simp

text \<open>Asking for a record to write gives one, behind the others if it is new.\<close>

lemma GetInternalRecord_write:
  assumes "\<forall>n. hp_grow H n" "0 \<le> i" "i \<le> 32766"
  obtains d1 H1 where "MADB_DescGetInternalRecord d i False H = (True, d1, H1)" "\<forall>n. hp_grow H1 n"
    "d_DescType d1 = d_DescType d" "nat i < length (d_Records d1)" "view d1 = view d"
    "take (length (d_Records d)) (d_Records d1) = d_Records d" "i + 1 \<le> h_Count (d_Header d1)"
    "length (d_Records d1) = max (length (d_Records d)) (nat (i + 1))"
proof -
  obtain d1 H1 where g: "grow_records (nat (i + 1) - length (d_Records d)) d H = (True, d1, H1)"
    "\<forall>n. hp_grow H1 n" "d_DescType d1 = d_DescType d" using grow_records_found [OF assms(1)] by metis
  then have r: "MADB_DescGetInternalRecord d i False H = (True, raise_count (i + 1) d1, H1)"
    by (simp add: MADB_DescGetInternalRecord_def)
  have l: "length (d_Records d1) = length (d_Records d) + (nat (i + 1) - length (d_Records d))"
    using grow_records_length [OF g(1)] by simp
  obtain rs where "d_Records d1 = d_Records d @ rs" using grow_records_appends [OF g(1)] by blast
  then show ?thesis using that [OF r] g(2,3) l GetInternalRecord_view [OF r] assms(2,3)
    by (simp add: raise_count_def cast_simps nat_add_distrib)
qed

lemma last_used_highest:
  assumes "k \<le> length (d_Records d)" "k \<le> 32767"
  shows "\<exists>n d1. last_used k d H = Some (int n, d1, H) \<and> d_Records d1 = d_Records d \<and> d_DescType d1 = d_DescType d
    \<and> n \<le> k \<and> (n = 0 \<or> r_inUse (d_Records d ! (n - 1))) \<and> (\<forall>j. n \<le> j \<and> j < k \<longrightarrow> \<not> r_inUse (d_Records d ! j))"
  using assms
proof (induction k arbitrary: d)
  case (Suc k)
  define d1 where "d1 = raise_count (int k + 1) d"
  have k: "s16 (int k) = int k" using Suc.prems(2) by (simp add: cast_simps)
  have g: "MADB_DescGetInternalRecord d (int k) True H = (True, d1, H)"
    using GetInternalRecord_present [of "int k" d] Suc.prems(1) by (simp add: d1_def)
  have r: "record_at d1 (int k) = Some (d_Records d ! k)" "d_Records d1 = d_Records d" "d_DescType d1 = d_DescType d"
    using Suc.prems(1) by (simp_all add: d1_def record_at_def)
  show ?case
  proof (cases "r_inUse (d_Records d ! k)")
    case True
    then have "last_used (Suc k) d H = Some (int (Suc k), d1, H)" using k g r by simp
    then show ?thesis using True r by (intro exI [of _ "Suc k"] exI [of _ d1]) auto
  next
    case False
    then have "last_used (Suc k) d H = last_used k d1 H" using k g r by simp
    moreover obtain n d2 where "last_used k d1 H = Some (int n, d2, H)" "d_Records d2 = d_Records d"
      "d_DescType d2 = d_DescType d" "n \<le> k" "n = 0 \<or> r_inUse (d_Records d ! (n - 1))"
      "\<forall>j. n \<le> j \<and> j < k \<longrightarrow> \<not> r_inUse (d_Records d ! j)"
      using Suc.IH [of d1] Suc.prems r by auto
    ultimately show ?thesis using False by (intro exI [of _ n] exI [of _ d2]) (auto simp: less_Suc_eq)
  qed
qed simp

section \<open>Columns\<close>

text \<open>Any use of a record of the row descriptor that is not yet there makes it.\<close>

definition bindable :: "int \<Rightarrow> bound_stmt \<Rightarrow> bool" where
  "bindable n S \<longleftrightarrow> 1 \<le> n \<and> n \<le> 32767 \<and> \<not> (b_field_count S \<noteq> 0 \<and> b_executed S \<and> n > b_field_count S)
     \<and> d_DescType (b_Ard S) = MADB_DESC_ARD \<and> (\<forall>k. hp_grow (e_heap (b_stmt S)) k)"

lemma ard_settable:
  "\<forall>f \<in> set (col_fields t p len ind). settable MADB_DESC_ARD (fst f)"
proof -
  have "settable MADB_DESC_ARD SQL_DESC_TYPE" "settable MADB_DESC_ARD SQL_DESC_OCTET_LENGTH_PTR"
    "settable MADB_DESC_ARD SQL_DESC_INDICATOR_PTR" "settable MADB_DESC_ARD SQL_DESC_OCTET_LENGTH"
    "settable MADB_DESC_ARD SQL_DESC_DATA_PTR" by code_simp+
  then show ?thesis by (simp add: col_fields_def)
qed

definition column_bound :: "int \<Rightarrow> int \<Rightarrow> int \<Rightarrow> int \<Rightarrow> MADB_DescRecord \<Rightarrow> bool" where
  "column_bound t p len ind r \<longleftrightarrow> r_Type r = t \<and> r_ConciseType r = t \<and> r_DataPtr r = p
     \<and> r_OctetLength r = MADB_GetTypeLength t len \<and> r_OctetLengthPtr r = ind \<and> r_IndicatorPtr r = ind \<and> r_inUse r"

lemma mark_used_members [simp]:
  "r_Type (mark_used r) = r_Type r" "r_ConciseType (mark_used r) = r_ConciseType r" "r_DataPtr (mark_used r) = r_DataPtr r"
  "r_OctetLength (mark_used r) = r_OctetLength r" "r_OctetLengthPtr (mark_used r) = r_OctetLengthPtr r"
  "r_IndicatorPtr (mark_used r) = r_IndicatorPtr r" "r_ParameterType (mark_used r) = r_ParameterType r"
  "r_DescLength (mark_used r) = r_DescLength r" "r_Precision (mark_used r) = r_Precision r"
  "r_Scale (mark_used r) = r_Scale r"
  "r_inUse (mark_used r) \<longleftrightarrow> r_inUse r \<or> r_DataPtr r \<noteq> 0 \<or> r_OctetLengthPtr r \<noteq> 0 \<or> r_IndicatorPtr r \<noteq> 0"
  by (simp_all add: mark_used_def)

lemma unbind_members [simp]:
  "r_Type (unbind t f r) = r_Type r" "r_ConciseType (unbind t f r) = r_ConciseType r"
  "r_OctetLength (unbind t f r) = r_OctetLength r" "r_OctetLengthPtr (unbind t f r) = r_OctetLengthPtr r"
  "r_IndicatorPtr (unbind t f r) = r_IndicatorPtr r" "r_ParameterType (unbind t f r) = r_ParameterType r"
  "r_DescLength (unbind t f r) = r_DescLength r" "r_Precision (unbind t f r) = r_Precision r"
  "r_Scale (unbind t f r) = r_Scale r"
  "unbind t SQL_DESC_DATA_PTR r = r"
  by (simp_all add: unbind_def)

lemmas put_field_simps = u64_casts put_field_def set_record_field_def if_distrib [of r_Type] if_distrib [of r_ConciseType]
  if_distrib [of r_OctetLength] if_distrib [of r_OctetLengthPtr] if_distrib [of r_IndicatorPtr] if_distrib [of r_DataPtr]
  if_distrib [of r_ParameterType]

lemma col_fields_bound:
  assumes "in_bits 16 t" "in_bits 64 (MADB_GetTypeLength t len)" "in_ubits 64 p" "in_ubits 64 ind" "p \<noteq> 0 \<or> ind \<noteq> 0"
  shows "column_bound t p len ind (fold (put_field MADB_DESC_ARD) (col_fields t p len ind) r)"
proof -
  have c: "s16 t = t" "s64 (MADB_GetTypeLength t len) = MADB_GetTypeLength t len" "u64 p = p" "u64 ind = ind"
    using assms(1-4) by (simp_all add: in_bits_def in_ubits_def cast_simps)
  show ?thesis unfolding column_bound_def using assms(5)
    by (intro conjI) (auto simp: col_fields_def put_field_simps c)
qed

definition others_kept :: "int \<Rightarrow> MADB_Desc \<Rightarrow> MADB_Desc \<Rightarrow> bool" where
  "others_kept i d d1 \<longleftrightarrow> (\<forall>j. j \<noteq> i \<and> record_at d j \<noteq> None \<longrightarrow> record_at d1 j = record_at d j)"

lemma others_kept_update:
  assumes "take (length (d_Records d)) (d_Records d1) = d_Records d" "d_Records d2 = (d_Records d1)[nat i := r]" "0 \<le> i"
  shows "others_kept i d d2"
proof -
  have l: "length (d_Records d) \<le> length (d_Records d1)" using assms(1) by (metis length_take min.cobounded1)
  have "d_Records d1 ! nat j = d_Records d ! nat j" if "nat j < length (d_Records d)" for j
    using that assms(1) by (metis nth_take)
  then show ?thesis using assms(2,3) l by (auto simp: others_kept_def record_at_def split: if_splits)
qed

text \<open>The count is the number of the last column in use.\<close>

definition count_is_last_used :: "MADB_Desc \<Rightarrow> bool" where
  "count_is_last_used d \<longleftrightarrow>
     (let n = nat (h_Count (d_Header d))
      in 0 \<le> h_Count (d_Header d) \<and> n \<le> length (d_Records d) \<and> (n = 0 \<or> r_inUse (d_Records d ! (n - 1)))
         \<and> (\<forall>j. n \<le> j \<and> j < length (d_Records d) \<longrightarrow> \<not> r_inUse (d_Records d ! j)))"

lemma unbind_column_count:
  assumes "0 \<le> i" "nat i < length (d_Records d)" "length (d_Records d) \<le> 32767"
  shows "\<exists>d1. unbind_column i d H = Some (d1, H) \<and> count_is_last_used d1
    \<and> d_Records d1 = (d_Records d)[nat i := (d_Records d ! nat i)\<lparr>r_inUse := False\<rparr>]"
proof -
  define d0 where "d0 = set_record d i ((d_Records d ! nat i)\<lparr>r_inUse := False\<rparr>)"
  have d0: "d_Records d0 = (d_Records d)[nat i := (d_Records d ! nat i)\<lparr>r_inUse := False\<rparr>]"
    by (simp add: d0_def set_record_def)
  obtain n d1 where l: "last_used (length (d_Records d0)) d0 H = Some (int n, d1, H)" "d_Records d1 = d_Records d0"
    "n \<le> length (d_Records d0)" "n = 0 \<or> r_inUse (d_Records d0 ! (n - 1))"
    "\<forall>j. n \<le> j \<and> j < length (d_Records d0) \<longrightarrow> \<not> r_inUse (d_Records d0 ! j)"
    using last_used_highest [of "length (d_Records d0)" d0 H] assms(3) d0 by auto
  have n: "s16 (int n) = int n" using l(3) assms(3) d0 by (simp add: cast_simps)
  have "unbind_column i d H = Some (d1\<lparr>d_Header := (d_Header d1)\<lparr>h_Count := int n\<rparr>\<rparr>, H)"
    using assms(1,2) l(1) n by (simp add: unbind_column_def record_at_def d0_def)
  then show ?thesis using l d0 by (simp add: count_is_last_used_def)
qed

text \<open>
  C22.  Binding a column.  A call with a data pointer or a length pointer succeeds and the record of the
  column holds the type, both pointers and the length of the buffer, is in use, and is counted; the other
  records are as they were.  A call with neither unbinds the column: the record is no longer in use and
  the count is the number of the last column that is.
\<close>

theorem BindCol_binds:
  assumes "bindable n S" "in_bits 16 t" "in_bits 64 (MADB_GetTypeLength t len)" "in_ubits 64 p" "in_ubits 64 ind"
    and "length (d_Records (b_Ard S)) \<le> 32767"
  shows "\<exists>S1 r. MADB_StmtBindCol bm n t p len ind S = Some (SQL_SUCCESS, S1) \<and> record_at (b_Ard S1) (n - 1) = Some r
    \<and> others_kept (n - 1) (b_Ard S) (b_Ard S1)
    \<and> (if p = 0 \<and> ind = 0 then \<not> r_inUse r \<and> count_is_last_used (b_Ard S1)
       else column_bound t p len ind r \<and> n \<le> h_Count (d_Header (b_Ard S1)))"
proof -
  have n: "1 \<le> n" "n \<le> 32767" "s16 n = n" "s16 (n - 1) = n - 1" and b: "b_field_count S = 0 \<or> \<not> b_executed S \<or> n \<le> b_field_count S"
    and t: "d_DescType (b_Ard S) = MADB_DESC_ARD" and grow: "\<forall>k. hp_grow (e_heap (b_stmt S)) k"
    using assms(1) by (auto simp: bindable_def cast_simps)
  have i: "0 \<le> n - 1" "n - 1 \<le> 32766" using n by simp_all
  obtain d H where g: "MADB_DescGetInternalRecord (b_Ard S) (n - 1) False (e_heap (b_stmt S)) = (True, d, H)"
    "\<forall>k. hp_grow H k" "d_DescType d = d_DescType (b_Ard S)" "nat (n - 1) < length (d_Records d)" "view d = view (b_Ard S)"
    "take (length (d_Records (b_Ard S))) (d_Records d) = d_Records (b_Ard S)" "n - 1 + 1 \<le> h_Count (d_Header d)"
    "length (d_Records d) = max (length (d_Records (b_Ard S))) (nat (n - 1 + 1))"
    by (rule GetInternalRecord_write [OF grow i, of "b_Ard S"])
  have call: "MADB_StmtBindCol bm n t p len ind S =
      (if p = 0 \<and> ind = 0
       then (case unbind_column (n - 1) d H of None \<Rightarrow> None | Some (d1, H1) \<Rightarrow> Some (SQL_SUCCESS, set_ard d1 H1 S))
       else (case set_fields d n (col_fields t p len ind) H of None \<Rightarrow> None
             | Some (ret, d1, H1) \<Rightarrow> if succeeded ret then Some (SQL_SUCCESS, set_ard d1 H1 S)
                                   else Some (copy_desc_error d1 (set_ard d1 H1 S))))"
    using n b g(1) by (auto simp: MADB_StmtBindCol_def)
  show ?thesis
  proof (cases "p = 0 \<and> ind = 0")
    case True
    have "length (d_Records d) \<le> 32767" using g(8) assms(6) n(2) by simp
    then obtain d1 where "unbind_column (n - 1) d H = Some (d1, H)" "count_is_last_used d1"
      "d_Records d1 = (d_Records d)[nat (n - 1) := (d_Records d ! nat (n - 1))\<lparr>r_inUse := False\<rparr>]"
      using unbind_column_count [of "n - 1" d H] n g(4) by auto
    then show ?thesis using call True n g(4) others_kept_update [OF g(6), of d1 "n - 1"]
      by (auto simp: set_ard_def record_at_def)
  next
    case False
    obtain d1 where "set_fields d n (col_fields t p len ind) H = Some (SQL_SUCCESS, d1, H)"
      "d_Records d1 = (d_Records d)[nat (n - 1) := fold (put_field MADB_DESC_ARD) (col_fields t p len ind) (d_Records d ! nat (n - 1))]"
      "h_Count (d_Header d) \<le> h_Count (d_Header d1)"
      using set_fields_present [of "col_fields t p len ind" d "n - 1" H] ard_settable n g(3,4) t by auto
    then show ?thesis using call False n g(4,7) others_kept_update [OF g(6), of d1 "n - 1"] col_fields_bound [OF assms(2-5)]
      by (auto simp: set_ard_def record_at_def succeeded_def)
  qed
qed

section \<open>Parameters\<close>

lemma param_settable:
  "\<forall>f \<in> set (apd_fields t p len ind). settable MADB_DESC_APD (fst f)"
  "\<forall>f \<in> set (size_fields t sz dd). settable MADB_DESC_IPD (fst f)"
  "settable MADB_DESC_IPD SQL_DESC_CONCISE_TYPE" "settable MADB_DESC_IPD SQL_DESC_PARAMETER_TYPE"
proof -
  have "settable MADB_DESC_APD SQL_DESC_CONCISE_TYPE" "settable MADB_DESC_APD SQL_DESC_OCTET_LENGTH_PTR"
    "settable MADB_DESC_APD SQL_DESC_INDICATOR_PTR" "settable MADB_DESC_APD SQL_DESC_OCTET_LENGTH"
    "settable MADB_DESC_APD SQL_DESC_DATA_PTR" by code_simp+
  then show "\<forall>f \<in> set (apd_fields t p len ind). settable MADB_DESC_APD (fst f)" by (simp add: apd_fields_def)
  have "settable MADB_DESC_IPD SQL_DESC_LENGTH" "settable MADB_DESC_IPD SQL_DESC_PRECISION"
    "settable MADB_DESC_IPD SQL_DESC_SCALE" by code_simp+
  then show "\<forall>f \<in> set (size_fields t sz dd). settable MADB_DESC_IPD (fst f)" by (simp add: size_fields_def)
  show "settable MADB_DESC_IPD SQL_DESC_CONCISE_TYPE" "settable MADB_DESC_IPD SQL_DESC_PARAMETER_TYPE" by code_simp+
qed

definition param_bound :: "int \<Rightarrow> int \<Rightarrow> int \<Rightarrow> int \<Rightarrow> MADB_DescRecord \<Rightarrow> bool" where
  "param_bound t p len ind r \<longleftrightarrow> r_ConciseType r = t \<and> r_Type r = MADB_GetTypeFromConciseType t \<and> r_DataPtr r = p
     \<and> r_OctetLength r = MADB_GetTypeLength t len \<and> r_OctetLengthPtr r = ind \<and> r_IndicatorPtr r = ind"

lemma apd_fields_bound:
  assumes "in_bits 16 t" "in_bits 64 (MADB_GetTypeLength t len)" "in_ubits 64 p" "in_ubits 64 ind"
  shows "param_bound t p len ind (fold (put_field MADB_DESC_APD) (apd_fields t p len ind) r)"
proof -
  have c: "s16 t = t" "s64 (MADB_GetTypeLength t len) = MADB_GetTypeLength t len" "u64 p = p" "u64 ind = ind"
    using assms(1-4) by (simp_all add: in_bits_def in_ubits_def cast_simps)
  show ?thesis unfolding param_bound_def
    by (intro conjI) (simp_all add: apd_fields_def put_field_simps c Let_def)
qed

text \<open>The members of the implementation record that describe the parameter to the server.\<close>

definition param_described :: "int \<Rightarrow> int \<Rightarrow> int \<Rightarrow> int \<Rightarrow> MADB_DescRecord \<Rightarrow> bool" where
  "param_described t io sz dd r \<longleftrightarrow> r_ConciseType r = t \<and> r_ParameterType r = io
     \<and> (t \<in> {SQL_CHAR, SQL_VARCHAR, SQL_LONGVARCHAR, SQL_WCHAR, SQL_WVARCHAR, SQL_WLONGVARCHAR, SQL_BINARY, SQL_VARBINARY,
            SQL_LONGVARBINARY} \<longrightarrow> r_DescLength r = s32 sz)
     \<and> (t \<in> {SQL_DECIMAL, SQL_NUMERIC} \<longrightarrow> r_Precision r = s16 sz \<and> r_Scale r = dd)
     \<and> (t \<in> {SQL_FLOAT, SQL_REAL, SQL_DOUBLE} \<longrightarrow> r_Precision r = s16 sz)
     \<and> (t \<in> {SQL_TYPE_TIME, SQL_TYPE_TIMESTAMP} \<longrightarrow> r_Precision r = dd)
     \<and> r_DataPtr r = 0 \<and> r_InternalLength r = 0"

lemma ipd_fields_described:
  assumes "in_bits 16 t" "in_bits 16 io" "in_bits 16 dd" "r_DataPtr r = 0" "r_InternalLength r = 0"
  shows "param_described t io sz dd (fold (put_field MADB_DESC_IPD)
    ([(SQL_DESC_CONCISE_TYPE, t), (SQL_DESC_PARAMETER_TYPE, io)] @ size_fields t sz dd) r)"
proof -
  have c: "s16 t = t" "s16 io = io" "s16 dd = dd" using assms(1-3) by (simp_all add: in_bits_def cast_simps)
  define r1 where "r1 = fold (put_field MADB_DESC_IPD) [(SQL_DESC_CONCISE_TYPE, t), (SQL_DESC_PARAMETER_TYPE, io)] r"
  have u: "unbind MADB_DESC_IPD f x = x" for f x by (simp add: unbind_def)
  have m: "r_InternalLength (mark_used x) = r_InternalLength x" for x by (simp add: mark_used_def)
  have r1: "r_ConciseType r1 = t" "r_ParameterType r1 = io" "r_DataPtr r1 = 0" "r_InternalLength r1 = 0"
    using assms(4,5) by (simp_all add: r1_def put_field_simps c Let_def u m if_distrib [of r_InternalLength])
  show ?thesis unfolding fold_append o_apply r1_def [symmetric]
    using r1 by (auto simp: size_fields_def put_field_def set_record_field_def u64_casts u m c param_described_def)
qed

lemma bound_members [simp]:
  "p_Apd (e_main (b_stmt (set_apd d H S))) = d" "p_Ipd (e_main (b_stmt (set_apd d H S))) = p_Ipd (e_main (b_stmt S))"
  "p_Ipd (e_main (b_stmt (set_ipd d H S))) = d" "p_Apd (e_main (b_stmt (set_ipd d H S))) = p_Apd (e_main (b_stmt S))"
  "e_heap (b_stmt (set_apd d H S)) = H" "e_heap (b_stmt (set_ipd d H S)) = H"
  "p_Apd (e_main (b_stmt (bound_error e S))) = p_Apd (e_main (b_stmt S))"
  "p_Ipd (e_main (b_stmt (bound_error e S))) = p_Ipd (e_main (b_stmt S))"
  "e_heap (b_stmt (bound_error e S)) = e_heap (b_stmt S)"
  "p_Apd (e_main (b_stmt (release_dae i r S))) = p_Apd (e_main (b_stmt S))"
  "e_heap (b_stmt (release_dae i r S)) = e_heap (b_stmt S)"
  by (simp_all add: set_apd_def set_ipd_def bound_error_def release_dae_def)

text \<open>What the protocol for data at execution reads beside the descriptors.\<close>

definition same_frame :: "bound_stmt \<Rightarrow> bound_stmt \<Rightarrow> bool" where
  "same_frame S S1 \<longleftrightarrow> e_DataExecutionType (b_stmt S1) = e_DataExecutionType (b_stmt S)
     \<and> e_DaeRowNumber (b_stmt S1) = e_DaeRowNumber (b_stmt S)
     \<and> p_PutParam (e_main (b_stmt S1)) = p_PutParam (e_main (b_stmt S))
     \<and> p_ParamCount (e_main (b_stmt S1)) = p_ParamCount (e_main (b_stmt S))"

lemma same_frame_ops [simp]:
  "same_frame S S" "same_frame S (set_apd d H S1) = same_frame S S1" "same_frame S (set_ipd d H S1) = same_frame S S1"
  "same_frame S (bound_error e S1) = same_frame S S1" "same_frame S (release_dae i r S1) = same_frame S S1"
  "same_frame S (S1\<lparr>b_RebindParams := x\<rparr>) = same_frame S S1"
  by (simp_all add: same_frame_def set_apd_def set_ipd_def bound_error_def release_dae_def)

lemma release_dae_records:
  "p_Ipd (e_main (b_stmt S)) = d \<Longrightarrow> nat i < length (d_Records d) \<Longrightarrow> r = d_Records d ! nat i \<Longrightarrow>
   d_Records (p_Ipd (e_main (b_stmt (release_dae i r S)))) =
     (d_Records d)[nat i := (if r_DataPtr r = 0 then r else free_dae_record r)]
   \<and> d_DescType (p_Ipd (e_main (b_stmt (release_dae i r S)))) = d_DescType d"
  by (simp add: release_dae_def set_record_def)

text \<open>Both records are there: the fields are set one group after the other.\<close>

lemma bind_records_sets:
  assumes "d_DescType apd = MADB_DESC_APD" "d_DescType ipd = MADB_DESC_IPD" "0 \<le> i"
    and "nat i < length (d_Records apd)" "nat i < length (d_Records ipd)"
    and "p_Apd (e_main (b_stmt S)) = apd" "p_Ipd (e_main (b_stmt S)) = ipd"
  shows "\<exists>S1. bind_records (i + 1) io vt t sz dd p len ind S = Some (SQL_SUCCESS, S1) \<and> same_frame S S1 \<and> b_RebindParams S1
    \<and> d_Records (p_Apd (e_main (b_stmt S1))) =
        (d_Records apd)[nat i := fold (put_field MADB_DESC_APD) (apd_fields (value_type vt t) p len ind) (d_Records apd ! nat i)]
    \<and> h_BindOffsetPtr (d_Header (p_Apd (e_main (b_stmt S1)))) = h_BindOffsetPtr (d_Header apd)
    \<and> d_Records (p_Ipd (e_main (b_stmt S1))) =
        (d_Records ipd)[nat i := fold (put_field MADB_DESC_IPD)
           ([(SQL_DESC_CONCISE_TYPE, t), (SQL_DESC_PARAMETER_TYPE, io)] @ size_fields t sz dd) (d_Records ipd ! nat i)]"
proof -
  define H where "H = e_heap (b_stmt S)"
  define fs where "fs = [(SQL_DESC_CONCISE_TYPE, t), (SQL_DESC_PARAMETER_TYPE, io)]"
  obtain a where a: "set_fields apd (i + 1) (apd_fields (value_type vt t) p len ind) H = Some (SQL_SUCCESS, a, H)"
    "d_Records a = (d_Records apd)[nat i := fold (put_field MADB_DESC_APD) (apd_fields (value_type vt t) p len ind) (d_Records apd ! nat i)]"
    "h_BindOffsetPtr (d_Header a) = h_BindOffsetPtr (d_Header apd)"
    using set_fields_present [of "apd_fields (value_type vt t) p len ind" apd i H] param_settable(1) assms(1,3,4) by auto
  obtain b where b: "set_fields ipd (i + 1) fs H = Some (SQL_SUCCESS, b, H)" "d_DescType b = MADB_DESC_IPD"
    "d_Records b = (d_Records ipd)[nat i := fold (put_field MADB_DESC_IPD) fs (d_Records ipd ! nat i)]"
    using set_fields_present [of fs ipd i H] param_settable(3,4) assms(2,3,5) by (auto simp: fs_def)
  obtain c where c: "set_fields b (i + 1) (size_fields t sz dd) H = Some (SQL_SUCCESS, c, H)"
    "d_Records c = (d_Records b)[nat i := fold (put_field MADB_DESC_IPD) (size_fields t sz dd) (d_Records b ! nat i)]"
    using set_fields_present [of "size_fields t sz dd" b i H] param_settable(2) assms(3,5) b by auto
  have "bind_records (i + 1) io vt t sz dd p len ind S =
      Some (SQL_SUCCESS, (set_ipd c H (set_ipd b H (set_apd a H S)))\<lparr>b_RebindParams := True\<rparr>)"
    using a(1) b(1) c(1) assms(6,7)
    by (simp add: bind_records_def bind_apd_def bind_ipd_def succeeded_def H_def fs_def Let_def)
  then show ?thesis using a b(3) c(2) assms(5) by (simp add: fs_def)
qed

text \<open>A statement on which parameter \<open>n\<close> can be bound.\<close>

definition param_bindable :: "int \<Rightarrow> bound_stmt \<Rightarrow> bool" where
  "param_bindable n S \<longleftrightarrow> 1 \<le> n \<and> n \<le> 32767
     \<and> d_DescType (p_Apd (e_main (b_stmt S))) = MADB_DESC_APD \<and> d_DescType (p_Ipd (e_main (b_stmt S))) = MADB_DESC_IPD
     \<and> (\<forall>r \<in> set (d_Records (p_Ipd (e_main (b_stmt S)))). r_DataPtr r = 0 \<longrightarrow> r_InternalLength r = 0)
     \<and> (\<forall>k. hp_grow (e_heap (b_stmt S)) k)"

text \<open>The first parameter row is used, without an offset, and nothing has been asked for yet.\<close>

definition asks_first_row :: "bound_stmt \<Rightarrow> bool" where
  "asks_first_row S \<longleftrightarrow> e_DataExecutionType (b_stmt S) = MADB_DAE_NORMAL \<and> e_DaeRowNumber (b_stmt S) \<le> 1
     \<and> p_PutParam (e_main (b_stmt S)) = - 1 \<and> h_BindOffsetPtr (d_Header (p_Apd (e_main (b_stmt S)))) = 0"

lemma bound_is_asked:
  assumes "asks_first_row S" "record_at (p_Apd (e_main (b_stmt S))) i = Some r" "param_bound t p len ind r"
    and "0 \<le> i" "i < p_ParamCount (e_main (b_stmt S))" "PARAM_IS_DAE mem ind" "in_ubits 64 p" "in_ubits 64 ind"
  shows "i \<in> set (remaining mem (b_stmt S)) \<and> ask mem (b_stmt S) i = Need_Data p"
proof -
  define a where "a = p_Apd (e_main (b_stmt S))"
  have tgt: "dae_target (b_stmt S) = e_main (b_stmt S)" and row: "dae_row (e_DaeRowNumber (b_stmt S)) = 0"
    and st: "dae_start (p_PutParam (e_main (b_stmt S))) = 0" and off: "h_BindOffsetPtr (d_Header a) = 0"
    using assms(1) by (simp_all add: asks_first_row_def dae_target_def dae_row_def dae_start_def a_def)
  have bo: "GetBindOffset mem (d_Header a) q 0 w = q" if "in_ubits 64 q" for q w
    using that off by (simp add: GetBindOffset_def in_ubits_def cast_simps)
  have r: "r_OctetLengthPtr r = ind" "r_DataPtr r = p" "ind \<noteq> 0"
    using assms(3,6) by (simp_all add: param_bound_def PARAM_IS_DAE_def)
  have "is_dae mem 0 (view a) i"
    using is_dae_record [of mem 0 a i] assms(2,6) r bo [OF assms(8)] by (simp add: a_def)
  moreover have "asked mem 0 (view a) i = p"
    using asked_record [of a i r mem 0] assms(2) r bo [OF assms(7)] by (simp add: a_def)
  ultimately show ?thesis using assms(4,5) by (simp add: remaining_def ask_def tgt row st a_def)
qed

text \<open>Both records are found or made, and data kept for the parameter is released.\<close>

lemma BindParam_finds_records:
  assumes "param_bindable n S"
  obtains a and b :: MADB_Desc and r0 S2 where "\<forall>io vt t sz dd p len ind. MADB_StmtBindParam n io vt t sz dd p len ind S =
      bind_records (n - 1 + 1) io vt t sz dd p len ind S2"
    "p_Apd (e_main (b_stmt S2)) = a" "same_frame S S2"
    "d_Records (p_Ipd (e_main (b_stmt S2))) = (d_Records b)[nat (n - 1) := r0]"
    "d_DescType (p_Ipd (e_main (b_stmt S2))) = MADB_DESC_IPD"
    "d_DescType a = MADB_DESC_APD" "nat (n - 1) < length (d_Records a)" "view a = view (p_Apd (e_main (b_stmt S)))"
    "take (length (d_Records (p_Apd (e_main (b_stmt S))))) (d_Records a) = d_Records (p_Apd (e_main (b_stmt S)))"
    "nat (n - 1) < length (d_Records b)"
    "take (length (d_Records (p_Ipd (e_main (b_stmt S))))) (d_Records b) = d_Records (p_Ipd (e_main (b_stmt S)))"
    "r_DataPtr r0 = 0" "r_InternalLength r0 = 0"
proof -
  define S0 where "S0 = bound_error (MADB_CLEAR_ERROR (the_error S)) S"
  have i: "0 \<le> n - 1" "n - 1 \<le> 32766" "s16 n = n" "s16 (n - 1) = n - 1" and grow: "\<forall>k. hp_grow (e_heap (b_stmt S)) k"
    and ty: "d_DescType (p_Apd (e_main (b_stmt S))) = MADB_DESC_APD" "d_DescType (p_Ipd (e_main (b_stmt S))) = MADB_DESC_IPD"
    using assms by (auto simp: param_bindable_def cast_simps)
  obtain a H where a: "MADB_DescGetInternalRecord (p_Apd (e_main (b_stmt S))) (n - 1) False (e_heap (b_stmt S)) = (True, a, H)"
    "\<forall>k. hp_grow H k" "d_DescType a = d_DescType (p_Apd (e_main (b_stmt S)))" "nat (n - 1) < length (d_Records a)"
    "view a = view (p_Apd (e_main (b_stmt S)))"
    "take (length (d_Records (p_Apd (e_main (b_stmt S))))) (d_Records a) = d_Records (p_Apd (e_main (b_stmt S)))"
    by (rule GetInternalRecord_write [OF grow i(1,2), of "p_Apd (e_main (b_stmt S))"])
  obtain b H1 where b: "MADB_DescGetInternalRecord (p_Ipd (e_main (b_stmt S))) (n - 1) False H = (True, b, H1)"
    "d_DescType b = d_DescType (p_Ipd (e_main (b_stmt S)))" "nat (n - 1) < length (d_Records b)"
    "take (length (d_Records (p_Ipd (e_main (b_stmt S))))) (d_Records b) = d_Records (p_Ipd (e_main (b_stmt S)))"
    by (rule GetInternalRecord_write [OF a(2) i(1,2), of "p_Ipd (e_main (b_stmt S))"])
  define r where "r = d_Records b ! nat (n - 1)"
  define r0 where "r0 = (if r_DataPtr r = 0 then r else free_dae_record r)"
  obtain rs where rs: "d_Records b = d_Records (p_Ipd (e_main (b_stmt S))) @ rs"
    "\<forall>x \<in> set rs. \<exists>H' H''. MADB_DescSetRecordDefaults (d_DescType (p_Ipd (e_main (b_stmt S)))) H' = (x, H'')"
    using GetInternalRecord_appends [OF b(1)] by blast
  have "r \<in> set (d_Records b)" using b(3) by (simp add: r_def)
  then have "r_DataPtr r = 0 \<Longrightarrow> r_InternalLength r = 0"
    using rs defaults_unbound assms unfolding param_bindable_def by (metis Un_iff set_append)
  then have r0: "r_DataPtr r0 = 0" "r_InternalLength r0 = 0" by (auto simp: r0_def free_dae_record_def)
  define S2 where "S2 = release_dae (n - 1) r (set_ipd b H1 (set_apd a H S0))"
  have S2: "p_Apd (e_main (b_stmt S2)) = a" "same_frame S S2"
    "d_Records (p_Ipd (e_main (b_stmt S2))) = (d_Records b)[nat (n - 1) := r0]"
    "d_DescType (p_Ipd (e_main (b_stmt S2))) = MADB_DESC_IPD"
    using release_dae_records [of "set_ipd b H1 (set_apd a H S0)" b "n - 1" r] b(2,3) ty
    by (simp_all add: S2_def S0_def r0_def r_def)
  have call: "\<forall>io vt t sz dd p len ind. MADB_StmtBindParam n io vt t sz dd p len ind S =
      bind_records (n - 1 + 1) io vt t sz dd p len ind S2"
    using a(1) b(1,3) i by (simp add: MADB_StmtBindParam_def Let_def S0_def S2_def record_at_def r_def)
  show ?thesis using that [OF call S2] a(3-6) b(3,4) r0 ty by simp
qed


section \<open>A statement with one column and three parameters\<close>

definition sample_bound :: bound_stmt where
  "sample_bound =
    \<lparr>b_stmt = sample_dae (- 1), b_Ard = sample_app, b_UseBookmarks = 0, b_BookmarkPtr = 0, b_BookmarkLength = 0,
     b_BookmarkType = 0, b_field_count = 4, b_executed = True, b_RebindParams = False\<rparr>"

theorem BindCol_binds_witness:
  "\<exists>S1 r. MADB_StmtBindCol (- 18) 3 SQL_C_CHAR 4096 20 8192 sample_bound = Some (SQL_SUCCESS, S1)
    \<and> record_at (b_Ard S1) 2 = Some r \<and> column_bound SQL_C_CHAR 4096 20 8192 r \<and> 3 \<le> h_Count (d_Header (b_Ard S1))"
proof -
  have "bindable 3 sample_bound"
    unfolding bindable_def by (intro conjI allI) (simp_all add: sample_bound_def sample_app_def MADB_DescInit_def
        sample_dae_def sample_heap_def Let_def)
  moreover have "in_bits 16 SQL_C_CHAR" "in_bits 64 (MADB_GetTypeLength SQL_C_CHAR 20)" "in_ubits 64 4096" "in_ubits 64 8192"
    "length (d_Records (b_Ard sample_bound)) \<le> 32767"
    by (simp_all add: in_bits_def in_ubits_def MADB_GetTypeLength_def sample_bound_def sample_app_def MADB_DescInit_def)
  ultimately show ?thesis using BindCol_binds [of 3 sample_bound SQL_C_CHAR 20 4096 8192 "- 18"] by auto
qed


end
