(* ===== verification/Stmt_Cursor.thy ===== *)
theory Stmt_Cursor
  imports Stmt_Dae
begin

text \<open>
  Fetching and scrolling (\<open>src/ma_statement.c\<close>: \<open>MADB_StmtFetch\<close>, \<open>MADB_StmtFetchScroll\<close>,
  \<open>MADB_RefreshDynamicCursor\<close>, \<open>MADB_MapToRowStatus\<close>, \<open>MADB_InitStatusPtr\<close>, \<open>FetchRowCsps\<close>, \<open>MADB_FetchCsps\<close>,
  the operation \<open>SQL_POSITION\<close> of \<open>MADB_StmtSetPos\<close>; \<open>src/ma_result.c\<close>: \<open>MADB_RowsToFetch\<close>, \<open>MADB_StmtDataSeek\<close>,
  \<open>MoveNext\<close>, \<open>MADB_StmtResetResultStructures\<close>), in the text protocol.

  A row of the stored result is its number; a pointer to a row is \<^const>\<open>None\<close> behind the last one.  What the
  conversion of the values of a row gives is an argument.
\<close>

abbreviation (input) SQL_FETCH_NEXT :: int where "SQL_FETCH_NEXT \<equiv> 1"
abbreviation (input) SQL_FETCH_FIRST :: int where "SQL_FETCH_FIRST \<equiv> 2"
abbreviation (input) SQL_FETCH_LAST :: int where "SQL_FETCH_LAST \<equiv> 3"
abbreviation (input) SQL_FETCH_PRIOR :: int where "SQL_FETCH_PRIOR \<equiv> 4"
abbreviation (input) SQL_FETCH_ABSOLUTE :: int where "SQL_FETCH_ABSOLUTE \<equiv> 5"
abbreviation (input) SQL_FETCH_RELATIVE :: int where "SQL_FETCH_RELATIVE \<equiv> 6"
abbreviation (input) SQL_FETCH_BOOKMARK :: int where "SQL_FETCH_BOOKMARK \<equiv> 8"
abbreviation (input) SQL_CURSOR_FORWARD_ONLY :: int where "SQL_CURSOR_FORWARD_ONLY \<equiv> 0"
abbreviation (input) SQL_CURSOR_DYNAMIC :: int where "SQL_CURSOR_DYNAMIC \<equiv> 2"
abbreviation (input) SQL_CURSOR_STATIC :: int where "SQL_CURSOR_STATIC \<equiv> 3"
abbreviation (input) SQL_UB_VARIABLE :: int where "SQL_UB_VARIABLE \<equiv> 2"
abbreviation (input) SQL_ROW_SUCCESS :: int where "SQL_ROW_SUCCESS \<equiv> 0"
abbreviation (input) SQL_ROW_NOROW :: int where "SQL_ROW_NOROW \<equiv> 3"
abbreviation (input) SQL_ROW_ERROR :: int where "SQL_ROW_ERROR \<equiv> 5"
abbreviation (input) SQL_ROW_SUCCESS_WITH_INFO :: int where "SQL_ROW_SUCCESS_WITH_INFO \<equiv> 6"
abbreviation (input) MYSQL_NO_DATA :: int where "MYSQL_NO_DATA \<equiv> 100"
abbreviation (input) MYSQL_DATA_TRUNCATED :: int where "MYSQL_DATA_TRUNCATED \<equiv> 101"
abbreviation (input) SQL_OV_ODBC3 :: int where "SQL_OV_ODBC3 \<equiv> 3"
abbreviation (input) SQL_LOCK_NO_CHANGE :: int where "SQL_LOCK_NO_CHANGE \<equiv> 0"

section \<open>State\<close>

text \<open>
  \<open>c_rows\<close> counts the rows of the result, \<open>c_num_rows\<close> those the client library has stored.  \<open>c_buffers\<close>
  says which row each row of the application's buffers holds, \<open>c_status\<close> and \<open>c_ard_status\<close> are the status
  arrays.  \<open>c_bookmarks\<close> is the array behind the bookmark pointer.
\<close>

record cursor_stmt =
  c_Position :: int
  c_RowsetSize :: int
  c_Next :: "nat option"
  c_result_cursor :: "nat option"
  c_LastRowFetched :: int
  c_PositionedCursor :: int
  c_CursorType :: int
  c_ArraySize :: int
  c_rows :: nat
  c_num_rows :: int
  c_NoCache :: bool
  c_column_count :: int
  c_field_count :: nat
  c_result :: bool
  c_UseBookmarks :: int
  c_BookmarkPtr :: int
  c_BookmarkType :: int
  c_BookmarkLength :: int
  c_bookmarks :: "int \<Rightarrow> int"
  c_OdbcVersion :: int
  c_buffers :: "nat \<Rightarrow> nat option"
  c_status :: "int list option"
  c_ard_status :: "int list option"
  c_Processed :: int
  c_CharOffset :: "int list option"
  c_Lengths :: "int list option"
  c_Error :: MADB_Error

definition cursor_error :: "string \<Rightarrow> string option \<Rightarrow> cursor_stmt \<Rightarrow> int \<times> cursor_stmt" where
  "cursor_error code msg S =
    (let e = snd (MADB_SetError (c_Error S) (MADB_ERR code) msg 0) in (ReturnValue e, S\<lparr>c_Error := e\<rparr>))"

definition NO_CACHE :: "cursor_stmt \<Rightarrow> bool" where
  "NO_CACHE S \<longleftrightarrow> c_CursorType S = SQL_CURSOR_FORWARD_ONLY \<and> c_NoCache S"

definition MADB_STMT_FORGET_NEXT_POS :: "cursor_stmt \<Rightarrow> cursor_stmt" where
  "MADB_STMT_FORGET_NEXT_POS S = S\<lparr>c_Next := None\<rparr>"

definition MADB_STMT_RESET_CURSOR :: "cursor_stmt \<Rightarrow> cursor_stmt" where
  "MADB_STMT_RESET_CURSOR S = MADB_STMT_FORGET_NEXT_POS (S\<lparr>c_Position := - 1\<rparr>)"

text \<open>A pointer to row \<open>k\<close> of the stored result.\<close>

definition row_ptr :: "nat \<Rightarrow> nat \<Rightarrow> nat option" where
  "row_ptr n k = (if k < n then Some k else None)"

definition MADB_StmtResetResultStructures :: "cursor_stmt \<Rightarrow> cursor_stmt" where
  "MADB_StmtResetResultStructures S =
    (let zeros = (if c_field_count S > 0 then Some (replicate (c_field_count S) 0) else None)
     in MADB_STMT_RESET_CURSOR (S\<lparr>c_CharOffset := zeros, c_Lengths := zeros, c_LastRowFetched := 0\<rparr>))"

text \<open>\<open>mysql_stmt_data_seek\<close> walks from the first row.\<close>

definition MADB_StmtDataSeek :: "int \<Rightarrow> cursor_stmt \<Rightarrow> int \<times> cursor_stmt" where
  "MADB_StmtDataSeek FetchOffset S =
    (if c_rows S = 0 \<or> NO_CACHE S then (SQL_NO_DATA, S)
     else (SQL_SUCCESS, S\<lparr>c_result_cursor := row_ptr (c_rows S) (nat (u64 FetchOffset))\<rparr>))"

definition MADB_RowsToFetch :: "cursor_stmt \<Rightarrow> int \<Rightarrow> int" where
  "MADB_RowsToFetch S RowsInResultst =
    (let Position = (if c_Position S \<ge> 0 then c_Position S else 0)
     in if u64 (Position + c_RowsetSize S) > RowsInResultst
        then (if RowsInResultst > Position then RowsInResultst - Position else 1)
        else c_RowsetSize S)"

section \<open>Fetching a rowset\<close>

text \<open>
  What happens to the values of row \<open>k\<close> when they go to row \<open>i\<close> of the buffers: preparing the buffers,
  converting them while fetching, looking at truncated columns, and converting them afterwards, with the
  diagnostics this leaves.  \<open>rv_broken\<close> says that reading row \<open>k\<close> from the connection fails.
\<close>

record row_conv =
  rv_alloc :: bool
  rv_broken :: "nat \<Rightarrow> (string \<times> int) option"
  rv_prepare :: "nat \<Rightarrow> MADB_Error \<Rightarrow> int \<times> MADB_Error"
  rv_fetch :: "nat \<Rightarrow> nat \<Rightarrow> int"
  rv_truncated :: "nat \<Rightarrow> nat \<Rightarrow> int"
  rv_fix :: "nat \<Rightarrow> nat \<Rightarrow> int"
  rv_diag :: "nat \<Rightarrow> nat \<Rightarrow> MADB_Error \<Rightarrow> MADB_Error"

definition FetchRowCsps :: "row_conv \<Rightarrow> cursor_stmt \<Rightarrow> nat option \<times> cursor_stmt" where
  "FetchRowCsps cv S =
    (case (if NO_CACHE S then rv_broken cv (case c_result_cursor S of None \<Rightarrow> c_rows S | Some k \<Rightarrow> k) else None) of
       Some (msg, errno) \<Rightarrow>
         (None, S\<lparr>c_Error := snd (MADB_SetError (c_Error S) (MADB_ERR ''HY000'') (Some msg) errno)\<rparr>)
     | None \<Rightarrow>
         (case c_result_cursor S of
            None \<Rightarrow> (None, S)
          | Some k \<Rightarrow> (Some k, S\<lparr>c_result_cursor := row_ptr (c_rows S) (k + 1)\<rparr>)))"

definition MADB_FetchCsps :: "row_conv \<Rightarrow> nat \<Rightarrow> cursor_stmt \<Rightarrow> int \<times> nat \<times> cursor_stmt" where
  "MADB_FetchCsps cv RowNum S =
    (case FetchRowCsps cv S of
       (None, S1) \<Rightarrow> (if succeeded (ReturnValue (c_Error S1)) then MYSQL_NO_DATA else 1, 0, S1)
     | (Some k, S1) \<Rightarrow>
         (rv_fetch cv k RowNum, k,
          S1\<lparr>c_buffers := (c_buffers S1)(RowNum \<mapsto> k), c_Error := rv_diag cv k RowNum (c_Error S1)\<rparr>))"

text \<open>\<open>MoveNext\<close> with an offset of 1: the row is skipped, no buffer is written.\<close>

definition MoveNext :: "row_conv \<Rightarrow> cursor_stmt \<Rightarrow> cursor_stmt" where
  "MoveNext cv S = (if c_result S \<and> rv_alloc cv then snd (FetchRowCsps cv S) else S)"

definition MADB_MapToRowStatus :: "int \<Rightarrow> int" where
  "MADB_MapToRowStatus rc =
    (if rc = SQL_SUCCESS_WITH_INFO then SQL_ROW_SUCCESS_WITH_INFO
     else if rc = SQL_ERROR then SQL_ROW_ERROR else SQL_ROW_SUCCESS)"

definition MADB_InitStatusPtr :: "int list option \<Rightarrow> int \<Rightarrow> int \<Rightarrow> int list option" where
  "MADB_InitStatusPtr p n v = map_option (\<lambda>xs. replicate (nat n) v @ drop (nat n) xs) p"

definition set_status :: "nat \<Rightarrow> int \<Rightarrow> cursor_stmt \<Rightarrow> cursor_stmt" where
  "set_status i v S = S\<lparr>c_status := map_option (\<lambda>xs. xs[i := v]) (c_status S)\<rparr>"

definition CALC_ALL_ROWS_RC :: "int \<Rightarrow> int \<Rightarrow> nat \<Rightarrow> int" where
  "CALC_ALL_ROWS_RC acc cur row =
    (if row = 0 then cur else if cur \<noteq> acc then SQL_SUCCESS_WITH_INFO else acc)"

definition row_result :: "row_conv \<Rightarrow> int \<Rightarrow> nat \<Rightarrow> nat \<Rightarrow> int" where
  "row_result cv rc k RowNum =
    (let r = (if rc = MYSQL_DATA_TRUNCATED then rv_truncated cv k RowNum else SQL_SUCCESS); f = rv_fix cv k RowNum
     in if f = SQL_ERROR then SQL_ERROR else if f = SQL_SUCCESS_WITH_INFO then SQL_SUCCESS_WITH_INFO else r)"

text \<open>
  The loop over the rows, \<open>k\<close> of \<open>n\<close> left, \<open>j\<close> done.  When the cursor has to be back on the first row of the
  rowset afterwards, \<open>save\<close> is the pointer to it: the others are read first.
\<close>

definition fetch_target :: "nat \<Rightarrow> nat option \<Rightarrow> nat \<Rightarrow> cursor_stmt \<Rightarrow> nat \<times> cursor_stmt" where
  "fetch_target n save j S =
    (if save = None then (j, S)
     else if j + 1 = n then (0, S\<lparr>c_Next := c_result_cursor S, c_result_cursor := save\<rparr>)
     else (j + 1, S))"

definition write_bookmark :: "nat \<Rightarrow> cursor_stmt \<Rightarrow> cursor_stmt" where
  "write_bookmark RowNum S =
    (if c_UseBookmarks S \<noteq> 0 \<and> c_BookmarkPtr S \<noteq> 0
     then S\<lparr>c_bookmarks := (c_bookmarks S)(int RowNum * c_BookmarkLength S := c_Position S)\<rparr> else S)"

fun fetch_loop :: "row_conv \<Rightarrow> nat \<Rightarrow> nat option \<Rightarrow> nat \<Rightarrow> nat \<Rightarrow> int \<Rightarrow> cursor_stmt \<Rightarrow> int \<times> cursor_stmt" where
  "fetch_loop cv n save j 0 Result S =
    (Result, S\<lparr>c_CharOffset := map_option (map (\<lambda>x. 0)) (c_CharOffset S),
               c_Lengths := map_option (map (\<lambda>x. 0)) (c_Lengths S)\<rparr>)"
| "fetch_loop cv n save j (Suc k) Result S =
    (case fetch_target n save j S of
       (RowNum, S1) \<Rightarrow>
         (case rv_prepare cv RowNum (c_Error S1) of
            (prc, e) \<Rightarrow>
              if \<not> succeeded prc then (prc, S1\<lparr>c_Error := e\<rparr>)
              else
                (case MADB_FetchCsps cv RowNum (write_bookmark RowNum (S1\<lparr>c_Error := e\<rparr>)) of
                   (rc, row, S2) \<Rightarrow>
                     (let S3 = S2\<lparr>c_Processed := c_Processed S2 + 1,
                                  c_Position := (if c_Position S2 < 0 then 0 else c_Position S2)\<rparr>
                      in if rc = 1 then (SQL_ERROR, set_status RowNum SQL_ROW_ERROR S3)
                         else if rc = MYSQL_NO_DATA then
                           (let S4 = S3\<lparr>c_Processed := c_Processed S3 - 1\<rparr>
                            in if RowNum > 0 then fetch_loop cv n save (j + 1) k Result S4 else (SQL_NO_DATA, S4))
                         else
                           (let r = row_result cv rc row RowNum
                            in fetch_loop cv n save (j + 1) k (CALC_ALL_ROWS_RC Result r RowNum)
                                 (set_status RowNum (MADB_MapToRowStatus r)
                                    (S3\<lparr>c_LastRowFetched := c_LastRowFetched S3 + 1,
                                        c_PositionedCursor := c_PositionedCursor S3 + 1\<rparr>)))))))"

definition MADB_StmtFetch :: "int \<Rightarrow> row_conv \<Rightarrow> cursor_stmt \<Rightarrow> int \<times> cursor_stmt" where
  "MADB_StmtFetch SQL_C_BOOKMARK cv S0 =
    (let S = S0\<lparr>c_Error := MADB_CLEAR_ERROR (c_Error S0)\<rparr>
     in if \<not> c_column_count S > 0 then cursor_error ''24000'' None S
        else if c_UseBookmarks S = SQL_UB_VARIABLE \<and> c_BookmarkType S = SQL_C_BOOKMARK \<or>
                c_UseBookmarks S \<noteq> SQL_UB_VARIABLE \<and> c_BookmarkType S = SQL_C_VARBOOKMARK
        then cursor_error ''07006'' None S
        else if c_ArraySize S = 0 then (SQL_SUCCESS, S)
        else
          (let S1 = S\<lparr>c_LastRowFetched := 0, c_RowsetSize := c_ArraySize S\<rparr>;
               n = (if NO_CACHE S1 then c_RowsetSize S1 else MADB_RowsToFetch S1 (c_num_rows S1))
           in if n = 0 then (SQL_NO_DATA, S1)
              else if \<not> c_result S1 \<and> \<not> rv_alloc cv then cursor_error ''HY001'' None S1
              else
                (let S2 = S1\<lparr>c_result := True, c_ard_status := MADB_InitStatusPtr (c_ard_status S1) (c_ArraySize S1) SQL_NO_DATA,
                             c_status := MADB_InitStatusPtr (c_status S1) (c_ArraySize S1) SQL_ROW_NOROW, c_Processed := 0\<rparr>;
                     again = (n > 1 \<and> c_CursorType S2 \<noteq> SQL_CURSOR_FORWARD_ONLY)
                 in fetch_loop cv (nat n) (if again then c_result_cursor S2 else None) 0 (nat n) SQL_SUCCESS
                      (if again then MoveNext cv S2 else S2))))"

section \<open>Scrolling\<close>

text \<open>\<open>exec\<close> stands for executing the statement again.\<close>

definition MADB_RefreshDynamicCursor :: "(cursor_stmt \<Rightarrow> int \<times> cursor_stmt) \<Rightarrow> cursor_stmt \<Rightarrow> int \<times> cursor_stmt" where
  "MADB_RefreshDynamicCursor exec S =
    (case exec S of
       (ret, S1) \<Rightarrow>
         (let p = c_Position S;
              p1 = (if p > 0 \<and> p \<ge> c_num_rows S1 then s64 (c_num_rows S1) - 1 else p)
          in (ret, S1\<lparr>c_LastRowFetched := c_LastRowFetched S, c_Position := (if p1 < 0 then 0 else p1)\<rparr>)))"

definition rowset_size :: "cursor_stmt \<Rightarrow> int" where
  "rowset_size S = (if 1 > c_ArraySize S then 1 else c_ArraySize S)"

definition absolute_position :: "int \<Rightarrow> cursor_stmt \<Rightarrow> int" where
  "absolute_position FetchOffset S =
    (if FetchOffset < 0 then
       (if s64 (c_num_rows S) - 1 + FetchOffset < 0 \<and> u64 (- FetchOffset) \<le> c_ArraySize S then 0
        else s64 (s64 (c_num_rows S) + FetchOffset))
     else s64 (FetchOffset - 1))"

text \<open>The new position for an orientation; an error code where there is none.\<close>

definition scroll_position :: "int \<Rightarrow> int \<Rightarrow> int \<Rightarrow> cursor_stmt \<Rightarrow> string + int" where
  "scroll_position FetchOrientation FetchOffset RowsProcessed S =
    (if FetchOrientation = SQL_FETCH_NEXT
     then Inr (if c_Position S < 0 then 0 else s64 (c_Position S + RowsProcessed))
     else if FetchOrientation = SQL_FETCH_PRIOR
     then Inr (if c_Position S < 0 then - 1 else s64 (c_Position S - rowset_size S))
     else if FetchOrientation = SQL_FETCH_RELATIVE then
       (let p = s64 (c_Position S + FetchOffset)
        in Inr (if p < 0 \<and> c_Position S > 0 \<and> - FetchOffset \<le> s32 (c_ArraySize S) then 0 else p))
     else if FetchOrientation = SQL_FETCH_ABSOLUTE then Inr (absolute_position FetchOffset S)
     else if FetchOrientation = SQL_FETCH_FIRST then Inr 0
     else if FetchOrientation = SQL_FETCH_LAST then Inr (s64 (c_num_rows S - rowset_size S))
     else if FetchOrientation = SQL_FETCH_BOOKMARK then
       (if c_UseBookmarks S = SQL_UB_OFF then Inl ''HY106''
        else if c_BookmarkPtr S = 0 then Inl ''HY111''
        else Inr (s64 (c_bookmarks S 0 + (if c_OdbcVersion S \<ge> SQL_OV_ODBC3 then FetchOffset else 0))))
     else Inl ''HY106'')"

text \<open>The part of \<open>MADB_StmtFetchScroll\<close> after the position has been computed.\<close>

definition fetch_at :: "int \<Rightarrow> row_conv \<Rightarrow> int \<Rightarrow> int \<Rightarrow> int \<Rightarrow> cursor_stmt \<Rightarrow> int \<times> cursor_stmt" where
  "fetch_at bm cv FetchOrientation RowsProcessed Position S =
    (let S1 = (if Position < 0 then MADB_STMT_RESET_CURSOR S
               else if \<not> NO_CACHE S then S\<lparr>c_Position := s64 (min (u64 Position) (c_num_rows S))\<rparr> else S)
     in if Position < 0 then (SQL_NO_DATA, snd (MADB_StmtDataSeek 0 S1))
        else if \<not> NO_CACHE S \<and> u64 Position > u64 (c_num_rows S - 1) then (SQL_NO_DATA, S1)
        else
          (let seek = (FetchOrientation \<noteq> SQL_FETCH_NEXT \<or>
                       RowsProcessed > 1 \<and> c_CursorType S \<noteq> SQL_CURSOR_FORWARD_ONLY \<or>
                       c_CursorType S = SQL_CURSOR_DYNAMIC)
           in case (if \<not> seek then (SQL_SUCCESS, S1)
                    else if c_Next S1 \<noteq> None then (SQL_SUCCESS, S1\<lparr>c_result_cursor := c_Next S1\<rparr>)
                    else MADB_StmtDataSeek (c_Position S1) S1) of
                (ret, S2) \<Rightarrow>
                  (case (if ret = SQL_SUCCESS then MADB_StmtFetch bm cv S2 else (ret, S2)) of
                     (ret1, S3) \<Rightarrow>
                       (if ret1 = SQL_NO_DATA \<and> c_LastRowFetched S3 > 0 then SQL_SUCCESS else ret1, S3))))"

definition MADB_StmtFetchScroll ::
  "int \<Rightarrow> row_conv \<Rightarrow> (cursor_stmt \<Rightarrow> int \<times> cursor_stmt) \<Rightarrow> int \<Rightarrow> int \<Rightarrow> cursor_stmt \<Rightarrow> int \<times> cursor_stmt" where
  "MADB_StmtFetchScroll bm cv exec FetchOrientation FetchOffset S =
    (if c_CursorType S = SQL_CURSOR_FORWARD_ONLY \<and> FetchOrientation \<noteq> SQL_FETCH_NEXT
     then cursor_error ''HY106'' None S
     else
       (case (if c_CursorType S = SQL_CURSOR_DYNAMIC then MADB_RefreshDynamicCursor exec S else (SQL_SUCCESS, S)) of
          (rc, S1) \<Rightarrow>
            if \<not> succeeded rc then (ReturnValue (c_Error S1), S1)
            else
              (let S2 = (if FetchOrientation \<noteq> SQL_FETCH_NEXT then MADB_STMT_FORGET_NEXT_POS S1 else S1)
               in case scroll_position FetchOrientation FetchOffset (c_LastRowFetched S) S2 of
                    Inl code \<Rightarrow> cursor_error code None S2
                  | Inr p \<Rightarrow> fetch_at bm cv FetchOrientation (c_LastRowFetched S) p S2)))"

text \<open>\<open>MADB_StmtSetPos\<close> with the operation \<open>SQL_POSITION\<close>.\<close>

definition SetPos_position ::
  "(cursor_stmt \<Rightarrow> int \<times> cursor_stmt) \<Rightarrow> int \<Rightarrow> int \<Rightarrow> cursor_stmt \<Rightarrow> int \<times> cursor_stmt" where
  "SetPos_position exec RowNumber LockType S =
    (if \<not> c_result S \<and> c_field_count S = 0 then cursor_error ''24000'' None S
     else if NO_CACHE S then cursor_error ''HY109'' (Some (''SQL_FORWARD_ONLY cursor is used with NO_CACHE option. '' @
         ''Cursor with this options can'' @ CHR 39 # ''t be positioned within the rowset. '' @
         ''Use other cursor type or set NO_CACHE connection option to 0 to set the cursor position.'')) S
     else if LockType \<noteq> SQL_LOCK_NO_CHANGE then cursor_error ''HYC00'' None S
     else if RowNumber < 1 \<or> RowNumber > c_num_rows S then cursor_error ''HY109'' None S
     else
       (case (if c_CursorType S = SQL_CURSOR_DYNAMIC then MADB_RefreshDynamicCursor exec S else (SQL_SUCCESS, S)) of
          (rc, S1) \<Rightarrow>
            if \<not> succeeded rc then (ReturnValue (c_Error S1), S1)
            else
              (let S2 = S1\<lparr>c_Position := s64 (c_Position S1 + (RowNumber - 1))\<rparr>
               in (SQL_SUCCESS, snd (MADB_StmtDataSeek (c_Position S2) S2)))))"

section \<open>A rowset is read\<close>

text \<open>Conversions that do not stop the fetch.\<close>

definition readable_rows :: "row_conv \<Rightarrow> bool" where
  "readable_rows cv \<longleftrightarrow> rv_alloc cv \<and> (\<forall>k. rv_broken cv k = None) \<and> (\<forall>i e. succeeded (fst (rv_prepare cv i e)) \<and> snd (rv_prepare cv i e) = e)
     \<and> (\<forall>k i. rv_fetch cv k i \<noteq> 1 \<and> rv_fetch cv k i \<noteq> MYSQL_NO_DATA)"

definition result_of :: "row_conv \<Rightarrow> nat \<Rightarrow> nat \<Rightarrow> int" where
  "result_of cv k i = row_result cv (rv_fetch cv k i) k i"

text \<open>What fetching does not change.\<close>

definition frame :: "cursor_stmt \<Rightarrow> (nat \<times> int \<times> int \<times> int \<times> bool) \<times> int \<times> int \<times> int \<times> bool \<times> nat" where
  "frame S = ((c_rows S, c_num_rows S, c_CursorType S, c_ArraySize S, c_NoCache S), c_column_count S, c_UseBookmarks S,
     c_BookmarkType S, c_result S, c_field_count S)"

text \<open>The rows from \<open>pos\<close> on are in the rows \<open>I\<close> of the buffers.\<close>

definition rows_stored :: "row_conv \<Rightarrow> nat \<Rightarrow> nat set \<Rightarrow> cursor_stmt \<Rightarrow> cursor_stmt \<Rightarrow> bool" where
  "rows_stored cv pos I S S1 \<longleftrightarrow> frame S1 = frame S
     \<and> c_buffers S1 = (\<lambda>i. if i \<in> I then Some (pos + i) else c_buffers S i)
     \<and> c_LastRowFetched S1 = c_LastRowFetched S + int (card I) \<and> c_Processed S1 = c_Processed S + int (card I)
     \<and> c_Position S1 = (if I = {} then c_Position S else max 0 (c_Position S))
     \<and> (\<forall>xs. c_status S = Some xs \<longrightarrow>
          (\<exists>ys. c_status S1 = Some ys \<and> length ys = length xs
             \<and> (\<forall>i < length xs. ys ! i = (if i \<in> I then MADB_MapToRowStatus (result_of cv (pos + i) i) else xs ! i))))"

lemma rows_stored_none: "rows_stored cv pos {} S S"
  by (simp add: rows_stored_def)

lemma rows_stored_more:
  assumes "rows_stored cv pos I S S1" "rows_stored cv pos J S1 S2" "I \<inter> J = {}" "finite I" "finite J"
  shows "rows_stored cv pos (I \<union> J) S S2"
proof -
  have c: "card (I \<union> J) = card I + card J" using assms(3-5) by (rule card_Un_disjoint [rotated 2])
  have st: "\<exists>zs. c_status S2 = Some zs \<and> length zs = length xs
      \<and> (\<forall>i < length xs. zs ! i = (if i \<in> I \<union> J then MADB_MapToRowStatus (result_of cv (pos + i) i) else xs ! i))"
    if xs: "c_status S = Some xs" for xs
  proof -
    obtain ys where "c_status S1 = Some ys" "length ys = length xs"
      "\<forall>i < length xs. ys ! i = (if i \<in> I then MADB_MapToRowStatus (result_of cv (pos + i) i) else xs ! i)"
      using assms(1) xs unfolding rows_stored_def by blast
    then show ?thesis using assms(2) unfolding rows_stored_def by fastforce
  qed
  have "c_buffers S2 = (\<lambda>i. if i \<in> I \<union> J then Some (pos + i) else c_buffers S i)"
    using assms(1,2) by (auto simp: rows_stored_def fun_eq_iff)
  then show ?thesis using assms(1,2) c st by (auto simp: rows_stored_def)
qed

text \<open>The state after one row.\<close>

definition row_done :: "row_conv \<Rightarrow> nat \<Rightarrow> nat \<Rightarrow> cursor_stmt \<Rightarrow> cursor_stmt" where
  "row_done cv k i S1 =
    (let S2 = snd (snd (MADB_FetchCsps cv i (write_bookmark i (S1\<lparr>c_Error := snd (rv_prepare cv i (c_Error S1))\<rparr>))));
         S3 = S2\<lparr>c_Processed := c_Processed S2 + 1, c_Position := (if c_Position S2 < 0 then 0 else c_Position S2)\<rparr>
     in set_status i (MADB_MapToRowStatus (result_of cv k i))
          (S3\<lparr>c_LastRowFetched := c_LastRowFetched S3 + 1, c_PositionedCursor := c_PositionedCursor S3 + 1\<rparr>))"

lemma write_bookmark_members [simp]:
  "c_result_cursor (write_bookmark i S) = c_result_cursor S" "frame (write_bookmark i S) = frame S"
  "c_buffers (write_bookmark i S) = c_buffers S" "c_Position (write_bookmark i S) = c_Position S"
  "c_LastRowFetched (write_bookmark i S) = c_LastRowFetched S" "c_Processed (write_bookmark i S) = c_Processed S"
  "c_status (write_bookmark i S) = c_status S" "c_Error (write_bookmark i S) = c_Error S" "c_Next (write_bookmark i S) = c_Next S" "c_rows (write_bookmark i S) = c_rows S"
  "NO_CACHE (write_bookmark i S) = NO_CACHE S" "c_num_rows (write_bookmark i S) = c_num_rows S"
  "c_CursorType (write_bookmark i S) = c_CursorType S" "c_ArraySize (write_bookmark i S) = c_ArraySize S"
  "c_NoCache (write_bookmark i S) = c_NoCache S" "c_column_count (write_bookmark i S) = c_column_count S"
  "c_UseBookmarks (write_bookmark i S) = c_UseBookmarks S" "c_BookmarkType (write_bookmark i S) = c_BookmarkType S"
  "c_result (write_bookmark i S) = c_result S" "c_field_count (write_bookmark i S) = c_field_count S"
  by (simp_all add: write_bookmark_def frame_def NO_CACHE_def)

lemma fetch_loop_row:
  assumes "readable_rows cv" "fetch_target n save j S = (i, S1)" "c_result_cursor S1 = Some k"
  shows "fetch_loop cv n save j (Suc m) Result S =
    fetch_loop cv n save (j + 1) m (CALC_ALL_ROWS_RC Result (result_of cv k i) i) (row_done cv k i S1)"
proof -
  obtain prc e where p: "rv_prepare cv i (c_Error S1) = (prc, e)" by fastforce
  have s: "succeeded prc" using assms(1) p unfolding readable_rows_def by (metis fst_conv)
  define S2 where "S2 = snd (snd (MADB_FetchCsps cv i (write_bookmark i (S1\<lparr>c_Error := e\<rparr>))))"
  have f: "MADB_FetchCsps cv i (write_bookmark i (S1\<lparr>c_Error := e\<rparr>)) = (rv_fetch cv k i, k, S2)"
    using assms(1,3) by (simp add: MADB_FetchCsps_def FetchRowCsps_def readable_rows_def S2_def)
  have r: "rv_fetch cv k i \<noteq> 1" "rv_fetch cv k i \<noteq> MYSQL_NO_DATA" using assms(1) by (simp_all add: readable_rows_def)
  show ?thesis
    using s r f p unfolding fetch_loop.simps(2) assms(2) prod.case
    by (simp add: row_done_def result_of_def Let_def del: fetch_loop.simps)
qed

lemma row_done_stored:
  assumes "readable_rows cv" "c_result_cursor S = Some (pos + i)"
  shows "rows_stored cv pos {i} S (row_done cv (pos + i) i S)"
    "c_result_cursor (row_done cv (pos + i) i S) = row_ptr (c_rows S) (pos + i + 1)"
    "c_Next (row_done cv (pos + i) i S) = c_Next S"
  using assms
  by (auto simp: rows_stored_def row_done_def MADB_FetchCsps_def FetchRowCsps_def readable_rows_def set_status_def
      Let_def frame_def fun_eq_iff)

lemma rows_stored_frame:
  "rows_stored cv pos I S S1 \<Longrightarrow> c_rows S1 = c_rows S \<and> c_num_rows S1 = c_num_rows S \<and> c_CursorType S1 = c_CursorType S
     \<and> c_ArraySize S1 = c_ArraySize S \<and> c_NoCache S1 = c_NoCache S"
  by (simp add: rows_stored_def frame_def)

lemma rows_stored_pointers [simp]:
  "rows_stored cv pos I (S\<lparr>c_Next := a, c_result_cursor := b\<rparr>) S1 = rows_stored cv pos I S S1"
  "rows_stored cv pos I (S\<lparr>c_result_cursor := b\<rparr>) S1 = rows_stored cv pos I S S1"
  by (simp_all add: rows_stored_def frame_def cong: if_cong)

lemma forward_loop:
  assumes "readable_rows cv" "c_result_cursor S = row_ptr (c_rows S) (pos + j)" "pos + j + m \<le> c_rows S"
  shows "\<exists>S1. fetch_loop cv n None j m Result S =
      (fold (\<lambda>i acc. CALC_ALL_ROWS_RC acc (result_of cv (pos + i) i) i) [j..<j + m] Result, S1)
    \<and> rows_stored cv pos {j..<j + m} S S1 \<and> c_result_cursor S1 = row_ptr (c_rows S) (pos + j + m) \<and> c_Next S1 = c_Next S"
  using assms(2,3)
proof (induction m arbitrary: j Result S)
  case 0
  then show ?case by (auto simp: rows_stored_def frame_def)
next
  case (Suc m)
  have k: "c_result_cursor S = Some (pos + j)" using Suc.prems by (simp add: row_ptr_def)
  note r = row_done_stored [OF assms(1) k]
  have f: "c_rows (row_done cv (pos + j) j S) = c_rows S" using rows_stored_frame [OF r(1)] by simp
  obtain S1 where S1: "fetch_loop cv n None (j + 1) m (CALC_ALL_ROWS_RC Result (result_of cv (pos + j) j) j) (row_done cv (pos + j) j S) =
      (fold (\<lambda>i acc. CALC_ALL_ROWS_RC acc (result_of cv (pos + i) i) i) [j + 1..<j + 1 + m]
         (CALC_ALL_ROWS_RC Result (result_of cv (pos + j) j) j), S1)"
    "rows_stored cv pos {j + 1..<j + 1 + m} (row_done cv (pos + j) j S) S1"
    "c_result_cursor S1 = row_ptr (c_rows S) (pos + (j + 1) + m)" "c_Next S1 = c_Next S"
    using Suc.IH [of "row_done cv (pos + j) j S" "j + 1"] r(2,3) Suc.prems(2) unfolding f by auto
  have "fetch_target n None j S = (j, S)" by (simp add: fetch_target_def)
  from fetch_loop_row [OF assms(1) this k] S1(1)
  have "fetch_loop cv n None j (Suc m) Result S =
      (fold (\<lambda>i acc. CALC_ALL_ROWS_RC acc (result_of cv (pos + i) i) i) [j..<j + Suc m] Result, S1)"
    by (simp add: upt_conv_Cons del: upt_Suc fetch_loop.simps)
  moreover have "{j..<j + Suc m} = {j} \<union> {j + 1..<j + 1 + m}" by auto
  then have "rows_stored cv pos {j..<j + Suc m} S S1"
    using rows_stored_more [OF r(1) S1(2)] by simp
  ultimately show ?case using S1(3,4) by simp
qed

lemma scroll_loop:
  assumes "readable_rows cv" "c_result_cursor S = row_ptr (c_rows S) (pos + 1 + j)" "j + Suc m = n" "pos + n \<le> c_rows S"
  shows "\<exists>S1. fetch_loop cv n (Some pos) j (Suc m) Result S = (result_of cv pos 0, S1)
    \<and> rows_stored cv pos (insert 0 {j + 1..<n}) S S1 \<and> c_result_cursor S1 = row_ptr (c_rows S) (pos + 1)
    \<and> c_Next S1 = row_ptr (c_rows S) (pos + n)"
  using assms(2-4)
proof (induction m arbitrary: j Result S)
  case 0
  define S0 where "S0 = S\<lparr>c_Next := c_result_cursor S, c_result_cursor := Some pos\<rparr>"
  have t: "fetch_target n (Some pos) j S = (0, S0)" using 0 by (simp add: fetch_target_def S0_def)
  have k: "c_result_cursor S0 = Some (pos + 0)" by (simp add: S0_def)
  note r = row_done_stored [OF assms(1) k]
  have "fetch_loop cv n (Some pos) j (Suc 0) Result S = fetch_loop cv n (Some pos) (j + 1) 0
      (CALC_ALL_ROWS_RC Result (result_of cv pos 0) 0) (row_done cv pos 0 S0)"
    using fetch_loop_row [OF assms(1) t k] by (simp del: fetch_loop.simps)
  then show ?case using r 0 rows_stored_more [OF r(1), of "{}"]
    by (auto simp: CALC_ALL_ROWS_RC_def S0_def rows_stored_def frame_def)
next
  case (Suc m)
  have t: "fetch_target n (Some pos) j S = (j + 1, S)" using Suc.prems(2) by (simp add: fetch_target_def)
  have k: "c_result_cursor S = Some (pos + (j + 1))" using Suc.prems by (simp add: row_ptr_def)
  note r = row_done_stored [OF assms(1) k]
  have f: "c_rows (row_done cv (pos + (j + 1)) (j + 1) S) = c_rows S" using rows_stored_frame [OF r(1)] by simp
  obtain S1 where S1: "fetch_loop cv n (Some pos) (j + 1) (Suc m) (CALC_ALL_ROWS_RC Result (result_of cv (pos + (j + 1)) (j + 1)) (j + 1))
      (row_done cv (pos + (j + 1)) (j + 1) S) = (result_of cv pos 0, S1)"
    "rows_stored cv pos (insert 0 {j + 1 + 1..<n}) (row_done cv (pos + (j + 1)) (j + 1) S) S1"
    "c_result_cursor S1 = row_ptr (c_rows S) (pos + 1)" "c_Next S1 = row_ptr (c_rows S) (pos + n)"
    using Suc.IH [of "row_done cv (pos + (j + 1)) (j + 1) S" "j + 1"] r(2) Suc.prems(2,3) unfolding f by auto
  have "insert 0 {j + 1..<n} = {j + 1} \<union> insert 0 {j + 1 + 1..<n}" using Suc.prems(2) by auto
  moreover have "{j + 1} \<inter> insert 0 {j + 1 + 1..<n} = {}" by auto
  ultimately have "rows_stored cv pos (insert 0 {j + 1..<n}) S S1" using rows_stored_more [OF r(1) S1(2)] by simp
  then show ?case using fetch_loop_row [OF assms(1) t k] S1 by (simp del: fetch_loop.simps)
qed

text \<open>A stored result and buffers for at least one row.  Row numbers in a rowset are unsigned 32-bit numbers.\<close>

definition fetch_ready :: "int \<Rightarrow> cursor_stmt \<Rightarrow> bool" where
  "fetch_ready bm S \<longleftrightarrow> c_column_count S > 0 \<and> \<not> NO_CACHE S
     \<and> \<not> (c_UseBookmarks S = SQL_UB_VARIABLE \<and> c_BookmarkType S = bm)
     \<and> \<not> (c_UseBookmarks S \<noteq> SQL_UB_VARIABLE \<and> c_BookmarkType S = SQL_C_VARBOOKMARK)
     \<and> 1 \<le> c_ArraySize S \<and> c_ArraySize S < 2 ^ 31 \<and> c_num_rows S = int (c_rows S) \<and> c_rows S < 2 ^ 62"

definition rowset_length :: "nat \<Rightarrow> cursor_stmt \<Rightarrow> nat" where
  "rowset_length pos S = min (nat (c_ArraySize S)) (c_rows S - pos)"

text \<open>The rowset of \<open>n\<close> rows from row \<open>pos\<close> on has been read; the status array says so.\<close>

definition rowset_read :: "row_conv \<Rightarrow> nat \<Rightarrow> nat \<Rightarrow> cursor_stmt \<Rightarrow> cursor_stmt \<Rightarrow> bool" where
  "rowset_read cv pos n S S1 \<longleftrightarrow>
     c_buffers S1 = (\<lambda>i. if i < n then Some (pos + i) else c_buffers S i)
     \<and> c_LastRowFetched S1 = int n \<and> c_Processed S1 = int n \<and> c_Position S1 = int pos
     \<and> (\<forall>xs. c_status S = Some xs \<and> c_ArraySize S \<le> int (length xs) \<longrightarrow>
          (\<exists>ys. c_status S1 = Some ys
             \<and> (\<forall>i < n. ys ! i = MADB_MapToRowStatus (result_of cv (pos + i) i))
             \<and> (\<forall>i. n \<le> i \<and> i < nat (c_ArraySize S) \<longrightarrow> ys ! i = SQL_ROW_NOROW)))"

text \<open>Where the next rowset will be looked for.\<close>

definition before_next :: "nat \<Rightarrow> nat \<Rightarrow> cursor_stmt \<Rightarrow> bool" where
  "before_next pos n S \<longleftrightarrow>
     (if c_CursorType S = SQL_CURSOR_FORWARD_ONLY \<or> n \<le> 1 then c_result_cursor S = row_ptr (c_rows S) (pos + n)
      else c_Next S = row_ptr (c_rows S) (pos + n))"

definition fetch_result :: "row_conv \<Rightarrow> nat \<Rightarrow> nat \<Rightarrow> cursor_stmt \<Rightarrow> int" where
  "fetch_result cv pos n S =
    (if n > 1 \<and> c_CursorType S \<noteq> SQL_CURSOR_FORWARD_ONLY then result_of cv pos 0
     else fold (\<lambda>i acc. CALC_ALL_ROWS_RC acc (result_of cv (pos + i) i) i) [0..<n] SQL_SUCCESS)"

lemma RowsToFetch_eq:
  assumes "fetch_ready bm S" "pos < c_rows S" "max 0 (c_Position S) = int pos"
    "c_RowsetSize S = c_ArraySize S"
  shows "MADB_RowsToFetch S (c_num_rows S) = int (rowset_length pos S)"
proof -
  have "u64 (int pos + c_ArraySize S) = int pos + c_ArraySize S"
    using assms(1,2) by (simp add: fetch_ready_def cast_simps)
  then show ?thesis using assms
    by (auto simp: MADB_RowsToFetch_def fetch_ready_def rowset_length_def Let_def max_def split: if_splits)
qed

lemma rows_stored_read:
  assumes "rows_stored cv pos {0..<n} S2 S1" "c_LastRowFetched S2 = 0" "c_Processed S2 = 0" "max 0 (c_Position S2) = int pos"
    "c_status S2 = MADB_InitStatusPtr (c_status S) (c_ArraySize S) SQL_ROW_NOROW" "c_buffers S2 = c_buffers S" "0 < n"
    "n \<le> nat (c_ArraySize S)"
  shows "rowset_read cv pos n S S1"
proof -
  have st: "\<exists>ys. c_status S1 = Some ys \<and> (\<forall>i < n. ys ! i = MADB_MapToRowStatus (result_of cv (pos + i) i))
      \<and> (\<forall>i. n \<le> i \<and> i < nat (c_ArraySize S) \<longrightarrow> ys ! i = SQL_ROW_NOROW)"
    if xs: "c_status S = Some xs" "c_ArraySize S \<le> int (length xs)" for xs
  proof -
    define zs where "zs = replicate (nat (c_ArraySize S)) SQL_ROW_NOROW @ drop (nat (c_ArraySize S)) xs"
    have z: "c_status S2 = Some zs" "nat (c_ArraySize S) \<le> length zs" "\<forall>i < nat (c_ArraySize S). zs ! i = SQL_ROW_NOROW"
      using xs assms(5) by (simp_all add: MADB_InitStatusPtr_def zs_def nth_append)
    obtain ys where "c_status S1 = Some ys" "length ys = length zs"
      "\<forall>i < length zs. ys ! i = (if i \<in> {0..<n} then MADB_MapToRowStatus (result_of cv (pos + i) i) else zs ! i)"
      using assms(1) z(1) unfolding rows_stored_def by blast
    then show ?thesis using z assms(8) by auto
  qed
  show ?thesis using assms(1-4,6,7) st by (auto simp: rows_stored_def rowset_read_def)
qed

lemma Fetch_rowset:
  assumes "readable_rows cv" "fetch_ready bm S" "c_result_cursor S = Some pos" "pos < c_rows S"
    and "max 0 (c_Position S) = int pos"
  defines "n \<equiv> rowset_length pos S"
  shows "\<exists>S1. MADB_StmtFetch bm cv S = (fetch_result cv pos n S, S1) \<and> rowset_read cv pos n S S1 \<and> before_next pos n S1
    \<and> frame S1 = frame (S\<lparr>c_result := True\<rparr>)"
proof -
  define S2 where "S2 = S\<lparr>c_Error := MADB_CLEAR_ERROR (c_Error S), c_LastRowFetched := 0, c_RowsetSize := c_ArraySize S,
      c_result := True, c_ard_status := MADB_InitStatusPtr (c_ard_status S) (c_ArraySize S) SQL_NO_DATA,
      c_status := MADB_InitStatusPtr (c_status S) (c_ArraySize S) SQL_ROW_NOROW, c_Processed := 0\<rparr>"
  define again where "again = (n > 1 \<and> c_CursorType S \<noteq> SQL_CURSOR_FORWARD_ONLY)"
  have n: "0 < n" "n \<le> nat (c_ArraySize S)" "pos + n \<le> c_rows S"
    using assms(2,4) by (auto simp: n_def rowset_length_def fetch_ready_def)
  have rtf: "MADB_RowsToFetch (S\<lparr>c_Error := MADB_CLEAR_ERROR (c_Error S), c_LastRowFetched := 0, c_RowsetSize := c_ArraySize S\<rparr>)
      (c_num_rows S) = int n"
    using RowsToFetch_eq [of bm "S\<lparr>c_Error := MADB_CLEAR_ERROR (c_Error S), c_LastRowFetched := 0, c_RowsetSize := c_ArraySize S\<rparr>" pos]
      assms(2,4,5) by (simp add: fetch_ready_def NO_CACHE_def n_def rowset_length_def)
  have call: "MADB_StmtFetch bm cv S = fetch_loop cv n (if again then Some pos else None) 0 n SQL_SUCCESS
      (if again then MoveNext cv S2 else S2)"
    using assms(1,2) rtf n assms(3)
    by (auto simp: MADB_StmtFetch_def fetch_ready_def NO_CACHE_def readable_rows_def again_def S2_def Let_def
        simp del: fetch_loop.simps)
  have S2: "frame S2 = frame (S\<lparr>c_result := True\<rparr>)" "c_result_cursor S2 = Some pos" "c_rows S2 = c_rows S" "c_Next S2 = c_Next S"
    using assms(3) by (simp_all add: S2_def frame_def)
  have read: "rowset_read cv pos n S S1" if "rows_stored cv pos {0..<n} S2 S1" for S1
    using rows_stored_read [OF that] n assms(5) by (simp add: S2_def)
  have fr: "frame S1 = frame (S\<lparr>c_result := True\<rparr>)" "c_rows S1 = c_rows S" "c_CursorType S1 = c_CursorType S"
    if "rows_stored cv pos {0..<n} S2 S1" for S1
    using that S2(1) by (simp_all add: rows_stored_def frame_def)
  have fres: "fetch_result cv pos n S = (if again then result_of cv pos 0
      else fold (\<lambda>i acc. CALC_ALL_ROWS_RC acc (result_of cv (pos + i) i) i) [0..<n] SQL_SUCCESS)"
    by (simp only: fetch_result_def again_def)
  show ?thesis
  proof (cases again)
    case True
    have m: "MoveNext cv S2 = S2\<lparr>c_Next := c_Next S2, c_result_cursor := row_ptr (c_rows S2) (pos + 1)\<rparr>"
      using assms(1,2) S2(2) by (simp add: MoveNext_def FetchRowCsps_def readable_rows_def S2_def NO_CACHE_def fetch_ready_def)
    have ins: "insert 0 {0 + 1..<n} = {0..<n}" "Suc (n - 1) = n" using n(1) by auto
    have c: "c_result_cursor (MoveNext cv S2) = row_ptr (c_rows (MoveNext cv S2)) (pos + 1 + 0)" "c_rows (MoveNext cv S2) = c_rows S"
      using S2(3) by (simp_all add: m)
    obtain S1 where s1: "fetch_loop cv n (Some pos) 0 n SQL_SUCCESS (MoveNext cv S2) = (result_of cv pos 0, S1)"
      "rows_stored cv pos {0..<n} (MoveNext cv S2) S1" "c_Next S1 = row_ptr (c_rows S) (pos + n)"
      using scroll_loop [OF assms(1) c(1), of "n - 1" n SQL_SUCCESS] n(3) unfolding c(2) ins by auto
    have s2: "rows_stored cv pos {0..<n} S2 S1" using s1(2) by (simp add: m)
    have "MADB_StmtFetch bm cv S = (fetch_result cv pos n S, S1)"
      using call True s1(1) fres by (simp del: fetch_loop.simps)
    moreover have "before_next pos n S1" using s1(3) fr [OF s2] True by (simp add: before_next_def again_def)
    ultimately show ?thesis using read [OF s2] fr(1) [OF s2] by blast
  next
    case False
    have c: "c_result_cursor S2 = row_ptr (c_rows S2) (pos + 0)" using S2 assms(4) by (simp add: row_ptr_def)
    obtain S1 where s1: "fetch_loop cv n None 0 n SQL_SUCCESS S2 =
        (fold (\<lambda>i acc. CALC_ALL_ROWS_RC acc (result_of cv (pos + i) i) i) [0..<n] SQL_SUCCESS, S1)"
      "rows_stored cv pos {0..<n} S2 S1" "c_result_cursor S1 = row_ptr (c_rows S) (pos + n)"
      using forward_loop [OF assms(1) c, of n n SQL_SUCCESS] S2(3) n(3) unfolding add_0_right add_0_left by auto
    have "MADB_StmtFetch bm cv S = (fetch_result cv pos n S, S1)"
      using call False s1(1) fres by (simp del: fetch_loop.simps)
    moreover have "before_next pos n S1" using s1(3) fr [OF s1(2)] False n(1) by (auto simp: before_next_def again_def)
    ultimately show ?thesis using read [OF s1(2)] fr(1) [OF s1(2)] by blast
  qed
qed

section \<open>Reading a result from start to end\<close>

text \<open>An application that reads forward, with a rowset size of its own for every call.\<close>

datatype rowset = Rows "nat list" | End_of_rows | Fetch_failed

fun fetch_seq ::
  "int \<Rightarrow> row_conv \<Rightarrow> (cursor_stmt \<Rightarrow> int \<times> cursor_stmt) \<Rightarrow> nat list \<Rightarrow> cursor_stmt \<Rightarrow> rowset list" where
  "fetch_seq bm cv exec [] S = []"
| "fetch_seq bm cv exec (a # as) S =
    (case MADB_StmtFetchScroll bm cv exec SQL_FETCH_NEXT 0 (S\<lparr>c_ArraySize := int a\<rparr>) of
       (ret, S1) \<Rightarrow>
         if succeeded ret
         then Rows (map (\<lambda>i. the (c_buffers S1 i)) [0..<nat (c_LastRowFetched S1)]) # fetch_seq bm cv exec as S1
         else if ret = SQL_NO_DATA then [End_of_rows] else [Fetch_failed])"

fun rowsets :: "nat list \<Rightarrow> nat list \<Rightarrow> rowset list" where
  "rowsets [] rows = []"
| "rowsets (a # as) rows = (if rows = [] then [End_of_rows] else Rows (take a rows) # rowsets as (drop a rows))"

text \<open>Row \<open>p\<close> is the next one.\<close>

definition at_next :: "nat \<Rightarrow> cursor_stmt \<Rightarrow> bool" where
  "at_next p S \<longleftrightarrow> p \<le> c_rows S \<and>
     (p = 0 \<and> c_Position S < 0 \<and> c_LastRowFetched S = 0 \<and> c_result_cursor S = row_ptr (c_rows S) 0 \<or>
      (\<exists>pos n. 1 \<le> n \<and> p = pos + n \<and> c_Position S = int pos \<and> c_LastRowFetched S = int n \<and> before_next pos n S))"

definition clean_rows :: "row_conv \<Rightarrow> bool" where
  "clean_rows cv \<longleftrightarrow> readable_rows cv \<and> (\<forall>k i. succeeded (result_of cv k i))"

lemma fetch_result_succeeded:
  assumes "clean_rows cv"
  shows "succeeded (fetch_result cv pos n S)"
proof -
  have c: "succeeded (CALC_ALL_ROWS_RC acc (result_of cv k i) i)" if "succeeded acc" for acc k i
    using that assms by (simp add: clean_rows_def CALC_ALL_ROWS_RC_def succeeded_def)
  have "succeeded (fold (\<lambda>i acc. CALC_ALL_ROWS_RC acc (result_of cv (pos + i) i) i) is acc)" if "succeeded acc" for "is" acc
    using that by (induction "is" arbitrary: acc) (simp_all add: c)
  then show ?thesis using assms by (simp add: fetch_result_def clean_rows_def succeeded_def)
qed

lemma fetch_empty:
  assumes "readable_rows cv" "fetch_ready bm S" "c_rows S = 0" "c_Position S = 0" "c_result_cursor S = None"
  shows "\<exists>S1. MADB_StmtFetch bm cv S = (SQL_NO_DATA, S1) \<and> c_LastRowFetched S1 = 0"
proof -
  define S0 where "S0 = S\<lparr>c_Error := MADB_CLEAR_ERROR (c_Error S), c_LastRowFetched := 0, c_RowsetSize := c_ArraySize S\<rparr>"
  define S2 where "S2 = S0\<lparr>c_result := True, c_ard_status := MADB_InitStatusPtr (c_ard_status S) (c_ArraySize S) SQL_NO_DATA,
      c_status := MADB_InitStatusPtr (c_status S) (c_ArraySize S) SQL_ROW_NOROW, c_Processed := 0\<rparr>"
  have "u64 (c_ArraySize S) = c_ArraySize S" using assms(2) by (simp add: fetch_ready_def cast_simps)
  then have "MADB_RowsToFetch S0 (c_num_rows S) = 1"
    using assms(2-4) by (simp add: MADB_RowsToFetch_def S0_def fetch_ready_def)
  then have call: "MADB_StmtFetch bm cv S = fetch_loop cv 1 None 0 1 SQL_SUCCESS S2"
    using assms(1,2) by (auto simp: MADB_StmtFetch_def fetch_ready_def NO_CACHE_def readable_rows_def S2_def S0_def Let_def
        simp del: fetch_loop.simps)
  obtain prc e where p: "rv_prepare cv 0 (c_Error S2) = (prc, e)" by fastforce
  then have pe: "succeeded prc" "e = c_Error S2" using assms(1) unfolding readable_rows_def by (metis fst_conv snd_conv)+
  have "succeeded (ReturnValue (c_Error S2))" by (simp add: S2_def S0_def MADB_CLEAR_ERROR_def succeeded_def)
  moreover have "c_result_cursor S2 = None" "\<not> NO_CACHE S2" "S2\<lparr>c_Error := e\<rparr> = S2"
    using assms(2,5) pe(2) by (auto simp: S2_def S0_def fetch_ready_def NO_CACHE_def)
  ultimately have f: "MADB_FetchCsps cv 0 (write_bookmark 0 (S2\<lparr>c_Error := e\<rparr>)) = (MYSQL_NO_DATA, 0, write_bookmark 0 S2)"
    by (simp add: MADB_FetchCsps_def FetchRowCsps_def)
  have "c_LastRowFetched S2 = 0" by (simp add: S2_def S0_def)
  then show ?thesis unfolding call using p pe f
    by (simp add: fetch_target_def Let_def)
qed

text \<open>Reading on from row \<open>p\<close>.\<close>

lemma FetchScroll_next_position:
  assumes "fetch_ready bm S" "c_CursorType S \<noteq> SQL_CURSOR_DYNAMIC" "at_next p S"
  shows "MADB_StmtFetchScroll bm cv exec SQL_FETCH_NEXT 0 S = fetch_at bm cv SQL_FETCH_NEXT (c_LastRowFetched S) (int p) S"
    "S\<lparr>c_Position := s64 (min (u64 (int p)) (c_num_rows S))\<rparr> = S\<lparr>c_Position := int p\<rparr>"
    "u64 (int p) > u64 (c_num_rows S - 1) \<longleftrightarrow> p = c_rows S \<and> 0 < c_rows S"
proof -
  have num: "c_num_rows S = int (c_rows S)" "int (c_rows S) < 2 ^ 62" "p \<le> c_rows S"
    using assms by (simp_all add: fetch_ready_def at_next_def)
  have c: "s64 (int p) = int p" "u64 (int p) = int p" "0 < c_rows S \<Longrightarrow> u64 (int (c_rows S) - 1) = int (c_rows S) - 1"
    "u64 (- 1) = 2 ^ 64 - 1" using num by (simp_all add: cast_simps u64_def)
  have "(if c_Position S < 0 then 0 else s64 (c_Position S + c_LastRowFetched S)) = int p"
    using assms(3) c(1) by (auto simp: at_next_def)
  then show "MADB_StmtFetchScroll bm cv exec SQL_FETCH_NEXT 0 S = fetch_at bm cv SQL_FETCH_NEXT (c_LastRowFetched S) (int p) S"
    using assms(2) by (simp add: MADB_StmtFetchScroll_def scroll_position_def succeeded_def)
  show "S\<lparr>c_Position := s64 (min (u64 (int p)) (c_num_rows S))\<rparr> = S\<lparr>c_Position := int p\<rparr>"
    using num c by (simp add: min_def)
  show "u64 (int p) > u64 (c_num_rows S - 1) \<longleftrightarrow> p = c_rows S \<and> 0 < c_rows S"
    using num c by (cases "c_rows S") auto
qed

lemma FetchScroll_end:
  assumes "readable_rows cv" "fetch_ready bm S" "c_CursorType S \<noteq> SQL_CURSOR_DYNAMIC" "at_next (c_rows S) S"
  shows "\<exists>S1. MADB_StmtFetchScroll bm cv exec SQL_FETCH_NEXT 0 S = (SQL_NO_DATA, S1)"
proof -
  note n = FetchScroll_next_position [OF assms(2-4)]
  have nc: "\<not> NO_CACHE S" using assms(2) by (simp add: fetch_ready_def)
  show ?thesis
  proof (cases "c_rows S = 0")
    case True
    then have z: "c_Position S < 0" "c_LastRowFetched S = 0" "c_result_cursor S = None"
      using assms(4) by (auto simp: at_next_def row_ptr_def)
    obtain S3 where "MADB_StmtFetch bm cv (S\<lparr>c_Position := 0\<rparr>) = (SQL_NO_DATA, S3)" "c_LastRowFetched S3 = 0"
      using fetch_empty [of cv bm "S\<lparr>c_Position := 0\<rparr>"] assms(1,2) True z
      by (auto simp: fetch_ready_def NO_CACHE_def)
    then show ?thesis unfolding n(1) fetch_at_def n(2,3) using nc z(2) assms(3) True by (simp add: Let_def)
  next
    case False
    then show ?thesis unfolding n(1) fetch_at_def n(2,3) using nc by (simp add: Let_def)
  qed
qed

lemma FetchScroll_more:
  assumes "clean_rows cv" "fetch_ready bm S" "c_CursorType S \<noteq> SQL_CURSOR_DYNAMIC" "at_next p S" "p < c_rows S"
  shows "\<exists>ret S1. MADB_StmtFetchScroll bm cv exec SQL_FETCH_NEXT 0 S = (ret, S1) \<and> succeeded ret
    \<and> frame S1 = frame (S\<lparr>c_result := True\<rparr>) \<and> at_next (p + rowset_length p S) S1
    \<and> c_LastRowFetched S1 = int (rowset_length p S) \<and> (\<forall>i < rowset_length p S. c_buffers S1 i = Some (p + i))"
proof -
  note n = FetchScroll_next_position [OF assms(2-4)]
  define seek where "seek = (c_LastRowFetched S > 1 \<and> c_CursorType S \<noteq> SQL_CURSOR_FORWARD_ONLY)"
  define S1 where "S1 = S\<lparr>c_Position := int p\<rparr>"
  define S2 where "S2 = S1\<lparr>c_result_cursor := Some p\<rparr>"
  have "row_ptr (c_rows S) p = Some p" using assms(5) by (simp add: row_ptr_def)
  then have at: "if seek then c_Next S = Some p else c_result_cursor S = Some p"
    using assms(4) by (auto simp: at_next_def before_next_def seek_def split: if_splits)
  have ready: "fetch_ready bm S2" "c_result_cursor S2 = Some p" "max 0 (c_Position S2) = int p" "p < c_rows S2"
    using assms(2,5) by (simp_all add: S2_def S1_def fetch_ready_def NO_CACHE_def)
  have rr: "readable_rows cv" using assms(1) by (simp add: clean_rows_def)
  have len: "rowset_length p S2 = rowset_length p S" "fetch_result cv p n S2 = fetch_result cv p n S"
    "frame (S2\<lparr>c_result := True\<rparr>) = frame (S\<lparr>c_result := True\<rparr>)" for n
    by (simp_all add: S2_def S1_def rowset_length_def fetch_result_def frame_def)
  obtain S3 where f: "MADB_StmtFetch bm cv S2 = (fetch_result cv p (rowset_length p S) S, S3)"
    "rowset_read cv p (rowset_length p S) S2 S3" "before_next p (rowset_length p S) S3" "frame S3 = frame (S\<lparr>c_result := True\<rparr>)"
    using Fetch_rowset [OF rr ready(1,2,4,3)] unfolding len by blast
  have s2: "S1\<lparr>c_result_cursor := c_Next S\<rparr> = S2" if seek using at that by (simp add: S2_def)
  have s2': "S1 = S2" if "\<not> seek" using at that by (simp add: S2_def S1_def)
  have le: "1 \<le> rowset_length p S" "p + rowset_length p S \<le> c_rows S"
    using assms(2,5) by (auto simp: rowset_length_def fetch_ready_def)
  have "fetch_at bm cv SQL_FETCH_NEXT (c_LastRowFetched S) (int p) S = (fetch_result cv p (rowset_length p S) S, S3)"
    using assms(2,3,5) f(1) at s2 s2' fetch_result_succeeded [OF assms(1), of p "rowset_length p S" S]
    unfolding fetch_at_def n(2,3) S1_def [symmetric] Let_def
    by (cases seek) (auto simp: seek_def S1_def succeeded_def fetch_ready_def)
  moreover have "at_next (p + rowset_length p S) S3" using f le by (auto simp: at_next_def rowset_read_def frame_def)
  moreover have "\<forall>i < rowset_length p S. c_buffers S3 i = Some (p + i)" "c_LastRowFetched S3 = int (rowset_length p S)"
    using f(2) by (simp_all add: rowset_read_def)
  ultimately show ?thesis using n(1) f(4) fetch_result_succeeded [OF assms(1)] by auto
qed

lemma at_next_size [simp]: "at_next p (S\<lparr>c_ArraySize := a\<rparr>) = at_next p S"
  by (simp add: at_next_def before_next_def)

lemma fetch_seq_rowsets:
  assumes "clean_rows cv" "fetch_ready bm (S\<lparr>c_ArraySize := 1\<rparr>)" "c_CursorType S \<noteq> SQL_CURSOR_DYNAMIC" "at_next p S"
    and "\<forall>a \<in> set sizes. 1 \<le> a \<and> a < 2 ^ 31"
  shows "fetch_seq bm cv exec sizes S = rowsets sizes [p..<c_rows S]"
  using assms(2-5)
proof (induction sizes arbitrary: S p)
  case (Cons a as)
  define T where "T = S\<lparr>c_ArraySize := int a\<rparr>"
  have T: "fetch_ready bm T" "c_CursorType T \<noteq> SQL_CURSOR_DYNAMIC" "at_next p T" "c_rows T = c_rows S"
    using Cons.prems by (auto simp: T_def fetch_ready_def NO_CACHE_def)
  show ?case
  proof (cases "p < c_rows S")
    case True
    define n where "n = rowset_length p T"
    obtain ret S1 where s: "MADB_StmtFetchScroll bm cv exec SQL_FETCH_NEXT 0 T = (ret, S1)" "succeeded ret"
      "frame S1 = frame (T\<lparr>c_result := True\<rparr>)" "at_next (p + n) S1" "c_LastRowFetched S1 = int n"
      "\<forall>i < n. c_buffers S1 i = Some (p + i)"
      using FetchScroll_more [OF assms(1) T(1-3), of exec] True T(4) unfolding n_def by auto
    have S1: "fetch_ready bm (S1\<lparr>c_ArraySize := 1\<rparr>)" "c_CursorType S1 \<noteq> SQL_CURSOR_DYNAMIC" "c_rows S1 = c_rows S"
      using s(3) Cons.prems(1,2) by (auto simp: frame_def T_def fetch_ready_def NO_CACHE_def)
    have n: "n = min a (c_rows S - p)" by (simp add: n_def rowset_length_def T_def)
    have "map (\<lambda>i. the (c_buffers S1 i)) [0..<n] = [p..<p + n]"
      using s(6) by (intro nth_equalityI) simp_all
    moreover have "take a [p..<c_rows S] = [p..<p + n]" using True n by (simp add: min_def)
    moreover have "drop a [p..<c_rows S] = [p + n..<c_rows S]" using True n by (simp add: min_def)
    moreover have "fetch_seq bm cv exec as S1 = rowsets as [p + n..<c_rows S]"
      using Cons.IH [OF S1(1,2) s(4)] Cons.prems(4) S1(3) by simp
    ultimately show ?thesis using s True by (simp add: T_def)
  next
    case False
    then have "p = c_rows S" using T(3,4) by (simp add: at_next_def)
    then show ?thesis
      using FetchScroll_end [of cv bm T exec] T assms(1) by (auto simp: T_def clean_rows_def succeeded_def)
  qed
qed simp

text \<open>
  C6.  Reading forward.  After the statement was executed, calls that fetch the next rowset give the rows of
  the result in order, each once, in pieces of the sizes the application asks for, whatever they are and
  however they change from call to call, and then report the end.
\<close>

theorem fetching_reads_all_rows:
  assumes "clean_rows cv" "fetch_ready bm (S\<lparr>c_ArraySize := 1\<rparr>)" "c_CursorType S \<noteq> SQL_CURSOR_DYNAMIC"
    and "c_result_cursor S = row_ptr (c_rows S) 0" "\<forall>a \<in> set sizes. 1 \<le> a \<and> a < 2 ^ 31"
  shows "fetch_seq bm cv exec sizes (MADB_StmtResetResultStructures S) = rowsets sizes [0..<c_rows S]"
proof -
  define T where "T = MADB_StmtResetResultStructures S"
  have t: "fetch_ready bm (T\<lparr>c_ArraySize := 1\<rparr>)" "c_CursorType T \<noteq> SQL_CURSOR_DYNAMIC" "at_next 0 T" "c_rows T = c_rows S"
    using assms(2-4) by (simp_all add: T_def MADB_StmtResetResultStructures_def MADB_STMT_RESET_CURSOR_def
        MADB_STMT_FORGET_NEXT_POS_def Let_def fetch_ready_def NO_CACHE_def at_next_def)
  from fetch_seq_rowsets [OF assms(1) t(1-3) assms(5)] t(4) show ?thesis by (simp add: T_def)
qed

section \<open>Scrolling as ODBC defines it\<close>

text \<open>
  The positions of ODBC and its table of where a fetch goes, for a rowset of \<open>R\<close> rows in a result of \<open>L\<close>;
  rows count from 1.
\<close>

datatype place = Before_start | At_row int | After_end

definition odbc_absolute :: "int \<Rightarrow> int \<Rightarrow> int \<Rightarrow> place" where
  "odbc_absolute k R L =
    (if k < 0 then (if \<bar>k\<bar> \<le> L then At_row (L + k + 1) else if \<bar>k\<bar> > R then Before_start else At_row 1)
     else if k = 0 then Before_start else if k \<le> L then At_row k else After_end)"

definition odbc_relative :: "int \<Rightarrow> int \<Rightarrow> int \<Rightarrow> place \<Rightarrow> place" where
  "odbc_relative k R L cur =
    (case cur of
       Before_start \<Rightarrow> if k > 0 then odbc_absolute k R L else Before_start
     | After_end \<Rightarrow> if k < 0 then odbc_absolute k R L else After_end
     | At_row c \<Rightarrow>
         if c = 1 \<and> k < 0 then Before_start
         else if c > 1 \<and> c + k < 1 then (if \<bar>k\<bar> > R then Before_start else At_row 1)
         else if c + k \<le> L then At_row (c + k) else After_end)"

definition odbc_prior :: "int \<Rightarrow> int \<Rightarrow> place \<Rightarrow> place" where
  "odbc_prior R L cur =
    (case cur of
       Before_start \<Rightarrow> Before_start
     | At_row c \<Rightarrow> if c = 1 then Before_start else if c \<le> R then At_row 1 else At_row (c - R)
     | After_end \<Rightarrow> if L < R then At_row 1 else At_row (L - R + 1))"

definition odbc_last :: "int \<Rightarrow> int \<Rightarrow> place" where
  "odbc_last R L = (if R \<le> L then At_row (L - R + 1) else At_row 1)"

definition odbc_place :: "int \<Rightarrow> int \<Rightarrow> int \<Rightarrow> int \<Rightarrow> place \<Rightarrow> place" where
  "odbc_place orientation k R L cur =
    (if orientation = SQL_FETCH_FIRST then At_row 1
     else if orientation = SQL_FETCH_LAST then odbc_last R L
     else if orientation = SQL_FETCH_PRIOR then odbc_prior R L cur
     else if orientation = SQL_FETCH_ABSOLUTE then odbc_absolute k R L
     else odbc_relative k R L cur)"

definition place_of :: "int \<Rightarrow> int \<Rightarrow> place" where
  "place_of L p = (if p < 0 then Before_start else if p \<ge> L then After_end else At_row (p + 1))"

definition where_is :: "cursor_stmt \<Rightarrow> place" where
  "where_is S = place_of (int (c_rows S)) (c_Position S)"

text \<open>
  The cases where the driver does not go to the first row although ODBC does: a step back by more rows than
  there are before, and the last rowset of a result that has fewer rows than a rowset.
\<close>

definition cut_short :: "int \<Rightarrow> int \<Rightarrow> int \<Rightarrow> place \<Rightarrow> bool" where
  "cut_short orientation R L cur \<longleftrightarrow>
     orientation = SQL_FETCH_LAST \<and> L < R \<or>
     orientation = SQL_FETCH_PRIOR \<and> (case cur of At_row c \<Rightarrow> 1 < c \<and> c \<le> R | After_end \<Rightarrow> L < R | Before_start \<Rightarrow> False)"

definition scrollable :: "int \<Rightarrow> int \<Rightarrow> cursor_stmt \<Rightarrow> bool" where
  "scrollable orientation k S \<longleftrightarrow>
     orientation \<in> {SQL_FETCH_FIRST, SQL_FETCH_LAST, SQL_FETCH_PRIOR, SQL_FETCH_ABSOLUTE, SQL_FETCH_RELATIVE}
     \<and> \<bar>k\<bar> < 2 ^ 62 \<and> c_CursorType S \<noteq> SQL_CURSOR_DYNAMIC \<and> c_CursorType S \<noteq> SQL_CURSOR_FORWARD_ONLY
     \<and> 0 < c_rows S \<and> - 1 \<le> c_Position S \<and> c_Position S \<le> int (c_rows S)"

lemma scroll_position_place:
  assumes "scrollable orientation k S" "fetch_ready bm S"
  defines "w \<equiv> where_is S" and "L \<equiv> int (c_rows S)" and "R \<equiv> c_ArraySize S"
  shows "\<exists>p. scroll_position orientation k N (S\<lparr>c_Next := x\<rparr>) = Inr p \<and> \<bar>p\<bar> < 2 ^ 63
    \<and> place_of L p = (if cut_short orientation R L w then Before_start else odbc_place orientation k R L w)"
proof -
  have r: "1 \<le> R" "R < 2 ^ 31" "c_num_rows S = L" "0 < L" "L < 2 ^ 62" "rowset_size S = R" "s32 R = R" "s64 L = L"
    using assms(1,2) by (auto simp: fetch_ready_def scrollable_def R_def L_def rowset_size_def cast_simps)
  have k: "\<bar>k\<bar> < 2 ^ 62" "- 1 \<le> c_Position S" "c_Position S \<le> L" using assms(1) by (auto simp: scrollable_def L_def)
  have s: "rowset_size (S\<lparr>c_Next := x\<rparr>) = R" "c_num_rows (S\<lparr>c_Next := x\<rparr>) = L" "c_ArraySize (S\<lparr>c_Next := x\<rparr>) = R"
    using r by (simp_all add: rowset_size_def R_def)
  have w: "w = place_of L (c_Position S)" by (simp add: w_def where_is_def L_def)
  consider "orientation = SQL_FETCH_FIRST" | "orientation = SQL_FETCH_LAST" | "orientation = SQL_FETCH_PRIOR"
    | "orientation = SQL_FETCH_ABSOLUTE" | "orientation = SQL_FETCH_RELATIVE"
    using assms(1) by (auto simp: scrollable_def)
  then show ?thesis
  proof cases
    case 1
    then show ?thesis using r by (simp add: scroll_position_def place_of_def cut_short_def odbc_place_def)
  next
    case 2
    have "s64 (L - R) = L - R" using r by (simp add: cast_simps)
    then show ?thesis using 2 r s
      by (simp add: scroll_position_def place_of_def cut_short_def odbc_place_def odbc_last_def)
  next
    case 3
    have "s64 (c_Position S - R) = c_Position S - R" using r k by (simp add: cast_simps)
    then show ?thesis using 3 r s k
      by (auto simp: scroll_position_def place_of_def cut_short_def odbc_place_def odbc_prior_def w)
  next
    case 4
    have "s64 (L + k) = L + k" "s64 (k - 1) = k - 1" "k < 0 \<Longrightarrow> u64 (- k) = - k" using r k by (simp_all add: cast_simps)
    then show ?thesis using 4 r s k
      by (auto simp: scroll_position_def place_of_def cut_short_def odbc_place_def odbc_absolute_def absolute_position_def)
  next
    case 5
    have "s64 (c_Position S + k) = c_Position S + k" using r k by (simp add: cast_simps)
    then show ?thesis using 5 r s k
      by (auto simp: scroll_position_def place_of_def cut_short_def odbc_place_def odbc_relative_def odbc_absolute_def w)
  qed
qed

lemma fetch_at_place:
  assumes "clean_rows cv" "fetch_ready bm S" "orientation \<noteq> SQL_FETCH_NEXT" "c_Next S = None" "\<bar>p\<bar> < 2 ^ 63" "0 < c_rows S"
  shows "\<exists>ret S1. fetch_at bm cv orientation N p S = (ret, S1) \<and> where_is S1 = place_of (int (c_rows S)) p
    \<and> (case place_of (int (c_rows S)) p of
         At_row c \<Rightarrow> succeeded ret \<and> rowset_read cv (nat (c - 1)) (rowset_length (nat (c - 1)) S) S S1
       | _ \<Rightarrow> ret = SQL_NO_DATA \<and> c_buffers S1 = c_buffers S)"
proof -
  have num: "c_num_rows S = int (c_rows S)" "int (c_rows S) < 2 ^ 62" "\<not> NO_CACHE S" using assms(2) by (simp_all add: fetch_ready_def)
  have c: "0 \<le> p \<Longrightarrow> u64 p = p" "u64 (int (c_rows S) - 1) = int (c_rows S) - 1" "s64 (int (c_rows S)) = int (c_rows S)"
    "s64 p = p" using num assms(5,6) by (simp_all add: cast_simps)
  consider "p < 0" | "int (c_rows S) \<le> p" | "0 \<le> p" "p < int (c_rows S)" by linarith
  then show ?thesis
  proof cases
    case 1
    define S1 where "S1 = snd (MADB_StmtDataSeek 0 (MADB_STMT_RESET_CURSOR S))"
    have "c_Position S1 = - 1" "c_buffers S1 = c_buffers S"
      by (simp_all add: S1_def MADB_StmtDataSeek_def MADB_STMT_RESET_CURSOR_def MADB_STMT_FORGET_NEXT_POS_def)
    moreover have "fetch_at bm cv orientation N p S = (SQL_NO_DATA, S1)" using 1 by (simp add: fetch_at_def S1_def)
    ultimately show ?thesis using 1 by (simp add: place_of_def where_is_def)
  next
    case 2
    then show ?thesis using c num by (auto simp: fetch_at_def Let_def place_of_def where_is_def)
  next
    case 3
    define S2 where "S2 = S\<lparr>c_Position := p, c_result_cursor := Some (nat p)\<rparr>"
    have rr: "readable_rows cv" using assms(1) by (simp add: clean_rows_def)
    have S2: "fetch_ready bm S2" "c_result_cursor S2 = Some (nat p)" "nat p < c_rows S2" "max 0 (c_Position S2) = int (nat p)"
      "rowset_length (nat p) S2 = rowset_length (nat p) S"
      using assms(2) 3 by (simp_all add: S2_def fetch_ready_def NO_CACHE_def rowset_length_def)
    obtain S3 where f: "MADB_StmtFetch bm cv S2 = (fetch_result cv (nat p) (rowset_length (nat p) S) S2, S3)"
      "rowset_read cv (nat p) (rowset_length (nat p) S) S2 S3" "frame S3 = frame (S2\<lparr>c_result := True\<rparr>)"
      using Fetch_rowset [OF rr S2(1-4)] unfolding S2(5) by blast
    note ok = fetch_result_succeeded [OF assms(1), of "nat p" "rowset_length (nat p) S" S2]
    have d: "MADB_StmtDataSeek p (S\<lparr>c_Position := p\<rparr>) = (SQL_SUCCESS, S2)"
      using 3 c(1) num(3) assms(6) by (simp add: MADB_StmtDataSeek_def S2_def row_ptr_def NO_CACHE_def nat_less_iff)
    have "fetch_at bm cv orientation N p S = (fetch_result cv (nat p) (rowset_length (nat p) S) S2, S3)"
      using 3 num c assms(3,4) d f(1) ok by (auto simp: fetch_at_def Let_def min_def succeeded_def)
    moreover have "rowset_read cv (nat p) (rowset_length (nat p) S) S S3" using f(2) by (simp add: rowset_read_def S2_def cong: if_cong)
    moreover have "where_is S3 = At_row (p + 1)" using f(2,3) 3 by (simp add: where_is_def place_of_def rowset_read_def frame_def S2_def)
    ultimately show ?thesis using 3 ok by (simp add: place_of_def)
  qed
qed

text \<open>
  C15.  Scrolling.  Fetching the first, last, prior, an absolute or a relative rowset of a static cursor goes
  where the table of ODBC says, whatever the position, the offset and the size of the rowset, except in the two
  cases above, where it goes before the start; there is a rowset exactly when the place is a row, and then
  the buffers hold the rows from there on and the status array says so.
\<close>

theorem FetchScroll_follows_odbc:
  assumes "scrollable orientation k S" "fetch_ready bm S" "clean_rows cv"
  defines "w \<equiv> (if cut_short orientation (c_ArraySize S) (int (c_rows S)) (where_is S) then Before_start
                else odbc_place orientation k (c_ArraySize S) (int (c_rows S)) (where_is S))"
  shows "\<exists>ret S1. MADB_StmtFetchScroll bm cv exec orientation k S = (ret, S1) \<and> where_is S1 = w
    \<and> (case w of
         At_row c \<Rightarrow> succeeded ret \<and> rowset_read cv (nat (c - 1)) (rowset_length (nat (c - 1)) S) S S1
       | _ \<Rightarrow> ret = SQL_NO_DATA \<and> c_buffers S1 = c_buffers S)"
proof -
  define T where "T = S\<lparr>c_Next := None\<rparr>"
  obtain p where p: "scroll_position orientation k (c_LastRowFetched S) T = Inr p" "\<bar>p\<bar> < 2 ^ 63" "place_of (int (c_rows S)) p = w"
    using scroll_position_place [OF assms(1,2), of "c_LastRowFetched S" None] by (auto simp: w_def T_def)
  have o: "orientation \<noteq> SQL_FETCH_NEXT" "c_CursorType S \<noteq> SQL_CURSOR_FORWARD_ONLY" "c_CursorType S \<noteq> SQL_CURSOR_DYNAMIC" "0 < c_rows S"
    using assms(1) by (auto simp: scrollable_def)
  have call: "MADB_StmtFetchScroll bm cv exec orientation k S = fetch_at bm cv orientation (c_LastRowFetched S) p T"
    using o p(1) by (simp add: MADB_StmtFetchScroll_def MADB_STMT_FORGET_NEXT_POS_def T_def succeeded_def)
  have T: "fetch_ready bm T" "c_Next T = None" "c_rows T = c_rows S"
    "\<And>n x. rowset_read cv x n T S1 = rowset_read cv x n S S1" "\<And>x. rowset_length x T = rowset_length x S" "c_buffers T = c_buffers S" for S1
    using assms(2) by (simp_all add: T_def fetch_ready_def NO_CACHE_def rowset_read_def rowset_length_def cong: if_cong)
  have "0 < c_rows T" using o(4) T(3) by simp
  from fetch_at_place [OF assms(3) T(1) o(1) T(2) p(2) this, of "c_LastRowFetched S"]
  show ?thesis unfolding call T(3-6) p(3) .
qed

text \<open>
  C31.  Moving within a rowset.  \<open>SQLSetPos\<close> moves the position that the next fetch counts from.  So after a
  rowset was read and the application has moved to its row \<open>r\<close>, fetching the next rowset reports the end of
  the result although up to \<open>r - 1\<close> rows behind the rowset have not been read.
\<close>

theorem SetPos_loses_rows:
  assumes "fetch_ready bm S" "c_CursorType S \<noteq> SQL_CURSOR_DYNAMIC" "c_result S"
    and "c_Position S = int pos" "c_LastRowFetched S = int n" "1 \<le> r" "r \<le> n" "pos + n < c_rows S" "c_rows S < pos + n + r"
  shows "\<exists>S1 S2. SetPos_position exec (int r) SQL_LOCK_NO_CHANGE S = (SQL_SUCCESS, S1)
    \<and> MADB_StmtFetchScroll bm cv exec SQL_FETCH_NEXT 0 S1 = (SQL_NO_DATA, S2)"
proof -
  have num: "c_num_rows S = int (c_rows S)" "int (c_rows S) < 2 ^ 62" "\<not> NO_CACHE S" using assms(1) by (simp_all add: fetch_ready_def)
  define q where "q = int pos + (int r - 1)"
  have c: "s64 q = q" "s64 (q + int n) = q + int n" "u64 (q + int n) = q + int n" "u64 (int (c_rows S) - 1) = int (c_rows S) - 1"
    "0 \<le> q" "int (c_rows S) \<le> q + int n" using num assms(6-9) by (simp_all add: q_def cast_simps)
  define S1 where "S1 = snd (MADB_StmtDataSeek q (S\<lparr>c_Position := q\<rparr>))"
  have s: "SetPos_position exec (int r) SQL_LOCK_NO_CHANGE S = (SQL_SUCCESS, S1)"
    using assms(2-4,6-8) num c(1) by (simp add: SetPos_position_def succeeded_def S1_def q_def)
  have S1: "c_Position S1 = q" "c_LastRowFetched S1 = int n" "c_CursorType S1 = c_CursorType S" "c_num_rows S1 = int (c_rows S)" "\<not> NO_CACHE S1"
    using assms(5) num by (simp_all add: S1_def MADB_StmtDataSeek_def NO_CACHE_def)
  have "MADB_StmtFetchScroll bm cv exec SQL_FETCH_NEXT 0 S1 = fetch_at bm cv SQL_FETCH_NEXT (int n) (q + int n) S1"
    using S1 assms(2) c by (simp add: MADB_StmtFetchScroll_def scroll_position_def succeeded_def)
  moreover have "\<exists>S2. fetch_at bm cv SQL_FETCH_NEXT (int n) (q + int n) S1 = (SQL_NO_DATA, S2)"
    using S1 c by (auto simp: fetch_at_def Let_def)
  ultimately show ?thesis using s by auto
qed

section \<open>A result of ten rows\<close>

definition sample_conv :: row_conv where
  "sample_conv = \<lparr>rv_alloc = True, rv_broken = (\<lambda>k. None), rv_prepare = (\<lambda>i e. (SQL_SUCCESS, e)), rv_fetch = (\<lambda>k i. 0),
     rv_truncated = (\<lambda>k i. 0), rv_fix = (\<lambda>k i. SQL_SUCCESS), rv_diag = (\<lambda>k i e. e)\<rparr>"

definition sample_cursor :: "int \<Rightarrow> int \<Rightarrow> cursor_stmt" where
  "sample_cursor pos n =
    \<lparr>c_Position = pos, c_RowsetSize = 0, c_Next = None, c_result_cursor = Some 0, c_LastRowFetched = n, c_PositionedCursor = 0,
     c_CursorType = SQL_CURSOR_STATIC, c_ArraySize = 4, c_rows = 10, c_num_rows = 10, c_NoCache = False, c_column_count = 1,
     c_field_count = 1, c_result = True, c_UseBookmarks = 0, c_BookmarkPtr = 0, c_BookmarkType = 0, c_BookmarkLength = 0,
     c_bookmarks = (\<lambda>i. 0), c_OdbcVersion = 3, c_buffers = (\<lambda>i. None), c_status = Some (replicate 4 0), c_ard_status = None,
     c_Processed = 0, c_CharOffset = None, c_Lengths = None, c_Error = d_Error sample_apd\<rparr>"

lemma sample_ready: "fetch_ready (- 18) (sample_cursor pos n)" "fetch_ready (- 18) (sample_cursor pos n\<lparr>c_ArraySize := 1\<rparr>)"
  "clean_rows sample_conv"
  by (simp_all add: fetch_ready_def sample_cursor_def NO_CACHE_def clean_rows_def readable_rows_def result_of_def
      row_result_def sample_conv_def succeeded_def)

theorem fetching_reads_all_rows_witness:
  "fetch_seq (- 18) sample_conv (\<lambda>S. (SQL_SUCCESS, S)) [4, 1, 7, 2] (MADB_StmtResetResultStructures (sample_cursor 5 3)) =
   [Rows [0, 1, 2, 3], Rows [4], Rows [5, 6, 7, 8, 9], End_of_rows]"
proof -
  have "c_CursorType (sample_cursor 5 3) \<noteq> SQL_CURSOR_DYNAMIC" "c_rows (sample_cursor 5 3) = 10"
    "c_result_cursor (sample_cursor 5 3) = row_ptr (c_rows (sample_cursor 5 3)) 0" by (simp_all add: sample_cursor_def row_ptr_def)
  then show ?thesis
    using fetching_reads_all_rows [OF sample_ready(3) sample_ready(2), of 5 3 "[4, 1, 7, 2]" "\<lambda>S. (SQL_SUCCESS, S)"]
    by (simp add: upt_rec)
qed

theorem FetchScroll_follows_odbc_witness:
  "\<exists>ret S1. MADB_StmtFetchScroll (- 18) sample_conv (\<lambda>S. (SQL_SUCCESS, S)) SQL_FETCH_ABSOLUTE (- 3) (sample_cursor 5 3) = (ret, S1)
    \<and> where_is S1 = At_row 8 \<and> succeeded ret \<and> c_buffers S1 2 = Some 9 \<and> c_LastRowFetched S1 = 3"
proof -
  have s: "scrollable SQL_FETCH_ABSOLUTE (- 3) (sample_cursor 5 3)" by (simp add: scrollable_def sample_cursor_def)
  have w: "\<not> cut_short SQL_FETCH_ABSOLUTE (c_ArraySize (sample_cursor 5 3)) (int (c_rows (sample_cursor 5 3))) (where_is (sample_cursor 5 3))"
    "odbc_place SQL_FETCH_ABSOLUTE (- 3) (c_ArraySize (sample_cursor 5 3)) (int (c_rows (sample_cursor 5 3))) (where_is (sample_cursor 5 3)) = At_row 8"
    "rowset_length 7 (sample_cursor 5 3) = 3"
    by (simp_all add: cut_short_def odbc_place_def odbc_absolute_def sample_cursor_def rowset_length_def)
  show ?thesis
    using FetchScroll_follows_odbc [OF s sample_ready(1,3), of "\<lambda>S. (SQL_SUCCESS, S)"] w by (auto simp: rowset_read_def)
qed

theorem SetPos_loses_rows_witness:
  "\<exists>S1 S2. SetPos_position (\<lambda>S. (SQL_SUCCESS, S)) 3 SQL_LOCK_NO_CHANGE (sample_cursor 4 4) = (SQL_SUCCESS, S1)
    \<and> MADB_StmtFetchScroll (- 18) sample_conv (\<lambda>S. (SQL_SUCCESS, S)) SQL_FETCH_NEXT 0 S1 = (SQL_NO_DATA, S2)"
  using SetPos_loses_rows [OF sample_ready(1), of 4 4 4 4 3 "\<lambda>S. (SQL_SUCCESS, S)" sample_conv]
  by (simp add: sample_cursor_def)

end
