(* ===== verification/Stmt_Attr.thy ===== *)
theory Stmt_Attr
  imports Stmt_Cursor
begin

text \<open>
  Attributes of statements and the descriptors they share (\<open>src/ma_statement.c\<close>: \<open>MADB_StmtSetStmtAttr\<close>,
  \<open>MADB_StmtGetStmtAttr\<close>, \<open>RemoveStmtRefFromDesc\<close>, and what \<open>MADB_StmtFree\<close> does to the descriptors;
  \<open>src/odbc_3_api.c\<close>: \<open>SQLFreeHandle\<close> for descriptors).

  An application can allocate a descriptor of its own and have several statements use it.  The descriptor lists
  these statements, so that they can go back to their own descriptors when it is freed.
\<close>

abbreviation (input) SQL_ATTR_QUERY_TIMEOUT :: int where "SQL_ATTR_QUERY_TIMEOUT \<equiv> 0"
abbreviation (input) SQL_ATTR_MAX_ROWS :: int where "SQL_ATTR_MAX_ROWS \<equiv> 1"
abbreviation (input) SQL_ATTR_NOSCAN :: int where "SQL_ATTR_NOSCAN \<equiv> 2"
abbreviation (input) SQL_ATTR_MAX_LENGTH :: int where "SQL_ATTR_MAX_LENGTH \<equiv> 3"
abbreviation (input) SQL_ATTR_ASYNC_ENABLE :: int where "SQL_ATTR_ASYNC_ENABLE \<equiv> 4"
abbreviation (input) SQL_ATTR_ROW_BIND_TYPE :: int where "SQL_ATTR_ROW_BIND_TYPE \<equiv> 5"
abbreviation (input) SQL_ATTR_CURSOR_TYPE :: int where "SQL_ATTR_CURSOR_TYPE \<equiv> 6"
abbreviation (input) SQL_ATTR_CONCURRENCY :: int where "SQL_ATTR_CONCURRENCY \<equiv> 7"
abbreviation (input) SQL_ROWSET_SIZE :: int where "SQL_ROWSET_SIZE \<equiv> 9"
abbreviation (input) SQL_ATTR_SIMULATE_CURSOR :: int where "SQL_ATTR_SIMULATE_CURSOR \<equiv> 10"
abbreviation (input) SQL_ATTR_RETRIEVE_DATA :: int where "SQL_ATTR_RETRIEVE_DATA \<equiv> 11"
abbreviation (input) SQL_ATTR_USE_BOOKMARKS :: int where "SQL_ATTR_USE_BOOKMARKS \<equiv> 12"
abbreviation (input) SQL_ATTR_ENABLE_AUTO_IPD :: int where "SQL_ATTR_ENABLE_AUTO_IPD \<equiv> 15"
abbreviation (input) SQL_ATTR_FETCH_BOOKMARK_PTR :: int where "SQL_ATTR_FETCH_BOOKMARK_PTR \<equiv> 16"
abbreviation (input) SQL_ATTR_PARAM_BIND_OFFSET_PTR :: int where "SQL_ATTR_PARAM_BIND_OFFSET_PTR \<equiv> 17"
abbreviation (input) SQL_ATTR_PARAM_BIND_TYPE :: int where "SQL_ATTR_PARAM_BIND_TYPE \<equiv> 18"
abbreviation (input) SQL_ATTR_PARAM_OPERATION_PTR :: int where "SQL_ATTR_PARAM_OPERATION_PTR \<equiv> 19"
abbreviation (input) SQL_ATTR_PARAM_STATUS_PTR :: int where "SQL_ATTR_PARAM_STATUS_PTR \<equiv> 20"
abbreviation (input) SQL_ATTR_PARAMS_PROCESSED_PTR :: int where "SQL_ATTR_PARAMS_PROCESSED_PTR \<equiv> 21"
abbreviation (input) SQL_ATTR_PARAMSET_SIZE :: int where "SQL_ATTR_PARAMSET_SIZE \<equiv> 22"
abbreviation (input) SQL_ATTR_ROW_BIND_OFFSET_PTR :: int where "SQL_ATTR_ROW_BIND_OFFSET_PTR \<equiv> 23"
abbreviation (input) SQL_ATTR_ROW_OPERATION_PTR :: int where "SQL_ATTR_ROW_OPERATION_PTR \<equiv> 24"
abbreviation (input) SQL_ATTR_ROW_STATUS_PTR :: int where "SQL_ATTR_ROW_STATUS_PTR \<equiv> 25"
abbreviation (input) SQL_ATTR_ROWS_FETCHED_PTR :: int where "SQL_ATTR_ROWS_FETCHED_PTR \<equiv> 26"
abbreviation (input) SQL_ATTR_ROW_ARRAY_SIZE :: int where "SQL_ATTR_ROW_ARRAY_SIZE \<equiv> 27"
abbreviation (input) SQL_ATTR_CURSOR_SCROLLABLE :: int where "SQL_ATTR_CURSOR_SCROLLABLE \<equiv> - 1"
abbreviation (input) SQL_ATTR_CURSOR_SENSITIVITY :: int where "SQL_ATTR_CURSOR_SENSITIVITY \<equiv> - 2"
abbreviation (input) SQL_ATTR_APP_ROW_DESC :: int where "SQL_ATTR_APP_ROW_DESC \<equiv> 10010"
abbreviation (input) SQL_ATTR_APP_PARAM_DESC :: int where "SQL_ATTR_APP_PARAM_DESC \<equiv> 10011"
abbreviation (input) SQL_ATTR_IMP_ROW_DESC :: int where "SQL_ATTR_IMP_ROW_DESC \<equiv> 10012"
abbreviation (input) SQL_ATTR_IMP_PARAM_DESC :: int where "SQL_ATTR_IMP_PARAM_DESC \<equiv> 10013"
abbreviation (input) SQL_ATTR_METADATA_ID :: int where "SQL_ATTR_METADATA_ID \<equiv> 10014"
abbreviation (input) SQL_CURSOR_KEYSET_DRIVEN :: int where "SQL_CURSOR_KEYSET_DRIVEN \<equiv> 1"

section \<open>State\<close>

text \<open>
  Descriptors by address; the application descriptors of statement \<open>h\<close> are those of \<open>o_stmts\<close>, its
  implementation descriptors are in its options.  \<open>x_live\<close> are the statements there are.
\<close>

record stmt_opts =
  so_MaxRows :: int
  so_MaxLength :: int
  so_CursorType :: int
  so_UseBookmarks :: int
  so_MetadataId :: int
  so_SimulateCursor :: int
  so_Ipd :: nat
  so_Ird :: nat
  so_Error :: MADB_Error

record attr_state =
  x_descs :: "nat \<Rightarrow> MADB_Desc option"
  x_owner :: desc_owner
  x_opts :: "nat \<Rightarrow> stmt_opts"
  x_live :: "nat set"
  x_heap :: heap

abbreviation Apd_of :: "attr_state \<Rightarrow> nat \<Rightarrow> nat" where "Apd_of X h \<equiv> sd_Apd (o_stmts (x_owner X) h)"
abbreviation Ard_of :: "attr_state \<Rightarrow> nat \<Rightarrow> nat" where "Ard_of X h \<equiv> sd_Ard (o_stmts (x_owner X) h)"
abbreviation IApd_of :: "attr_state \<Rightarrow> nat \<Rightarrow> nat" where "IApd_of X h \<equiv> sd_IApd (o_stmts (x_owner X) h)"
abbreviation IArd_of :: "attr_state \<Rightarrow> nat \<Rightarrow> nat" where "IArd_of X h \<equiv> sd_IArd (o_stmts (x_owner X) h)"

definition upd_opts :: "nat \<Rightarrow> (stmt_opts \<Rightarrow> stmt_opts) \<Rightarrow> attr_state \<Rightarrow> attr_state" where
  "upd_opts h f X = X\<lparr>x_opts := (x_opts X)(h := f (x_opts X h))\<rparr>"

definition upd_pointers :: "nat \<Rightarrow> (stmt_descs \<Rightarrow> stmt_descs) \<Rightarrow> attr_state \<Rightarrow> attr_state" where
  "upd_pointers h f X =
    X\<lparr>x_owner := (x_owner X)\<lparr>o_stmts := (o_stmts (x_owner X))(h := f (o_stmts (x_owner X) h))\<rparr>\<rparr>"

definition upd_desc :: "nat \<Rightarrow> (MADB_Desc \<Rightarrow> MADB_Desc) \<Rightarrow> attr_state \<Rightarrow> attr_state option" where
  "upd_desc a f X = map_option (\<lambda>d. X\<lparr>x_descs := (x_descs X)(a \<mapsto> f d)\<rparr>) (x_descs X a)"

definition upd_header :: "nat \<Rightarrow> (MADB_Header \<Rightarrow> MADB_Header) \<Rightarrow> attr_state \<Rightarrow> (int \<times> attr_state) option" where
  "upd_header a f X = map_option (Pair SQL_SUCCESS) (upd_desc a (\<lambda>d. d\<lparr>d_Header := f (d_Header d)\<rparr>) X)"

definition attr_error :: "string \<Rightarrow> string option \<Rightarrow> nat \<Rightarrow> attr_state \<Rightarrow> int \<times> attr_state" where
  "attr_error code msg h X =
    (let e = snd (MADB_SetError (so_Error (x_opts X h)) (MADB_ERR code) msg 0)
     in (ReturnValue e, upd_opts h (\<lambda>p. p\<lparr>so_Error := e\<rparr>) X))"

text \<open>An option with one value that is supported: another one is replaced and the application is told.\<close>

definition fixed_option :: "int \<Rightarrow> int \<Rightarrow> string \<Rightarrow> nat \<Rightarrow> attr_state \<Rightarrow> int \<times> attr_state" where
  "fixed_option v supported msg h X =
    (if v \<noteq> supported then (SQL_SUCCESS_WITH_INFO, snd (attr_error ''01S02'' (Some msg) h X)) else (SQL_SUCCESS, X))"

section \<open>References to statements\<close>

text \<open>After deleting an element the loop goes on behind the element that took its place.\<close>

fun remove_refs :: "nat \<Rightarrow> bool \<Rightarrow> nat list \<Rightarrow> nat list" where
  "remove_refs h all [] = []"
| "remove_refs h all (s # ss) =
    (if s = h then (if all then (case ss of [] \<Rightarrow> [] | t # ts \<Rightarrow> t # remove_refs h all ts) else ss)
     else s # remove_refs h all ss)"

definition RemoveStmtRefFromDesc :: "nat \<Rightarrow> bool \<Rightarrow> MADB_Desc \<Rightarrow> MADB_Desc" where
  "RemoveStmtRefFromDesc h all d = (if d_AppType d then d\<lparr>d_Stmts := remove_refs h all (d_Stmts d)\<rparr> else d)"

text \<open>Which of the two application descriptors of a statement, and the kind it has.\<close>

definition set_slot :: "enum_madb_desc_type \<Rightarrow> nat \<Rightarrow> stmt_descs \<Rightarrow> stmt_descs" where
  "set_slot t a s = (if t = MADB_DESC_APD then s\<lparr>sd_Apd := a\<rparr> else s\<lparr>sd_Ard := a\<rparr>)"

definition slot :: "enum_madb_desc_type \<Rightarrow> stmt_descs \<Rightarrow> nat" where
  "slot t s = (if t = MADB_DESC_APD then sd_Apd s else sd_Ard s)"

definition own_slot :: "enum_madb_desc_type \<Rightarrow> stmt_descs \<Rightarrow> nat" where
  "own_slot t s = (if t = MADB_DESC_APD then sd_IApd s else sd_IArd s)"

lemma slot_simps [simp]:
  "slot t (set_slot t a s) = a" "own_slot u (set_slot t a s) = own_slot u s"
  by (simp_all add: slot_def set_slot_def own_slot_def)

text \<open>Setting \<open>SQL_ATTR_APP_PARAM_DESC\<close> or \<open>SQL_ATTR_APP_ROW_DESC\<close>; \<open>alloc\<close> says whether the list of statements can grow.\<close>

definition set_app_desc :: "enum_madb_desc_type \<Rightarrow> bool \<Rightarrow> nat \<Rightarrow> nat \<Rightarrow> attr_state \<Rightarrow> (int \<times> attr_state) option" where
  "set_app_desc t alloc h a X =
    (let s = o_stmts (x_owner X) h
     in if a \<noteq> 0 then
          (case x_descs X a of
             None \<Rightarrow> None
           | Some d \<Rightarrow>
               if \<not> d_AppType d \<and> a \<noteq> own_slot t s then Some (attr_error ''HY017'' None h X)
               else if d_DescType d \<noteq> t \<and> d_DescType d \<noteq> MADB_DESC_UNKNOWN then Some (attr_error ''HY024'' None h X)
               else
                 (case upd_desc (slot t s) (RemoveStmtRefFromDesc h False) X of
                    None \<Rightarrow> None
                  | Some X1 \<Rightarrow>
                      (case upd_desc a (\<lambda>d. d\<lparr>d_DescType := t\<rparr>) (upd_pointers h (set_slot t a) X1) of
                         None \<Rightarrow> None
                       | Some X2 \<Rightarrow>
                           if a = own_slot t s then Some (SQL_SUCCESS, X2)
                           else if \<not> alloc then None
                           else map_option (Pair SQL_SUCCESS) (upd_desc a (\<lambda>d. d\<lparr>d_Stmts := d_Stmts d @ [h]\<rparr>) X2))))
        else
          map_option (\<lambda>X1. (SQL_SUCCESS, upd_pointers h (set_slot t (own_slot t s)) X1))
            (upd_desc (slot t s) (RemoveStmtRefFromDesc h False) X))"

section \<open>Setting and reading attributes\<close>

text \<open>The type of the cursor, within what the data source allows.\<close>

definition set_cursor_type :: "bool \<Rightarrow> bool \<Rightarrow> nat \<Rightarrow> int \<Rightarrow> attr_state \<Rightarrow> int \<times> attr_state" where
  "set_cursor_type fwd dyn h v X =
    (let forward = upd_opts h (\<lambda>p. p\<lparr>so_CursorType := SQL_CURSOR_FORWARD_ONLY\<rparr>) X;
         changed = attr_error ''01S02'' (Some ''Option value changed to default (SQL_CURSOR_FORWARD_ONLY)'') h forward;
         taken = (SQL_SUCCESS, upd_opts h (\<lambda>p. p\<lparr>so_CursorType := u32 v\<rparr>) X)
     in if fwd \<and> v \<noteq> SQL_CURSOR_FORWARD_ONLY then changed
        else if dyn then (if v = SQL_CURSOR_KEYSET_DRIVEN then changed else taken)
        else if v \<noteq> SQL_CURSOR_FORWARD_ONLY \<and> v \<noteq> SQL_CURSOR_STATIC then changed else taken)"

text \<open>
  \<open>v\<close> is the value passed in the pointer argument.  \<open>fwd\<close> and \<open>dyn\<close> are the cursor options of the data source.
\<close>

definition set_desc_attr :: "nat \<Rightarrow> int \<Rightarrow> int \<Rightarrow> attr_state \<Rightarrow> (int \<times> attr_state) option option" where
  "set_desc_attr h Attribute v X =
    (let apd = Apd_of X h; ard = Ard_of X h; ipd = so_Ipd (x_opts X h); ird = so_Ird (x_opts X h)
     in if Attribute = SQL_ATTR_PARAM_BIND_OFFSET_PTR then Some (upd_header apd (\<lambda>k. k\<lparr>h_BindOffsetPtr := v\<rparr>) X)
        else if Attribute = SQL_ATTR_PARAM_BIND_TYPE then Some (upd_header apd (\<lambda>k. k\<lparr>h_BindType := u64 (s32 v)\<rparr>) X)
        else if Attribute = SQL_ATTR_PARAM_OPERATION_PTR then Some (upd_header apd (\<lambda>k. k\<lparr>h_ArrayStatusPtr := v\<rparr>) X)
        else if Attribute = SQL_ATTR_PARAM_STATUS_PTR then Some (upd_header ipd (\<lambda>k. k\<lparr>h_ArrayStatusPtr := v\<rparr>) X)
        else if Attribute = SQL_ATTR_PARAMS_PROCESSED_PTR then Some (upd_header ipd (\<lambda>k. k\<lparr>h_RowsProcessedPtr := v\<rparr>) X)
        else if Attribute = SQL_ATTR_PARAMSET_SIZE then Some (upd_header apd (\<lambda>k. k\<lparr>h_ArraySize := u64 v\<rparr>) X)
        else if Attribute = SQL_ATTR_ROW_ARRAY_SIZE \<or> Attribute = SQL_ROWSET_SIZE
        then Some (upd_header ard (\<lambda>k. k\<lparr>h_ArraySize := u64 v\<rparr>) X)
        else if Attribute = SQL_ATTR_ROW_BIND_OFFSET_PTR then Some (upd_header ard (\<lambda>k. k\<lparr>h_BindOffsetPtr := v\<rparr>) X)
        else if Attribute = SQL_ATTR_ROW_BIND_TYPE then Some (upd_header ard (\<lambda>k. k\<lparr>h_BindType := u64 (s32 v)\<rparr>) X)
        else if Attribute = SQL_ATTR_ROW_OPERATION_PTR then Some (upd_header ard (\<lambda>k. k\<lparr>h_ArrayStatusPtr := v\<rparr>) X)
        else if Attribute = SQL_ATTR_ROW_STATUS_PTR then Some (upd_header ird (\<lambda>k. k\<lparr>h_ArrayStatusPtr := v\<rparr>) X)
        else if Attribute = SQL_ATTR_ROWS_FETCHED_PTR then Some (upd_header ird (\<lambda>k. k\<lparr>h_RowsProcessedPtr := v\<rparr>) X)
        else None)"

definition set_option_attr :: "bool \<Rightarrow> bool \<Rightarrow> nat \<Rightarrow> int \<Rightarrow> int \<Rightarrow> attr_state \<Rightarrow> int \<times> attr_state" where
  "set_option_attr fwd dyn h Attribute v X =
    (if Attribute = SQL_ATTR_ASYNC_ENABLE
     then fixed_option v 0 ''Option value changed to default (SQL_ATTR_ASYNC_ENABLE)'' h X
     else if Attribute = SQL_ATTR_SIMULATE_CURSOR then (SQL_SUCCESS, upd_opts h (\<lambda>p. p\<lparr>so_SimulateCursor := u64 v\<rparr>) X)
     else if Attribute = SQL_ATTR_CURSOR_SCROLLABLE
     then (SQL_SUCCESS, upd_opts h (\<lambda>p. p\<lparr>so_CursorType := (if v = 0 then SQL_CURSOR_FORWARD_ONLY else SQL_CURSOR_STATIC)\<rparr>) X)
     else if Attribute = SQL_ATTR_CURSOR_SENSITIVITY
     then fixed_option v 0 ''Option value changed to default cursor sensitivity'' h X
     else if Attribute = SQL_ATTR_CURSOR_TYPE then set_cursor_type fwd dyn h v X
     else if Attribute = SQL_ATTR_CONCURRENCY
     then fixed_option v 1 ''Option value changed to default (SQL_CONCUR_READ_ONLY). '' h X
     else if Attribute = SQL_ATTR_ENABLE_AUTO_IPD then attr_error ''HYC00'' None h X
     else if Attribute = SQL_ATTR_MAX_LENGTH then (SQL_SUCCESS, upd_opts h (\<lambda>p. p\<lparr>so_MaxLength := s64 v\<rparr>) X)
     else if Attribute = SQL_ATTR_MAX_ROWS then (SQL_SUCCESS, upd_opts h (\<lambda>p. p\<lparr>so_MaxRows := s64 v\<rparr>) X)
     else if Attribute = SQL_ATTR_METADATA_ID then (SQL_SUCCESS, upd_opts h (\<lambda>p. p\<lparr>so_MetadataId := u64 v\<rparr>) X)
     else if Attribute = SQL_ATTR_NOSCAN then fixed_option v 1 ''Option value changed to default (SQL_NOSCAN_ON)'' h X
     else if Attribute = SQL_ATTR_QUERY_TIMEOUT then fixed_option v 0 ''Option value changed to default (no timeout)'' h X
     else if Attribute = SQL_ATTR_RETRIEVE_DATA then fixed_option v 1 ''Option value changed to default (SQL_RD_ON)'' h X
     else if Attribute = SQL_ATTR_USE_BOOKMARKS then (SQL_SUCCESS, upd_opts h (\<lambda>p. p\<lparr>so_UseBookmarks := u32 v\<rparr>) X)
     else if Attribute = SQL_ATTR_FETCH_BOOKMARK_PTR then attr_error ''HYC00'' None h X
     else attr_error ''HY024'' None h X)"

definition MADB_StmtSetStmtAttr ::
  "bool \<Rightarrow> bool \<Rightarrow> bool \<Rightarrow> nat \<Rightarrow> int \<Rightarrow> int \<Rightarrow> attr_state \<Rightarrow> (int \<times> attr_state) option" where
  "MADB_StmtSetStmtAttr fwd dyn alloc h Attribute v X =
    (if Attribute = SQL_ATTR_APP_PARAM_DESC then set_app_desc MADB_DESC_APD alloc h (nat v) X
     else if Attribute = SQL_ATTR_APP_ROW_DESC then set_app_desc MADB_DESC_ARD alloc h (nat v) X
     else case set_desc_attr h Attribute v X of
            Some res \<Rightarrow> res
          | None \<Rightarrow> Some (set_option_attr fwd dyn h Attribute v X))"

text \<open>
  What is written through the value pointer, and through the length pointer.  An attribute that is not known
  leaves both as they were.
\<close>

definition get_desc_attr :: "nat \<Rightarrow> int \<Rightarrow> attr_state \<Rightarrow> int option option" where
  "get_desc_attr h Attribute X =
    (let hdr = (\<lambda>a f. Some (map_option (\<lambda>d. f (d_Header d)) (x_descs X a)));
         apd = Apd_of X h; ard = Ard_of X h; ipd = so_Ipd (x_opts X h); ird = so_Ird (x_opts X h)
     in if Attribute = SQL_ATTR_PARAM_BIND_OFFSET_PTR then hdr apd h_BindOffsetPtr
        else if Attribute = SQL_ATTR_PARAM_BIND_TYPE then hdr apd h_BindType
        else if Attribute = SQL_ATTR_PARAM_OPERATION_PTR then hdr apd h_ArrayStatusPtr
        else if Attribute = SQL_ATTR_PARAM_STATUS_PTR then hdr ipd h_ArrayStatusPtr
        else if Attribute = SQL_ATTR_PARAMS_PROCESSED_PTR then hdr ipd h_BindType
        else if Attribute = SQL_ATTR_PARAMSET_SIZE then hdr apd h_ArraySize
        else if Attribute = SQL_ATTR_ROW_ARRAY_SIZE \<or> Attribute = SQL_ROWSET_SIZE then hdr ard h_ArraySize
        else if Attribute = SQL_ATTR_ROW_BIND_OFFSET_PTR then hdr ard h_BindOffsetPtr
        else if Attribute = SQL_ATTR_ROW_BIND_TYPE then hdr ard h_BindType
        else if Attribute = SQL_ATTR_ROW_OPERATION_PTR then hdr ard h_ArrayStatusPtr
        else if Attribute = SQL_ATTR_ROW_STATUS_PTR then hdr ird h_ArrayStatusPtr
        else if Attribute = SQL_ATTR_ROWS_FETCHED_PTR then hdr ird h_RowsProcessedPtr
        else None)"

definition get_option_attr :: "nat \<Rightarrow> int \<Rightarrow> attr_state \<Rightarrow> int option" where
  "get_option_attr h Attribute X =
    (let p = x_opts X h
     in if Attribute = SQL_ATTR_APP_PARAM_DESC then Some (int (Apd_of X h))
        else if Attribute = SQL_ATTR_APP_ROW_DESC then Some (int (Ard_of X h))
        else if Attribute = SQL_ATTR_IMP_PARAM_DESC then Some (int (so_Ipd p))
        else if Attribute = SQL_ATTR_IMP_ROW_DESC then Some (int (so_Ird p))
        else if Attribute = SQL_ATTR_ASYNC_ENABLE then Some 0
        else if Attribute = SQL_ATTR_USE_BOOKMARKS \<or> Attribute = SQL_ATTR_SIMULATE_CURSOR then Some (so_SimulateCursor p)
        else if Attribute = SQL_ATTR_CURSOR_SCROLLABLE then Some (so_CursorType p)
        else if Attribute = SQL_ATTR_CURSOR_SENSITIVITY then Some 0
        else if Attribute = SQL_ATTR_CURSOR_TYPE then Some (so_CursorType p)
        else if Attribute = SQL_ATTR_CONCURRENCY then Some 1
        else if Attribute = SQL_ATTR_ENABLE_AUTO_IPD then Some 0
        else if Attribute = SQL_ATTR_MAX_LENGTH then Some (u64 (so_MaxLength p))
        else if Attribute = SQL_ATTR_MAX_ROWS then Some (u64 (so_MaxRows p))
        else if Attribute = SQL_ATTR_METADATA_ID then Some (so_MetadataId p)
        else if Attribute = SQL_ATTR_NOSCAN then Some 1
        else if Attribute = SQL_ATTR_QUERY_TIMEOUT then Some 0
        else if Attribute = SQL_ATTR_RETRIEVE_DATA then Some 1
        else None)"

definition MADB_StmtGetStmtAttr :: "nat \<Rightarrow> int \<Rightarrow> attr_state \<Rightarrow> (int \<times> int option \<times> int option) option" where
  "MADB_StmtGetStmtAttr h Attribute X =
    (case get_desc_attr h Attribute X of
       Some None \<Rightarrow> None
     | Some (Some v) \<Rightarrow> Some (SQL_SUCCESS, Some v, None)
     | None \<Rightarrow> Some (SQL_SUCCESS, get_option_attr h Attribute X,
                if Attribute \<in> {SQL_ATTR_APP_PARAM_DESC, SQL_ATTR_APP_ROW_DESC, SQL_ATTR_IMP_PARAM_DESC, SQL_ATTR_IMP_ROW_DESC}
                then Some 8 else None))"

section \<open>Freeing\<close>

text \<open>\<open>MADB_DescFree\<close> on the descriptor at address \<open>a\<close>; \<open>keep\<close> is its flag \<open>RecordsOnly\<close>.\<close>

definition free_desc :: "bool \<Rightarrow> nat \<Rightarrow> attr_state \<Rightarrow> attr_state option" where
  "free_desc keep a X =
    (case x_descs X a of
       None \<Rightarrow> None
     | Some d \<Rightarrow>
         (case MADB_DescFree (Some d) a (x_owner X) (x_heap X) of
            (ret, d1, W, H) \<Rightarrow>
              Some (X\<lparr>x_descs := (x_descs X)(a := (if keep then d1 else None)), x_owner := W, x_heap := H\<rparr>)))"

definition SQLFreeHandle_desc :: "nat \<Rightarrow> attr_state \<Rightarrow> (int \<times> attr_state) option" where
  "SQLFreeHandle_desc a X =
    (case x_descs X a of
       None \<Rightarrow> None
     | Some d \<Rightarrow>
         if \<not> d_AppType d then
           (let d1 = desc_error ''HY017'' (clear_error d)
            in Some (ReturnValue (d_Error d1), X\<lparr>x_descs := (x_descs X)(a \<mapsto> d1)\<rparr>))
         else map_option (Pair SQL_SUCCESS) (free_desc False a (X\<lparr>x_descs := (x_descs X)(a \<mapsto> clear_error d)\<rparr>)))"

definition StmtFree_unbind :: "nat \<Rightarrow> attr_state \<Rightarrow> attr_state option" where
  "StmtFree_unbind h X = free_desc True (Ard_of X h) X"

text \<open>\<open>MADB_CspsFreeDAE\<close>: the data sent at execution time is forgotten.\<close>

definition free_dae :: "nat \<Rightarrow> attr_state \<Rightarrow> attr_state option" where
  "free_dae ipd X = upd_desc ipd (\<lambda>d. d\<lparr>d_Records := map free_dae_record (d_Records d)\<rparr>) X"

definition StmtFree_reset_params :: "nat \<Rightarrow> attr_state \<Rightarrow> attr_state option" where
  "StmtFree_reset_params h X = Option.bind (free_dae (so_Ipd (x_opts X h)) X) (free_desc True (Apd_of X h))"

text \<open>Dropping a statement: an explicit descriptor only loses the reference, the statement's own is freed.\<close>

definition drop_slot :: "enum_madb_desc_type \<Rightarrow> nat \<Rightarrow> attr_state \<Rightarrow> attr_state option" where
  "drop_slot t h X =
    (let s = o_stmts (x_owner X) h
     in case x_descs X (slot t s) of
          None \<Rightarrow> None
        | Some d \<Rightarrow>
            if d_AppType d
            then Option.bind (upd_desc (slot t s) (RemoveStmtRefFromDesc h True) X) (free_desc False (own_slot t s))
            else free_desc False (slot t s) X)"

definition StmtFree_drop :: "nat \<Rightarrow> attr_state \<Rightarrow> attr_state option" where
  "StmtFree_drop h X =
    Option.bind (drop_slot MADB_DESC_APD h X) (\<lambda>X1.
    Option.bind (drop_slot MADB_DESC_ARD h X1) (\<lambda>X2.
    Option.bind (free_dae (so_Ipd (x_opts X2 h)) X2) (\<lambda>X3.
    Option.bind (free_desc False (so_Ipd (x_opts X3 h)) X3) (\<lambda>X4.
    map_option (\<lambda>X5. X5\<lparr>x_live := x_live X5 - {h}\<rparr>) (free_desc False (so_Ird (x_opts X4 h)) X4)))))"

section \<open>What is set is read back\<close>

lemma attr_error_refuses:
  assumes "c \<in> {''HYC00'', ''HY024'', ''HY017'', ''01S02''}"
  shows "fst (attr_error c m h X) \<noteq> SQL_SUCCESS"
proof -
  have k: "c \<in> set MadbErrNo" using assms by (auto simp: MadbErrNo_def)
  have "fst (attr_error c m h X) = sqlstate_return c"
    using SetError_class [OF k] by (simp add: attr_error_def SetError_return Let_def)
  then show ?thesis using assms by (auto simp: sqlstate_return_def)
qed

lemma upd_headerD:
  assumes "upd_header a f X = Some (ret, X1)"
  obtains d where "x_descs X a = Some d" "X1 = X\<lparr>x_descs := (x_descs X)(a \<mapsto> d\<lparr>d_Header := f (d_Header d)\<rparr>)\<rparr>"
  using assms by (auto simp: upd_header_def upd_desc_def)

text \<open>The value an attribute has after it was set to \<open>v\<close>, with the three attributes the driver reads from the wrong place.\<close>

definition read_value :: "nat \<Rightarrow> int \<Rightarrow> int \<Rightarrow> attr_state \<Rightarrow> int" where
  "read_value h Attribute v X =
    (if Attribute = SQL_ATTR_PARAMS_PROCESSED_PTR
     then (case x_descs X (so_Ipd (x_opts X h)) of None \<Rightarrow> 0 | Some d \<Rightarrow> h_BindType (d_Header d))
     else if Attribute = SQL_ATTR_USE_BOOKMARKS then so_SimulateCursor (x_opts X h)
     else if Attribute = SQL_ATTR_CURSOR_SCROLLABLE then (if v = 0 then SQL_CURSOR_FORWARD_ONLY else SQL_CURSOR_STATIC)
     else if Attribute = SQL_ATTR_APP_PARAM_DESC \<and> v = 0 then int (IApd_of X h)
     else if Attribute = SQL_ATTR_APP_ROW_DESC \<and> v = 0 then int (IArd_of X h)
     else v)"

lemma desc_attr_read:
  assumes "set_desc_attr h Attribute v X = Some (Some (ret, X1))" "in_ubits 64 v"
    and "Attribute \<in> {SQL_ATTR_PARAM_BIND_TYPE, SQL_ATTR_ROW_BIND_TYPE} \<Longrightarrow> v < 2 ^ 31"
  shows "get_desc_attr h Attribute X1 = Some (Some (read_value h Attribute v X1))"
proof -
  have u: "u64 v = v" "v < 2 ^ 31 \<Longrightarrow> u64 (s32 v) = v" using assms(2) by (auto simp: in_ubits_def cast_simps)
  show ?thesis using assms(1,3) u
    by (auto simp: set_desc_attr_def get_desc_attr_def read_value_def Let_def split: if_splits elim!: upd_headerD)
qed

lemma upd_opts_read [simp]: "x_opts (upd_opts h f X) h = f (x_opts X h)" "x_owner (upd_opts h f X) = x_owner X"
  "x_descs (upd_opts h f X) = x_descs X"
  by (simp_all add: upd_opts_def)

lemma option_attr_read:
  assumes "set_option_attr fwd dyn h Attribute v X = (SQL_SUCCESS, X1)" "in_ubits 64 v"
    and "Attribute \<in> {SQL_ATTR_CURSOR_TYPE, SQL_ATTR_USE_BOOKMARKS} \<Longrightarrow> v < 2 ^ 31"
  shows "get_option_attr h Attribute X1 = Some (read_value h Attribute v X1)"
proof -
  have u: "u64 v = v" "v < 2 ^ 31 \<Longrightarrow> u32 v = v" "u64 (s64 v) = v" using assms(2) by (auto simp: in_ubits_def cast_simps u64_s64)
  have f: "fixed_option v k m h X = (SQL_SUCCESS, X1) \<Longrightarrow> v = k \<and> X1 = X" for k m
    by (auto simp: fixed_option_def split: if_splits)
  have e: "attr_error c m h Y \<noteq> (SQL_SUCCESS, X1)" if "c \<in> {''HYC00'', ''HY024'', ''HY017'', ''01S02''}" for c m Y
    using attr_error_refuses [OF that, of m h Y] by auto
  have c: "X1 = upd_opts h (\<lambda>p. p\<lparr>so_CursorType := u32 v\<rparr>) X" if "set_cursor_type fwd dyn h v X = (SQL_SUCCESS, X1)"
    using that e by (auto simp: set_cursor_type_def Let_def split: if_splits)
  show ?thesis using assms(1,3) u e
    by (auto simp: set_option_attr_def get_option_attr_def read_value_def Let_def split: if_splits dest!: f c)
qed

lemma app_desc_read:
  assumes "set_app_desc t alloc h a X = Some (SQL_SUCCESS, X1)"
  shows "slot t (o_stmts (x_owner X1) h) = (if a = 0 then own_slot t (o_stmts (x_owner X1) h) else a)"
proof -
  have e: "attr_error c m h Y \<noteq> (SQL_SUCCESS, X1)" if "c \<in> {''HY024'', ''HY017''}" for c m Y
    using attr_error_refuses [of c m h Y] that by auto
  show ?thesis using assms e
    by (auto simp: set_app_desc_def upd_desc_def upd_pointers_def Let_def split: if_splits option.splits)
qed

text \<open>
  C16.  Attributes of a statement.  An attribute that was set with success is read back with the value it was
  given (a null descriptor stands for the statement's own one), for every attribute except three:
  \<open>SQL_ATTR_PARAMS_PROCESSED_PTR\<close> gives the binding type of the parameter descriptor,
  \<open>SQL_ATTR_USE_BOOKMARKS\<close> the value of \<open>SQL_ATTR_SIMULATE_CURSOR\<close>, and \<open>SQL_ATTR_CURSOR_SCROLLABLE\<close> the type of
  the cursor.
\<close>

theorem StmtAttr_roundtrip:
  assumes "MADB_StmtSetStmtAttr fwd dyn alloc h Attribute v X = Some (SQL_SUCCESS, X1)" "in_ubits 64 v"
    and "Attribute \<in> {SQL_ATTR_PARAM_BIND_TYPE, SQL_ATTR_ROW_BIND_TYPE, SQL_ATTR_CURSOR_TYPE, SQL_ATTR_USE_BOOKMARKS} \<Longrightarrow> v < 2 ^ 31"
  shows "\<exists>len. MADB_StmtGetStmtAttr h Attribute X1 = Some (SQL_SUCCESS, Some (read_value h Attribute v X1), len)"
proof -
  have nat: "int (nat v) = v" "nat v = 0 \<longleftrightarrow> v = 0" using assms(2) by (auto simp: in_ubits_def)
  consider (app) "Attribute \<in> {SQL_ATTR_APP_PARAM_DESC, SQL_ATTR_APP_ROW_DESC}"
    | (desc) res where "Attribute \<notin> {SQL_ATTR_APP_PARAM_DESC, SQL_ATTR_APP_ROW_DESC}" "set_desc_attr h Attribute v X = Some res"
    | (opt) "Attribute \<notin> {SQL_ATTR_APP_PARAM_DESC, SQL_ATTR_APP_ROW_DESC}" "set_desc_attr h Attribute v X = None"
    by blast
  then show ?thesis
  proof cases
    case app
    have "set_app_desc (if Attribute = SQL_ATTR_APP_PARAM_DESC then MADB_DESC_APD else MADB_DESC_ARD) alloc h (nat v) X =
        Some (SQL_SUCCESS, X1)"
      using assms(1) app by (auto simp: MADB_StmtSetStmtAttr_def split: if_splits)
    from app_desc_read [OF this] show ?thesis using app nat
      by (auto simp: MADB_StmtGetStmtAttr_def get_desc_attr_def get_option_attr_def read_value_def slot_def own_slot_def
          Let_def split: if_splits)
  next
    case desc
    then have "res = Some (SQL_SUCCESS, X1)" using assms(1) by (auto simp: MADB_StmtSetStmtAttr_def)
    moreover have "Attribute \<in> {SQL_ATTR_PARAM_BIND_TYPE, SQL_ATTR_ROW_BIND_TYPE} \<Longrightarrow> v < 2 ^ 31" using assms(3) by blast
    ultimately show ?thesis using desc_attr_read [of h Attribute v X SQL_SUCCESS X1, OF _ assms(2)] desc
      by (simp add: MADB_StmtGetStmtAttr_def)
  next
    case opt
    then have o: "set_option_attr fwd dyn h Attribute v X = (SQL_SUCCESS, X1)" using assms(1) by (auto simp: MADB_StmtSetStmtAttr_def)
    have "get_desc_attr h Attribute X1 = None" using opt(2)
      by (auto simp: set_desc_attr_def get_desc_attr_def Let_def split: if_splits)
    moreover have "Attribute \<in> {SQL_ATTR_CURSOR_TYPE, SQL_ATTR_USE_BOOKMARKS} \<Longrightarrow> v < 2 ^ 31" using assms(3) by blast
    ultimately show ?thesis using option_attr_read [OF o assms(2)] by (simp add: MADB_StmtGetStmtAttr_def)
  qed
qed

text \<open>A statement whose descriptors are all empty.\<close>

definition sample_attrs :: attr_state where
  "sample_attrs = \<lparr>x_descs = (\<lambda>a. if a \<in> {2, 3, 4, 8} then Some sample_app else None),
     x_owner = \<lparr>o_Descrs = [], o_stmts = (\<lambda>_. \<lparr>sd_Ard = 2, sd_Apd = 8, sd_IArd = 2, sd_IApd = 8\<rparr>)\<rparr>,
     x_opts = (\<lambda>_. \<lparr>so_MaxRows = 0, so_MaxLength = 0, so_CursorType = SQL_CURSOR_FORWARD_ONLY, so_UseBookmarks = 0, so_MetadataId = 0,
       so_SimulateCursor = 0, so_Ipd = 3, so_Ird = 4, so_Error = zero_error\<rparr>), x_live = {7}, x_heap = sample_heap\<rparr>"

theorem StmtAttr_roundtrip_witness:
  "\<exists>X1 len. MADB_StmtSetStmtAttr False False True 7 SQL_ATTR_ROW_ARRAY_SIZE 25 sample_attrs = Some (SQL_SUCCESS, X1)
     \<and> MADB_StmtGetStmtAttr 7 SQL_ATTR_ROW_ARRAY_SIZE X1 = Some (SQL_SUCCESS, Some 25, len)"
proof -
  obtain X1 where s: "MADB_StmtSetStmtAttr False False True 7 SQL_ATTR_ROW_ARRAY_SIZE 25 sample_attrs = Some (SQL_SUCCESS, X1)"
    by (simp add: MADB_StmtSetStmtAttr_def set_desc_attr_def upd_header_def upd_desc_def sample_attrs_def)
  have "read_value 7 SQL_ATTR_ROW_ARRAY_SIZE 25 X1 = 25" by (simp add: read_value_def)
  with StmtAttr_roundtrip [OF s] s show ?thesis by (simp add: in_ubits_def)
qed

section \<open>Descriptors and the statements that use them\<close>

text \<open>The kind of a descriptor, whether the application allocated it, and the statements it lists.\<close>

type_synonym desc_kind = "enum_madb_desc_type \<times> bool \<times> nat list"

definition kind_of :: "MADB_Desc \<Rightarrow> desc_kind" where
  "kind_of d = (d_DescType d, d_AppType d, d_Stmts d)"

definition users :: "(nat \<Rightarrow> stmt_descs) \<Rightarrow> nat set \<Rightarrow> nat \<Rightarrow> nat set" where
  "users P L a = {h \<in> L. sd_Apd (P h) = a \<or> sd_Ard (P h) = a}"

text \<open>
  Every statement has descriptors of the right kinds, each its own one or an explicit one; an explicit
  descriptor lists each statement that uses it, once, and no other.
\<close>

definition stmt_ok :: "(nat \<Rightarrow> desc_kind option) \<Rightarrow> stmt_descs \<Rightarrow> nat \<times> nat \<Rightarrow> bool" where
  "stmt_ok K s i \<longleftrightarrow>
     (\<forall>t \<in> {MADB_DESC_APD, MADB_DESC_ARD}.
        (\<exists>b ss. K (slot t s) = Some (t, b, ss) \<and> (b \<or> slot t s = own_slot t s)) \<and> (\<exists>ss. K (own_slot t s) = Some (t, False, ss)))
     \<and> (\<exists>ss. K (fst i) = Some (MADB_DESC_IPD, False, ss)) \<and> (\<exists>ss. K (snd i) = Some (MADB_DESC_IRD, False, ss))"

definition own_descs :: "stmt_descs \<Rightarrow> nat \<times> nat \<Rightarrow> nat set" where
  "own_descs s i = {sd_IApd s, sd_IArd s, fst i, snd i}"

definition refs :: "(nat \<Rightarrow> desc_kind option) \<Rightarrow> (nat \<Rightarrow> stmt_descs) \<Rightarrow> (nat \<Rightarrow> nat \<times> nat) \<Rightarrow> nat set \<Rightarrow> bool" where
  "refs K P I L \<longleftrightarrow>
     (\<forall>h \<in> L. stmt_ok K (P h) (I h))
     \<and> (\<forall>h \<in> L. \<forall>g \<in> L. h \<noteq> g \<longrightarrow> own_descs (P h) (I h) \<inter> own_descs (P g) (I g) = {})
     \<and> (\<forall>a t ss. K a = Some (t, True, ss) \<longrightarrow> distinct ss \<and> set ss = users P L a)"

definition refs_ok :: "attr_state \<Rightarrow> bool" where
  "refs_ok X \<longleftrightarrow> refs (\<lambda>a. map_option kind_of (x_descs X a)) (o_stmts (x_owner X))
     (\<lambda>h. (so_Ipd (x_opts X h), so_Ird (x_opts X h))) (x_live X)"

lemma refsD:
  assumes "refs K P I L" "h \<in> L"
  shows "\<exists>b ss. K (sd_Apd (P h)) = Some (MADB_DESC_APD, b, ss) \<and> (b \<or> sd_Apd (P h) = sd_IApd (P h))"
    "\<exists>b ss. K (sd_Ard (P h)) = Some (MADB_DESC_ARD, b, ss) \<and> (b \<or> sd_Ard (P h) = sd_IArd (P h))"
    "\<exists>ss. K (sd_IApd (P h)) = Some (MADB_DESC_APD, False, ss)" "\<exists>ss. K (sd_IArd (P h)) = Some (MADB_DESC_ARD, False, ss)"
    "\<exists>ss. K (fst (I h)) = Some (MADB_DESC_IPD, False, ss)" "\<exists>ss. K (snd (I h)) = Some (MADB_DESC_IRD, False, ss)"
  using assms by (auto simp: refs_def stmt_ok_def slot_def own_slot_def)

text \<open>A descriptor in use has the kind of its use.\<close>

lemma refs_kind:
  assumes "refs K P I L" "h \<in> L" "K a = Some (t, b, ss)"
  shows "sd_Apd (P h) = a \<Longrightarrow> t = MADB_DESC_APD" "sd_Ard (P h) = a \<Longrightarrow> t = MADB_DESC_ARD"
  using refsD(1,2) [OF assms(1,2)] assms(3) by auto

lemma detach_all_eq: "detach_all t ss m h = (if h \<in> set ss then detach t (m h) else m h)"
proof -
  have d: "detach t (detach t s) = detach t s" for s by (simp add: detach_def)
  show ?thesis unfolding detach_all_def by (induction ss arbitrary: m) (auto simp: d)
qed

text \<open>An explicit descriptor is freed: its statements go back to their own ones.\<close>

lemma refs_free:
  assumes "refs K P I L" "K a = Some (t, True, ss)" "k = None \<or> k = Some (t, True, [])"
  shows "refs (K(a := k)) (detach_all t ss P) I L"
proof -
  define Q where "Q = detach_all t ss P"
  have ss: "set ss = users P L a" using assms(1,2) by (auto simp: refs_def)
  have Q: "Q h = (if sd_Apd (P h) = a \<or> sd_Ard (P h) = a then detach t (P h) else P h)" if "h \<in> L" for h
    using that ss by (simp add: Q_def detach_all_eq users_def)
  have own: "sd_IApd (Q h) = sd_IApd (P h)" "sd_IArd (Q h) = sd_IArd (P h)" for h
    by (simp_all add: Q_def detach_all_eq detach_def)
  have free: "sd_Apd (Q h) \<noteq> a \<and> sd_Ard (Q h) \<noteq> a" if h: "h \<in> L" for h
    using Q [OF h] refs_kind [OF assms(1) h assms(2)] refsD(3,4) [OF assms(1) h] assms(2) by (auto simp: detach_def)
  have same: "sd_Apd (P h) \<noteq> a \<Longrightarrow> sd_Apd (Q h) = sd_Apd (P h)" "sd_Ard (P h) \<noteq> a \<Longrightarrow> sd_Ard (Q h) = sd_Ard (P h)"
    "sd_Apd (P h) = a \<Longrightarrow> sd_Apd (Q h) = sd_IApd (P h)" "sd_Ard (P h) = a \<Longrightarrow> sd_Ard (Q h) = sd_IArd (P h)" if h: "h \<in> L" for h
    using Q [OF h] refs_kind [OF assms(1) h assms(2)] by (auto simp: detach_def)
  have "stmt_ok (K(a := k)) (Q h) (I h)" if h: "h \<in> L" for h
    using refsD [OF assms(1) h] free [OF h] same [OF h] own [of h] assms(2)
    by (cases "sd_Apd (P h) = a"; cases "sd_Ard (P h) = a") (auto simp: stmt_ok_def slot_def own_slot_def)
  moreover have "users Q L b = users P L b" if "b \<noteq> a" "K b = Some (u, True, us)" for b u us
    using that same refsD(3,4) [OF assms(1)] unfolding users_def by fastforce
  moreover have "users Q L a = {}" using free by (auto simp: users_def)
  ultimately show ?thesis using assms(1,3) own unfolding Q_def [symmetric]
    by (auto simp: refs_def own_descs_def split: if_splits)
qed

end
