(* ===== verification/Stmt_Refs.thy ===== *)
theory Stmt_Refs
  imports Stmt_Attr
begin

text \<open>
  Descriptors shared by statements, over the life of both: statements are allocated and dropped
  (\<open>MADB_StmtInit\<close> and \<open>MADB_StmtFree\<close> of \<open>src/ma_statement.c\<close>), explicit descriptors are allocated and freed, and
  statements take and leave them.  No statement is left with a descriptor that was freed.
\<close>

section \<open>A statement takes another descriptor\<close>

lemma remove_refs_first: "remove_refs h False ss = remove1 h ss"
  by (induction ss) auto

lemma remove_refs_all: "distinct ss \<Longrightarrow> remove_refs h True ss = remove1 h ss"
proof (induction ss)
  case (Cons s ss)
  have "remove_refs h True ts = ts" if "h \<notin> set ts" for ts using that by (induction ts) auto
  then show ?case using Cons by (cases ss) auto
qed simp

text \<open>Descriptors keep their kind, or get one when they had none.\<close>

lemma stmt_ok_mono:
  assumes "stmt_ok K s i"
    and "\<And>x u b l. x \<in> insert (sd_Apd s) (insert (sd_Ard s) (own_descs s i)) \<Longrightarrow> K x = Some (u, b, l) \<Longrightarrow> u \<noteq> MADB_DESC_UNKNOWN \<Longrightarrow>
      \<exists>l'. K' x = Some (u, b, l')"
  shows "stmt_ok K' s i"
proof -
  have refs: "stmt_ok K s i \<longleftrightarrow>
      (\<exists>b l. K (sd_Apd s) = Some (MADB_DESC_APD, b, l) \<and> (b \<or> sd_Apd s = sd_IApd s))
    \<and> (\<exists>l. K (sd_IApd s) = Some (MADB_DESC_APD, False, l))
    \<and> (\<exists>b l. K (sd_Ard s) = Some (MADB_DESC_ARD, b, l) \<and> (b \<or> sd_Ard s = sd_IArd s))
    \<and> (\<exists>l. K (sd_IArd s) = Some (MADB_DESC_ARD, False, l))
    \<and> (\<exists>l. K (fst i) = Some (MADB_DESC_IPD, False, l)) \<and> (\<exists>l. K (snd i) = Some (MADB_DESC_IRD, False, l))" for K
    by (simp add: stmt_ok_def slot_def own_slot_def)
  have m: "\<exists>l'. K' x = Some (u, b, l')"
    if "x \<in> insert (sd_Apd s) (insert (sd_Ard s) (own_descs s i))" "K x = Some (u, b, l)" "u \<noteq> MADB_DESC_UNKNOWN" for x u b l
    using assms(2) that by blast
  from assms(1) obtain b l b' l' l1 l2 l3 l4 where k:
    "K (sd_Apd s) = Some (MADB_DESC_APD, b, l)" "b \<or> sd_Apd s = sd_IApd s"
    "K (sd_Ard s) = Some (MADB_DESC_ARD, b', l')" "b' \<or> sd_Ard s = sd_IArd s"
    "K (sd_IApd s) = Some (MADB_DESC_APD, False, l1)" "K (sd_IArd s) = Some (MADB_DESC_ARD, False, l2)"
    "K (fst i) = Some (MADB_DESC_IPD, False, l3)" "K (snd i) = Some (MADB_DESC_IRD, False, l4)"
    unfolding refs [of K] by (elim conjE exE) (rule that)
  show ?thesis unfolding refs [of K']
    using m [OF _ k(1)] m [OF _ k(3)] m [OF _ k(5)] m [OF _ k(6)] m [OF _ k(7)] m [OF _ k(8)] k(2,4)
    by (simp add: own_descs_def) blast
qed

definition other_slot :: "enum_madb_desc_type \<Rightarrow> stmt_descs \<Rightarrow> nat" where
  "other_slot t s = (if t = MADB_DESC_APD then sd_Ard s else sd_Apd s)"

lemma users_slots: "users P L x = {g \<in> L. slot t (P g) = x \<or> other_slot t (P g) = x}"
  by (auto simp: users_def slot_def other_slot_def)

lemma users_set:
  "h \<in> L \<Longrightarrow> users (P(h := set_slot t a (P h))) L x =
     (if x = a then insert h (users P L x) else {g \<in> users P L x. g \<noteq> h \<or> other_slot t (P h) = x})"
  by (auto simp: users_def set_slot_def other_slot_def)

lemma other_slot_kind:
  assumes "refs K P I L" "h \<in> L" "t \<in> {MADB_DESC_APD, MADB_DESC_ARD}" "K x = Some (u, b, ss)" "u = t \<or> u = MADB_DESC_UNKNOWN"
  shows "other_slot t (P h) \<noteq> x"
  using refsD(1,2) [OF assms(1,2)] assms(3-5) by (auto simp: other_slot_def)

lemma slot_kind:
  assumes "refs K P I L" "h \<in> L" "t \<in> {MADB_DESC_APD, MADB_DESC_ARD}"
  obtains b ss where "K (slot t (P h)) = Some (t, b, ss)" "b \<or> slot t (P h) = own_slot t (P h)"
  using refsD(1,2) [OF assms(1,2)] assms(3) by (auto simp: slot_def own_slot_def)

lemma own_slot_kind:
  assumes "refs K P I L" "h \<in> L" "t \<in> {MADB_DESC_APD, MADB_DESC_ARD}"
  obtains ss where "K (own_slot t (P h)) = Some (t, False, ss)"
  using refsD(3,4) [OF assms(1,2)] assms(3) by (auto simp: own_slot_def)

text \<open>A statement takes another descriptor: the lists of both change, the kind of the new one is fixed.\<close>

definition retarget :: "enum_madb_desc_type \<Rightarrow> nat \<Rightarrow> bool \<Rightarrow> desc_kind option \<Rightarrow> desc_kind option" where
  "retarget t h listed k =
    (case k of None \<Rightarrow> None | Some (u, b, ss) \<Rightarrow> Some (t, b, if listed then ss @ [h] else ss))"

definition unlist :: "nat \<Rightarrow> desc_kind option \<Rightarrow> desc_kind option" where
  "unlist h k = (case k of None \<Rightarrow> None | Some (u, b, ss) \<Rightarrow> Some (u, b, if b then remove1 h ss else ss))"

lemma refs_set:
  assumes R: "refs K P I L" and h: "h \<in> L" and t: "t \<in> {MADB_DESC_APD, MADB_DESC_ARD}"
    and a: "K a = Some (u, b, ss)" "u = t \<or> u = MADB_DESC_UNKNOWN" "b \<or> a = own_slot t (P h)"
  defines "c \<equiv> slot t (P h)" and "own \<equiv> own_slot t (P h)"
  defines "K1 \<equiv> K(c := unlist h (K c))"
  defines "K2 \<equiv> K1(a := retarget t h (a \<noteq> own) (K1 a))"
  shows "refs K2 (P(h := set_slot t a (P h))) I L"
proof -
  obtain bc sc where c: "K c = Some (t, bc, sc)" using slot_kind [OF R h t] c_def by metis
  obtain so where o: "K own = Some (t, False, so)" using own_slot_kind [OF R h t] own_def by metis
  have app: "b = (a \<noteq> own)" using a o own_def by auto
  have lists: "distinct l \<and> set l = users P L x" if "K x = Some (w, True, l)" for x w l using R that by (auto simp: refs_def)
  have K2: "\<exists>l'. K2 x = Some (if x = a then t else w, b', l')" if "K x = Some (w, b', l)" for x w b' l
    using that c a(1) by (auto simp: K2_def K1_def unlist_def retarget_def)
  have mono: "\<exists>l'. K2 x = Some (w, b', l')" if "K x = Some (w, b', l)" "w \<noteq> MADB_DESC_UNKNOWN" for x w b' l
    using K2 [OF that(1)] that a(1,2) by auto
  have m: "stmt_ok K2 (P g) (I g)" if "g \<in> L" for g
  proof (rule stmt_ok_mono)
    show "stmt_ok K (P g) (I g)" using R that by (simp add: refs_def)
  qed (rule mono)
  have "stmt_ok K2 (set_slot t a (P h)) (I h)"
  proof -
    obtain l where "K2 a = Some (t, b, l)" using K2 [OF a(1)] by auto
    then show ?thesis using m [OF h] a(3) t by (auto simp: stmt_ok_def set_slot_def slot_def own_slot_def)
  qed
  then have ok: "\<forall>g \<in> L. stmt_ok K2 ((P(h := set_slot t a (P h))) g) (I g)" using m by simp
  have users: "distinct l \<and> set l = users (P(h := set_slot t a (P h))) L x" if x: "K2 x = Some (w, True, l)" for x w l
  proof -
    have "K x \<noteq> None" using x c a(1) by (auto simp: K2_def K1_def unlist_def retarget_def split: if_splits)
    then obtain wx bx lx where kx: "K x = Some (wx, bx, lx)" by fastforce
    then have bx: bx using K2 [OF kx] x by auto
    have hx: "h \<in> users P L x \<longleftrightarrow> x = c" if "x = c \<or> x = a"
      using other_slot_kind [OF R h t, of x wx bx lx] kx that a(1,2) c h by (auto simp: users_slots [of P L x t] c_def)
    have l: "l = (if x = c then remove1 h lx else lx) @ (if x = a then [h] else [])"
      using x kx bx c a(1) app by (auto simp: K2_def K1_def unlist_def retarget_def split: if_splits)
    have oth: "x = c \<Longrightarrow> other_slot t (P h) \<noteq> x" using other_slot_kind [OF R h t, of c t bc sc] c by auto
    have nh: "x \<noteq> a \<Longrightarrow> x \<noteq> c \<Longrightarrow> h \<in> users P L x \<Longrightarrow> other_slot t (P h) = x"
      by (auto simp: users_slots [of P L x t] c_def)
    have d: "distinct lx" "set lx = users P L x" using lists [of x wx lx] kx bx by auto
    show ?thesis
    proof (cases "x = a")
      case True
      then show ?thesis using d l hx users_set [OF h, of P t a x] by (cases "x = c") auto
    next
      case False
      then show ?thesis using d l oth nh users_set [OF h, of P t a x] by (cases "x = c") auto
    qed
  qed
  have own: "own_descs ((P(h := set_slot t a (P h))) g) (I g) = own_descs (P g) (I g)" for g
    by (simp add: own_descs_def set_slot_def)
  show ?thesis using R ok users unfolding refs_def own by blast
qed

section \<open>Statements and descriptors come and go\<close>

lemma refsI:
  assumes "\<And>h. h \<in> L \<Longrightarrow> stmt_ok K (P h) (I h)"
    and "\<And>h g. h \<in> L \<Longrightarrow> g \<in> L \<Longrightarrow> h \<noteq> g \<Longrightarrow> own_descs (P h) (I h) \<inter> own_descs (P g) (I g) = {}"
    and "\<And>a t ss. K a = Some (t, True, ss) \<Longrightarrow> distinct ss \<and> set ss = users P L a"
  shows "refs K P I L"
  using assms unfolding refs_def by blast

lemma refs_in_use:
  assumes "refs K P I L" "h \<in> L" "x \<in> insert (sd_Apd (P h)) (insert (sd_Ard (P h)) (own_descs (P h) (I h)))"
  shows "K x \<noteq> None"
  using refsD [OF assms(1,2)] assms(3) unfolding own_descs_def by (elim insertE) auto

lemma refs_new_desc:
  assumes "refs K P I L" "K a = None"
  shows "refs (K(a \<mapsto> (u, b, []))) P I L"
proof (rule refsI)
  fix h assume h: "h \<in> L"
  show "stmt_ok (K(a \<mapsto> (u, b, []))) (P h) (I h)"
  proof (rule stmt_ok_mono)
    show "stmt_ok K (P h) (I h)" using assms(1) h by (simp add: refs_def)
  qed (use assms(2) in auto)
next
  fix x t ss assume x: "(K(a \<mapsto> (u, b, []))) x = Some (t, True, ss)"
  have "sd_Apd (P h) \<noteq> a \<and> sd_Ard (P h) \<noteq> a" if "h \<in> L" for h using refs_in_use [OF assms(1) that] assms(2) by blast
  then have "users P L a = {}" by (auto simp: users_def)
  then show "distinct ss \<and> set ss = users P L x" using x assms(1) by (cases "x = a") (auto simp: refs_def)
qed (use assms(1) in \<open>auto simp: refs_def\<close>)

lemma refs_new_stmt:
  assumes R: "refs K P I L" and h: "h \<notin> L" and new: "distinct [apd, ard, ipd, ird]" "\<forall>a \<in> {apd, ard, ipd, ird}. K a = None"
  shows "refs (K(apd \<mapsto> (MADB_DESC_APD, False, []), ard \<mapsto> (MADB_DESC_ARD, False, []),
      ipd \<mapsto> (MADB_DESC_IPD, False, []), ird \<mapsto> (MADB_DESC_IRD, False, [])))
    (P(h := \<lparr>sd_Ard = ard, sd_Apd = apd, sd_IArd = ard, sd_IApd = apd\<rparr>)) (I(h := (ipd, ird))) (insert h L)"
    (is "refs ?K ?P ?I _")
proof (rule refsI)
  fix g assume g: "g \<in> insert h L"
  show "stmt_ok ?K (?P g) (?I g)"
  proof (cases "g = h")
    case True
    then show ?thesis using new by (auto simp: stmt_ok_def slot_def own_slot_def)
  next
    case False
    have "?K x = K x" if "K x = Some k" for x k using new(2) that by auto
    then have "stmt_ok ?K (P g) (I g)"
      using R False g by (intro stmt_ok_mono [of K "P g" "I g" ?K]) (simp_all add: refs_def del: fun_upd_apply)
    then show ?thesis using False by simp
  qed
next
  have new_own: "own_descs (?P h) (?I h) = {apd, ard, ipd, ird}" by (auto simp: own_descs_def)
  have same: "own_descs (?P g) (?I g) = own_descs (P g) (I g)" if "g \<noteq> h" for g using that by simp
  have own: "own_descs (P g) (I g) \<inter> {apd, ard, ipd, ird} = {}" if g: "g \<in> L" for g
  proof -
    have "K x \<noteq> None" if "x \<in> own_descs (P g) (I g)" for x using refs_in_use [OF R g] that by blast
    then show ?thesis using new(2) by blast
  qed
  have old: "own_descs (P g) (I g) \<inter> own_descs (P g') (I g') = {}" if "g \<in> L" "g' \<in> L" "g \<noteq> g'" for g g'
    using R that by (auto simp: refs_def)
  fix g g' assume "g \<in> insert h L" "g' \<in> insert h L" "g \<noteq> g'"
  then consider "g = h" "g' \<noteq> h" "g' \<in> L" | "g' = h" "g \<noteq> h" "g \<in> L" | "g \<noteq> h" "g' \<noteq> h" "g \<in> L" "g' \<in> L" "g \<noteq> g'" by blast
  then show "own_descs (?P g) (?I g) \<inter> own_descs (?P g') (?I g') = {}"
  proof cases
    case 1
    show ?thesis using own [OF 1(3)] unfolding 1(1) new_own same [OF 1(2)] by blast
  next
    case 2
    show ?thesis using own [OF 2(3)] unfolding 2(1) new_own same [OF 2(2)] by blast
  next
    case 3
    show ?thesis using old [OF 3(3-5)] unfolding same [OF 3(1)] same [OF 3(2)] .
  qed
next
  fix x t ss assume "?K x = Some (t, True, ss)"
  then have x: "K x = Some (t, True, ss)" "x \<notin> {apd, ard}" by (auto split: if_splits)
  then have "users ?P (insert h L) x = users P L x" using h by (auto simp: users_def)
  then show "distinct ss \<and> set ss = users ?P (insert h L) x" using R x by (auto simp: refs_def)
qed

text \<open>A statement is dropped with its own descriptors.\<close>

lemma refs_drop:
  assumes R: "refs K P I L" and h: "h \<in> L"
    and K': "\<And>x. K' x = (if x \<in> own_descs (P h) (I h) then None
      else if x = sd_Apd (P h) \<or> x = sd_Ard (P h) then unlist h (K x) else K x)"
  shows "refs K' P I (L - {h})"
proof (rule refsI)
  fix g assume g: "g \<in> L - {h}"
  have own: "own_descs (P g) (I g) \<inter> own_descs (P h) (I h) = {}" using R g h by (auto simp: refs_def)
  have app: "x \<notin> own_descs (P h) (I h)" if "x = sd_Apd (P g) \<or> x = sd_Ard (P g)" for x
  proof -
    have "x \<in> own_descs (P g) (I g) \<or> (\<exists>u l. K x = Some (u, True, l))"
      using refsD(1,2) [OF R, of g] g that by (auto simp: own_descs_def)
    moreover have "\<nexists>u l. K x = Some (u, True, l)" if "x \<in> own_descs (P h) (I h)"
      using refsD(3-6) [OF R h] that by (auto simp: own_descs_def)
    ultimately show ?thesis using own by blast
  qed
  show "stmt_ok K' (P g) (I g)"
  proof (rule stmt_ok_mono)
    show "stmt_ok K (P g) (I g)" using R g by (simp add: refs_def)
  next
    fix x u b l
    assume "x \<in> insert (sd_Apd (P g)) (insert (sd_Ard (P g)) (own_descs (P g) (I g)))" and k: "K x = Some (u, b, l)"
    then have "x \<notin> own_descs (P h) (I h)" using own app by blast
    then show "\<exists>l'. K' x = Some (u, b, l')" using k by (simp add: K' unlist_def)
  qed
next
  fix x t ss assume x: "K' x = Some (t, True, ss)"
  have us: "users P (L - {h}) x = users P L x - {h}" by (auto simp: users_def)
  obtain l where l: "K x = Some (t, True, l)" "ss = (if x = sd_Apd (P h) \<or> x = sd_Ard (P h) then remove1 h l else l)"
    using x by (auto simp: K' unlist_def split: if_splits option.splits)
  have "distinct l" "set l = users P L x" using R l(1) by (auto simp: refs_def)
  then show "distinct ss \<and> set ss = users P (L - {h}) x" using l(2) us by (auto simp: users_def)
qed (use R in \<open>auto simp: refs_def\<close>)

section \<open>Allocation\<close>

text \<open>
  \<open>MADB_StmtInit\<close> makes its four descriptors in order and gives up at the first that cannot be allocated; the
  addresses are those the allocator returns.  What was made by then is only emptied.  Without memory for the
  statement itself the error path reads through the null pointer.
\<close>

fun init_descs ::
  "string \<Rightarrow> string option \<Rightarrow> (enum_madb_desc_type \<times> (bool \<times> bool \<times> bool) \<times> nat) list \<Rightarrow> attr_state \<Rightarrow> nat list \<times> attr_state" where
  "init_descs pfx server [] X = ([], X)"
| "init_descs pfx server ((t, allocs, a) # rest) X =
    (case MADB_DescInit pfx server allocs t False a (x_owner X) of
       (None, W) \<Rightarrow> ([], X\<lparr>x_owner := W\<rparr>)
     | (Some d, W) \<Rightarrow>
         (case init_descs pfx server rest (X\<lparr>x_descs := (x_descs X)(a \<mapsto> d), x_owner := W\<rparr>) of
            (as, X1) \<Rightarrow> (a # as, X1)))"

fun release_descs :: "nat list \<Rightarrow> attr_state \<Rightarrow> attr_state option" where
  "release_descs [] X = Some X"
| "release_descs (a # as) X = Option.bind (free_desc True a X) (release_descs as)"

definition new_opts :: "string \<Rightarrow> string option \<Rightarrow> int \<Rightarrow> nat \<Rightarrow> nat \<Rightarrow> stmt_opts" where
  "new_opts pfx server metadata ipd ird =
    \<lparr>so_MaxRows = 0, so_MaxLength = 0, so_CursorType = SQL_CURSOR_FORWARD_ONLY, so_UseBookmarks = 0, so_MetadataId = metadata,
     so_SimulateCursor = 0, so_Ipd = ipd, so_Ird = ird, so_Error = snd (MADB_PutErrorPrefix pfx server zero_error)\<rparr>"

definition MADB_StmtInit ::
  "string \<Rightarrow> string option \<Rightarrow> int \<Rightarrow> bool \<Rightarrow> bool \<Rightarrow> (bool \<times> bool \<times> bool) list \<Rightarrow> nat \<Rightarrow> nat \<times> nat \<times> nat \<times> nat \<Rightarrow> attr_state \<Rightarrow>
   (int \<times> attr_state) option" where
  "MADB_StmtInit pfx server metadata mem_ok handle_ok allocs h addrs X =
    (if \<not> mem_ok then None
     else
       (case addrs of (apd, ard, ipd, ird) \<Rightarrow>
          (case (if handle_ok
                 then init_descs pfx server
                        (zip [MADB_DESC_APD, MADB_DESC_ARD, MADB_DESC_IPD, MADB_DESC_IRD] (zip allocs [apd, ard, ipd, ird])) X
                 else ([], X)) of
             (made, X1) \<Rightarrow>
               if length made = 4
               then map_option
                      (\<lambda>X2. (SQL_SUCCESS, X2\<lparr>x_live := insert h (x_live X2), x_opts := (x_opts X2)(h := new_opts pfx server metadata ipd ird)\<rparr>))
                      (upd_desc ard (\<lambda>d. d\<lparr>d_Header := (d_Header d)\<lparr>h_ArraySize := 1\<rparr>\<rparr>)
                        (upd_pointers h (\<lambda>_. \<lparr>sd_Ard = ard, sd_Apd = apd, sd_IArd = ard, sd_IApd = apd\<rparr>) X1))
               else map_option (Pair SQL_ERROR) (release_descs made X1))))"

text \<open>\<open>MA_SQLAllocHandle\<close> for a descriptor.\<close>

definition MA_SQLAllocHandle_desc ::
  "string \<Rightarrow> string option \<Rightarrow> bool \<times> bool \<times> bool \<Rightarrow> nat \<Rightarrow> attr_state \<Rightarrow> int \<times> attr_state" where
  "MA_SQLAllocHandle_desc pfx server allocs a X =
    (case MADB_DescInit pfx server allocs MADB_DESC_UNKNOWN True a (x_owner X) of
       (None, W) \<Rightarrow> (SQL_ERROR, X\<lparr>x_owner := W\<rparr>)
     | (Some d, W) \<Rightarrow> (SQL_SUCCESS, X\<lparr>x_descs := (x_descs X)(a \<mapsto> d), x_owner := W\<rparr>))"

text \<open>\<open>SQLCopyDesc\<close> on two descriptors.\<close>

definition copy_desc :: "nat \<Rightarrow> nat \<Rightarrow> bool \<Rightarrow> attr_state \<Rightarrow> (int \<times> attr_state) option" where
  "copy_desc src dest ok X =
    (case x_descs X dest of
       None \<Rightarrow> None
     | Some d \<Rightarrow>
         (case MADB_DescCopyDesc (x_descs X src) d ok of (ret, d1) \<Rightarrow> Some (ret, X\<lparr>x_descs := (x_descs X)(dest \<mapsto> d1)\<rparr>)))"

section \<open>Operations of the driver on shared descriptors\<close>

text \<open>
  Handles the application passes are those of statements and descriptors there are; what the allocator returns is
  not in use.  Copying into a descriptor is limited to descriptors of the same kind.
\<close>

inductive attr_step :: "attr_state \<Rightarrow> attr_state \<Rightarrow> bool" where
  alloc_stmt: "attr_step X X'" if "MADB_StmtInit pfx server metadata True handle_ok allocs h (apd, ard, ipd, ird) X = Some (ret, X')"
    "h \<notin> x_live X" "distinct [apd, ard, ipd, ird]" "\<forall>a \<in> {apd, ard, ipd, ird}. x_descs X a = None" "length allocs = 4"
| alloc_desc: "attr_step X (snd (MA_SQLAllocHandle_desc pfx server allocs a X))" if "x_descs X a = None"
| set_attr: "attr_step X X'" if "MADB_StmtSetStmtAttr fwd dyn alloc h Attribute v X = Some (ret, X')" "h \<in> x_live X"
| free_handle: "attr_step X X'" if "SQLFreeHandle_desc a X = Some (ret, X')"
| unbind: "attr_step X X'" if "StmtFree_unbind h X = Some X'" "h \<in> x_live X"
| reset_params: "attr_step X X'" if "StmtFree_reset_params h X = Some X'" "h \<in> x_live X"
| drop: "attr_step X X'" if "StmtFree_drop h X = Some X'" "h \<in> x_live X"
| copy: "attr_step X X'" if "copy_desc src dest ok X = Some (ret, X')"
    "map_option d_DescType (x_descs X src) = map_option d_DescType (x_descs X dest)"

abbreviation kinds :: "attr_state \<Rightarrow> nat \<Rightarrow> desc_kind option" where
  "kinds X \<equiv> (\<lambda>a. map_option kind_of (x_descs X a))"

abbreviation imp_descs :: "attr_state \<Rightarrow> nat \<Rightarrow> nat \<times> nat" where
  "imp_descs X \<equiv> (\<lambda>h. (so_Ipd (x_opts X h), so_Ird (x_opts X h)))"

lemma refs_okI:
  assumes "refs K P I L" "\<And>a. kinds X a = K a" "\<And>h. o_stmts (x_owner X) h = P h" "\<And>h. imp_descs X h = I h" "x_live X = L"
  shows "refs_ok X"
proof -
  have "kinds X = K" "o_stmts (x_owner X) = P" "imp_descs X = I" using assms(2-4) by (simp_all add: fun_eq_iff)
  then show ?thesis using assms(1,5) by (simp add: refs_ok_def)
qed

lemma refs_ok_cong:
  assumes "refs_ok X" "\<And>a. kinds X' a = kinds X a" "\<And>h. o_stmts (x_owner X') h = o_stmts (x_owner X) h" "\<And>h. imp_descs X' h = imp_descs X h"
    "x_live X' = x_live X"
  shows "refs_ok X'"
  using assms(1) by (intro refs_okI [OF _ assms(2-5)]) (simp add: refs_ok_def)

text \<open>Options, errors and headers do not matter.\<close>

lemma refs_opts:
  assumes "refs_ok X" "so_Ipd (f (x_opts X h)) = so_Ipd (x_opts X h)" "so_Ird (f (x_opts X h)) = so_Ird (x_opts X h)"
  shows "refs_ok (upd_opts h f X)"
  by (rule refs_ok_cong [OF assms(1)]) (simp_all add: upd_opts_def assms(2,3))

lemma refs_error: "refs_ok X \<Longrightarrow> refs_ok (snd (attr_error c m h X))"
  by (simp add: attr_error_def Let_def refs_opts)

lemma refs_fixed: "refs_ok X \<Longrightarrow> refs_ok (snd (fixed_option v k m h X))"
  by (simp add: fixed_option_def refs_error)

lemma refs_header:
  assumes "refs_ok X" "upd_header a f X = Some (ret, X')"
  shows "refs_ok X'"
  using assms(2) by (rule upd_headerD) (auto intro!: refs_ok_cong [OF assms(1)] simp: kind_of_def)

lemma refs_option_attr:
  assumes "refs_ok X"
  shows "refs_ok (snd (set_option_attr fwd dyn h Attribute v X))"
proof -
  have "refs_ok (snd (set_cursor_type fwd dyn h v X))"
    using assms by (simp add: set_cursor_type_def Let_def refs_opts refs_error)
  then show ?thesis using assms by (simp add: set_option_attr_def refs_opts refs_error refs_fixed)
qed

lemma refs_desc_attr:
  assumes "refs_ok X" "set_desc_attr h Attribute v X = Some (Some (ret, X'))"
  shows "refs_ok X'"
  using assms(2) unfolding set_desc_attr_def Let_def by (auto split: if_splits intro: refs_header [OF assms(1)])

text \<open>Another descriptor.\<close>

lemma kind_unlisted: "map_option kind_of (Some (RemoveStmtRefFromDesc h False d)) = unlist h (Some (kind_of d))"
  by (simp add: RemoveStmtRefFromDesc_def kind_of_def unlist_def remove_refs_first)

lemma unlist_slot:
  assumes R: "refs_ok X" and h: "h \<in> x_live X" and t: "t \<in> {MADB_DESC_APD, MADB_DESC_ARD}"
  defines "c \<equiv> slot t (o_stmts (x_owner X) h)"
  obtains X1 where "upd_desc c (RemoveStmtRefFromDesc h False) X = Some X1" "\<And>x. kinds X1 x = ((kinds X)(c := unlist h (kinds X c))) x"
    "x_owner X1 = x_owner X" "x_opts X1 = x_opts X" "x_live X1 = x_live X"
proof -
  have "refs (kinds X) (o_stmts (x_owner X)) (imp_descs X) (x_live X)" using R by (simp add: refs_ok_def)
  then obtain d where c: "x_descs X c = Some d" unfolding c_def by (rule slot_kind [OF _ h t]) auto
  then show ?thesis using that [of "X\<lparr>x_descs := (x_descs X)(c \<mapsto> RemoveStmtRefFromDesc h False d)\<rparr>"] kind_unlisted [of h d]
    by (auto simp: upd_desc_def)
qed

lemma refs_set_app_desc:
  assumes R: "refs_ok X" and h: "h \<in> x_live X" and t: "t \<in> {MADB_DESC_APD, MADB_DESC_ARD}"
    and set: "set_app_desc t alloc h a X = Some (ret, X')"
  shows "refs_ok X'"
proof -
  let ?s = "o_stmts (x_owner X) h"
  let ?K = "kinds X" and ?c = "slot t ?s" and ?own = "own_slot t ?s"
  have refs: "refs ?K (o_stmts (x_owner X)) (imp_descs X) (x_live X)" using R by (simp add: refs_ok_def)
  obtain i where i: "x_descs X ?own = Some i" "d_DescType i = t" "\<not> d_AppType i"
    using own_slot_kind [OF refs h t] by (auto simp: kind_of_def)
  define K1 where "K1 = ?K(?c := unlist h (?K ?c))"
  obtain X1 where X1: "upd_desc ?c (RemoveStmtRefFromDesc h False) X = Some X1" and k1: "\<And>x. kinds X1 x = (?K(?c := unlist h (?K ?c))) x"
    and same: "x_owner X1 = x_owner X" "x_opts X1 = x_opts X" "x_live X1 = x_live X"
    by (rule unlist_slot [OF R h t]) (rule that)
  have K1: "kinds X1 x = K1 x" for x unfolding K1_def by (rule k1)
  show ?thesis
  proof (cases "a = 0")
    case True
    then have X': "X' = upd_pointers h (set_slot t ?own) X1" using set X1 by (auto simp: set_app_desc_def Let_def)
    have k: "?K ?own = Some (t, False, d_Stmts i)" using i by (simp add: kind_of_def)
    then have "K1 ?own = Some (t, False, d_Stmts i)" by (auto simp: unlist_def K1_def)
    then have "K1(?own := retarget t h (?own \<noteq> ?own) (K1 ?own)) = K1" by (auto simp: retarget_def)
    with refs_set [OF refs h t k] have r: "refs K1 ((o_stmts (x_owner X))(h := set_slot t ?own ?s)) (imp_descs X) (x_live X)"
      unfolding K1_def by simp
    show ?thesis by (rule refs_okI [OF r]) (use K1 in \<open>auto simp: X' upd_pointers_def same\<close>)
  next
    case False
    then obtain d where d: "x_descs X a = Some d" using set by (auto simp: set_app_desc_def Let_def split: option.splits)
    show ?thesis
    proof (cases "\<not> d_AppType d \<and> a \<noteq> ?own \<or> d_DescType d \<noteq> t \<and> d_DescType d \<noteq> MADB_DESC_UNKNOWN")
      case True
      then have "X' = snd (attr_error ''HY017'' None h X) \<or> X' = snd (attr_error ''HY024'' None h X)"
        using set d \<open>a \<noteq> 0\<close> by (simp add: set_app_desc_def Let_def split: if_splits)
      then show ?thesis using R refs_error by blast
    next
      case False
      then have k: "?K a = Some (d_DescType d, d_AppType d, d_Stmts d)" "d_DescType d = t \<or> d_DescType d = MADB_DESC_UNKNOWN"
        "d_AppType d \<or> a = ?own" using d by (auto simp: kind_of_def)
      obtain d1 where d1: "x_descs X1 a = Some d1" using K1 [of a] k(1) by (auto simp: K1_def unlist_def split: if_splits)
      define d2 where "d2 = d1\<lparr>d_DescType := t, d_Stmts := (if a \<noteq> ?own then d_Stmts d1 @ [h] else d_Stmts d1)\<rparr>"
      have X': "X' = (upd_pointers h (set_slot t a) X1)\<lparr>x_descs := (x_descs X1)(a \<mapsto> d2)\<rparr>"
        using set d d1 \<open>a \<noteq> 0\<close> False X1
        by (auto simp: set_app_desc_def Let_def upd_desc_def upd_pointers_def d2_def split: if_splits)
      have "Some (kind_of d2) = retarget t h (a \<noteq> ?own) (K1 a)"
        using K1 [of a, symmetric] d1 by (auto simp: d2_def kind_of_def retarget_def)
      moreover note refs_set [OF refs h t k]
      ultimately have r: "refs (K1(a \<mapsto> kind_of d2)) ((o_stmts (x_owner X))(h := set_slot t a ?s)) (imp_descs X) (x_live X)"
        unfolding K1_def by simp
      show ?thesis by (rule refs_okI [OF r]) (use K1 in \<open>auto simp: X' upd_pointers_def same\<close>)
    qed
  qed
qed

text \<open>Freeing.\<close>

lemma free_dae_kinds:
  assumes "kinds X a = Some k"
  obtains X1 where "free_dae a X = Some X1" "\<And>x. kinds X1 x = kinds X x"
    "x_owner X1 = x_owner X" "x_opts X1 = x_opts X" "x_live X1 = x_live X"
proof -
  obtain d where d: "x_descs X a = Some d" using assms by auto
  show ?thesis
    by (rule that [of "X\<lparr>x_descs := (x_descs X)(a \<mapsto> d\<lparr>d_Records := map free_dae_record (d_Records d)\<rparr>)\<rparr>"])
      (use d in \<open>auto simp: free_dae_def upd_desc_def kind_of_def\<close>)
qed

lemma free_implicit:
  assumes "kinds X a = Some (t, False, ss)"
  obtains X1 where "free_desc keep a X = Some X1" "\<And>x. kinds X1 x = ((kinds X)(a := if keep then kinds X a else None)) x"
    "x_owner X1 = x_owner X" "x_opts X1 = x_opts X" "x_live X1 = x_live X"
proof -
  obtain d where d: "x_descs X a = Some d" "\<not> d_AppType d" using assms by (auto simp: kind_of_def)
  then obtain X1 where "free_desc keep a X = Some X1" "\<And>x. kinds X1 x = ((kinds X)(a := if keep then kinds X a else None)) x"
    "x_owner X1 = x_owner X" "x_opts X1 = x_opts X" "x_live X1 = x_live X"
    by (simp add: free_desc_def MADB_DescFree_def Let_def kind_of_def)
  then show ?thesis by (rule that)
qed

lemma free_explicit:
  assumes "refs_ok X" "kinds X a = Some (t, True, ss)"
  obtains X1 where "free_desc keep a X = Some X1" "refs_ok X1"
proof -
  obtain d where d: "x_descs X a = Some d" "d_AppType d" "d_DescType d = t" "d_Stmts d = ss" using assms(2) by (auto simp: kind_of_def)
  have r: "refs ((kinds X)(a := if keep then Some (t, True, []) else None)) (detach_all t ss (o_stmts (x_owner X))) (imp_descs X) (x_live X)"
    using assms by (intro refs_free) (auto simp: refs_ok_def)
  obtain X1 where X1: "free_desc keep a X = Some X1"
    using d(1) by (cases "MADB_DescFree (Some d) a (x_owner X) (x_heap X)") (simp add: free_desc_def)
  have "refs_ok X1"
    by (rule refs_okI [OF r]) (use X1 d in \<open>auto simp: free_desc_def MADB_DescFree_def Let_def kind_of_def\<close>)
  then show ?thesis using X1 that by blast
qed

lemma refs_emptied:
  assumes "refs_ok X" "kinds X a = Some (t, b, ss)"
  obtains X1 where "free_desc True a X = Some X1" "refs_ok X1"
proof (cases b)
  case True
  then have "kinds X a = Some (t, True, ss)" using assms(2) by simp
  with assms(1) show ?thesis by (rule free_explicit) (rule that)
next
  case False
  then have "kinds X a = Some (t, False, ss)" using assms(2) by simp
  then obtain X1 where X1: "free_desc True a X = Some X1" "\<And>x. kinds X1 x = ((kinds X)(a := if True then kinds X a else None)) x"
    "x_owner X1 = x_owner X" "x_opts X1 = x_opts X" "x_live X1 = x_live X"
    by (rule free_implicit [where keep = True]) (rule that)
  have k: "kinds X1 x = kinds X x" for x using X1(2) [of x] by (cases "x = a") simp_all
  have "refs_ok X1" by (rule refs_ok_cong [OF assms(1) k]) (simp_all add: X1(3-5))
  with X1(1) show ?thesis by (rule that)
qed

lemma drop_slot_kinds:
  fixes X :: attr_state
  defines "P \<equiv> o_stmts (x_owner X)"
  assumes c: "kinds X (slot t (P h)) = Some (t, b, ss)" "b \<longrightarrow> distinct ss" "b \<or> slot t (P h) = own_slot t (P h)"
    and own: "kinds X (own_slot t (P h)) = Some (t, False, us)"
  obtains X1 where "drop_slot t h X = Some X1"
    "\<And>x. kinds X1 x = (if x = own_slot t (P h) then None else if x = slot t (P h) then unlist h (kinds X x) else kinds X x)"
    "x_owner X1 = x_owner X" "x_opts X1 = x_opts X" "x_live X1 = x_live X"
proof (cases b)
  case True
  obtain d where d: "x_descs X (slot t (P h)) = Some d" "d_AppType d" "d_Stmts d = ss" using c(1) True by (auto simp: kind_of_def)
  define X0 where "X0 = X\<lparr>x_descs := (x_descs X)(slot t (P h) \<mapsto> RemoveStmtRefFromDesc h True d)\<rparr>"
  have k: "kinds X0 x = ((kinds X)(slot t (P h) := unlist h (kinds X (slot t (P h))))) x" for x
    using d c(2) True by (auto simp: X0_def kind_of_def RemoveStmtRefFromDesc_def unlist_def remove_refs_all)
  have ne: "slot t (P h) \<noteq> own_slot t (P h)" using c(1) own True by auto
  then have "kinds X0 (own_slot t (P h)) = Some (t, False, us)" using own k by auto
  then obtain X1 where X1: "free_desc False (own_slot t (P h)) X0 = Some X1"
    "\<And>x. kinds X1 x = ((kinds X0)(own_slot t (P h) := if False then kinds X0 (own_slot t (P h)) else None)) x"
    "x_owner X1 = x_owner X0" "x_opts X1 = x_opts X0" "x_live X1 = x_live X0"
    by (rule free_implicit [where keep = False]) (rule that)
  have "drop_slot t h X = Some X1"
    using d X1(1) by (simp add: drop_slot_def Let_def P_def [symmetric] upd_desc_def X0_def)
  moreover have "kinds X1 x = (if x = own_slot t (P h) then None else if x = slot t (P h) then unlist h (kinds X x) else kinds X x)" for x
    using X1(2) [of x] k [of x] ne by auto
  ultimately show ?thesis using X1(3-5) that by (simp add: X0_def)
next
  case False
  obtain d where d: "x_descs X (slot t (P h)) = Some d" "\<not> d_AppType d" using c(1) False by (auto simp: kind_of_def)
  have "kinds X (slot t (P h)) = Some (t, False, ss)" using c(1) False by simp
  then obtain X1 where X1: "free_desc False (slot t (P h)) X = Some X1"
    "\<And>x. kinds X1 x = ((kinds X)(slot t (P h) := if False then kinds X (slot t (P h)) else None)) x"
    "x_owner X1 = x_owner X" "x_opts X1 = x_opts X" "x_live X1 = x_live X"
    by (rule free_implicit [where keep = False]) (rule that)
  have "drop_slot t h X = Some X1" using d X1(1) by (simp add: drop_slot_def Let_def P_def [symmetric])
  moreover have "kinds X1 x = (if x = own_slot t (P h) then None else if x = slot t (P h) then unlist h (kinds X x) else kinds X x)" for x
    using X1(2) [of x] c(3) False by auto
  ultimately show ?thesis using X1(3-5) that by simp
qed

lemma refs_distinct: "refs K P I L \<Longrightarrow> K a = Some (t, b, ss) \<Longrightarrow> b \<longrightarrow> distinct ss"
  by (cases b) (auto simp: refs_def)

lemma drop_slots:
  assumes R: "refs_ok X" and h: "h \<in> x_live X"
  obtains X1 X2 where "drop_slot MADB_DESC_APD h X = Some X1" "drop_slot MADB_DESC_ARD h X1 = Some X2"
    "\<And>x. kinds X2 x = (if x = IApd_of X h \<or> x = IArd_of X h then None
      else if x = Apd_of X h \<or> x = Ard_of X h then unlist h (kinds X x) else kinds X x)"
    "x_owner X2 = x_owner X" "x_opts X2 = x_opts X" "x_live X2 = x_live X"
proof -
  let ?P = "o_stmts (x_owner X)"
  have refs: "refs (kinds X) ?P (imp_descs X) (x_live X)" using R by (simp add: refs_ok_def)
  note D = refsD [OF refs h]
  note lists = refs_distinct [OF refs]
  obtain b ss us where apd: "kinds X (slot MADB_DESC_APD (?P h)) = Some (MADB_DESC_APD, b, ss)"
    "b \<or> slot MADB_DESC_APD (?P h) = own_slot MADB_DESC_APD (?P h)" "kinds X (own_slot MADB_DESC_APD (?P h)) = Some (MADB_DESC_APD, False, us)"
    using D(1,3) by (auto simp: slot_def own_slot_def)
  obtain c ts vs where ard: "kinds X (slot MADB_DESC_ARD (?P h)) = Some (MADB_DESC_ARD, c, ts)"
    "c \<or> slot MADB_DESC_ARD (?P h) = own_slot MADB_DESC_ARD (?P h)" "kinds X (own_slot MADB_DESC_ARD (?P h)) = Some (MADB_DESC_ARD, False, vs)"
    using D(2,4) by (auto simp: slot_def own_slot_def)
  obtain X1 where X1: "drop_slot MADB_DESC_APD h X = Some X1"
    "\<And>x. kinds X1 x = (if x = own_slot MADB_DESC_APD (?P h) then None
      else if x = slot MADB_DESC_APD (?P h) then unlist h (kinds X x) else kinds X x)"
    "x_owner X1 = x_owner X" "x_opts X1 = x_opts X" "x_live X1 = x_live X"
    by (rule drop_slot_kinds [OF apd(1) lists [OF apd(1)] apd(2,3)]) (rule that)
  have K1: "kinds X1 x = kinds X x" if "kinds X x = Some (t, b', l)" "t \<noteq> MADB_DESC_APD" for x t b' l
    using X1(2) [of x] that apd(1,3) by (metis option.inject prod.inject)
  have ard1: "kinds X1 (slot MADB_DESC_ARD (o_stmts (x_owner X1) h)) = Some (MADB_DESC_ARD, c, ts)"
    "c \<or> slot MADB_DESC_ARD (o_stmts (x_owner X1) h) = own_slot MADB_DESC_ARD (o_stmts (x_owner X1) h)"
    "kinds X1 (own_slot MADB_DESC_ARD (o_stmts (x_owner X1) h)) = Some (MADB_DESC_ARD, False, vs)"
    using ard K1 unfolding X1(3) by simp_all
  obtain X2 where X2: "drop_slot MADB_DESC_ARD h X1 = Some X2"
    "\<And>x. kinds X2 x = (if x = own_slot MADB_DESC_ARD (o_stmts (x_owner X1) h) then None
      else if x = slot MADB_DESC_ARD (o_stmts (x_owner X1) h) then unlist h (kinds X1 x) else kinds X1 x)"
    "x_owner X2 = x_owner X1" "x_opts X2 = x_opts X1" "x_live X2 = x_live X1"
    by (rule drop_slot_kinds [OF ard1(1) lists [OF ard(1)] ard1(2,3)]) (rule that)
  have "Ard_of X h \<noteq> Apd_of X h" "Ard_of X h \<noteq> IApd_of X h" "IArd_of X h \<noteq> Apd_of X h"
    using apd ard by (auto simp: slot_def own_slot_def)
  then have "kinds X2 x = (if x = IApd_of X h \<or> x = IArd_of X h then None
      else if x = Apd_of X h \<or> x = Ard_of X h then unlist h (kinds X x) else kinds X x)" for x
    using X1(2) [of x] X2(2) [of x] unfolding X1(3) slot_def own_slot_def by auto
  then show ?thesis using that X1(1,3-5) X2(1,3-5) by simp
qed

lemma refs_dropped:
  assumes R: "refs_ok X" and h: "h \<in> x_live X"
  obtains X' where "StmtFree_drop h X = Some X'" "refs_ok X'"
proof -
  have refs: "refs (kinds X) (o_stmts (x_owner X)) (imp_descs X) (x_live X)" using R by (simp add: refs_ok_def)
  obtain X1 X2 where X2: "drop_slot MADB_DESC_APD h X = Some X1" "drop_slot MADB_DESC_ARD h X1 = Some X2"
    and k2: "\<And>x. kinds X2 x = (if x = IApd_of X h \<or> x = IArd_of X h then None
      else if x = Apd_of X h \<or> x = Ard_of X h then unlist h (kinds X x) else kinds X x)"
    and same: "x_owner X2 = x_owner X" "x_opts X2 = x_opts X" "x_live X2 = x_live X"
    by (rule drop_slots [OF R h]) (rule that)
  let ?ipd = "so_Ipd (x_opts X h)" and ?ird = "so_Ird (x_opts X h)"
  obtain ss us where imp: "kinds X ?ipd = Some (MADB_DESC_IPD, False, ss)" "kinds X ?ird = Some (MADB_DESC_IRD, False, us)"
    using refsD(5,6) [OF refs h] by auto
  have keep: "kinds X2 x = kinds X x" if "kinds X x = Some (t, b, l)" "t \<notin> {MADB_DESC_APD, MADB_DESC_ARD}" for x t b l
    using k2 [of x] refsD(1-4) [OF refs h] that by auto
  have ipd: "kinds X2 ?ipd = Some (MADB_DESC_IPD, False, ss)" using keep [OF imp(1)] imp(1) by simp
  obtain Xd where Xd: "free_dae ?ipd X2 = Some Xd" "\<And>x. kinds Xd x = kinds X2 x"
    "x_owner Xd = x_owner X2" "x_opts Xd = x_opts X2" "x_live Xd = x_live X2"
    by (rule free_dae_kinds [OF ipd]) (rule that)
  have "kinds Xd ?ipd = Some (MADB_DESC_IPD, False, ss)" using ipd unfolding Xd(2) .
  then obtain X3 where X3: "free_desc False ?ipd Xd = Some X3"
    "\<And>x. kinds X3 x = ((kinds Xd)(?ipd := if False then kinds Xd ?ipd else None)) x"
    "x_owner X3 = x_owner Xd" "x_opts X3 = x_opts Xd" "x_live X3 = x_live Xd"
    by (rule free_implicit [where keep = False]) (rule that)
  have "?ird \<noteq> ?ipd" using imp by auto
  then have "kinds X3 ?ird = Some (MADB_DESC_IRD, False, us)" using X3(2) Xd(2) keep [OF imp(2)] imp(2) by simp
  then obtain X4 where X4: "free_desc False ?ird X3 = Some X4"
    "\<And>x. kinds X4 x = ((kinds X3)(?ird := if False then kinds X3 ?ird else None)) x"
    "x_owner X4 = x_owner X3" "x_opts X4 = x_opts X3" "x_live X4 = x_live X3"
    by (rule free_implicit [where keep = False]) (rule that)
  have "kinds X4 x = (if x \<in> own_descs (o_stmts (x_owner X) h) (imp_descs X h) then None
      else if x = Apd_of X h \<or> x = Ard_of X h then unlist h (kinds X x) else kinds X x)" for x
    unfolding X4(2) X3(2) Xd(2) k2 by (simp add: own_descs_def)
  from refs_drop [OF refs h, of "kinds X4", OF this]
  have r: "refs (kinds X4) (o_stmts (x_owner X)) (imp_descs X) (x_live X - {h})" .
  have "refs_ok (X4\<lparr>x_live := x_live X4 - {h}\<rparr>)" by (rule refs_okI [OF r]) (simp_all add: X4(3-5) X3(3-5) Xd(3-5) same)
  moreover have "StmtFree_drop h X = Some (X4\<lparr>x_live := x_live X4 - {h}\<rparr>)"
    using X2 Xd(1) X3(1) X4(1) same(2) Xd(4) X3(4) by (simp add: StmtFree_drop_def)
  ultimately show ?thesis using that by blast
qed

text \<open>Allocation.\<close>

lemma DescInit_kind:
  "MADB_DescInit pfx server allocs t ext a W = (r, W') \<Longrightarrow>
     o_stmts W' = o_stmts W \<and> (\<forall>d. r = Some d \<longrightarrow> kind_of d = (t, ext, []))"
  by (auto simp: MADB_DescInit_def kind_of_def split: prod.splits if_splits)

definition add_kind :: "enum_madb_desc_type \<times> (bool \<times> bool \<times> bool) \<times> nat \<Rightarrow> (nat \<Rightarrow> desc_kind option) \<Rightarrow> nat \<Rightarrow> desc_kind option" where
  "add_kind p K = K(snd (snd p) \<mapsto> (fst p, False, []))"

lemma init_descs_kinds:
  assumes "init_descs pfx server ds X = (made, X1)"
  shows "kinds X1 = fold add_kind (take (length made) ds) (kinds X) \<and> made = map (snd \<circ> snd) (take (length made) ds)
    \<and> o_stmts (x_owner X1) = o_stmts (x_owner X) \<and> x_opts X1 = x_opts X \<and> x_live X1 = x_live X"
  using assms
proof (induction ds arbitrary: X made)
  case (Cons p ds)
  obtain t allocs a where p: "p = (t, allocs, a)" by (cases p)
  obtain r W where init: "MADB_DescInit pfx server allocs t False a (x_owner X) = (r, W)" by fastforce
  note k = DescInit_kind [OF init]
  show ?case
  proof (cases r)
    case None
    then show ?thesis using Cons.prems init k p by auto
  next
    case (Some d)
    let ?X = "X\<lparr>x_descs := (x_descs X)(a \<mapsto> d), x_owner := W\<rparr>"
    obtain made' where m: "init_descs pfx server ds ?X = (made', X1)" "made = a # made'"
      using Cons.prems init Some p by (auto split: prod.splits)
    have "kinds ?X = add_kind p (kinds X)" using k Some p by (auto simp: add_kind_def fun_eq_iff)
    then show ?thesis using Cons.IH [OF m(1)] m(2) k p by simp
  qed
qed simp

lemma refs_add_kinds:
  assumes "refs K P I L" "distinct (map (snd \<circ> snd) ds)" "\<forall>a \<in> set (map (snd \<circ> snd) ds). K a = None"
  shows "refs (fold add_kind ds K) P I L"
  using assms
proof (induction ds arbitrary: K)
  case (Cons p ds)
  have "refs (add_kind p K) P I L" using Cons.prems(1,3) unfolding add_kind_def by (intro refs_new_desc) auto
  moreover have "\<forall>a \<in> set (map (snd \<circ> snd) ds). add_kind p K a = None" using Cons.prems(2,3) by (auto simp: add_kind_def image_def)
  ultimately show ?case using Cons.IH Cons.prems(2) by simp
qed simp

lemma release_descs_refs:
  assumes "refs_ok X" "\<forall>a \<in> set as. \<exists>t. kinds X a = Some (t, False, [])"
  shows "\<exists>X'. release_descs as X = Some X' \<and> refs_ok X'"
  using assms
proof (induction as arbitrary: X)
  case (Cons a as)
  then obtain t where "kinds X a = Some (t, False, [])" by auto
  then obtain X1 where X1: "free_desc True a X = Some X1" "\<And>x. kinds X1 x = ((kinds X)(a := if True then kinds X a else None)) x"
    "x_owner X1 = x_owner X" "x_opts X1 = x_opts X" "x_live X1 = x_live X"
    by (rule free_implicit [where keep = True]) (rule that)
  have k: "kinds X1 x = kinds X x" for x using X1(2) [of x] by (cases "x = a") simp_all
  have "refs_ok X1" by (rule refs_ok_cong [OF Cons.prems(1) k]) (simp_all add: X1(3-5))
  then show ?case using Cons.IH [of X1] Cons.prems(2) X1(1) k by auto
qed simp

definition stmt_addrs :: "(bool \<times> bool \<times> bool) list \<Rightarrow> nat \<times> nat \<times> nat \<times> nat \<Rightarrow> (enum_madb_desc_type \<times> (bool \<times> bool \<times> bool) \<times> nat) list" where
  "stmt_addrs allocs addrs = (case addrs of (apd, ard, ipd, ird) \<Rightarrow>
     zip [MADB_DESC_APD, MADB_DESC_ARD, MADB_DESC_IPD, MADB_DESC_IRD] (zip allocs [apd, ard, ipd, ird]))"

lemma stmt_addrs_all:
  assumes "length allocs = 4"
  shows "map (snd \<circ> snd) (stmt_addrs allocs (apd, ard, ipd, ird)) = [apd, ard, ipd, ird]"
    "fold add_kind (stmt_addrs allocs (apd, ard, ipd, ird)) K = K(apd \<mapsto> (MADB_DESC_APD, False, []), ard \<mapsto> (MADB_DESC_ARD, False, []),
      ipd \<mapsto> (MADB_DESC_IPD, False, []), ird \<mapsto> (MADB_DESC_IRD, False, []))" "length (stmt_addrs allocs (apd, ard, ipd, ird)) = 4"
proof -
  obtain p q r s where "allocs = [p, q, r, s]" using assms by (auto simp: length_Suc_conv numeral_eq_Suc)
  then show "map (snd \<circ> snd) (stmt_addrs allocs (apd, ard, ipd, ird)) = [apd, ard, ipd, ird]"
    "fold add_kind (stmt_addrs allocs (apd, ard, ipd, ird)) K = K(apd \<mapsto> (MADB_DESC_APD, False, []), ard \<mapsto> (MADB_DESC_ARD, False, []),
      ipd \<mapsto> (MADB_DESC_IPD, False, []), ird \<mapsto> (MADB_DESC_IRD, False, []))" "length (stmt_addrs allocs (apd, ard, ipd, ird)) = 4"
    by (simp_all add: stmt_addrs_def add_kind_def)
qed

lemma refs_some_addrs:
  assumes "refs K P I L" "distinct [apd, ard, ipd, ird]" "\<forall>a \<in> {apd, ard, ipd, ird}. K a = None" "length allocs = 4"
  shows "refs (fold add_kind (take n (stmt_addrs allocs (apd, ard, ipd, ird))) K) P I L"
proof (rule refs_add_kinds [OF assms(1)])
  have m: "map (snd \<circ> snd) (take n (stmt_addrs allocs (apd, ard, ipd, ird))) = take n [apd, ard, ipd, ird]"
    unfolding take_map [symmetric] stmt_addrs_all(1) [OF assms(4)] ..
  show "distinct (map (snd \<circ> snd) (take n (stmt_addrs allocs (apd, ard, ipd, ird))))"
    unfolding m using assms(2) by (rule distinct_take)
  show "\<forall>a \<in> set (map (snd \<circ> snd) (take n (stmt_addrs allocs (apd, ard, ipd, ird)))). K a = None"
    unfolding m using assms(3) set_take_subset [of n "[apd, ard, ipd, ird]"] by auto
qed

lemma add_kinds_in: "a \<in> set (map (snd \<circ> snd) ds) \<Longrightarrow> \<exists>t. fold add_kind ds K a = Some (t, False, [])"
  by (induction ds rule: rev_induct) (auto simp: add_kind_def)

lemma refs_StmtInit:
  assumes R: "refs_ok X" and init: "MADB_StmtInit pfx server metadata True handle_ok allocs h (apd, ard, ipd, ird) X = Some (ret, X')"
    and h: "h \<notin> x_live X" and new: "distinct [apd, ard, ipd, ird]" "\<forall>a \<in> {apd, ard, ipd, ird}. x_descs X a = None" and len: "length allocs = 4"
  shows "refs_ok X'"
proof -
  let ?ds = "stmt_addrs allocs (apd, ard, ipd, ird)"
  let ?s = "\<lparr>sd_Ard = ard, sd_Apd = apd, sd_IArd = ard, sd_IApd = apd\<rparr>"
  have refs: "refs (kinds X) (o_stmts (x_owner X)) (imp_descs X) (x_live X)" using R by (simp add: refs_ok_def)
  obtain made X1 where made: "(if handle_ok then init_descs pfx server ?ds X else ([], X)) = (made, X1)" by fastforce
  have X1: "kinds X1 = fold add_kind (take (length made) ?ds) (kinds X)" "made = map (snd \<circ> snd) (take (length made) ?ds)"
    "o_stmts (x_owner X1) = o_stmts (x_owner X)" "x_opts X1 = x_opts X" "x_live X1 = x_live X"
    using made init_descs_kinds [of pfx server ?ds X made X1] by (auto split: if_splits)
  have res: "(if length made = 4
      then map_option (\<lambda>X2. (SQL_SUCCESS, X2\<lparr>x_live := insert h (x_live X2), x_opts := (x_opts X2)(h := new_opts pfx server metadata ipd ird)\<rparr>))
        (upd_desc ard (\<lambda>d. d\<lparr>d_Header := (d_Header d)\<lparr>h_ArraySize := 1\<rparr>\<rparr>) (upd_pointers h (\<lambda>_. ?s) X1))
      else map_option (Pair SQL_ERROR) (release_descs made X1)) = Some (ret, X')"
    using init made unfolding MADB_StmtInit_def stmt_addrs_def by (simp only: prod.case not_True_eq_False if_False)
  show ?thesis
  proof (cases "length made = 4")
    case True
    let ?K = "(kinds X)(apd \<mapsto> (MADB_DESC_APD, False, []), ard \<mapsto> (MADB_DESC_ARD, False, []),
      ipd \<mapsto> (MADB_DESC_IPD, False, []), ird \<mapsto> (MADB_DESC_IRD, False, []))"
    have all: "take (length made) ?ds = ?ds" using True stmt_addrs_all(3) [OF len] by simp
    have K1: "kinds X1 x = ?K x" for x using fun_cong [OF X1(1), of x] unfolding all stmt_addrs_all(2) [OF len] .
    obtain d where d: "x_descs X1 ard = Some d" using K1 [of ard] new(1) by auto
    have X': "X' = X1\<lparr>x_descs := (x_descs X1)(ard \<mapsto> d\<lparr>d_Header := (d_Header d)\<lparr>h_ArraySize := 1\<rparr>\<rparr>),
        x_owner := (x_owner X1)\<lparr>o_stmts := (o_stmts (x_owner X1))(h := ?s)\<rparr>, x_live := insert h (x_live X1),
        x_opts := (x_opts X1)(h := new_opts pfx server metadata ipd ird)\<rparr>"
      using res True d by (auto simp: upd_desc_def upd_pointers_def)
    have r: "refs ?K ((o_stmts (x_owner X))(h := ?s)) ((imp_descs X)(h := (ipd, ird))) (insert h (x_live X))"
      using refs h new(1) by (rule refs_new_stmt) (use new(2) in auto)
    have "kinds X' x = kinds X1 x" for x using d by (simp add: X' kind_of_def)
    then have k: "kinds X' x = ?K x" for x unfolding K1 .
    show ?thesis by (rule refs_okI [OF r k]) (simp_all add: X' X1(3-5) new_opts_def)
  next
    case False
    have "refs (kinds X1) (o_stmts (x_owner X)) (imp_descs X) (x_live X)"
      unfolding X1(1) using refs_some_addrs [OF refs new(1) _ len] new(2) by simp
    then have "refs_ok X1" by (rule refs_okI) (simp_all add: X1(3-5))
    moreover have "\<forall>a \<in> set made. \<exists>t. kinds X1 a = Some (t, False, [])"
      using add_kinds_in X1(2) unfolding fun_cong [OF X1(1)] by metis
    ultimately show ?thesis using release_descs_refs [of X1 made] res False by auto
  qed
qed

lemma refs_alloc_desc:
  assumes "refs_ok X" "x_descs X a = None"
  shows "refs_ok (snd (MA_SQLAllocHandle_desc pfx server allocs a X))"
proof -
  obtain r W where init: "MADB_DescInit pfx server allocs MADB_DESC_UNKNOWN True a (x_owner X) = (r, W)" by fastforce
  note k = DescInit_kind [OF init]
  show ?thesis
  proof (cases r)
    case None
    then show ?thesis using init k by (auto simp: MA_SQLAllocHandle_desc_def intro!: refs_ok_cong [OF assms(1)])
  next
    case (Some d)
    have r: "refs ((kinds X)(a \<mapsto> (MADB_DESC_UNKNOWN, True, []))) (o_stmts (x_owner X)) (imp_descs X) (x_live X)"
      using assms by (intro refs_new_desc) (simp_all add: refs_ok_def)
    show ?thesis by (rule refs_okI [OF r]) (use init k Some in \<open>auto simp: MA_SQLAllocHandle_desc_def\<close>)
  qed
qed

text \<open>Copying between descriptors of one kind.\<close>

lemma clear_buffers_kind: "kind_of (clear_buffers d) = kind_of d"
proof -
  have "kind_of (fold (\<lambda>i d. set_record (raise_count (int i + 1) d) (int i) ((d_Records d ! i)\<lparr>r_InternalBuffer := Null\<rparr>)) is d) = kind_of d"
    for "is" by (induction "is" arbitrary: d) (auto simp: kind_of_def set_record_def raise_count_def Let_def)
  then show ?thesis by (simp add: clear_buffers_def)
qed

lemma refs_copy:
  assumes "refs_ok X" "copy_desc src dest ok X = Some (ret, X')"
    "map_option d_DescType (x_descs X src) = map_option d_DescType (x_descs X dest)"
  shows "refs_ok X'"
proof -
  obtain d where d: "x_descs X dest = Some d" using assms(2) by (auto simp: copy_desc_def split: option.splits)
  obtain d1 where d1: "MADB_DescCopyDesc (x_descs X src) d ok = (ret, d1)" "X' = X\<lparr>x_descs := (x_descs X)(dest \<mapsto> d1)\<rparr>"
    using assms(2) d by (auto simp: copy_desc_def split: prod.splits)
  have k: "d_DescType (clear_buffers b) = d_DescType b" "d_AppType (clear_buffers b) = d_AppType b" "d_Stmts (clear_buffers b) = d_Stmts b" for b
    using clear_buffers_kind [of b] by (simp_all add: kind_of_def)
  have "kind_of d1 = kind_of d"
    using d1(1) assms(3) d
    by (auto simp: MADB_DescCopyDesc_def k desc_error_def kind_of_def Let_def split: option.splits if_splits)
  then show ?thesis using d1(2) d by (intro refs_ok_cong [OF assms(1)]) auto
qed

lemma emptied_ard:
  assumes "refs_ok X" "h \<in> x_live X"
  shows "\<exists>X1. free_desc True (Ard_of X h) X = Some X1 \<and> refs_ok X1"
proof -
  have refs: "refs (kinds X) (o_stmts (x_owner X)) (imp_descs X) (x_live X)" using assms(1) by (simp add: refs_ok_def)
  obtain b ss where "kinds X (Ard_of X h) = Some (MADB_DESC_ARD, b, ss)" using refsD(2) [OF refs assms(2)] by blast
  with assms(1) show ?thesis by (rule refs_emptied) (rule exI, rule conjI)
qed

lemma emptied_apd:
  assumes "refs_ok X" "h \<in> x_live X"
  shows "\<exists>X1. StmtFree_reset_params h X = Some X1 \<and> refs_ok X1"
proof -
  have refs: "refs (kinds X) (o_stmts (x_owner X)) (imp_descs X) (x_live X)" using assms(1) by (simp add: refs_ok_def)
  obtain b ss us where k: "kinds X (Apd_of X h) = Some (MADB_DESC_APD, b, ss)"
    "kinds X (so_Ipd (x_opts X h)) = Some (MADB_DESC_IPD, False, us)"
    using refsD(1,5) [OF refs assms(2)] by auto
  obtain X0 where X0: "free_dae (so_Ipd (x_opts X h)) X = Some X0" "\<And>x. kinds X0 x = kinds X x"
    "x_owner X0 = x_owner X" "x_opts X0 = x_opts X" "x_live X0 = x_live X"
    by (rule free_dae_kinds [OF k(2)]) (rule that)
  have "refs_ok X0" by (rule refs_ok_cong [OF assms(1) X0(2)]) (simp_all add: X0(3-5))
  moreover have "kinds X0 (Apd_of X h) = Some (MADB_DESC_APD, b, ss)" unfolding X0(2) by (rule k(1))
  ultimately obtain X1 where "free_desc True (Apd_of X h) X0 = Some X1" "refs_ok X1" by (rule refs_emptied) (rule that)
  then show ?thesis using X0(1) by (simp add: StmtFree_reset_params_def)
qed

lemma refs_step:
  assumes "attr_step X X'" "refs_ok X"
  shows "refs_ok X'"
  using assms
proof cases
  case alloc_stmt
  show ?thesis by (rule refs_StmtInit [OF assms(2) alloc_stmt])
next
  case alloc_desc
  show ?thesis unfolding alloc_desc(1) by (rule refs_alloc_desc [OF assms(2) alloc_desc(2)])
next
  case (set_attr fwd dyn alloc h Attribute v ret)
  consider t where "t \<in> {MADB_DESC_APD, MADB_DESC_ARD}" "set_app_desc t alloc h (nat v) X = Some (ret, X')"
    | "set_desc_attr h Attribute v X = Some (Some (ret, X'))" | "set_option_attr fwd dyn h Attribute v X = (ret, X')"
    using set_attr(1) unfolding MADB_StmtSetStmtAttr_def by (auto split: if_splits option.splits)
  then show ?thesis
  proof cases
    case 1
    then show ?thesis by (rule refs_set_app_desc [OF assms(2) set_attr(2)])
  next
    case 2
    then show ?thesis by (rule refs_desc_attr [OF assms(2)])
  next
    case 3
    then show ?thesis using refs_option_attr [OF assms(2), of fwd dyn h Attribute v] by simp
  qed
next
  case (free_handle a ret)
  then obtain d where d: "x_descs X a = Some d" by (auto simp: SQLFreeHandle_desc_def split: option.splits)
  have k: "kind_of (clear_error d) = kind_of d" "kind_of (desc_error ''HY017'' (clear_error d)) = kind_of d"
    by (simp_all add: kind_of_def clear_error_def desc_error_def Let_def)
  define X0 where "X0 = X\<lparr>x_descs := (x_descs X)(a \<mapsto> clear_error d)\<rparr>"
  have X0: "refs_ok X0" using d k by (intro refs_ok_cong [OF assms(2)]) (auto simp: X0_def)
  show ?thesis
  proof (cases "d_AppType d")
    case True
    then have "kinds X0 a = Some (d_DescType d, True, d_Stmts d)" using k by (simp add: X0_def kind_of_def)
    then obtain X1 where "free_desc False a X0 = Some X1" "refs_ok X1" by (rule free_explicit [OF X0]) (rule that)
    then show ?thesis using free_handle d True by (simp add: SQLFreeHandle_desc_def X0_def)
  next
    case False
    then have "X' = X\<lparr>x_descs := (x_descs X)(a \<mapsto> desc_error ''HY017'' (clear_error d))\<rparr>"
      using free_handle d by (auto simp: SQLFreeHandle_desc_def Let_def)
    then show ?thesis using d k by (intro refs_ok_cong [OF assms(2)]) auto
  qed
next
  case (unbind h)
  then show ?thesis using emptied_ard [OF assms(2) unbind(2)] by (auto simp: StmtFree_unbind_def)
next
  case (reset_params h)
  then show ?thesis using emptied_apd [OF assms(2) reset_params(2)] by auto
next
  case (drop h)
  obtain X1 where "StmtFree_drop h X = Some X1" "refs_ok X1" by (rule refs_dropped [OF assms(2) drop(2)]) (rule that)
  then show ?thesis using drop(1) by simp
next
  case copy
  show ?thesis by (rule refs_copy [OF assms(2) copy])
qed

section \<open>Correctness\<close>

lemma refs_lists: "refs K P I L \<Longrightarrow> K a = Some (t, True, ss) \<Longrightarrow> distinct ss \<and> set ss = users P L a"
  by (auto simp: refs_def)

lemma refs_reached:
  assumes "attr_step\<^sup>*\<^sup>* X0 X" "x_descs X0 = (\<lambda>_. None)" "x_live X0 = {}"
  shows "refs_ok X"
  using assms(1)
proof (induction rule: rtranclp_induct)
  case base
  then show ?case using assms(2,3) by (simp add: refs_ok_def refs_def)
qed (rule refs_step)

definition slot_valid :: "enum_madb_desc_type \<Rightarrow> stmt_descs \<Rightarrow> attr_state \<Rightarrow> bool" where
  "slot_valid t s X \<longleftrightarrow> (case x_descs X (slot t s) of
     None \<Rightarrow> False | Some d \<Rightarrow> d_DescType d = t \<and> (d_AppType d \<or> slot t s = own_slot t s))"


text \<open>
  C30. \<open>SQLCopyDesc\<close> copies the kind of the source as well.  Copying a row descriptor to an explicit descriptor that
  a statement uses for its parameters succeeds, and so does freeing that descriptor afterwards; but the statement
  keeps the pointer to the freed descriptor, and dropping the statement reads it.
\<close>

theorem CopyDesc_dangles:
  assumes "x_descs X dest = Some d" "d_AppType d" "d_DescType d = MADB_DESC_APD" "Apd_of X h = dest"
    and "x_descs X src = Some s" "d_DescType s = MADB_DESC_ARD" "src \<noteq> dest"
  shows "\<exists>X1 X2. copy_desc src dest True X = Some (SQL_SUCCESS, X1) \<and> SQLFreeHandle_desc dest X1 = Some (SQL_SUCCESS, X2)
    \<and> Apd_of X2 h = dest \<and> x_descs X2 dest = None \<and> StmtFree_drop h X2 = None"
proof -
  define d1 where "d1 = clear_buffers (d\<lparr>d_Header := d_Header s, d_DescType := d_DescType s, d_Error := d_Error s, d_Records := d_Records s\<rparr>)"
  have k: "d_DescType d1 = MADB_DESC_ARD" "d_AppType d1"
    using clear_buffers_kind [of "d\<lparr>d_Header := d_Header s, d_DescType := d_DescType s, d_Error := d_Error s, d_Records := d_Records s\<rparr>"] assms
    by (simp_all add: d1_def kind_of_def)
  define X1 where "X1 = X\<lparr>x_descs := (x_descs X)(dest \<mapsto> d1)\<rparr>"
  have copy: "copy_desc src dest True X = Some (SQL_SUCCESS, X1)"
    using assms by (simp add: copy_desc_def MADB_DescCopyDesc_def X1_def d1_def)
  define e where "e = clear_error d1"
  have e: "d_DescType e = MADB_DESC_ARD" "d_AppType e" using k by (simp_all add: e_def clear_error_def)
  obtain X2 where X2: "free_desc False dest (X1\<lparr>x_descs := (x_descs X1)(dest \<mapsto> e)\<rparr>) = Some X2"
    "x_descs X2 dest = None" "o_stmts (x_owner X2) = detach_all MADB_DESC_ARD (d_Stmts e) (o_stmts (x_owner X))"
    using e by (simp add: free_desc_def MADB_DescFree_def Let_def X1_def)
  have "sd_Apd (detach_all MADB_DESC_ARD ss m h) = sd_Apd (m h)" for ss m by (simp add: detach_all_eq detach_def)
  then have a: "Apd_of X2 h = dest" using X2(3) assms(4) by simp
  have "SQLFreeHandle_desc dest X1 = Some (SQL_SUCCESS, X2)"
    using X2(1) k by (simp add: SQLFreeHandle_desc_def X1_def e_def)
  moreover have "StmtFree_drop h X2 = None" using a X2(2) by (simp add: StmtFree_drop_def drop_slot_def slot_def Let_def)
  ultimately show ?thesis using copy a X2(2) by blast
qed

text \<open>A statement with address 7 that uses the explicit descriptor at address 5 for its parameters.\<close>

definition empty_connection :: attr_state where
  "empty_connection = \<lparr>x_descs = (\<lambda>_. None), x_owner = \<lparr>o_Descrs = [], o_stmts = (\<lambda>_. \<lparr>sd_Ard = 0, sd_Apd = 0, sd_IArd = 0, sd_IApd = 0\<rparr>)\<rparr>,
     x_opts = (\<lambda>_. new_opts ''[x]'' None 0 0 0), x_live = {}, x_heap = sample_heap\<rparr>"

definition with_stmt :: attr_state where
  "with_stmt = snd (the (MADB_StmtInit ''[x]'' None 0 True True (replicate 4 (True, True, True)) 7 (8, 2, 3, 4) empty_connection))"

definition with_desc :: attr_state where
  "with_desc = snd (MA_SQLAllocHandle_desc ''[x]'' None (True, True, True) 5 with_stmt)"

definition with_shared :: attr_state where
  "with_shared = snd (the (MADB_StmtSetStmtAttr False False True 7 SQL_ATTR_APP_PARAM_DESC 5 with_desc))"

lemma with_stmt_init:
  "MADB_StmtInit ''[x]'' None 0 True True (replicate 4 (True, True, True)) 7 (8, 2, 3, 4) empty_connection = Some (SQL_SUCCESS, with_stmt)"
  by (simp add: with_stmt_def MADB_StmtInit_def numeral_eq_Suc MADB_DescInit_def upd_desc_def upd_pointers_def)

lemmas build_simps = MADB_StmtInit_def numeral_eq_Suc MADB_DescInit_def upd_desc_def upd_pointers_def

lemma with_desc_facts:
  "x_live with_desc = {7}" "o_stmts (x_owner with_desc) 7 = \<lparr>sd_Ard = 2, sd_Apd = 8, sd_IArd = 2, sd_IApd = 8\<rparr>"
  "\<exists>d. x_descs with_desc 5 = Some d \<and> kind_of d = (MADB_DESC_UNKNOWN, True, [])"
  "\<exists>d. x_descs with_desc 8 = Some d \<and> kind_of d = (MADB_DESC_APD, False, [])"
  "\<exists>d. x_descs with_desc 2 = Some d \<and> kind_of d = (MADB_DESC_ARD, False, [])"
  by (simp_all add: with_desc_def MA_SQLAllocHandle_desc_def with_stmt_def build_simps empty_connection_def kind_of_def)

lemma with_shared_set:
  "MADB_StmtSetStmtAttr False False True 7 SQL_ATTR_APP_PARAM_DESC 5 with_desc = Some (SQL_SUCCESS, with_shared)"
  "Apd_of with_shared 7 = 5" "x_live with_shared = {7}"
  "\<exists>d. x_descs with_shared 5 = Some d \<and> kind_of d = (MADB_DESC_APD, True, [7])"
  "\<exists>d. x_descs with_shared 2 = Some d \<and> kind_of d = (MADB_DESC_ARD, False, [])"
proof -
  obtain d e f where d: "x_descs with_desc 5 = Some d" "d_DescType d = MADB_DESC_UNKNOWN" "d_AppType d" "d_Stmts d = []"
    and e: "x_descs with_desc 8 = Some e" "\<not> d_AppType e"
    and f: "x_descs with_desc 2 = Some f" "kind_of f = (MADB_DESC_ARD, False, [])"
    using with_desc_facts(3-5) by (auto simp: kind_of_def)
  have set: "set_app_desc MADB_DESC_APD True 7 5 with_desc = Some (SQL_SUCCESS, (upd_pointers 7 (set_slot MADB_DESC_APD 5) with_desc)
      \<lparr>x_descs := (x_descs with_desc)(8 \<mapsto> e, 5 \<mapsto> d\<lparr>d_DescType := MADB_DESC_APD, d_Stmts := [7]\<rparr>)\<rparr>)"
    by (simp add: set_app_desc_def Let_def with_desc_facts(2) slot_def own_slot_def upd_desc_def upd_pointers_def RemoveStmtRefFromDesc_def d e)
  have w: "with_shared = (upd_pointers 7 (set_slot MADB_DESC_APD 5) with_desc)
      \<lparr>x_descs := (x_descs with_desc)(8 \<mapsto> e, 5 \<mapsto> d\<lparr>d_DescType := MADB_DESC_APD, d_Stmts := [7]\<rparr>)\<rparr>"
    by (simp add: with_shared_def MADB_StmtSetStmtAttr_def set)
  show "MADB_StmtSetStmtAttr False False True 7 SQL_ATTR_APP_PARAM_DESC 5 with_desc = Some (SQL_SUCCESS, with_shared)"
    by (simp add: MADB_StmtSetStmtAttr_def set w)
  show "Apd_of with_shared 7 = 5" "x_live with_shared = {7}"
    by (simp_all add: w upd_pointers_def set_slot_def with_desc_facts(1))
  show "\<exists>d. x_descs with_shared 5 = Some d \<and> kind_of d = (MADB_DESC_APD, True, [7])"
    "\<exists>d. x_descs with_shared 2 = Some d \<and> kind_of d = (MADB_DESC_ARD, False, [])"
    using d f by (simp_all add: w kind_of_def)
qed

lemma reach_shared: "attr_step\<^sup>*\<^sup>* empty_connection with_shared"
proof -
  have e: "x_descs empty_connection a = None" "x_live empty_connection = {}" for a by (simp_all add: empty_connection_def)
  have s1: "attr_step empty_connection with_stmt"
    by (rule alloc_stmt [OF with_stmt_init]) (simp_all add: e)
  have "x_descs with_stmt 5 = None"
    by (simp add: with_stmt_def MADB_StmtInit_def numeral_eq_Suc MADB_DescInit_def upd_desc_def upd_pointers_def e)
  then have s2: "attr_step with_stmt with_desc" unfolding with_desc_def by (rule alloc_desc)
  have s3: "attr_step with_desc with_shared"
    by (rule set_attr [OF with_shared_set(1)]) (simp add: with_desc_facts)
  show ?thesis by (rule rtranclp.rtrancl_into_rtrancl [OF rtranclp.rtrancl_into_rtrancl [OF r_into_rtranclp [of attr_step, OF s1] s2] s3])
qed


theorem CopyDesc_dangles_witness:
  "\<exists>X1 X2. copy_desc 2 5 True with_shared = Some (SQL_SUCCESS, X1) \<and> SQLFreeHandle_desc 5 X1 = Some (SQL_SUCCESS, X2)
     \<and> Apd_of X2 7 = 5 \<and> x_descs X2 5 = None \<and> StmtFree_drop 7 X2 = None"
proof -
  obtain d s where "x_descs with_shared 5 = Some d" "d_AppType d" "d_DescType d = MADB_DESC_APD"
    "x_descs with_shared 2 = Some s" "d_DescType s = MADB_DESC_ARD"
    using with_shared_set(4,5) by (auto simp: kind_of_def)
  with CopyDesc_dangles [of with_shared 5 d 7 2 s] with_shared_set(2) show ?thesis by simp
qed

end
