(* ===== verification/Sql_Build.thy ===== *)
theory Sql_Build
  imports Dyn_String Stmt_Dae
begin

text \<open>
  Texts of statements the driver builds (\<open>src/ma_string.c\<close>): quoted names, the column lists of positioned updates
  and inserts, search conditions, and arguments that are identifiers.

  The builders append to a dynamic string.  What they say about a text rests on the interface \<open>string_sink\<close>:
  an append may fail for want of memory and then leaves the string as it was.
\<close>

section \<open>State\<close>

text \<open>A column of the result as the client library describes it, and what the builders use of a statement.\<close>

record build_field =
  f_org_name :: string
  f_org_table :: "string option"
  f_db :: string

record build_stmt =
  b_Ard :: MADB_Desc
  b_heap :: heap
  b_column_count :: nat
  b_fields :: "build_field list"
  b_DaeRowNumber :: int
  b_TableName :: "string option"
  b_CatalogName :: "string option"
  b_Error :: MADB_Error

definition build_error :: "string \<Rightarrow> string option \<Rightarrow> build_stmt \<Rightarrow> build_stmt" where
  "build_error code msg S = S\<lparr>b_Error := snd (MADB_SetError (b_Error S) (MADB_ERR code) msg 0)\<rparr>"

section \<open>Table and catalog\<close>

text \<open>The loop over the columns: the name found so far, \<^term>\<open>None\<close> as soon as another one differs.\<close>

fun unique_name :: "(build_field \<Rightarrow> string option) \<Rightarrow> build_field list \<Rightarrow> string option \<Rightarrow> string option option" where
  "unique_name f [] found = Some found"
| "unique_name f (c # cs) found =
    (case f c of
       None \<Rightarrow> unique_name f cs found
     | Some n \<Rightarrow>
         (case found of
            None \<Rightarrow> unique_name f cs (Some n)
          | Some m \<Rightarrow> if m \<noteq> n then None else unique_name f cs found))"

definition MADB_GetTableName :: "build_stmt \<Rightarrow> string option \<times> build_stmt" where
  "MADB_GetTableName S =
    (case b_TableName S of
       Some (c # n) \<Rightarrow> (Some (c # n), S)
     | _ \<Rightarrow>
         if b_fields S = [] then (None, S)
         else
           (case unique_name f_org_table (b_fields S) None of
              None \<Rightarrow> (None, build_error ''HY000'' (Some (''Couldn'' @ CHR 39 # ''t identify unique table name'')) S)
            | Some None \<Rightarrow> (b_TableName S, S)
            | Some (Some n) \<Rightarrow> (Some n, S\<lparr>b_TableName := Some n\<rparr>)))"

definition MADB_GetCatalogName :: "build_stmt \<Rightarrow> string option \<times> build_stmt" where
  "MADB_GetCatalogName S =
    (case b_CatalogName S of
       Some (c # n) \<Rightarrow> (Some (c # n), S)
     | _ \<Rightarrow>
         if b_fields S = [] then (None, S)
         else
           (case unique_name (\<lambda>c. if f_org_table c \<noteq> None then Some (f_db c) else None) (b_fields S) None of
              None \<Rightarrow> (None, build_error ''HY000'' (Some (''Couldn'' @ CHR 39 # ''t identify unique catalog name'')) S)
            | Some None \<Rightarrow> (b_CatalogName S, S)
            | Some (Some n) \<Rightarrow> (Some n, S\<lparr>b_CatalogName := Some n\<rparr>)))"

section \<open>Builders\<close>

text \<open>A null pointer for the name is read only when the first quote could be appended.\<close>

definition MADB_DynStrAppendQuoted :: "allocator \<Rightarrow> string option \<Rightarrow> MADB_DynString \<Rightarrow> (bool \<times> MADB_DynString) option" where
  "MADB_DynStrAppendQuoted A name =
    or_else (\<lambda>d. MADB_DynstrAppend A d ''`'')
      (case name of
         None \<Rightarrow> (\<lambda>d. None)
       | Some s \<Rightarrow> or_else (\<lambda>d. MADB_DynstrAppend A d s) (\<lambda>d. MADB_DynstrAppend A d ''`''))"

text \<open>Reading the record of column \<open>i\<close>, which may create it; \<^term>\<open>None\<close> is the null pointer.\<close>

definition read_column :: "nat \<Rightarrow> build_stmt \<Rightarrow> (MADB_DescRecord \<times> build_stmt) option" where
  "read_column i S =
    (case MADB_DescGetInternalRecord (b_Ard S) (s16 (int i)) True (b_heap S) of
       (found, d, H) \<Rightarrow>
         if found then map_option (\<lambda>r. (r, S\<lparr>b_Ard := d, b_heap := H\<rparr>)) (record_at d (s16 (int i))) else None)"

definition ignored_in_row :: "(int \<Rightarrow> int) \<Rightarrow> int \<Rightarrow> MADB_Desc \<Rightarrow> MADB_DescRecord \<Rightarrow> bool" where
  "ignored_in_row mem row d r =
    (let p = (if r_IndicatorPtr r \<noteq> 0 then GetBindOffset mem (d_Header d) (r_IndicatorPtr r) (dae_row row) 8 else 0)
     in p \<noteq> 0 \<and> mem p = SQL_COLUMN_IGNORE)"

text \<open>The columns from \<open>i\<close> on, \<open>k\<close> of them, \<open>ign\<close> ignored so far.\<close>

fun update_columns ::
  "allocator \<Rightarrow> (int \<Rightarrow> int) \<Rightarrow> nat \<Rightarrow> nat \<Rightarrow> nat \<Rightarrow> MADB_DynString \<Rightarrow> build_stmt \<Rightarrow> (bool \<times> nat \<times> MADB_DynString \<times> build_stmt) option" where
  "update_columns A mem i 0 ign D S = Some (False, ign, D, S)"
| "update_columns A mem i (Suc k) ign D S =
    (case read_column i S of
       None \<Rightarrow> None
     | Some (r, S1) \<Rightarrow>
         if ignored_in_row mem (b_DaeRowNumber S1) (b_Ard S1) r \<or> \<not> r_inUse r
         then update_columns A mem (i + 1) k (ign + 1) D S1
         else if i \<ge> length (b_fields S1) then None
         else
           (case or_else (if i \<noteq> ign then (\<lambda>d. MADB_DynstrAppend A d '','') else no_append)
                  (or_else (MADB_DynStrAppendQuoted A (Some (f_org_name (b_fields S1 ! i)))) (\<lambda>d. MADB_DynstrAppend A d ''=?'')) D of
              None \<Rightarrow> None
            | Some (fails, D1) \<Rightarrow>
                if fails then Some (True, ign, D1, build_error ''HY001'' None S1)
                else update_columns A mem (i + 1) k ign D1 S1))"

definition MADB_DynStrUpdateSet ::
  "allocator \<Rightarrow> (int \<Rightarrow> int) \<Rightarrow> MADB_DynString \<Rightarrow> build_stmt \<Rightarrow> (bool \<times> MADB_DynString \<times> build_stmt) option" where
  "MADB_DynStrUpdateSet A mem D S =
    (case MADB_DynstrAppend A D '' SET '' of
       None \<Rightarrow> None
     | Some (fails, D1) \<Rightarrow>
         if fails then Some (True, D1, build_error ''HY001'' None S)
         else
           (case update_columns A mem 0 (b_column_count S) 0 D1 S of
              None \<Rightarrow> None
            | Some (r, ign, D2, S1) \<Rightarrow>
                if r then Some (True, D2, S1)
                else if ign = length (b_fields S1) then Some (True, D2, build_error ''21S02'' None S1)
                else Some (False, D2, S1)))"

text \<open>The names go to \<open>D\<close>, the markers to \<open>V\<close>.\<close>

definition insert_column ::
  "allocator \<Rightarrow> bool \<Rightarrow> string \<Rightarrow> MADB_DynString \<Rightarrow> MADB_DynString \<Rightarrow> (bool \<times> MADB_DynString \<times> MADB_DynString) option" where
  "insert_column A comma name D V =
    (case (if comma then (\<lambda>d. MADB_DynstrAppend A d '','') else no_append) D of
       None \<Rightarrow> None
     | Some (True, D1) \<Rightarrow> Some (True, D1, V)
     | Some (False, D1) \<Rightarrow>
        (case (if comma then (\<lambda>d. MADB_DynstrAppend A d '','') else no_append) V of
           None \<Rightarrow> None
         | Some (True, V1) \<Rightarrow> Some (True, D1, V1)
         | Some (False, V1) \<Rightarrow>
            (case MADB_DynStrAppendQuoted A (Some name) D1 of
               None \<Rightarrow> None
             | Some (True, D2) \<Rightarrow> Some (True, D2, V1)
             | Some (False, D2) \<Rightarrow> map_option (\<lambda>(fails, V2). (fails, D2, V2)) (MADB_DynstrAppend A V1 ''?''))))"

fun insert_columns ::
  "allocator \<Rightarrow> (int \<Rightarrow> int) \<Rightarrow> nat \<Rightarrow> nat \<Rightarrow> bool \<Rightarrow> MADB_DynString \<Rightarrow> MADB_DynString \<Rightarrow> build_stmt \<Rightarrow>
   (bool \<times> MADB_DynString \<times> MADB_DynString \<times> build_stmt) option" where
  "insert_columns A mem i 0 comma D V S = Some (False, D, V, S)"
| "insert_columns A mem i (Suc k) comma D V S =
    (case read_column i S of
       None \<Rightarrow> None
     | Some (r, S1) \<Rightarrow>
         if \<not> r_inUse r \<or> MADB_ColumnIgnoredInAllRows mem (b_Ard S1) r
         then insert_columns A mem (i + 1) k comma D V S1
         else if i \<ge> length (b_fields S1) then None
         else
           (case insert_column A comma (f_org_name (b_fields S1 ! i)) D V of
              None \<Rightarrow> None
            | Some (True, D1, V1) \<Rightarrow> Some (True, D1, V1, S1)
            | Some (False, D1, V1) \<Rightarrow> insert_columns A mem (i + 1) k True D1 V1 S1))"

text \<open>The result of creating the second string is not looked at; \<open>old\<close> is what the variable held before.\<close>

definition MADB_DynStrInsertSet ::
  "allocator \<Rightarrow> (int \<Rightarrow> int) \<Rightarrow> MADB_DynString \<Rightarrow> MADB_DynString \<Rightarrow> build_stmt \<Rightarrow> (bool \<times> MADB_DynString \<times> build_stmt) option" where
  "MADB_DynStrInsertSet A mem old D S =
    (case MADB_InitDynamicString A old (Some ''VALUES ('') 32 32 of
       None \<Rightarrow> None
     | Some (ignored, V) \<Rightarrow>
        (case MADB_DynstrAppend A D '' ('' of
           None \<Rightarrow> None
         | Some (True, D1) \<Rightarrow> Some (True, D1, build_error ''HY001'' None S)
         | Some (False, D1) \<Rightarrow>
            (case insert_columns A mem 0 (b_column_count S) False D1 V S of
               None \<Rightarrow> None
             | Some (True, D2, V1, S1) \<Rightarrow> Some (True, D2, build_error ''HY001'' None S1)
             | Some (False, D2, V1, S1) \<Rightarrow>
                (case MADB_DynstrAppend A D2 '') '' of
                   None \<Rightarrow> None
                 | Some (True, D3) \<Rightarrow> Some (True, D3, build_error ''HY001'' None S1)
                 | Some (False, D3) \<Rightarrow>
                    (case MADB_DynstrAppend A V1 '')'' of
                       None \<Rightarrow> None
                     | Some (True, V2) \<Rightarrow> Some (True, D3, build_error ''HY001'' None S1)
                     | Some (False, V2) \<Rightarrow>
                        (case MADB_DynstrAppend A D3 (content V2) of
                           None \<Rightarrow> None
                         | Some (fails, D4) \<Rightarrow> Some (fails, D4, if fails then build_error ''HY001'' None S1 else S1)))))))"

fun name_columns :: "allocator \<Rightarrow> build_field list \<Rightarrow> bool \<Rightarrow> MADB_DynString \<Rightarrow> (bool \<times> MADB_DynString) option" where
  "name_columns A [] comma = no_append"
| "name_columns A (c # cs) comma =
    or_else (if comma then (\<lambda>d. MADB_DynstrAppend A d '', '') else no_append)
      (or_else (MADB_DynStrAppendQuoted A (Some (f_org_name c))) (name_columns A cs True))"

definition memory_error :: "build_stmt \<Rightarrow> (bool \<times> MADB_DynString) option \<Rightarrow> (bool \<times> MADB_DynString \<times> build_stmt) option" where
  "memory_error S res = map_option (\<lambda>(fails, D). (fails, D, if fails then build_error ''HY001'' None S else S)) res"

definition MADB_DynStrGetColumns :: "allocator \<Rightarrow> MADB_DynString \<Rightarrow> build_stmt \<Rightarrow> (bool \<times> MADB_DynString \<times> build_stmt) option" where
  "MADB_DynStrGetColumns A D S =
    memory_error S (or_else (\<lambda>d. MADB_DynstrAppend A d '' ('')
      (or_else (name_columns A (b_fields S) False) (\<lambda>d. MADB_DynstrAppend A d '' )'')) D)"

fun value_markers :: "allocator \<Rightarrow> build_field list \<Rightarrow> bool \<Rightarrow> MADB_DynString \<Rightarrow> (bool \<times> MADB_DynString) option" where
  "value_markers A [] comma = no_append"
| "value_markers A (c # cs) comma =
    or_else (\<lambda>d. MADB_DynstrAppend A d (if comma then '',?'' else ''?'')) (value_markers A cs True)"

definition MADB_DynStrGetValues :: "allocator \<Rightarrow> MADB_DynString \<Rightarrow> build_stmt \<Rightarrow> (bool \<times> MADB_DynString \<times> build_stmt) option" where
  "MADB_DynStrGetValues A D S =
    memory_error S (or_else (\<lambda>d. MADB_DynstrAppend A d '' VALUES('')
      (or_else (value_markers A (b_fields S) False) (\<lambda>d. MADB_DynstrAppend A d '')'')) D)"

text \<open>
  The condition that identifies the current row.  The server and the client library are asked for: how many columns
  of the cursor belong to a primary or unique key and how many such columns the table has, how many columns
  the table has, the value of a column as text (\<^term>\<open>None\<close> if it cannot be read, \<^term>\<open>Some None\<close> for NULL), and the
  escaped form of a text.  \<open>Flag\<close> is 0 in the code, so that all columns are used.
\<close>

record where_env =
  w_pri :: nat
  w_uni :: nat
  w_table_pri :: nat
  w_table_uni :: nat
  w_table_columns :: nat
  w_value :: "nat \<Rightarrow> string option option"
  w_escape :: "string \<Rightarrow> string"

fun where_columns ::
  "allocator \<Rightarrow> where_env \<Rightarrow> bool \<Rightarrow> nat \<Rightarrow> nat \<Rightarrow> MADB_DynString \<Rightarrow> build_stmt \<Rightarrow> (bool \<times> MADB_DynString \<times> build_stmt) option" where
  "where_columns A E markers i 0 D S = memory_error S (MADB_DynstrAppend A D '' LIMIT 1'')"
| "where_columns A E markers i (Suc k) D S =
    (if i \<ge> length (b_fields S) then None
     else
       (case or_else (\<lambda>d. MADB_DynstrAppend A d '' AND '') (MADB_DynStrAppendQuoted A (Some (f_org_name (b_fields S ! i)))) D of
          None \<Rightarrow> None
        | Some (True, D1) \<Rightarrow> Some (True, D1, build_error ''HY001'' None S)
        | Some (False, D1) \<Rightarrow>
            if \<not> markers \<and> w_value E i = None then Some (True, D1, S)
            else
              (case (if markers then MADB_DynstrAppend A D1 ''=?''
                     else case the (w_value E i) of
                            None \<Rightarrow> MADB_DynstrAppend A D1 '' IS NULL''
                          | Some v \<Rightarrow> or_else (\<lambda>d. MADB_DynstrAppend A d (''= '' @ [CHR 39]))
                                       (or_else (\<lambda>d. MADB_DynstrAppend A d (w_escape E v)) (\<lambda>d. MADB_DynstrAppend A d [CHR 39])) D1) of
                 None \<Rightarrow> None
               | Some (True, D2) \<Rightarrow> Some (True, D2, build_error ''HY001'' None S)
               | Some (False, D2) \<Rightarrow> where_columns A E markers (i + 1) k D2 S)))"

definition MADB_DynStrGetWhere ::
  "allocator \<Rightarrow> where_env \<Rightarrow> bool \<Rightarrow> MADB_DynString \<Rightarrow> build_stmt \<Rightarrow> (bool \<times> MADB_DynString \<times> build_stmt) option" where
  "MADB_DynStrGetWhere A E markers D S =
    (if (w_pri E = 0 \<or> w_pri E \<noteq> w_table_pri E) \<and> (w_uni E = 0 \<or> w_uni E \<noteq> w_table_uni E) \<and> w_table_columns E \<noteq> b_column_count S
     then Some (True, D, build_error ''S1000'' (Some (''Can'' @ CHR 39 # ''t build index for update/delete'')) S)
     else
       (case MADB_DynstrAppend A D '' WHERE 1'' of
          None \<Rightarrow> None
        | Some (True, D1) \<Rightarrow> Some (True, D1, build_error ''HY001'' None S)
        | Some (False, D1) \<Rightarrow> where_columns A E markers 0 (b_column_count S) D1 S))"

text \<open>
  The statements of \<open>MADB_StmtSetPos\<close>: a row is added with an insert statement for the bound columns, the
  current row is deleted with a condition on the values of its columns.
\<close>

definition add_statement ::
  "allocator \<Rightarrow> (int \<Rightarrow> int) \<Rightarrow> MADB_DynString \<Rightarrow> build_stmt \<Rightarrow> (bool \<times> MADB_DynString \<times> build_stmt) option" where
  "add_statement A mem old S =
    (case MADB_GetTableName S of
       (TableName, S1) \<Rightarrow>
         (case MADB_GetCatalogName S1 of
            (CatalogName, S2) \<Rightarrow>
              (case MADB_InitDynamicString A old (Some ''INSERT INTO '') 8192 1024 of
                 None \<Rightarrow> None
               | Some (True, D) \<Rightarrow> Some (True, D, S2)
               | Some (False, D) \<Rightarrow>
                   (case or_else (MADB_DynStrAppendQuoted A CatalogName)
                          (or_else (\<lambda>d. MADB_DynstrAppend A d ''.'') (MADB_DynStrAppendQuoted A TableName)) D of
                      None \<Rightarrow> None
                    | Some (True, D1) \<Rightarrow> Some (True, D1, S2)
                    | Some (False, D1) \<Rightarrow> MADB_DynStrInsertSet A mem old D1 S2))))"

definition delete_statement ::
  "allocator \<Rightarrow> where_env \<Rightarrow> MADB_DynString \<Rightarrow> build_stmt \<Rightarrow> (bool \<times> MADB_DynString \<times> build_stmt) option" where
  "delete_statement A E old S =
    (case MADB_GetTableName S of
       (None, S1) \<Rightarrow> Some (True, old, build_error ''IM001'' (Some ''Updatable Cursors with multiple tables are not supported'') S1)
     | (Some TableName, S1) \<Rightarrow>
         (case MADB_InitDynamicString A old (Some ''DELETE FROM '') 8192 1024 of
            None \<Rightarrow> None
          | Some (ignored, D) \<Rightarrow>
              (case MADB_DynStrAppendQuoted A (Some TableName) D of
                 None \<Rightarrow> None
               | Some (True, D1) \<Rightarrow> Some (True, D1, build_error ''HY001'' None S1)
               | Some (False, D1) \<Rightarrow>
                   (case MADB_DynStrGetWhere A E False D1 S1 of
                      None \<Rightarrow> None
                    | Some (fails, D2, S2) \<Rightarrow> Some (fails, D2, if fails then build_error ''HY001'' None S2 else S2)))))"

section \<open>What the builders write\<close>

definition quoted :: "string \<Rightarrow> string" where
  "quoted s = ''`'' @ s @ ''`''"

text \<open>A list with commas; \<open>b\<close> says whether it continues one.\<close>

fun comma_list :: "bool \<Rightarrow> string list \<Rightarrow> string" where
  "comma_list b [] = []"
| "comma_list b (x # xs) = (if b then '','' else []) @ x @ comma_list True xs"

text \<open>An operation that writes \<open>t\<close>, and fails only when there is no memory.\<close>

definition plenty :: "allocator \<Rightarrow> bool" where
  "plenty A \<longleftrightarrow> (\<forall>n. grants A n)"

definition writes :: "allocator \<Rightarrow> (MADB_DynString \<Rightarrow> (bool \<times> MADB_DynString) option) \<Rightarrow> string \<Rightarrow> bool" where
  "writes A f t \<longleftrightarrow> ds.emits f t \<and> (plenty A \<longrightarrow> (\<forall>D D1. dynstr_ok D \<longrightarrow> f D \<noteq> Some (True, D1)))"

lemma append_granted: "plenty A \<Longrightarrow> MADB_DynstrAppend A D x \<noteq> Some (True, D1)"
  by (simp add: plenty_def MADB_DynstrAppend_def MADB_DynstrAppendMem_def realloc_def Let_def split: option.splits)

lemma writes_append: "writes A (\<lambda>d. MADB_DynstrAppend A d x) x"
  unfolding writes_def using append_granted ds.emits_append by blast

lemma writes_nothing: "writes A no_append []"
  by (simp add: writes_def emits_intros no_append_def)

lemma writes_or_else: "writes A f t \<Longrightarrow> writes A g u \<Longrightarrow> writes A (or_else f g) (t @ u)"
  unfolding writes_def
  by (auto simp: or_else_def intro: emits_intros split: option.splits if_splits) (metis ds.emits_ok)+

lemma writes_option: "writes A (if c then (\<lambda>d. MADB_DynstrAppend A d x) else no_append) (if c then x else [])"
  by (cases c) (simp_all add: writes_append writes_nothing)

lemmas writes_intros = writes_append writes_nothing writes_or_else writes_option

lemma writes_quoted: "writes A (MADB_DynStrAppendQuoted A (Some s)) (quoted s)"
  unfolding MADB_DynStrAppendQuoted_def quoted_def option.case by (intro writes_intros)

text \<open>One append after another: either it was done, or memory ran out and what follows is not written.\<close>

lemma writes_cases:
  assumes "writes A f t" "dynstr_ok D"
  obtains (added) D1 where "f D = Some (False, D1)" "dynstr_ok D1" "content D1 = content D @ t"
    | (failed) D1 where "f D = Some (True, D1)" "dynstr_ok D1" "\<not> plenty A"
proof -
  have "ds.emits f t" using assms(1) by (simp add: writes_def)
  then obtain r D1 p where f: "f D = Some (r, D1)" "dynstr_ok D1" "prefix p t" "content D1 = content D @ p" "\<not> r \<Longrightarrow> p = t"
    using assms(2) by (rule ds.emitsE) (rule that)
  show ?thesis
  proof (cases r)
    case True
    then show ?thesis using f assms failed by (auto simp: writes_def)
  next
    case False
    then show ?thesis using f added by simp
  qed
qed

lemma InitDynamicString_granted: "MADB_InitDynamicString A s x n inc = Some (True, s') \<Longrightarrow> \<exists>m. \<not> grants A m"
  by (auto simp: MADB_InitDynamicString_def Let_def malloc_def split: option.splits if_splits)

text \<open>The records of the columns.\<close>

lemma default_not_used: "MADB_DescSetRecordDefaults t H = (r, H1) \<Longrightarrow> \<not> r_inUse r"
  by (cases t) (auto simp: zero_record_def split: prod.splits)

text \<open>Which columns an insert statement has: those that are bound and not ignored in every row.\<close>

definition inserted :: "(int \<Rightarrow> int) \<Rightarrow> MADB_Desc \<Rightarrow> nat \<Rightarrow> bool" where
  "inserted mem d i \<longleftrightarrow> (case record_at d (int i) of None \<Rightarrow> False | Some r \<Rightarrow>
     r_inUse r \<and> \<not> MADB_ColumnIgnoredInAllRows mem d r)"

text \<open>An update has those that are bound and not ignored in the row.\<close>

definition updated :: "(int \<Rightarrow> int) \<Rightarrow> int \<Rightarrow> MADB_Desc \<Rightarrow> nat \<Rightarrow> bool" where
  "updated mem row d i \<longleftrightarrow> (case record_at d (int i) of None \<Rightarrow> False | Some r \<Rightarrow>
     r_inUse r \<and> \<not> ignored_in_row mem row d r)"

definition update_names :: "(int \<Rightarrow> int) \<Rightarrow> build_stmt \<Rightarrow> nat \<Rightarrow> nat \<Rightarrow> string list" where
  "update_names mem S i k = map (\<lambda>j. f_org_name (b_fields S ! j)) (filter (updated mem (b_DaeRowNumber S) (b_Ard S)) [i..<i + k])"

definition insert_names :: "(int \<Rightarrow> int) \<Rightarrow> build_stmt \<Rightarrow> nat \<Rightarrow> nat \<Rightarrow> string list" where
  "insert_names mem S i k = map (\<lambda>j. f_org_name (b_fields S ! j)) (filter (inserted mem (b_Ard S)) [i..<i + k])"

lemma ignored_rows_cong:
  assumes "h_BindOffsetPtr h = h_BindOffsetPtr g" "h_BindType h = h_BindType g"
  shows "ignored_rows mem h r row k = ignored_rows mem g r row k"
  by (induction k arbitrary: row) (simp_all add: GetBindOffset_def assms)

lemma read_column_finds:
  assumes "\<forall>n. hp_grow (b_heap S) n" "i \<le> length (d_Records (b_Ard S))" "i < 32768"
  obtains r d H where "read_column i S = Some (r, S\<lparr>b_Ard := d, b_heap := H\<rparr>)" "\<forall>n. hp_grow H n" "i < length (d_Records d)"
    "inserted mem d = inserted mem (b_Ard S)" "inserted mem (b_Ard S) i \<longleftrightarrow> r_inUse r \<and> \<not> MADB_ColumnIgnoredInAllRows mem d r"
    "updated mem row d = updated mem row (b_Ard S)" "updated mem row (b_Ard S) i \<longleftrightarrow> r_inUse r \<and> \<not> ignored_in_row mem row d r"
proof -
  obtain found d H where g: "MADB_DescGetInternalRecord (b_Ard S) (int i) True (b_heap S) = (found, d, H)" by (metis prod_cases3)
  have found: found using g assms(1,2) grow_records_found [OF assms(1)]
    by (auto simp: MADB_DescGetInternalRecord_def split: prod.splits) (metis Pair_inject)
  obtain rs where rs: "d_Records d = d_Records (b_Ard S) @ rs"
    "\<forall>r \<in> set rs. \<exists>H' H''. MADB_DescSetRecordDefaults (d_DescType (b_Ard S)) H' = (r, H'')"
    "h_BindOffsetPtr (d_Header d) = h_BindOffsetPtr (d_Header (b_Ard S))"
    "h_BindType (d_Header d) = h_BindType (d_Header (b_Ard S))" "h_ArraySize (d_Header d) = h_ArraySize (d_Header (b_Ard S))"
    "hp_grow H = hp_grow (b_heap S)"
    using GetInternalRecord_appends [OF g] by blast
  have s: "s16 (int i) = int i" using assms(3) by (simp add: cast_simps)
  have i: "i < length (d_Records d)" using GetInternalRecord_inside [of "b_Ard S" "int i" True "b_heap S" d H] g found by simp
  have ign: "MADB_ColumnIgnoredInAllRows mem d r = MADB_ColumnIgnoredInAllRows mem (b_Ard S) r" for r
    unfolding MADB_ColumnIgnoredInAllRows_def rs(5) by (rule ignored_rows_cong [OF rs(3,4)])
  have new: "\<not> r_inUse r" if "r \<in> set rs" for r using rs(2) that default_not_used by blast
  have same: "inserted mem d j = inserted mem (b_Ard S) j" for j
    using new nth_mem [of "j - length (d_Records (b_Ard S))" rs]
    by (auto simp: inserted_def record_at_def rs(1) nth_append ign)
  have ign': "ignored_in_row mem row d r = ignored_in_row mem row (b_Ard S) r" for r
    by (simp add: ignored_in_row_def GetBindOffset_def rs(3,4))
  have same': "updated mem row d j = updated mem row (b_Ard S) j" for j
    using new nth_mem [of "j - length (d_Records (b_Ard S))" rs]
    by (auto simp: updated_def record_at_def rs(1) nth_append ign')
  show ?thesis
  proof (rule that)
    show "updated mem row (b_Ard S) i \<longleftrightarrow> r_inUse (d_Records d ! i) \<and> \<not> ignored_in_row mem row d (d_Records d ! i)"
      using i unfolding same' [symmetric] by (simp add: updated_def record_at_def)
    show "read_column i S = Some (d_Records d ! i, S\<lparr>b_Ard := d, b_heap := H\<rparr>)"
      by (simp add: read_column_def s g found record_at_def i)
    show "inserted mem (b_Ard S) i \<longleftrightarrow> r_inUse (d_Records d ! i) \<and> \<not> MADB_ColumnIgnoredInAllRows mem d (d_Records d ! i)"
      using i unfolding same [symmetric] by (simp add: inserted_def record_at_def)
  qed (use rs(6) assms(1) i same same' in auto)
qed

text \<open>The loop over the columns of an insert statement.\<close>

lemma insert_column_writes:
  assumes "dynstr_ok D" "dynstr_ok V"
  obtains (added) D1 V1 where "insert_column A c name D V = Some (False, D1, V1)" "dynstr_ok D1" "dynstr_ok V1"
      "content D1 = content D @ (if c then '','' else []) @ quoted name" "content V1 = content V @ (if c then '','' else []) @ ''?''"
    | (failed) D1 V1 where "insert_column A c name D V = Some (True, D1, V1)" "dynstr_ok D1" "\<not> plenty A"
using writes_option [of A c "'',''"] assms(1)
proof (cases rule: writes_cases)
  case (added D1)
  note d = this
  show ?thesis
  using writes_option [of A c "'',''"] assms(2)
  proof (cases rule: writes_cases)
    case (added V1)
    note v = this
    show ?thesis
    using writes_quoted [of A name] d(2)
    proof (cases rule: writes_cases)
      case (added D2)
      note q = this
      show ?thesis using writes_append [of A "''?''"] v(2)
        by (cases rule: writes_cases)
          (use d v q that in \<open>auto simp: insert_column_def\<close>)
    qed (use d v that in \<open>auto simp: insert_column_def\<close>)
  qed (use d that in \<open>auto simp: insert_column_def\<close>)
qed (use that in \<open>auto simp: insert_column_def\<close>)

lemma insert_columns_writes:
  assumes "\<forall>n. hp_grow (b_heap S) n" "i \<le> length (d_Records (b_Ard S))" "i + k \<le> 32768" "i + k \<le> length (b_fields S)"
    and "dynstr_ok D" "dynstr_ok V"
  obtains (added) D1 V1 S1 where "insert_columns A mem i k c D V S = Some (False, D1, V1, S1)" "dynstr_ok D1" "dynstr_ok V1"
      "content D1 = content D @ comma_list c (map quoted (insert_names mem S i k))"
      "content V1 = content V @ comma_list c (map (\<lambda>n. ''?'') (insert_names mem S i k))"
      "b_Error S1 = b_Error S"
    | (failed) D1 V1 S1 where "insert_columns A mem i k c D V S = Some (True, D1, V1, S1)" "dynstr_ok D1" "b_Error S1 = b_Error S" "\<not> plenty A"
proof -
  have "(\<exists>D1 V1 S1. insert_columns A mem i k c D V S = Some (False, D1, V1, S1) \<and> dynstr_ok D1 \<and> dynstr_ok V1
      \<and> content D1 = content D @ comma_list c (map quoted (insert_names mem S i k))
      \<and> content V1 = content V @ comma_list c (map (\<lambda>n. ''?'') (insert_names mem S i k)) \<and> b_Error S1 = b_Error S)
    \<or> (\<exists>D1 V1 S1. insert_columns A mem i k c D V S = Some (True, D1, V1, S1) \<and> dynstr_ok D1 \<and> b_Error S1 = b_Error S \<and> \<not> plenty A)"
    using assms
  proof (induction k arbitrary: i c D V S)
    case 0
    then show ?case by (simp add: insert_names_def)
  next
    case (Suc k)
    have i: "i < 32768" "i < length (b_fields S)" using Suc.prems(3,4) by simp_all
    obtain r d H where r: "read_column i S = Some (r, S\<lparr>b_Ard := d, b_heap := H\<rparr>)" "\<forall>n. hp_grow H n" "i < length (d_Records d)"
      "inserted mem d = inserted mem (b_Ard S)" "inserted mem (b_Ard S) i \<longleftrightarrow> r_inUse r \<and> \<not> MADB_ColumnIgnoredInAllRows mem d r"
      by (rule read_column_finds [OF Suc.prems(1,2) i(1), of mem row])
    let ?S = "S\<lparr>b_Ard := d, b_heap := H\<rparr>"
    have names: "insert_names mem ?S j n = insert_names mem S j n" for j n by (simp add: insert_names_def r(4))
    have next_names: "insert_names mem S i (Suc k) =
        (if inserted mem (b_Ard S) i then [f_org_name (b_fields S ! i)] else []) @ insert_names mem S (i + 1) k"
      by (simp add: insert_names_def upt_conv_Cons del: upt_Suc)
    show ?case
    proof (cases "inserted mem (b_Ard S) i")
      case False
      then have "insert_columns A mem i (Suc k) c D V S = insert_columns A mem (i + 1) k c D V ?S" using r by auto
      then show ?thesis using Suc.IH [of ?S "i + 1" D V c] Suc.prems r(2,3) False by (simp add: names next_names)
    next
      case True
      then have used: "r_inUse r" "\<not> MADB_ColumnIgnoredInAllRows mem d r" using r(5) by simp_all
      show ?thesis
        using Suc.prems(5,6)
      proof (cases rule: insert_column_writes [where A = A and c = c and name = "f_org_name (b_fields S ! i)"])
        case (added D1 V1)
        then have "insert_columns A mem i (Suc k) c D V S = insert_columns A mem (i + 1) k True D1 V1 ?S" using r(1) used i(2) by simp
        then show ?thesis using Suc.IH [of ?S "i + 1" D1 V1 True] Suc.prems(3,4) r(2,3) True added by (simp add: names next_names)
      qed (use r(1) used i(2) in auto)
    qed
  qed
  then show ?thesis using added failed by blast
qed

lemma insert_set_writes:
  assumes "\<forall>n. hp_grow (b_heap S) n" "b_column_count S \<le> 32768" "b_column_count S \<le> length (b_fields S)"
    and "dynstr_ok D" "grants A 32"
  obtains (added) D1 S1 where "MADB_DynStrInsertSet A mem old D S = Some (False, D1, S1)" "dynstr_ok D1"
      "content D1 = content D @ '' ('' @ comma_list False (map quoted (insert_names mem S 0 (b_column_count S))) @ '') VALUES ('' @
        comma_list False (map (\<lambda>n. ''?'') (insert_names mem S 0 (b_column_count S))) @ '')''"
    | (failed) D1 S1 where "MADB_DynStrInsertSet A mem old D S = Some (True, D1, S1)" "dynstr_ok D1"
        "b_Error S1 = b_Error (build_error ''HY001'' None S)" "\<not> plenty A"
proof -
  obtain V where V: "MADB_InitDynamicString A old (Some ''VALUES ('') 32 32 = Some (False, V)" "dynstr_ok V" "content V = ''VALUES (''"
  proof -
    have "length ''VALUES ('' + 1 < 32" "(32 :: nat) < 2 ^ 32" by simp_all
    then show ?thesis
    proof (cases rule: InitDynamicString_usable [where A = A and s = old and inc = 32])
      case (failed s')
      then show ?thesis using assms(5)
        by (simp add: MADB_InitDynamicString_def Let_def malloc_def uint32_def split: option.splits)
    qed (use that in simp_all)
  qed
  show ?thesis
    using writes_append [of A "'' (''"] assms(4)
  proof (cases rule: writes_cases)
    case (failed D1)
    then show ?thesis using V that(2) by (simp add: MADB_DynStrInsertSet_def)
  next
    case (added D1)
    note d = this
    have c: "0 \<le> length (d_Records (b_Ard S))" "0 + b_column_count S \<le> 32768" "0 + b_column_count S \<le> length (b_fields S)" 
      using assms(2,3) by simp_all
    show ?thesis
      using assms(1) c d(2) V(2)
    proof (cases rule: insert_columns_writes [where A = A and mem = mem and c = False])
      case (failed D2 V1 S1)
      then show ?thesis using V d that(2) by (simp add: MADB_DynStrInsertSet_def build_error_def)
    next
      case (added D2 V1 S1)
      note l = this
      show ?thesis
        using writes_append [of A "'') ''"] l(2)
      proof (cases rule: writes_cases)
        case (added D3)
        note e = this
        show ?thesis
          using writes_append [of A "'')''"] l(3)
        proof (cases rule: writes_cases)
          case (added V2)
          show ?thesis
            using writes_append [of A "content V2"] e(2)
            by (cases rule: writes_cases)
              (use V d l e added that in \<open>auto simp: MADB_DynStrInsertSet_def build_error_def\<close>)
        qed (use V d l e that(2) in \<open>simp add: MADB_DynStrInsertSet_def build_error_def\<close>)
      qed (use V d l that(2) in \<open>simp add: MADB_DynStrInsertSet_def build_error_def\<close>)
    qed
  qed
qed


text \<open>
  C8. The statement that adds a row.  When the columns of the result come from one table of one catalog, the text is
  an insert statement into it with the columns that are bound and not ignored in every row, in their order, each
  quoted, and a marker for each of them; the call fails only when memory runs out.  Nothing is read or
  written outside the strings, however many columns the application has bound.
\<close>

theorem add_statement_text:
  assumes "\<forall>n. hp_grow (b_heap S) n" "b_column_count S \<le> 32768" "b_column_count S \<le> length (b_fields S)" "grants A 32"
    and "fst (MADB_GetTableName S) = Some t" "fst (MADB_GetCatalogName S) = Some c"
  shows "\<exists>fails D S1. add_statement A mem old S = Some (fails, D, S1) \<and>
    (plenty A \<longrightarrow> \<not> fails) \<and> (\<not> fails \<longrightarrow> dynstr_ok D \<and> content D = ''INSERT INTO '' @ quoted c @ ''.'' @ quoted t @ '' ('' @
       comma_list False (map quoted (insert_names mem S 0 (b_column_count S))) @ '') VALUES ('' @
       comma_list False (map (\<lambda>n. ''?'') (insert_names mem S 0 (b_column_count S))) @ '')'')"
proof -
  obtain S1 where T: "MADB_GetTableName S = (Some t, S1)" using assms(5) by (cases "MADB_GetTableName S") auto
  have S1: "\<exists>n. S1 = S\<lparr>b_TableName := n\<rparr>"
    using T by (auto simp: MADB_GetTableName_def split: option.splits list.splits if_splits intro: exI [of _ "b_TableName S"])
  then have "fst (MADB_GetCatalogName S1) = Some c" using assms(6)
    by (auto simp: MADB_GetCatalogName_def split: option.splits list.splits if_splits)
  then obtain S2 where C: "MADB_GetCatalogName S1 = (Some c, S2)" by (cases "MADB_GetCatalogName S1") auto
  have S2: "b_Ard S2 = b_Ard S" "b_heap S2 = b_heap S" "b_fields S2 = b_fields S" "b_column_count S2 = b_column_count S"
    using C S1 by (auto simp: MADB_GetCatalogName_def split: option.splits list.splits if_splits)
  have names: "insert_names mem S2 i k = insert_names mem S i k" for i k by (simp add: insert_names_def S2)
  have q: "writes A (or_else (MADB_DynStrAppendQuoted A (Some c)) (or_else (\<lambda>d. MADB_DynstrAppend A d ''.'') (MADB_DynStrAppendQuoted A (Some t))))
      (quoted c @ ''.'' @ quoted t)" by (intro writes_intros writes_quoted)
  have "length ''INSERT INTO '' + 1 < 8192" "(8192 :: nat) < 2 ^ 32" by simp_all
  then show ?thesis
  proof (cases rule: InitDynamicString_usable [where A = A and s = old and inc = 1024])
    case (made D)
    show ?thesis
      using q made(2)
    proof (cases rule: writes_cases)
      case (added D1)
      note d = this
      have "\<forall>n. hp_grow (b_heap S2) n" "b_column_count S2 \<le> 32768" "b_column_count S2 \<le> length (b_fields S2)" using assms(1-3) by (simp_all add: S2)
      then show ?thesis using d(2) assms(4)
        by (cases rule: insert_set_writes [where mem = mem and old = old])
          (use T C made d in \<open>auto simp: add_statement_def names S2\<close>)
    qed (use T C made in \<open>auto simp: add_statement_def\<close>)
  next
    case (failed D)
    then show ?thesis using T C InitDynamicString_granted [OF failed] by (auto simp: add_statement_def plenty_def)
  qed
qed

text \<open>Two columns of a table, the first of them bound.\<close>

definition sample_alloc :: allocator where
  "sample_alloc = \<lparr>grants = (\<lambda>n. True), junk = (\<lambda>n. NUL)\<rparr>"

definition sample_bound_ard :: MADB_Desc where
  "sample_bound_ard = sample_app\<lparr>d_Records := [(fst (MADB_DescSetRecordDefaults MADB_DESC_ARD sample_heap))\<lparr>r_inUse := True\<rparr>]\<rparr>"

definition sample_build :: build_stmt where
  "sample_build = \<lparr>b_Ard = sample_bound_ard, b_heap = sample_heap, b_column_count = 2,
     b_fields = [\<lparr>f_org_name = ''name'', f_org_table = Some ''item'', f_db = ''shop''\<rparr>,
                 \<lparr>f_org_name = ''price'', f_org_table = Some ''item'', f_db = ''shop''\<rparr>],
     b_DaeRowNumber = 0, b_TableName = None, b_CatalogName = None, b_Error = sample_error\<rparr>"

theorem add_statement_text_witness:
  "\<exists>D S1. add_statement sample_alloc (\<lambda>a. 0) empty_dynstr sample_build = Some (False, D, S1)
     \<and> content D = ''INSERT INTO `shop`.`item` (`name`) VALUES (?)''"
proof -
  have w: "fst (MADB_GetTableName sample_build) = Some ''item''" "fst (MADB_GetCatalogName sample_build) = Some ''shop''"
    "insert_names (\<lambda>a. 0) sample_build 0 2 = [''name'']" by code_simp+
  have "\<forall>n. hp_grow (b_heap sample_build) n" "b_column_count sample_build = 2" "length (b_fields sample_build) = 2"
    "plenty sample_alloc" "grants sample_alloc 32"
    by (simp_all add: sample_build_def sample_heap_def sample_alloc_def plenty_def)
  then show ?thesis
    using add_statement_text [of sample_build sample_alloc, OF _ _ _ _ w(1,2), of "\<lambda>a. 0" empty_dynstr] w(3)
    by (auto simp: quoted_def)
qed

section \<open>Conditions\<close>

definition condition :: "where_env \<Rightarrow> bool \<Rightarrow> nat \<Rightarrow> string" where
  "condition E markers i =
    (if markers then ''=?''
     else case the (w_value E i) of None \<Rightarrow> '' IS NULL'' | Some v \<Rightarrow> ''= '' @ [CHR 39] @ w_escape E v @ [CHR 39])"

definition conditions :: "where_env \<Rightarrow> bool \<Rightarrow> build_stmt \<Rightarrow> nat \<Rightarrow> nat \<Rightarrow> string" where
  "conditions E markers S i k =
    concat (map (\<lambda>j. '' AND '' @ quoted (f_org_name (b_fields S ! j)) @ condition E markers j) [i..<i + k])"

lemma writes_condition:
  "writes A (\<lambda>D1. if markers then MADB_DynstrAppend A D1 ''=?''
     else case the (w_value E i) of
            None \<Rightarrow> MADB_DynstrAppend A D1 '' IS NULL''
          | Some v \<Rightarrow> or_else (\<lambda>d. MADB_DynstrAppend A d (''= '' @ [CHR 39]))
                       (or_else (\<lambda>d. MADB_DynstrAppend A d (w_escape E v)) (\<lambda>d. MADB_DynstrAppend A d [CHR 39])) D1)
    (condition E markers i)"
proof -
  have "writes A (or_else (\<lambda>d. MADB_DynstrAppend A d (''= '' @ [CHR 39]))
      (or_else (\<lambda>d. MADB_DynstrAppend A d (w_escape E v)) (\<lambda>d. MADB_DynstrAppend A d [CHR 39])))
      ((''= '' @ [CHR 39]) @ w_escape E v @ [CHR 39])" for v by (intro writes_intros)
  then show ?thesis by (cases markers; cases "the (w_value E i)") (simp_all add: condition_def writes_append)
qed

lemma where_columns_writes:
  assumes "i + k \<le> length (b_fields S)" "markers \<or> (\<forall>j. i \<le> j \<and> j < i + k \<longrightarrow> w_value E j \<noteq> None)" "dynstr_ok D"
  obtains (added) D1 where "where_columns A E markers i k D S = Some (False, D1, S)" "dynstr_ok D1"
      "content D1 = content D @ conditions E markers S i k @ '' LIMIT 1''"
    | (failed) D1 S1 where "where_columns A E markers i k D S = Some (True, D1, S1)" "dynstr_ok D1" "\<not> plenty A"
proof -
  have "(\<exists>D1. where_columns A E markers i k D S = Some (False, D1, S) \<and> dynstr_ok D1
      \<and> content D1 = content D @ conditions E markers S i k @ '' LIMIT 1'')
    \<or> (\<exists>D1 S1. where_columns A E markers i k D S = Some (True, D1, S1) \<and> dynstr_ok D1 \<and> \<not> plenty A)"
    using assms
  proof (induction k arbitrary: i D)
    case 0
    show ?case using writes_append [of A "'' LIMIT 1''"] 0(3)
      by (cases rule: writes_cases) (auto simp: memory_error_def conditions_def)
  next
    case (Suc k)
    let ?name = "f_org_name (b_fields S ! i)"
    have w: "writes A (or_else (\<lambda>d. MADB_DynstrAppend A d '' AND '') (MADB_DynStrAppendQuoted A (Some ?name))) ('' AND '' @ quoted ?name)"
      by (intro writes_intros writes_quoted)
    have v: "\<not> (\<not> markers \<and> w_value E i = None)" using Suc.prems(2) by auto
    have step: "conditions E markers S i (Suc k) = '' AND '' @ quoted ?name @ condition E markers i @ conditions E markers S (i + 1) k"
      by (simp add: conditions_def upt_conv_Cons del: upt_Suc)
    show ?case
      using w Suc.prems(3)
    proof (cases rule: writes_cases)
      case (added D1)
      note d = this
      show ?thesis
        using writes_condition [of A markers E i] d(2)
      proof (cases rule: writes_cases)
        case (added D2)
        then have e: "where_columns A E markers i (Suc k) D S = where_columns A E markers (i + 1) k D2 S" using d v Suc.prems(1) by auto
        have "content D2 = content D @ '' AND '' @ quoted ?name @ condition E markers i" using d added by simp
        then show ?thesis using Suc.IH [of "i + 1" D2] Suc.prems(1,2) added(2) unfolding e step by auto
      qed (use d v Suc.prems(1) in auto)
    qed (use Suc.prems(1) in auto)
  qed
  then show ?thesis using added failed by blast
qed

text \<open>The driver deletes the current row only when it can tell it from the others.\<close>

definition identifiable :: "where_env \<Rightarrow> build_stmt \<Rightarrow> bool" where
  "identifiable E S \<longleftrightarrow>
     w_pri E \<noteq> 0 \<and> w_pri E = w_table_pri E \<or> w_uni E \<noteq> 0 \<and> w_uni E = w_table_uni E \<or> w_table_columns E = b_column_count S"

lemma GetWhere_writes:
  assumes "b_column_count S \<le> length (b_fields S)" "markers \<or> (\<forall>i < b_column_count S. w_value E i \<noteq> None)" "dynstr_ok D"
  obtains (added) D1 where "MADB_DynStrGetWhere A E markers D S = Some (False, D1, S)" "identifiable E S" "dynstr_ok D1"
      "content D1 = content D @ '' WHERE 1'' @ conditions E markers S 0 (b_column_count S) @ '' LIMIT 1''"
    | (failed) D1 S1 where "MADB_DynStrGetWhere A E markers D S = Some (True, D1, S1)" "identifiable E S \<longrightarrow> \<not> plenty A"
proof (cases "identifiable E S")
  case True
  then have w: "MADB_DynStrGetWhere A E markers D S = (case MADB_DynstrAppend A D '' WHERE 1'' of
      None \<Rightarrow> None
    | Some (True, D1) \<Rightarrow> Some (True, D1, build_error ''HY001'' None S)
    | Some (False, D1) \<Rightarrow> where_columns A E markers 0 (b_column_count S) D1 S)"
    by (auto simp: MADB_DynStrGetWhere_def identifiable_def)
  show ?thesis
    using writes_append [of A "'' WHERE 1''"] assms(3)
  proof (cases rule: writes_cases)
    case (added D1)
    note d = this
    have c: "0 + b_column_count S \<le> length (b_fields S)" "markers \<or> (\<forall>j. 0 \<le> j \<and> j < 0 + b_column_count S \<longrightarrow> w_value E j \<noteq> None)"
      using assms(1,2) by simp_all
    show ?thesis
      using c d(2) by (cases rule: where_columns_writes [where A = A]) (use d that True in \<open>simp_all add: w\<close>)
  qed (use that in \<open>simp add: w\<close>)
qed (use that in \<open>auto simp: MADB_DynStrGetWhere_def identifiable_def\<close>)

lemma memory_state: "SqlState (b_Error (build_error ''HY001'' None S)) = ''HY001''"
proof -
  have "''HY001'' \<in> set MadbErrNo" by (simp add: MadbErrNo_def)
  from SetError_eq [OF this] show ?thesis by (simp add: build_error_def reported_state_def)
qed


definition sample_where :: where_env where
  "sample_where = \<lparr>w_pri = 0, w_uni = 0, w_table_pri = 0, w_table_uni = 0, w_table_columns = 2,
     w_value = (\<lambda>i. if i = 0 then Some (Some ''pen'') else Some None), w_escape = (\<lambda>s. s)\<rparr>"


section \<open>Updates\<close>

lemma update_names_length: "length (update_names mem S i k) \<le> k"
  unfolding update_names_def length_map by (rule order_trans [OF length_filter_le]) simp

lemma update_columns_writes:
  assumes "\<forall>n. hp_grow (b_heap S) n" "i \<le> length (d_Records (b_Ard S))" "i + k \<le> 32768" "i + k \<le> length (b_fields S)"
    and "dynstr_ok D" "ign \<le> i"
  shows "(\<exists>D1 S1. update_columns A mem i k ign D S =
        Some (False, ign + (k - length (update_names mem S i k)), D1, S1) \<and> dynstr_ok D1 \<and> b_fields S1 = b_fields S
      \<and> content D1 = content D @ comma_list (i \<noteq> ign) (map (\<lambda>n. quoted n @ ''=?'') (update_names mem S i k)))
    \<or> (\<exists>j D1 S1. update_columns A mem i k ign D S = Some (True, j, D1, S1) \<and> dynstr_ok D1 \<and> \<not> plenty A)"
  using assms
proof (induction k arbitrary: i ign D S)
  case 0
  then show ?case by (simp add: update_names_def)
next
  case (Suc k)
  let ?row = "b_DaeRowNumber S" and ?name = "f_org_name (b_fields S ! i)"
  have i: "i < 32768" "i < length (b_fields S)" using Suc.prems(3,4) by simp_all
  obtain r d H where r: "read_column i S = Some (r, S\<lparr>b_Ard := d, b_heap := H\<rparr>)" "\<forall>n. hp_grow H n" "i < length (d_Records d)"
    "updated mem ?row d = updated mem ?row (b_Ard S)" "updated mem ?row (b_Ard S) i \<longleftrightarrow> r_inUse r \<and> \<not> ignored_in_row mem ?row d r"
    by (rule read_column_finds [OF Suc.prems(1,2) i(1), of mem ?row])
  let ?S = "S\<lparr>b_Ard := d, b_heap := H\<rparr>"
  have names: "update_names mem ?S j n = update_names mem S j n" for j n by (simp add: update_names_def r(4))
  have step: "update_names mem S i (Suc k) =
      (if updated mem ?row (b_Ard S) i then [?name] else []) @ update_names mem S (i + 1) k"
    by (simp add: update_names_def upt_conv_Cons del: upt_Suc)
  note len = update_names_length [of mem S "i + 1" k]
  show ?case
  proof (cases "updated mem ?row (b_Ard S) i")
    case False
    then have "update_columns A mem i (Suc k) ign D S = update_columns A mem (i + 1) k (ign + 1) D ?S" using r by auto
    then show ?thesis using Suc.IH [of ?S "i + 1" D "ign + 1"] Suc.prems r(2,3) False len
      by (simp add: names step Suc_diff_le)
  next
    case True
    then have used: "r_inUse r" "\<not> ignored_in_row mem ?row d r" using r(5) by simp_all
    have w: "writes A (or_else (if i \<noteq> ign then (\<lambda>d. MADB_DynstrAppend A d '','') else no_append)
        (or_else (MADB_DynStrAppendQuoted A (Some ?name)) (\<lambda>d. MADB_DynstrAppend A d ''=?'')))
      ((if i \<noteq> ign then '','' else []) @ quoted ?name @ ''=?'')" by (intro writes_intros writes_quoted)
    show ?thesis
      using w Suc.prems(5)
    proof (cases rule: writes_cases)
      case (added D1)
      then have "update_columns A mem i (Suc k) ign D S = update_columns A mem (i + 1) k ign D1 ?S" using r(1) used i(2) by simp
      then show ?thesis using Suc.IH [of ?S "i + 1" D1 ign] Suc.prems(3,4,6) r(2,3) True added by (simp add: names step)
    qed (use r(1) used i(2) in auto)
  qed
qed

text \<open>The list of assignments is complete, or the call fails: for want of memory or because no column is left.\<close>

lemma UpdateSet_text:
  assumes "\<forall>n. hp_grow (b_heap S) n" "b_column_count S \<le> 32768" "length (b_fields S) = b_column_count S" "dynstr_ok D"
  shows "\<exists>fails D1 S1. MADB_DynStrUpdateSet A mem D S = Some (fails, D1, S1) \<and> dynstr_ok D1 \<and>
    (plenty A \<longrightarrow> fails = (update_names mem S 0 (b_column_count S) = [])) \<and>
    (\<not> fails \<longrightarrow> content D1 = content D @ '' SET '' @ comma_list False (map (\<lambda>n. quoted n @ ''=?'') (update_names mem S 0 (b_column_count S))))"
  using writes_append [of A "'' SET ''"] assms(4)
proof (cases rule: writes_cases)
  case (added D1)
  note len = update_names_length [of mem S 0 "b_column_count S"]
  have c: "0 \<le> length (d_Records (b_Ard S))" "0 + b_column_count S \<le> 32768" "0 + b_column_count S \<le> length (b_fields S)" "(0 :: nat) \<le> 0"
    using assms(2,3) by simp_all
  have zero: "0 + (b_column_count S - length (update_names mem S 0 (b_column_count S))) = b_column_count S \<longleftrightarrow>
      update_names mem S 0 (b_column_count S) = [] \<or> b_column_count S = 0"
    using len by (cases "update_names mem S 0 (b_column_count S)") auto
  show ?thesis
    using update_columns_writes [OF assms(1) c(1-3) added(2) c(4), of A mem] added assms(3) zero len
    by (auto simp: MADB_DynStrUpdateSet_def)
qed (use assms(4) in \<open>auto simp: MADB_DynStrUpdateSet_def\<close>)

text \<open>All columns of the result, and a marker for each.\<close>

fun spaced_list :: "string list \<Rightarrow> string" where
  "spaced_list [] = []"
| "spaced_list (x # xs) = '', '' @ x @ spaced_list xs"

lemma writes_names:
  "writes A (name_columns A cs True) (spaced_list (map (\<lambda>c. quoted (f_org_name c)) cs))"
proof (induction cs)
  case (Cons c cs)
  then show ?case unfolding name_columns.simps list.map spaced_list.simps if_True
    by (intro writes_or_else writes_append writes_quoted)
qed (simp add: writes_nothing)

lemma writes_markers: "writes A (value_markers A cs b) (comma_list b (map (\<lambda>c. ''?'') cs))"
proof (induction cs arbitrary: b)
  case (Cons c cs)
  have "writes A (value_markers A (c # cs) b) ((if b then '',?'' else ''?'') @ comma_list True (map (\<lambda>c. ''?'') cs))"
    unfolding value_markers.simps by (intro writes_or_else writes_append Cons.IH)
  then show ?case by (cases b) simp_all
qed (simp add: writes_nothing)

lemma GetColumns_writes:
  assumes "b_fields S = c # cs"
  shows "writes A (\<lambda>D. or_else (\<lambda>d. MADB_DynstrAppend A d '' ('')
      (or_else (name_columns A (b_fields S) False) (\<lambda>d. MADB_DynstrAppend A d '' )'')) D)
    ('' ('' @ (quoted (f_org_name c) @ spaced_list (map (\<lambda>c. quoted (f_org_name c)) cs)) @ '' )'')"
proof -
  have "writes A (name_columns A (b_fields S) False) ([] @ quoted (f_org_name c) @ spaced_list (map (\<lambda>c. quoted (f_org_name c)) cs))"
    unfolding assms name_columns.simps if_False by (intro writes_or_else writes_nothing writes_quoted writes_names)
  then have n: "writes A (name_columns A (b_fields S) False) (quoted (f_org_name c) @ spaced_list (map (\<lambda>c. quoted (f_org_name c)) cs))"
    by simp
  show ?thesis by (intro writes_or_else writes_append n)
qed

lemma GetValues_writes:
  "writes A (\<lambda>D. or_else (\<lambda>d. MADB_DynstrAppend A d '' VALUES('')
      (or_else (value_markers A (b_fields S) False) (\<lambda>d. MADB_DynstrAppend A d '')'')) D)
    ('' VALUES('' @ comma_list False (map (\<lambda>c. ''?'') (b_fields S)) @ '')'')"
  by (intro writes_or_else writes_append writes_markers)

end
