(* ===== verification/Sql_Text.thy ===== *)
theory Sql_Text
  imports Odbc_Prelude
begin

text \<open>
  Texts that come from the application (\<open>src/ma_string.c\<close>): arguments that are identifiers, which become literals of
  a query of the driver, and the lengths of strings in buffers.  \<^term>\<open>None\<close> as a result is a read outside the buffer.
\<close>

section \<open>Identifier arguments\<close>

abbreviation (input) QUOTE_IN :: char where "QUOTE_IN \<equiv> CHR ''`''"
abbreviation (input) QUOTE_OUT :: char where "QUOTE_OUT \<equiv> CHR 39"
abbreviation (input) ESCAPE :: char where "ESCAPE \<equiv> CHR 0x5C"

definition IDENTIFIER_BUFFER_OVERHEAD :: nat where
  "IDENTIFIER_BUFFER_OVERHEAD = 3"

text \<open>The loop from the end: how many characters are left without the blanks; \<^term>\<open>None\<close> for a NUL.\<close>

fun without_blanks :: "string \<Rightarrow> nat \<Rightarrow> nat option" where
  "without_blanks s 0 = Some 0"
| "without_blanks s (Suc n) =
    (if s ! n = NUL then None else if isspace (s ! n) then without_blanks s n else Some (Suc n))"

text \<open>What follows the leading quote; \<^term>\<open>None\<close> when there is none.\<close>

fun leading_quote :: "string \<Rightarrow> string option" where
  "leading_quote [] = None"
| "leading_quote (c # s) =
    (if c = NUL then None else if \<not> isspace c then (if c = QUOTE_IN then Some s else None) else leading_quote s)"

text \<open>
  The loops that copy.  \<open>before\<close> is the character before the next one, \<^term>\<open>None\<close> at the start of the
  input, where the code would read in front of it.  The result \<^term>\<open>Some None\<close> is a failure.
\<close>

fun copy_identifier :: "(char \<Rightarrow> char) \<Rightarrow> char option \<Rightarrow> string \<Rightarrow> string option option" where
  "copy_identifier f before [] = Some (Some [])"
| "copy_identifier f before (c # s) =
    (if c = NUL then Some None
     else if c = QUOTE_IN \<and> before = None then None
     else if c = QUOTE_IN \<and> before \<noteq> Some ESCAPE then Some None
     else map_option (map_option ((#) (f c))) (copy_identifier f (Some c) s))"

definition in_quotes :: "string \<Rightarrow> string" where
  "in_quotes s = [QUOTE_OUT] @ s @ [QUOTE_OUT]"

definition ProcessIdentifierString :: "string \<Rightarrow> string option option" where
  "ProcessIdentifierString s =
    (case without_blanks s (length s) of
       None \<Rightarrow> Some None
     | Some n \<Rightarrow>
         if n = 0 then Some (Some (in_quotes []))
         else if s ! (n - 1) = QUOTE_IN \<and> (n = 1 \<or> s ! (n - 2) \<noteq> ESCAPE)
         then
           (case leading_quote (take (n - 1) s) of
              None \<Rightarrow> Some None
            | Some body \<Rightarrow> map_option (map_option in_quotes) (copy_identifier (\<lambda>c. c) (Some QUOTE_IN) body))
         else if s ! 0 = QUOTE_IN then Some None
         else map_option (map_option in_quotes) (copy_identifier toupper None (take n s)))"

section \<open>What an identifier is\<close>

text \<open>
  The rule of the ODBC specification.  Trailing blanks do not count; an identifier in quotes is taken literally, without
  the blanks before it; another one is folded to upper case.  A quote inside is only allowed after the escape.
\<close>

definition trimmed :: "string \<Rightarrow> string" where
  "trimmed s = rev (dropWhile isspace (rev s))"

definition bare_quote :: "string \<Rightarrow> nat \<Rightarrow> bool" where
  "bare_quote s i \<longleftrightarrow> s ! i = QUOTE_IN \<and> (i = 0 \<or> s ! (i - 1) \<noteq> ESCAPE)"

definition no_bare_quote :: "string \<Rightarrow> bool" where
  "no_bare_quote s \<longleftrightarrow> (\<forall>i < length s. \<not> bare_quote s i)"

definition odbc_identifier :: "string \<Rightarrow> string option" where
  "odbc_identifier s =
    (let t = trimmed s; u = dropWhile isspace t; body = butlast (tl u) in
     if NUL \<in> set s then None
     else if t = [] then Some []
     else if bare_quote t (length t - 1)
     then if length u \<ge> 2 \<and> hd u = QUOTE_IN \<and> no_bare_quote body then Some body else None
     else if no_bare_quote t then Some (map toupper t)
     else None)"

lemma no_bare_quote_Cons:
  "no_bare_quote (c # s) \<longleftrightarrow> c \<noteq> QUOTE_IN \<and> (\<forall>i < length s. s ! i = QUOTE_IN \<longrightarrow> (c # s) ! i = ESCAPE)"
proof -
  have "no_bare_quote (c # s) \<longleftrightarrow> \<not> bare_quote (c # s) 0 \<and> (\<forall>i < length s. \<not> bare_quote (c # s) (Suc i))"
    unfolding no_bare_quote_def by (simp add: All_less_Suc2)
  then show ?thesis by (auto simp: bare_quote_def)
qed

text \<open>The copy succeeds exactly on texts without NUL where each quote follows an escape.\<close>

lemma copy_identifier_some:
  "copy_identifier f (Some b) s =
    Some (if NUL \<notin> set s \<and> (\<forall>i < length s. s ! i = QUOTE_IN \<longrightarrow> (b # s) ! i = ESCAPE) then Some (map f s) else None)"
proof (induction s arbitrary: b)
  case (Cons c s)
  then show ?case by (simp add: All_less_Suc2) auto
qed simp

lemma copy_identifier_body:
  "copy_identifier f (Some QUOTE_IN) s = Some (if NUL \<notin> set s \<and> no_bare_quote s then Some (map f s) else None)"
proof (cases s)
  case (Cons c t)
  then show ?thesis by (auto simp: copy_identifier_some no_bare_quote_Cons All_less_Suc2 simp del: copy_identifier.simps)
qed (simp add: no_bare_quote_def)

lemma copy_identifier_plain:
  assumes "s \<noteq> []" "hd s \<noteq> QUOTE_IN"
  shows "copy_identifier f None s = Some (if NUL \<notin> set s \<and> no_bare_quote s then Some (map f s) else None)"
  using assms by (cases s) (auto simp: copy_identifier_some no_bare_quote_Cons)

lemma NUL_not_blank: "\<not> isspace NUL"
  by code_simp

lemma trimmed_snoc: "trimmed (s @ [c]) = (if isspace c then trimmed s else s @ [c])"
  by (simp add: trimmed_def)

lemma trimmed_empty: "trimmed [] = []"
  by (simp add: trimmed_def)

text \<open>The number of characters left of a text, given as its result on the text without the last character.\<close>

definition blanks_off :: "string \<Rightarrow> nat option" where
  "blanks_off s = (if NUL \<in> set (drop (length (trimmed s)) s) \<or> (trimmed s \<noteq> [] \<and> last (trimmed s) = NUL)
     then None else Some (length (trimmed s)))"

lemma trimmed_length: "length (trimmed s) \<le> length s"
  using length_dropWhile_le [of isspace "rev s"] by (simp add: trimmed_def)

lemma blanks_off_snoc:
  "blanks_off (s @ [c]) = (if c = NUL then None else if isspace c then blanks_off s else Some (length s + 1))"
  using trimmed_length [of s] by (simp add: blanks_off_def trimmed_snoc NUL_not_blank)

lemma without_blanks_take: "n \<le> length s \<Longrightarrow> without_blanks s n = blanks_off (take n s)"
proof (induction n)
  case (Suc n)
  have "take (Suc n) s = take n s @ [s ! n]" using Suc.prems by (simp add: take_Suc_conv_app_nth)
  moreover have "without_blanks s n = blanks_off (take n s)" "length (take n s) + 1 = Suc n" using Suc by simp_all
  ultimately show ?case by (simp only: without_blanks.simps blanks_off_snoc)
qed (simp add: blanks_off_def trimmed_empty)

lemma trimmed_split:
  obtains b where "s = trimmed s @ b" "\<forall>c \<in> set b. isspace c"
proof
  have "rev s = takeWhile isspace (rev s) @ dropWhile isspace (rev s)" by simp
  then have "rev (rev s) = rev (takeWhile isspace (rev s) @ dropWhile isspace (rev s))" by (rule arg_cong)
  then show "s = trimmed s @ rev (takeWhile isspace (rev s))" by (simp add: trimmed_def del: takeWhile_dropWhile_id)
qed (auto dest: set_takeWhileD)

lemma trimmed_last: "trimmed s \<noteq> [] \<Longrightarrow> \<not> isspace (last (trimmed s))"
  by (simp add: trimmed_def last_rev hd_dropWhile)

lemma NUL_trimmed: "NUL \<in> set (trimmed s) \<longleftrightarrow> NUL \<in> set s"
proof -
  obtain b where b: "s = trimmed s @ b" "\<forall>c \<in> set b. isspace c" by (rule trimmed_split)
  then have "NUL \<notin> set b" using NUL_not_blank by blast
  then show ?thesis using arg_cong [OF b(1), of set] by auto
qed

lemma without_blanks_all:
  "without_blanks s (length s) = (if trimmed s \<noteq> [] \<and> last (trimmed s) = NUL then None else Some (length (trimmed s)))"
proof -
  obtain b where b: "s = trimmed s @ b" "\<forall>c \<in> set b. isspace c" by (rule trimmed_split)
  have "drop (length (trimmed s)) s = b" using arg_cong [OF b(1), of "drop (length (trimmed s))"] by simp
  then have "NUL \<notin> set (drop (length (trimmed s)) s)" using b(2) NUL_not_blank by auto
  then show ?thesis using without_blanks_take [of "length s" s] by (simp add: blanks_off_def)
qed

lemma leading_quote_first:
  "leading_quote s = (if dropWhile isspace s \<noteq> [] \<and> hd (dropWhile isspace s) = QUOTE_IN then Some (tl (dropWhile isspace s)) else None)"
  by (induction s) (auto simp: NUL_not_blank)

lemma quote_not_blank: "\<not> isspace QUOTE_IN"
  by code_simp

text \<open>The part with the quotes: \<open>v\<close> is the text before the last quote.\<close>

lemma quoted_identifier:
  assumes "w = dropWhile isspace v" "u = dropWhile isspace (v @ [QUOTE_IN])"
  shows "length u \<ge> 2 \<longleftrightarrow> w \<noteq> []" "w \<noteq> [] \<Longrightarrow> hd u = hd w" "w \<noteq> [] \<Longrightarrow> butlast (tl u) = tl w"
    "w \<noteq> [] \<Longrightarrow> hd w = QUOTE_IN \<Longrightarrow> NUL \<in> set (v @ [QUOTE_IN]) \<longleftrightarrow> NUL \<in> set (tl w)"
proof -
  have u: "u = w @ [QUOTE_IN]" using assms quote_not_blank by (simp add: dropWhile_append3 dropWhile_append)
  show "length u \<ge> 2 \<longleftrightarrow> w \<noteq> []" "w \<noteq> [] \<Longrightarrow> hd u = hd w" "w \<noteq> [] \<Longrightarrow> butlast (tl u) = tl w"
    by (cases w; simp add: u)+
  assume w: "w \<noteq> []" "hd w = QUOTE_IN"
  have "set (takeWhile isspace v @ w) = set v" unfolding assms(1) takeWhile_dropWhile_id ..
  then have v: "set v = set (takeWhile isspace v) \<union> set w" by simp
  have "set w = insert QUOTE_IN (set (tl w))" using w by (cases w) simp_all
  moreover have "NUL \<notin> set (takeWhile isspace v)" using NUL_not_blank by (auto dest: set_takeWhileD)
  ultimately show "NUL \<in> set (v @ [QUOTE_IN]) \<longleftrightarrow> NUL \<in> set (tl w)" by (simp add: v)
qed

lemma ProcessIdentifierString_quoted:
  assumes "trimmed s = v @ [QUOTE_IN]" "bare_quote (trimmed s) (length v)"
  shows "ProcessIdentifierString s = Some (map_option in_quotes (odbc_identifier s))"
proof -
  let ?w = "dropWhile isspace v"
  note q = quoted_identifier [OF refl refl, of v]
  obtain b where b: "s = trimmed s @ b" by (rule trimmed_split)
  have s: "s = v @ QUOTE_IN # b" using b assms(1) by simp
  have n: "without_blanks s (length s) = Some (length v + 1)" using without_blanks_all [of s] assms(1) by simp
  have bare: "bare_quote (v @ [QUOTE_IN]) (length v)" using assms by simp
  have c: "s ! length v = QUOTE_IN" "length v + 1 = 1 \<or> s ! (length v + 1 - 2) \<noteq> ESCAPE" "take (length v) s = v"
    using bare by (auto simp: s bare_quote_def nth_append split: if_splits)
  have P: "ProcessIdentifierString s =
      (case leading_quote v of
         None \<Rightarrow> Some None
       | Some body \<Rightarrow> map_option (map_option in_quotes) (copy_identifier (\<lambda>c. c) (Some QUOTE_IN) body))"
    using c by (simp add: ProcessIdentifierString_def n)
  have I: "odbc_identifier s =
      (if NUL \<notin> set (trimmed s) \<and> ?w \<noteq> [] \<and> hd ?w = QUOTE_IN \<and> no_bare_quote (tl ?w) then Some (tl ?w) else None)"
    using assms(2) q(1-3) unfolding odbc_identifier_def Let_def NUL_trimmed [of s, symmetric] assms(1)
    by (cases ?w) (simp_all del: dropWhile_append3)
  show ?thesis using q(4) unfolding P I assms(1) leading_quote_first by (auto simp: copy_identifier_body)
qed

lemma ProcessIdentifierString_plain:
  assumes "trimmed s \<noteq> []" "\<not> bare_quote (trimmed s) (length (trimmed s) - 1)"
  shows "ProcessIdentifierString s = Some (map_option in_quotes (odbc_identifier s))"
proof (cases "last (trimmed s) = NUL")
  case True
  then have "NUL \<in> set s" using last_in_set [OF assms(1)] by (simp add: NUL_trimmed [of s, symmetric])
  then show ?thesis using True assms(1) by (simp add: ProcessIdentifierString_def without_blanks_all odbc_identifier_def)
next
  case False
  let ?t = "trimmed s" and ?n = "length (trimmed s)"
  obtain b where b: "s = ?t @ b" by (rule trimmed_split)
  have t: "take ?n s = ?t" using arg_cong [OF b, of "take ?n"] by simp
  have at: "i < ?n \<Longrightarrow> s ! i = ?t ! i" for i using arg_cong [OF t, of "\<lambda>x. x ! i"] by simp
  have "\<not> (s ! (?n - 1) = QUOTE_IN \<and> (?n = 1 \<or> s ! (?n - 2) \<noteq> ESCAPE))"
    using assms at [of "?n - 1"] at [of "?n - 2"] by (cases ?n) (auto simp: bare_quote_def diff_Suc split: nat.splits)
  then have P: "ProcessIdentifierString s =
      (if hd ?t = QUOTE_IN then Some None else map_option (map_option in_quotes) (copy_identifier toupper None ?t))"
    using False assms(1) at [of 0] by (auto simp: ProcessIdentifierString_def without_blanks_all t hd_conv_nth)
  have "hd ?t = QUOTE_IN \<Longrightarrow> \<not> no_bare_quote ?t" using assms(1) by (cases ?t) (simp_all add: no_bare_quote_Cons)
  then show ?thesis using assms copy_identifier_plain [OF assms(1), of toupper]
    by (auto simp: P odbc_identifier_def Let_def NUL_trimmed [of s, symmetric])
qed

lemma ProcessIdentifierString_result: "ProcessIdentifierString s = Some (map_option in_quotes (odbc_identifier s))"
proof (cases "trimmed s = []")
  case True
  have "NUL \<notin> set s" using True NUL_trimmed [of s] by simp
  then show ?thesis using True by (simp add: ProcessIdentifierString_def without_blanks_all odbc_identifier_def)
next
  case False
  show ?thesis
  proof (cases "bare_quote (trimmed s) (length (trimmed s) - 1)")
    case True
    then have "last (trimmed s) = QUOTE_IN" using False by (simp add: bare_quote_def last_conv_nth)
    then have "trimmed s = butlast (trimmed s) @ [QUOTE_IN]" using append_butlast_last_id [OF False] by simp
    then show ?thesis by (rule ProcessIdentifierString_quoted) (use True in simp)
  qed (rule ProcessIdentifierString_plain [OF False])
qed

lemma odbc_identifier_length: "odbc_identifier s = Some t \<Longrightarrow> length t \<le> length s"
proof -
  assume s: "odbc_identifier s = Some t"
  have "length (dropWhile isspace (trimmed s)) \<le> length s" using length_dropWhile_le trimmed_length order_trans by blast
  then show ?thesis using s trimmed_length [of s] by (auto simp: odbc_identifier_def Let_def split: if_splits)
qed

text \<open>
  C10. Arguments that are identifiers.  For every input the routine returns, without reading outside of it: the literal is the
  identifier the rule of the specification gives, between quotes, and the call fails exactly where the rule has
  none; the literal and its NUL fit into the buffer that the callers allocate.
\<close>

theorem ProcessIdentifierString_follows_odbc:
  "ProcessIdentifierString s = Some (map_option in_quotes (odbc_identifier s)) \<and>
   (\<forall>lit. ProcessIdentifierString s = Some (Some lit) \<longrightarrow> length lit + 1 \<le> length s + IDENTIFIER_BUFFER_OVERHEAD)"
  using ProcessIdentifierString_result [of s] odbc_identifier_length [of s]
  by (auto simp: IDENTIFIER_BUFFER_OVERHEAD_def in_quotes_def)

theorem ProcessIdentifierString_follows_odbc_witness:
  "ProcessIdentifierString ''item '' = Some (Some (in_quotes ''ITEM'')) \<and> length (in_quotes ''ITEM'') + 1 \<le> 8"
proof -
  have "odbc_identifier ''item '' = Some ''ITEM''" by code_simp
  then show ?thesis
    using ProcessIdentifierString_follows_odbc [of "''item ''"] by (simp add: IDENTIFIER_BUFFER_OVERHEAD_def)
qed

section \<open>The literal in the query\<close>

text \<open>How the server reads a literal after its first quote: what it stands for and the text behind it.\<close>

fun literal_rest :: "string \<Rightarrow> (string \<times> string) option" where
  "literal_rest [] = None"
| "literal_rest (c # s) =
    (if c = ESCAPE then (case s of [] \<Rightarrow> None | d # s \<Rightarrow> map_option (\<lambda>(t, r). (d # t, r)) (literal_rest s))
     else if c \<noteq> QUOTE_OUT then map_option (\<lambda>(t, r). (c # t, r)) (literal_rest s)
     else (case s of
             [] \<Rightarrow> Some ([], [])
           | d # s' \<Rightarrow> if d = QUOTE_OUT then map_option (\<lambda>(t, r). (d # t, r)) (literal_rest s') else Some ([], s)))"

definition sql_literal :: "string \<Rightarrow> (string \<times> string) option" where
  "sql_literal s = (case s of [] \<Rightarrow> None | c # t \<Rightarrow> if c = QUOTE_OUT then literal_rest t else None)"

definition plain_name :: "string \<Rightarrow> bool" where
  "plain_name s \<longleftrightarrow> set s \<inter> {NUL, QUOTE_IN, QUOTE_OUT, ESCAPE} = {}"

lemma literal_rest_plain: "plain_name a \<Longrightarrow> literal_rest (a @ s) = map_option (\<lambda>(t, r). (a @ t, r)) (literal_rest s)"
proof (induction a)
  case (Cons c a)
  then have "literal_rest (a @ s) = map_option (\<lambda>(t, r). (a @ t, r)) (literal_rest s)" "c \<noteq> ESCAPE" "c \<noteq> QUOTE_OUT"
    by (auto simp: plain_name_def)
  then show ?case by (simp add: option.map_comp comp_def case_prod_unfold)
qed (simp add: case_prod_unfold option.map_ident)

lemma quoted_argument:
  assumes "NUL \<notin> set s" "QUOTE_IN \<notin> set s" "ESCAPE \<notin> set s"
  shows "odbc_identifier (QUOTE_IN # s @ [QUOTE_IN]) = Some s"
proof -
  have t: "trimmed (QUOTE_IN # s @ [QUOTE_IN]) = QUOTE_IN # s @ [QUOTE_IN]"
    using trimmed_snoc [of "QUOTE_IN # s" QUOTE_IN] quote_not_blank by simp
  have "no_bare_quote s" using assms(2) by (auto simp: no_bare_quote_def bare_quote_def in_set_conv_nth)
  moreover have "bare_quote (QUOTE_IN # s @ [QUOTE_IN]) (length s + 1)"
    using assms(3) by (cases s rule: rev_cases) (auto simp: bare_quote_def nth_append nth_Cons')
  ultimately show ?thesis using assms(1) quote_not_blank unfolding odbc_identifier_def Let_def t by simp
qed

lemma identifier_literals:
  assumes "plain_name a" "plain_name b" "b \<noteq> []"
  shows "\<exists>lit. ProcessIdentifierString ([QUOTE_IN] @ a @ [QUOTE_IN]) = Some (Some lit) \<and> sql_literal lit = Some (a, [])"
    and "\<exists>lit. ProcessIdentifierString ([QUOTE_IN] @ a @ [QUOTE_OUT] @ b @ [QUOTE_IN]) = Some (Some lit)
      \<and> sql_literal lit = Some (a, b @ [QUOTE_OUT])"
proof -
  have "odbc_identifier (QUOTE_IN # a @ [QUOTE_IN]) = Some a"
    by (rule quoted_argument) (use assms(1) in \<open>auto simp: plain_name_def\<close>)
  then show "\<exists>lit. ProcessIdentifierString ([QUOTE_IN] @ a @ [QUOTE_IN]) = Some (Some lit) \<and> sql_literal lit = Some (a, [])"
    using assms(1) by (simp add: ProcessIdentifierString_result in_quotes_def sql_literal_def literal_rest_plain)
  have "odbc_identifier (QUOTE_IN # (a @ [QUOTE_OUT] @ b) @ [QUOTE_IN]) = Some (a @ [QUOTE_OUT] @ b)"
    by (rule quoted_argument) (use assms(1,2) in \<open>auto simp: plain_name_def\<close>)
  moreover obtain d b' where "b = d # b'" "d \<noteq> QUOTE_OUT" using assms(2,3) by (cases b) (auto simp: plain_name_def)
  ultimately show "\<exists>lit. ProcessIdentifierString ([QUOTE_IN] @ a @ [QUOTE_OUT] @ b @ [QUOTE_IN]) = Some (Some lit)
      \<and> sql_literal lit = Some (a, b @ [QUOTE_OUT])"
    using assms(1) by (simp add: ProcessIdentifierString_result in_quotes_def sql_literal_def literal_rest_plain)
qed



section \<open>Lengths\<close>

text \<open>
  \<open>SafeStrlen\<close> and \<open>SqlwcsLen\<close> are one loop, over bytes and over wide characters.  The list is the memory that
  may be read; the counter is a \<open>SQLINTEGER\<close>, the rest of the buffer a \<open>SQLLEN\<close> that is decremented before the test.
\<close>

fun units_len :: "'a \<Rightarrow> 'a list \<Rightarrow> int \<Rightarrow> int \<Rightarrow> int option" where
  "units_len zero s buff_length result =
    (let n = s64 (buff_length - 1) in
     if n = -1 then Some result
     else case s of [] \<Rightarrow> None | c # s' \<Rightarrow> if c = zero then Some result else units_len zero s' n (s32 (result + 1)))"

declare units_len.simps [simp del]

definition SafeStrlen :: "string option \<Rightarrow> int \<Rightarrow> int option" where
  "SafeStrlen str buff_length = (case str of None \<Rightarrow> Some 0 | Some s \<Rightarrow> units_len NUL s buff_length 0)"

definition SqlwcsLen :: "int list option \<Rightarrow> int \<Rightarrow> int option" where
  "SqlwcsLen str buff_length = (case str of None \<Rightarrow> Some 0 | Some s \<Rightarrow> units_len 0 s buff_length 0)"

definition ADJUST_LENGTH :: "string option \<Rightarrow> int \<Rightarrow> int option" where
  "ADJUST_LENGTH ptr len = (if ptr \<noteq> None then SafeStrlen ptr len else Some 0)"

text \<open>Within a buffer the length is that of the string, at most the size; nothing is read behind it.\<close>

lemma units_len_buffer:
  "n \<le> length s \<Longrightarrow> r + int n < 2 ^ 31 \<Longrightarrow> 0 \<le> r \<Longrightarrow>
    units_len z s (int n) r = Some (r + int (length (takeWhile (\<lambda>c. c \<noteq> z) (take n s))))"
proof (induction n arbitrary: s r)
  case 0
  then show ?case by (subst units_len.simps) (simp add: Let_def s64_id)
next
  case (Suc n)
  obtain c t where s: "s = c # t" using Suc.prems(1) by (cases s) auto
  have "s64 (int (Suc n) - 1) = int n" "s32 (r + 1) = r + 1" using Suc.prems by (simp_all add: s64_id s32_id)
  then show ?case using Suc.IH [of t "r + 1"] Suc.prems by (subst units_len.simps) (simp add: s Let_def)
qed

text \<open>Without a size the string ends at its NUL.\<close>

lemma units_len_terminated:
  "z \<in> set s \<Longrightarrow> n < 0 \<Longrightarrow> - (2 ^ 63) < n - int (length s) \<Longrightarrow> r + int (length s) < 2 ^ 31 \<Longrightarrow> 0 \<le> r \<Longrightarrow>
    units_len z s n r = Some (r + int (length (takeWhile (\<lambda>c. c \<noteq> z) s)))"
proof (induction s arbitrary: n r)
  case (Cons c s)
  then have "s64 (n - 1) = n - 1" "s32 (r + 1) = r + 1" by (simp_all add: s64_id s32_id)
  then show ?case using Cons.IH [of "n - 1" "r + 1"] Cons.prems by (subst units_len.simps) (auto simp: Let_def)
qed simp

text \<open>
  Characters of several bytes.  The client library knows how long a character is from its first byte
  (\<open>mb_charlen\<close>, an unsigned argument); a null pointer stands for one byte per character.
\<close>

record MARIADB_CHARSET_INFO =
  mb_charlen :: "(int \<Rightarrow> nat) option"
  char_maxlen :: nat

text \<open>A loop that need not end runs on fuel.\<close>

datatype 'a outcome = Fault | Running | Returns 'a

text \<open>The characters of the octet length; \<open>char\<close> is signed, so that a byte is extended with its sign.\<close>

fun octet_loop :: "(int \<Rightarrow> nat) \<Rightarrow> nat \<Rightarrow> string \<Rightarrow> nat \<Rightarrow> int \<Rightarrow> int \<Rightarrow> (int \<times> int) outcome" where
  "octet_loop f 0 s pos inChars result = Running"
| "octet_loop f (Suc fuel) s pos inChars result =
    (if inChars = 0 then Returns (result, inChars)
     else if pos \<ge> length s then Fault
     else if inChars < 0 \<and> s ! pos = NUL then Returns (result, inChars)
     else let n = f (u32 (s8 (of_char (s ! pos)))) in octet_loop f fuel s (pos + n) (s64 (inChars - 1)) (s64 (result + int n)))"

definition MbstrOctetLen :: "nat \<Rightarrow> MARIADB_CHARSET_INFO \<Rightarrow> string option \<Rightarrow> int \<Rightarrow> (int \<times> int) outcome" where
  "MbstrOctetLen fuel cs str CharLen =
    (let count = (\<lambda>(result, inChars). (result, if CharLen < 0 then s64 (CharLen - inChars) else CharLen)) in
     case str of
       None \<Rightarrow> Returns (count (0, CharLen))
     | Some s \<Rightarrow>
         (case mb_charlen cs of
            None \<Rightarrow>
              if CharLen < 0 then (if NUL \<in> set s then Returns (int (length (c_str s)), int (length (c_str s))) else Fault)
              else Returns (CharLen, CharLen)
          | Some f \<Rightarrow>
              (case octet_loop f fuel s 0 CharLen 0 of
                 Fault \<Rightarrow> Fault
               | Running \<Rightarrow> Running
               | Returns r \<Rightarrow> Returns (count r))))"

text \<open>The number of characters.  Bytes that are zero are skipped one by one.\<close>

fun skip_zeros :: "string \<Rightarrow> nat \<Rightarrow> nat \<Rightarrow> (nat \<times> nat) option" where
  "skip_zeros s pos 0 = Some (pos, 0)"
| "skip_zeros s pos (Suc n) =
    (if pos \<ge> length s then None else if s ! pos = NUL then skip_zeros s (pos + 1) n else Some (pos, Suc n))"

lemma skip_zeros_sum: "skip_zeros s pos n = Some (p, m) \<Longrightarrow> p + m = pos + n"
  by (induction n arbitrary: pos) (auto split: if_splits)

definition char_bytes :: "(int \<Rightarrow> nat) \<Rightarrow> char \<Rightarrow> nat" where
  "char_bytes f c = (let n = f (of_char c) in if n = 0 then 1 else n)"

function char_loop :: "(int \<Rightarrow> nat) \<Rightarrow> string \<Rightarrow> nat \<Rightarrow> nat \<Rightarrow> nat \<Rightarrow> nat option" where
  "char_loop f s octets pos result =
    (if pos \<ge> octets then Some result
     else if pos \<ge> length s then None
     else (case skip_zeros s pos (char_bytes f (s ! pos)) of
             None \<Rightarrow> None
           | Some (p, left) \<Rightarrow> if left = 0 then Some result else char_loop f s octets (p + left) (result + 1)))"
  by pat_completeness auto

termination char_loop
proof (relation "measure (\<lambda>(f, s, octets, pos, result). octets - pos)")
  fix f s octets pos result x p left
  assume "\<not> octets \<le> pos" "skip_zeros s pos (char_bytes f (s ! pos)) = Some x" "(p, left) = x"
  then show "((f, s, octets, p + left, result + 1), (f, s, octets, pos, result)) \<in> measure (\<lambda>(f, s, octets, pos, result). octets - pos)"
    using skip_zeros_sum [of s pos "char_bytes f (s ! pos)" p left] by (auto simp: char_bytes_def Let_def split: if_splits)
qed simp

declare char_loop.simps [simp del]

definition MbstrCharLen :: "string option \<Rightarrow> int \<Rightarrow> MARIADB_CHARSET_INFO \<Rightarrow> int option" where
  "MbstrCharLen str OctetLen cs =
    (case str of
       None \<Rightarrow> Some 0
     | Some s \<Rightarrow>
         (case mb_charlen cs of
            None \<Rightarrow> Some OctetLen
          | Some f \<Rightarrow> if char_maxlen cs = 1 then Some OctetLen else map_option int (char_loop f s (nat OctetLen) 0 0)))"

text \<open>A text of \<open>k\<close> characters, each as long as its first byte says.\<close>

inductive multibyte :: "(int \<Rightarrow> nat) \<Rightarrow> string \<Rightarrow> nat \<Rightarrow> bool" for f where
  none: "multibyte f [] 0"
| char: "multibyte f (c # w @ s) (Suc k)" if "c \<noteq> NUL" "f (of_char c) = length w + 1" "multibyte f s k"

lemma char_loop_counts:
  "multibyte f s k \<Longrightarrow> char_loop f (t @ s @ u) (length t + length s) (length t) r = Some (r + k)"
proof (induction arbitrary: t r rule: multibyte.induct)
  case none
  then show ?case by (subst char_loop.simps) simp
next
  case (char c w s k)
  have at: "(t @ (c # w @ s) @ u) ! length t = c" by (simp add: nth_append)
  have z: "skip_zeros (t @ (c # w @ s) @ u) (length t) (char_bytes f c) = Some (length t, length w + 1)"
    using char.hyps(1,2) at by (simp add: char_bytes_def Let_def)
  have "char_loop f (t @ (c # w @ s) @ u) (length t + length (c # w @ s)) (length t) r =
      char_loop f ((t @ c # w) @ s @ u) (length (t @ c # w) + length s) (length (t @ c # w)) (r + 1)"
    by (subst char_loop.simps) (simp add: at z [simplified] add.assoc del: skip_zeros.simps)
  then show ?case using char.IH [of "t @ c # w" "r + 1"] by simp
qed

lemma octet_loop_sums:
  assumes "multibyte f s k" "\<forall>c \<in> set s. f (u32 (s8 (of_char c))) = f (of_char c)" "k < fuel" "n < 0"
    and "- (2 ^ 62) < n - int k" "0 \<le> r" "r + int (length s) < 2 ^ 62"
  shows "octet_loop f fuel (t @ s @ [NUL]) (length t) n r = Returns (r + int (length s), n - int k)"
  using assms
proof (induction arbitrary: t r n fuel rule: multibyte.induct)
  case none
  then obtain fuel' where "fuel = Suc fuel'" by (cases fuel) auto
  then show ?case using none by (simp add: nth_append)
next
  case (char c w s k)
  obtain fuel' where fuel: "fuel = Suc fuel'" "k < fuel'" using char.prems(2) by (cases fuel) auto
  have at: "(t @ (c # w @ s) @ [NUL]) ! length t = c" by (simp add: nth_append)
  have "f (u32 (s8 (of_char c))) = length w + 1" using char.prems(1) char.hyps(2) by simp
  moreover have "s64 (n - 1) = n - 1" "s64 (r + int (length w + 1)) = r + int (length w + 1)"
    using char.prems(3-6) by (simp_all add: s64_id)
  ultimately have "octet_loop f fuel (t @ (c # w @ s) @ [NUL]) (length t) n r =
      octet_loop f fuel' ((t @ c # w) @ s @ [NUL]) (length (t @ c # w)) (n - 1) (r + int (length w + 1))"
    using char.prems(3) char.hyps(1) at by (simp add: fuel Let_def)
  then show ?case using char.IH [of fuel' "n - 1" "r + int (length w + 1)" "t @ c # w"] char.prems fuel(2)
    by simp
qed

text \<open>
  The two lengths of a text.  For a text of characters of several bytes that ends with a NUL, the loop for the length in octets
  returns after as many steps as there are characters, with the length and their number, and the
  number of characters in that many octets is the same number, provided that the client library gives
  a byte and its extension with the sign the same length.
\<close>

theorem Mbstr_lengths_agree:
  assumes "mb_charlen cs = Some f" "char_maxlen cs \<noteq> 1" "multibyte f s k" "\<forall>c \<in> set s. f (u32 (s8 (of_char c))) = f (of_char c)"
    and "int (length s) < 2 ^ 31" "k < fuel"
  shows "MbstrOctetLen fuel cs (Some (s @ [NUL])) (-3) = Returns (int (length s), int k)
    \<and> MbstrCharLen (Some (s @ [NUL])) (int (length s)) cs = Some (int k)"
proof -
  have "k \<le> length s" using assms(3) by induction auto
  then have "octet_loop f fuel (s @ [NUL]) 0 (-3) 0 = Returns (int (length s), -3 - int k)"
    using octet_loop_sums [OF assms(3,4,6), of "-3" 0 "[]"] assms(5) by simp
  moreover have "char_loop f (s @ [NUL]) (length s) 0 0 = Some k" using char_loop_counts [OF assms(3), of "[]" "[NUL]" 0] by simp
  moreover have "s64 (int k) = int k" using \<open>k \<le> length s\<close> assms(5) by (simp add: s64_id)
  ultimately show ?thesis using assms(1,2) by (simp add: MbstrOctetLen_def MbstrCharLen_def)
qed

definition sample_charset :: MARIADB_CHARSET_INFO where
  "sample_charset = \<lparr>mb_charlen = Some (\<lambda>c. if c < 128 then 1 else if c < 194 then 0 else if c < 224 then 2 else if c < 256 then 3 else 0),
     char_maxlen = 3\<rparr>"

theorem Mbstr_lengths_agree_witness:
  "MbstrOctetLen 3 sample_charset (Some (''ab'' @ [NUL])) (-3) = Returns (2, 2)
    \<and> MbstrCharLen (Some (''ab'' @ [NUL])) 2 sample_charset = Some 2"
proof -
  let ?f = "the (mb_charlen sample_charset)"
  have "multibyte ?f (CHR ''a'' # [] @ CHR ''b'' # [] @ []) (Suc (Suc 0))"
    by (intro multibyte.intros) (simp_all add: sample_charset_def)
  then have "multibyte ?f ''ab'' 2" by (simp add: numeral_2_eq_2)
  moreover have "\<forall>c \<in> set ''ab''. ?f (u32 (s8 (of_char c))) = ?f (of_char c)" by code_simp
  ultimately show ?thesis
    using Mbstr_lengths_agree [of sample_charset ?f "''ab''" 2 3] by (simp add: sample_charset_def)
qed

lemma octet_loop_stuck:
  "f (u32 (s8 (of_char c))) = 0 \<Longrightarrow> c \<noteq> NUL \<Longrightarrow> n < 0 \<Longrightarrow> - (2 ^ 63) < n - int fuel \<Longrightarrow> octet_loop f fuel (c # s) 0 n 0 = Running"
proof (induction fuel arbitrary: n)
  case (Suc fuel)
  then have "s64 (n - 1) = n - 1" by (simp add: s64_id)
  then show ?case using Suc by (simp add: s64_id)
qed simp

text \<open>
  C34. A byte that is extended with its sign is no first byte for the client library, which then gives the length 0.  On a text that
  starts with such a byte the loop for the length in octets makes no progress: it is still running after more
  than four billion billion steps, while the count of characters of the same text has returned.
\<close>

theorem MbstrOctetLen_hangs:
  assumes "mb_charlen cs = Some f" "char_maxlen cs \<noteq> 1" "f (u32 (s8 (of_char c))) = 0" "multibyte f (c # s) k" "fuel \<le> 2 ^ 62"
  shows "MbstrOctetLen fuel cs (Some (c # s @ [NUL])) (-3) = Running
    \<and> MbstrCharLen (Some (c # s @ [NUL])) (int (length (c # s))) cs = Some (int k)"
proof -
  have c: "c \<noteq> NUL" using assms(4) by cases auto
  have "int fuel \<le> 2 ^ 62" using assms(5) of_nat_mono by fastforce
  then have "octet_loop f fuel (c # s @ [NUL]) 0 (-3) 0 = Running" by (intro octet_loop_stuck) (use assms(3) c in simp_all)
  moreover have "char_loop f (c # s @ [NUL]) (length (c # s)) 0 0 = Some k"
    using char_loop_counts [OF assms(4), of "[]" "[NUL]" 0] by simp
  ultimately show ?thesis using assms(1,2) by (simp only: MbstrOctetLen_def MbstrCharLen_def nat_int option.case Let_def outcome.case option.map if_False)
qed

theorem MbstrOctetLen_hangs_witness:
  "MbstrOctetLen 4000000000000000000 sample_charset (Some [CHR 0xC3, CHR 0xA9, NUL]) (-3) = Running
    \<and> MbstrCharLen (Some [CHR 0xC3, CHR 0xA9, NUL]) 2 sample_charset = Some 1"
proof -
  let ?f = "the (mb_charlen sample_charset)"
  have "multibyte ?f (CHR 0xC3 # [CHR 0xA9] @ []) (Suc 0)" by (intro multibyte.intros) (simp_all add: sample_charset_def)
  moreover have "?f (u32 (s8 (of_char CHR 0xC3))) = 0" by code_simp
  ultimately show ?thesis
    using MbstrOctetLen_hangs [of sample_charset ?f "CHR 0xC3" "[CHR 0xA9]" 1 4000000000000000000] by (simp add: sample_charset_def)
qed

end
