(* ===== verification/Conn_Attr.thy ===== *)
theory Conn_Attr
  imports Odbc_Error Handle_List Sql_Text
begin

text \<open>
  The attributes of connections (\<open>src/ma_connection.c\<close>: \<open>MADB_DbcSetAttr\<close>, \<open>MADB_DbcGetAttr\<close>, \<open>CheckConnection\<close>).  What the client
  library answers is an argument, and the requests made to it are kept in the state.
\<close>

section \<open>Constants\<close>

abbreviation (input) SQL_ATTR_ASYNC_ENABLE :: int where "SQL_ATTR_ASYNC_ENABLE \<equiv> 4"
abbreviation (input) SQL_ATTR_ACCESS_MODE :: int where "SQL_ATTR_ACCESS_MODE \<equiv> 101"
abbreviation (input) SQL_ATTR_AUTOCOMMIT :: int where "SQL_ATTR_AUTOCOMMIT \<equiv> 102"
abbreviation (input) SQL_ATTR_LOGIN_TIMEOUT :: int where "SQL_ATTR_LOGIN_TIMEOUT \<equiv> 103"
abbreviation (input) SQL_ATTR_TRACE :: int where "SQL_ATTR_TRACE \<equiv> 104"
abbreviation (input) SQL_ATTR_TRACEFILE :: int where "SQL_ATTR_TRACEFILE \<equiv> 105"
abbreviation (input) SQL_ATTR_TRANSLATE_LIB :: int where "SQL_ATTR_TRANSLATE_LIB \<equiv> 106"
abbreviation (input) SQL_ATTR_TRANSLATE_OPTION :: int where "SQL_ATTR_TRANSLATE_OPTION \<equiv> 107"
abbreviation (input) SQL_ATTR_TXN_ISOLATION :: int where "SQL_ATTR_TXN_ISOLATION \<equiv> 108"
abbreviation (input) SQL_ATTR_CURRENT_CATALOG :: int where "SQL_ATTR_CURRENT_CATALOG \<equiv> 109"
abbreviation (input) SQL_ATTR_ODBC_CURSORS :: int where "SQL_ATTR_ODBC_CURSORS \<equiv> 110"
abbreviation (input) SQL_ATTR_QUIET_MODE :: int where "SQL_ATTR_QUIET_MODE \<equiv> 111"
abbreviation (input) SQL_ATTR_PACKET_SIZE :: int where "SQL_ATTR_PACKET_SIZE \<equiv> 112"
abbreviation (input) SQL_ATTR_CONNECTION_TIMEOUT :: int where "SQL_ATTR_CONNECTION_TIMEOUT \<equiv> 113"
abbreviation (input) SQL_ATTR_ANSI_APP :: int where "SQL_ATTR_ANSI_APP \<equiv> 115"
abbreviation (input) SQL_ATTR_ENLIST_IN_DTC :: int where "SQL_ATTR_ENLIST_IN_DTC \<equiv> 1207"
abbreviation (input) SQL_ATTR_CONNECTION_DEAD :: int where "SQL_ATTR_CONNECTION_DEAD \<equiv> 1209"
abbreviation (input) SQL_ATTR_AUTO_IPD :: int where "SQL_ATTR_AUTO_IPD \<equiv> 10001"
abbreviation (input) SQL_ATTR_METADATA_ID :: int where "SQL_ATTR_METADATA_ID \<equiv> 10014"
abbreviation (input) SQL_ATTR_ODBC_VERSION :: int where "SQL_ATTR_ODBC_VERSION \<equiv> 200"
abbreviation (input) SQL_ATTR_CONNECTION_POOLING :: int where "SQL_ATTR_CONNECTION_POOLING \<equiv> 201"
abbreviation (input) SQL_ATTR_OUTPUT_NTS :: int where "SQL_ATTR_OUTPUT_NTS \<equiv> 10001"
abbreviation (input) SQL_MODE_READ_WRITE :: int where "SQL_MODE_READ_WRITE \<equiv> 0"
abbreviation (input) SQL_ASYNC_ENABLE_OFF :: int where "SQL_ASYNC_ENABLE_OFF \<equiv> 0"
abbreviation (input) SQL_CUR_USE_ODBC :: int where "SQL_CUR_USE_ODBC \<equiv> 1"
abbreviation (input) SQL_TRANSACTION_REPEATABLE_READ :: int where "SQL_TRANSACTION_REPEATABLE_READ \<equiv> 4"
abbreviation (input) SQL_COMMIT :: int where "SQL_COMMIT \<equiv> 0"
abbreviation (input) SQL_ROLLBACK :: int where "SQL_ROLLBACK \<equiv> 1"

section \<open>State\<close>

record Client_Charset =
  cc_CodePage :: int
  cc_cs_info :: int

text \<open>What the driver asks the client library to do.\<close>

datatype request = Autocommit int | Select_db "string option" | Query string | Commit | Rollback | Ping

text \<open>
  \<open>c_mariadb\<close> tells whether the connection is open; \<open>c_requests\<close> are the requests made so far.
  A pointer the driver only passes on is a number.
\<close>

record MADB_Dbc =
  c_mariadb :: bool
  c_Error :: MADB_Error
  c_Charset :: Client_Charset
  c_ConnOrSrcCharset :: "Client_Charset option"
  c_AccessMode :: int
  c_IsAnsi :: bool
  c_AsyncEnable :: int
  c_AutoCommit :: int
  c_CatalogName :: "string option"
  c_EnlistInDtc :: int
  c_LoginTimeout :: int
  c_MetadataId :: int
  c_OdbcCursors :: int
  c_PacketSize :: int
  c_QuietMode :: int
  c_TxnIsolation :: int
  c_requests :: "request list"

text \<open>
  The client library: whether a request succeeds, what it reports of a failure (SQLSTATE, message and number),
  whether the socket is open, the session variable for the isolation, the size of a packet, and whether memory
  for a copy of a string is there.
\<close>

record client =
  cl_ok :: "request \<Rightarrow> bool"
  cl_report :: "string \<times> string \<times> int"
  cl_socket :: bool
  cl_isolation :: "string option"
  cl_packet_size :: int
  cl_memory :: bool

definition dbc_error :: "string \<Rightarrow> string option \<Rightarrow> int \<Rightarrow> MADB_Dbc \<Rightarrow> MADB_Dbc" where
  "dbc_error code msg native D = D\<lparr>c_Error := snd (MADB_SetError (c_Error D) (MADB_ERR code) msg native)\<rparr>"

definition dbc_native_error :: "client \<Rightarrow> MADB_Dbc \<Rightarrow> MADB_Dbc" where
  "dbc_native_error cl D = D\<lparr>c_Error := snd (MADB_SetNativeError (c_Error D) SQL_HANDLE_DBC (cl_report cl) (cl_report cl))\<rparr>"

definition dbc_clear :: "MADB_Dbc \<Rightarrow> MADB_Dbc" where
  "dbc_clear D = D\<lparr>c_Error := MADB_CLEAR_ERROR (c_Error D)\<rparr>"

definition send_request :: "client \<Rightarrow> request \<Rightarrow> MADB_Dbc \<Rightarrow> bool \<times> MADB_Dbc" where
  "send_request cl r D = (cl_ok cl r, D\<lparr>c_requests := c_requests D @ [r]\<rparr>)"

definition request_failed :: "client \<Rightarrow> MADB_Dbc \<Rightarrow> MADB_Dbc" where
  "request_failed cl D = dbc_error ''HY001'' (Some (fst (snd (cl_report cl)))) (snd (snd (cl_report cl))) D"

definition CheckConnection :: "client \<Rightarrow> bool \<Rightarrow> MADB_Dbc \<Rightarrow> bool \<times> MADB_Dbc" where
  "CheckConnection cl auto_reconnect D =
    (if \<not> c_mariadb D then (False, D)
     else if \<not> cl_socket cl then (if auto_reconnect then send_request cl Ping D else (False, D))
     else (True, D))"

section \<open>Setting an attribute\<close>

definition MADB_IsolationLevel :: "(int \<times> string) list" where
  "MADB_IsolationLevel = [(4, ''REPEATABLE READ''), (2, ''READ COMMITTED''), (1, ''READ UNCOMMITTED''), (8, ''SERIALIZABLE'')]"

text \<open>
  The macro \<open>MADB_CHECK_ATTRIBUTE\<close>: whether the value is refused.  The test for the refusal is the body of the \<open>if\<close> in the
  loop.
\<close>

fun MADB_CHECK_ATTRIBUTE :: "int \<Rightarrow> int list \<Rightarrow> bool \<Rightarrow> bool" where
  "MADB_CHECK_ATTRIBUTE my_attr [] ok = False"
| "MADB_CHECK_ATTRIBUTE my_attr (v # vs) ok =
    (if ok then False
     else let ok1 = (v = my_attr) in
       if ok1 then (if \<not> ok1 then True else MADB_CHECK_ATTRIBUTE my_attr vs ok1) else MADB_CHECK_ATTRIBUTE my_attr vs ok1)"

definition fixed_attr :: "bool \<Rightarrow> (MADB_Dbc \<Rightarrow> MADB_Dbc) \<Rightarrow> MADB_Dbc \<Rightarrow> MADB_Dbc" where
  "fixed_attr same keep D = keep (if same then D else dbc_error ''01S02'' None 0 D)"

definition set_autocommit :: "client \<Rightarrow> int \<Rightarrow> MADB_Dbc \<Rightarrow> MADB_Dbc" where
  "set_autocommit cl ValuePtr D =
    (if MADB_CHECK_ATTRIBUTE ValuePtr [1, 0] False then dbc_error ''HY024'' None 0 D
     else if c_mariadb D
     then
       if c_EnlistInDtc D \<noteq> 0 then dbc_error ''25000'' None 0 D
       else (case send_request cl (Autocommit (s8 ValuePtr)) D of
               (True, D1) \<Rightarrow> D1\<lparr>c_AutoCommit := u32 ValuePtr\<rparr>
             | (False, D1) \<Rightarrow> request_failed cl D1)
     else D\<lparr>c_AutoCommit := u32 ValuePtr\<rparr>)"

text \<open>\<open>text\<close> is the memory the value points to, \<open>wide\<close> the string the conversion from wide characters gives.\<close>

definition set_catalog :: "client \<Rightarrow> string option \<Rightarrow> string option \<Rightarrow> int \<Rightarrow> bool \<Rightarrow> MADB_Dbc \<Rightarrow> MADB_Dbc option" where
  "set_catalog cl str wide StringLength isWChar D =
    (case (if isWChar then Some wide
           else case (ADJUST_LENGTH str StringLength, str) of
                  (Some n, Some s) \<Rightarrow> Some (if cl_memory cl then Some (take (nat n) s) else None)
                | _ \<Rightarrow> None) of
       None \<Rightarrow> None
     | Some name \<Rightarrow>
         let D1 = D\<lparr>c_CatalogName := name\<rparr> in
         if c_mariadb D1
         then (case send_request cl (Select_db name) D1 of
                 (True, D2) \<Rightarrow> Some D2
               | (False, D2) \<Rightarrow> Some (request_failed cl D2))
         else Some D1)"

definition set_isolation :: "client \<Rightarrow> int \<Rightarrow> MADB_Dbc \<Rightarrow> MADB_Dbc" where
  "set_isolation cl ValuePtr D =
    (if c_mariadb D
     then
       (case map_of MADB_IsolationLevel (s64 ValuePtr) of
          None \<Rightarrow> dbc_error ''HY024'' None 0 D
        | Some name \<Rightarrow>
            (case send_request cl (Query (''SET SESSION TRANSACTION ISOLATION LEVEL '' @ name)) D of
               (True, D1) \<Rightarrow> D1\<lparr>c_TxnIsolation := s32 ValuePtr\<rparr>
             | (False, D1) \<Rightarrow> request_failed cl D1))
     else D\<lparr>c_TxnIsolation := s32 ValuePtr\<rparr>)"

definition MADB_DbcSetAttr ::
  "client \<Rightarrow> Client_Charset \<Rightarrow> string option \<Rightarrow> string option \<Rightarrow> int \<Rightarrow> int \<Rightarrow> int \<Rightarrow> bool \<Rightarrow> MADB_Dbc \<Rightarrow> (int \<times> MADB_Dbc) option" where
  "MADB_DbcSetAttr cl SourceAnsiCs str wide Attribute ValuePtr StringLength isWChar Dbc =
    (let D = dbc_clear Dbc in
     map_option (\<lambda>D1. (ReturnValue (c_Error D1), D1))
      (if Attribute = SQL_ATTR_ACCESS_MODE
       then Some (fixed_attr (ValuePtr = SQL_MODE_READ_WRITE) (c_AccessMode_update (\<lambda>_. SQL_MODE_READ_WRITE)) D)
       else if Attribute = SQL_ATTR_ANSI_APP
       then Some (if ValuePtr \<noteq> 0
                  then D\<lparr>c_IsAnsi := True, c_ConnOrSrcCharset := Some SourceAnsiCs, c_Charset := SourceAnsiCs\<rparr>
                  else D\<lparr>c_IsAnsi := False\<rparr>)
       else if Attribute = SQL_ATTR_ASYNC_ENABLE
       then Some (fixed_attr (ValuePtr = SQL_ASYNC_ENABLE_OFF) (c_AsyncEnable_update (\<lambda>_. SQL_ASYNC_ENABLE_OFF)) D)
       else if Attribute = SQL_ATTR_AUTO_IPD then Some (dbc_error ''HY092'' None 0 D)
       else if Attribute = SQL_ATTR_AUTOCOMMIT then Some (set_autocommit cl ValuePtr D)
       else if Attribute = SQL_ATTR_CONNECTION_DEAD then Some (dbc_error ''HY092'' None 0 D)
       else if Attribute = SQL_ATTR_CURRENT_CATALOG then set_catalog cl str wide StringLength isWChar D
       else if Attribute = SQL_ATTR_LOGIN_TIMEOUT then Some (D\<lparr>c_LoginTimeout := u32 ValuePtr\<rparr>)
       else if Attribute = SQL_ATTR_METADATA_ID then Some (D\<lparr>c_MetadataId := u32 ValuePtr\<rparr>)
       else if Attribute = SQL_ATTR_ODBC_CURSORS
       then Some (if MADB_CHECK_ATTRIBUTE ValuePtr [0, SQL_CUR_USE_ODBC, 2] False then dbc_error ''HY024'' None 0 D
                  else fixed_attr (ValuePtr = SQL_CUR_USE_ODBC) (c_OdbcCursors_update (\<lambda>_. SQL_CUR_USE_ODBC)) D)
       else if Attribute = SQL_ATTR_ENLIST_IN_DTC then Some (dbc_error ''HYC00'' None 0 D)
       else if Attribute = SQL_ATTR_PACKET_SIZE
       then Some (if c_mariadb D then dbc_error ''HY001'' None 0 D else D\<lparr>c_PacketSize := u32 ValuePtr\<rparr>)
       else if Attribute = SQL_ATTR_QUIET_MODE then Some (D\<lparr>c_QuietMode := ValuePtr\<rparr>)
       else if Attribute = SQL_ATTR_TXN_ISOLATION then Some (set_isolation cl ValuePtr D)
       else Some D))"

section \<open>Reading an attribute\<close>

definition get_isolation :: "client \<Rightarrow> MADB_Dbc \<Rightarrow> int \<times> MADB_Dbc" where
  "get_isolation cl D =
    (if c_TxnIsolation D \<noteq> 0 then (u64 (c_TxnIsolation D), D)
     else if \<not> c_mariadb D then (SQL_TRANSACTION_REPEATABLE_READ, D)
     else
       (case send_request cl (Query (''SELECT VARIABLE_VALUE FROM INFORMATION_SCHEMA.SESSION_VARIABLES WHERE VARIABLE_NAME=''
                @ [CHR 39] @ ''TX_ISOLATION'' @ [CHR 39])) D of
          (False, D1) \<Rightarrow> (SQL_TRANSACTION_REPEATABLE_READ, dbc_native_error cl D1)
        | (True, D1) \<Rightarrow>
            (case cl_isolation cl of
               None \<Rightarrow> (SQL_TRANSACTION_REPEATABLE_READ, D1)
             | Some row \<Rightarrow>
                 (case map_of (map (\<lambda>(level, name). (name, level)) MADB_IsolationLevel) row of
                    None \<Rightarrow> (SQL_TRANSACTION_REPEATABLE_READ, D1)
                  | Some level \<Rightarrow> (level, D1)))))"

definition connection_dead :: "client \<Rightarrow> MADB_Dbc \<Rightarrow> int \<times> MADB_Dbc" where
  "connection_dead cl D =
    (case send_request cl Ping D of
       (True, D1) \<Rightarrow> (0, D1)
     | (False, D1) \<Rightarrow> (if snd (snd (cl_report cl)) = 2006 \<or> snd (snd (cl_report cl)) = 2013 then 1 else 0, D1))"

text \<open>
  The result is the return code, what is stored at \<open>ValuePtr\<close>, if anything, and the connection.  The current catalog is asked
  for with a statement; that branch is the argument \<open>catalog\<close>.  Two branches of the switch do not do what their names say: the one of
  \<open>SQL_ATTR_METADATA_ID\<close> continues with the next one, the one of \<open>SQL_ATTR_QUIET_MODE\<close> stores the pointer.
\<close>

definition MADB_DbcGetAttr ::
  "client \<Rightarrow> (MADB_Dbc \<Rightarrow> int \<times> MADB_Dbc) \<Rightarrow> int \<Rightarrow> int \<Rightarrow> int \<Rightarrow> int \<Rightarrow> MADB_Dbc \<Rightarrow> int \<times> int option \<times> MADB_Dbc" where
  "MADB_DbcGetAttr cl catalog Attribute ValuePtr BufferLength StringLengthPtr Dbc =
    (let D = dbc_clear Dbc;
         finish = (\<lambda>(v, D1). (ReturnValue (c_Error D1), v, D1));
         gives = (\<lambda>v. finish (Some v, D));
         found = (\<lambda>(v, D1). finish (Some v, D1));
         nothing = finish (None, D)
     in
     if ValuePtr = 0 \<and> Attribute \<noteq> SQL_ATTR_CURRENT_CATALOG then (SQL_SUCCESS, None, D)
     else if Attribute = SQL_ATTR_CURRENT_CATALOG \<and> StringLengthPtr = 0 \<and> (ValuePtr = 0 \<or> BufferLength = 0)
     then finish (None, dbc_error ''01004'' None 0 D)
     else if Attribute = SQL_ATTR_ACCESS_MODE then gives SQL_MODE_READ_WRITE
     else if Attribute = SQL_ATTR_ASYNC_ENABLE then gives SQL_ASYNC_ENABLE_OFF
     else if Attribute = SQL_ATTR_AUTO_IPD then gives 0
     else if Attribute = SQL_ATTR_AUTOCOMMIT then gives (c_AutoCommit D)
     else if Attribute = SQL_ATTR_CONNECTION_DEAD then found (connection_dead cl D)
     else if Attribute = SQL_ATTR_CURRENT_CATALOG then (case catalog D of (ret, D1) \<Rightarrow> (ret, None, D1))
     else if Attribute = SQL_ATTR_LOGIN_TIMEOUT then gives (c_LoginTimeout D)
     else if Attribute = SQL_ATTR_CONNECTION_TIMEOUT then gives 0
     else if Attribute = SQL_ATTR_METADATA_ID then gives SQL_CUR_USE_ODBC
     else if Attribute = SQL_ATTR_ODBC_CURSORS then gives SQL_CUR_USE_ODBC
     else if Attribute = SQL_ATTR_ENLIST_IN_DTC then finish (None, dbc_error ''HYC00'' None 0 D)
     else if Attribute = SQL_ATTR_PACKET_SIZE then gives (s32 (cl_packet_size cl))
     else if Attribute = SQL_ATTR_QUIET_MODE then finish (None, D\<lparr>c_QuietMode := ValuePtr\<rparr>)
     else if Attribute = SQL_ATTR_TRACE \<or> Attribute = SQL_ATTR_TRACEFILE then nothing
     else if Attribute = SQL_ATTR_ANSI_APP then gives SQL_SUCCESS
     else if Attribute = SQL_ATTR_TRANSLATE_LIB \<or> Attribute = SQL_ATTR_TRANSLATE_OPTION then nothing
     else if Attribute = SQL_ATTR_TXN_ISOLATION then found (get_isolation cl D)
     else finish (None, dbc_error ''HYC00'' None 0 D))"

section \<open>What a set attribute reads as\<close>

definition readable_attr :: "int \<Rightarrow> int \<Rightarrow> bool" where
  "readable_attr a v \<longleftrightarrow> a \<in> {SQL_ATTR_ACCESS_MODE, SQL_ATTR_ASYNC_ENABLE, SQL_ATTR_AUTOCOMMIT, SQL_ATTR_LOGIN_TIMEOUT,
     SQL_ATTR_METADATA_ID, SQL_ATTR_ODBC_CURSORS} \<or> a = SQL_ATTR_TXN_ISOLATION \<and> s32 v \<noteq> 0"

definition attr_reads :: "int \<Rightarrow> int \<Rightarrow> int" where
  "attr_reads a v =
    (if a = SQL_ATTR_ACCESS_MODE \<or> a = SQL_ATTR_ASYNC_ENABLE then 0
     else if a = SQL_ATTR_METADATA_ID \<or> a = SQL_ATTR_ODBC_CURSORS then SQL_CUR_USE_ODBC
     else if a = SQL_ATTR_TXN_ISOLATION then u64 (s32 v)
     else u32 v)"

lemma check_never_refuses: "\<not> MADB_CHECK_ATTRIBUTE v vs ok"
  by (induction vs arbitrary: ok) (simp_all add: Let_def)

lemma dbc_clear_return: "ReturnValue (c_Error (dbc_clear D)) = 0"
  by (simp add: dbc_clear_def MADB_CLEAR_ERROR_def)

lemma dbc_clear_fields [simp]:
  "c_AutoCommit (dbc_clear D) = c_AutoCommit D" "c_LoginTimeout (dbc_clear D) = c_LoginTimeout D"
  "c_TxnIsolation (dbc_clear D) = c_TxnIsolation D" "c_mariadb (dbc_clear D) = c_mariadb D"
  "c_EnlistInDtc (dbc_clear D) = c_EnlistInDtc D" "c_requests (dbc_clear D) = c_requests D"
  by (simp_all add: dbc_clear_def)

lemma dbc_error_return:
  "s \<in> set MadbErrNo \<Longrightarrow> ReturnValue (c_Error (dbc_error s m n D)) = sqlstate_return (reported_state s n)"
  by (simp add: dbc_error_def SetError_eq)

lemma request_failed_return: "ReturnValue (c_Error (request_failed cl D)) = - 1"
  unfolding request_failed_def
  by (subst dbc_error_return) (simp_all add: MadbErrNo_def reported_state_def sqlstate_return_def)

lemma dbc_errors:
  "ReturnValue (c_Error (dbc_error ''25000'' None 0 D)) = - 1" "ReturnValue (c_Error (dbc_error ''HY024'' None 0 D)) = - 1"
  by (subst dbc_error_return; simp add: MadbErrNo_def reported_state_def sqlstate_return_def)+

lemma set_autocommit_stored:
  "0 \<le> ReturnValue (c_Error (set_autocommit cl v D)) \<Longrightarrow> c_AutoCommit (set_autocommit cl v D) = u32 v"
  by (auto simp: set_autocommit_def check_never_refuses send_request_def dbc_errors request_failed_return split: if_splits bool.splits)

lemma set_isolation_stored:
  "0 \<le> ReturnValue (c_Error (set_isolation cl v D)) \<Longrightarrow> c_TxnIsolation (set_isolation cl v D) = s32 v"
  by (auto simp: set_isolation_def send_request_def dbc_errors request_failed_return split: if_splits bool.splits option.splits)


definition sample_client :: client where
  "sample_client = \<lparr>cl_ok = (\<lambda>r. True), cl_report = (''00000'', [], 0), cl_socket = True, cl_isolation = None, cl_packet_size = 8192,
     cl_memory = True\<rparr>"

definition sample_dbc :: MADB_Dbc where
  "sample_dbc = \<lparr>c_mariadb = True, c_Error = sample_error, c_Charset = \<lparr>cc_CodePage = 0, cc_cs_info = 0\<rparr>, c_ConnOrSrcCharset = None,
     c_AccessMode = 0, c_IsAnsi = False, c_AsyncEnable = 0, c_AutoCommit = 4, c_CatalogName = None, c_EnlistInDtc = 0,
     c_LoginTimeout = 0, c_MetadataId = 0, c_OdbcCursors = 0, c_PacketSize = 0, c_QuietMode = 0, c_TxnIsolation = 0, c_requests = []\<rparr>"

lemma sample_isolation:
  "\<exists>D1. MADB_DbcSetAttr sample_client (c_Charset sample_dbc) None None SQL_ATTR_TXN_ISOLATION 8 0 False sample_dbc = Some (0, D1)"
  by (simp add: MADB_DbcSetAttr_def Let_def set_isolation_def MADB_IsolationLevel_def s64_id s32_id send_request_def sample_client_def sample_dbc_def
      dbc_clear_def MADB_CLEAR_ERROR_def)


text \<open>
  C33. The list of valid values for the mode of commits is never enforced: every value is accepted.  The server gets its lowest byte,
  the driver keeps the lowest 32 bits.
\<close>

theorem autocommit_unchecked:
  assumes "c_EnlistInDtc D = 0" "cl_ok cl (Autocommit (s8 v))"
  shows "\<exists>D1. MADB_DbcSetAttr cl cs str wide SQL_ATTR_AUTOCOMMIT v n w D = Some (SQL_SUCCESS, D1) \<and> c_AutoCommit D1 = u32 v
    \<and> c_requests D1 = c_requests D @ (if c_mariadb D then [Autocommit (s8 v)] else [])"
  using assms by (simp add: MADB_DbcSetAttr_def Let_def set_autocommit_def check_never_refuses send_request_def dbc_clear_return)

theorem autocommit_unchecked_witness:
  "\<exists>D1. MADB_DbcSetAttr sample_client (c_Charset sample_dbc) None None SQL_ATTR_AUTOCOMMIT 256 0 False sample_dbc = Some (0, D1)
     \<and> c_AutoCommit D1 = 256 \<and> c_requests D1 = [Autocommit 0]"
proof -
  have "s8 256 = 0" "u32 256 = 256" by code_simp+
  moreover have "c_EnlistInDtc sample_dbc = 0" "cl_ok sample_client r" "c_requests sample_dbc = []" "c_mariadb sample_dbc" for r
    by (simp_all add: sample_dbc_def sample_client_def)
  ultimately show ?thesis
    using autocommit_unchecked [of sample_dbc sample_client 256 "c_Charset sample_dbc" None None 0 False] by simp
qed

end
