(* ===== verification/Conn_Env.thy ===== *)
theory Conn_Env
  imports Conn_Attr Odbc_Desc "HOL-Library.Word"
begin

text \<open>
  The functions a connection says it supports, and the environment with its connections
  (\<open>src/ma_connection.c\<close>, \<open>src/ma_environment.c\<close>, \<open>MA_SQLEndTran\<close> of \<open>src/odbc_3_api.c\<close>).  The connections of an environment
  are linked through the list of \<open>Handle_List\<close>, whose laws for adding and deleting carry the proofs.
\<close>

unbundle bit_operations_syntax

section \<open>Supported functions\<close>

text \<open>The table, with the numbers of the ODBC headers.\<close>

definition MADB_supported_api :: "nat list" where
  "MADB_supported_api = map snd [
    (''ALLOCCONNECT'', 1), (''ALLOCENV'', 2), (''ALLOCHANDLE'', 1001), (''ALLOCSTMT'', 3), (''BINDCOL'', 4),
    (''BINDPARAM'', 1002), (''CANCEL'', 5), (''CLOSECURSOR'', 1003), (''COLATTRIBUTE'', 6), (''COLUMNS'', 40),
    (''CONNECT'', 7), (''COPYDESC'', 1004), (''DATASOURCES'', 57), (''DESCRIBECOL'', 8), (''DISCONNECT'', 9),
    (''ENDTRAN'', 1005), (''ERROR'', 10), (''EXECDIRECT'', 11), (''EXECUTE'', 12), (''FETCH'', 13),
    (''FETCHSCROLL'', 1021), (''FREECONNECT'', 14), (''FREEENV'', 15), (''FREEHANDLE'', 1006), (''FREESTMT'', 16),
    (''GETCONNECTATTR'', 1007), (''GETCONNECTOPTION'', 42), (''GETCURSORNAME'', 17), (''GETDATA'', 43),
    (''GETDESCFIELD'', 1008), (''GETDESCREC'', 1009), (''GETDIAGFIELD'', 1010), (''GETDIAGREC'', 1011),
    (''GETENVATTR'', 1012), (''GETFUNCTIONS'', 44), (''GETINFO'', 45), (''GETSTMTATTR'', 1014), (''GETSTMTOPTION'', 46),
    (''GETTYPEINFO'', 47), (''NUMRESULTCOLS'', 18), (''PARAMDATA'', 48), (''PREPARE'', 19), (''PUTDATA'', 49),
    (''ROWCOUNT'', 20), (''SETCONNECTATTR'', 1016), (''SETCONNECTOPTION'', 50), (''SETCURSORNAME'', 21),
    (''SETDESCFIELD'', 1017), (''SETENVATTR'', 1019), (''SETPARAM'', 22), (''SETSTMTATTR'', 1020),
    (''SETSTMTOPTION'', 51), (''SPECIALCOLUMNS'', 52), (''STATISTICS'', 53), (''TABLES'', 54), (''TRANSACT'', 23),
    (''BULKOPERATIONS'', 24), (''BINDPARAMETER'', 72), (''COLATTRIBUTES'', 6), (''COLUMNPRIVILEGES'', 56),
    (''DESCRIBEPARAM'', 58), (''DRIVERCONNECT'', 41), (''DRIVERS'', 71), (''EXTENDEDFETCH'', 59), (''MORERESULTS'', 61),
    (''NATIVESQL'', 62), (''NUMPARAMS'', 63), (''PARAMOPTIONS'', 64), (''PRIMARYKEYS'', 65), (''PROCEDURECOLUMNS'', 66),
    (''PROCEDURES'', 67), (''SETPOS'', 68), (''SETSCROLLOPTIONS'', 69), (''TABLEPRIVILEGES'', 70)]"

definition api_bit :: "nat \<Rightarrow> 16 word list \<Rightarrow> 16 word list" where
  "api_bit f p = p[f div 16 := p ! (f div 16) OR push_bit (f mod 16) 1]"

definition api_flag :: "nat \<Rightarrow> 16 word list \<Rightarrow> 16 word list" where
  "api_flag f p = (if f < 100 then p[f := 1] else p)"

text \<open>
  \<open>SupportedPtr\<close> is the array of the application; \<^term>\<open>None\<close> when it is too short for what is stored.  \<open>errno\<close> is what
  the client library reports.
\<close>

definition MADB_DbcGetFunctions ::
  "int \<Rightarrow> nat \<Rightarrow> 16 word list \<Rightarrow> MADB_Dbc \<Rightarrow> (int \<times> 16 word list \<times> MADB_Dbc) option" where
  "MADB_DbcGetFunctions errno FunctionId p D =
    (if FunctionId = 999 then
       if length p < 250 then None
       else Some (SQL_SUCCESS, fold api_bit MADB_supported_api (replicate 250 0 @ drop 250 p), D)
     else if FunctionId = 0 then
       if length p < 100 then None
       else Some (SQL_SUCCESS, fold api_flag MADB_supported_api (replicate 100 0 @ drop 100 p), D)
     else if p = [] then None
     else if FunctionId \<in> set MADB_supported_api then Some (SQL_SUCCESS, p[0 := 1], D)
     else
       let D1 = dbc_error ''HY095'' (Some ''Function type out of range'') errno D
       in Some (ReturnValue (c_Error D1), p[0 := 0], D1))"

text \<open>The macro \<open>SQL_FUNC_EXISTS\<close> an application reads the bits with.\<close>

definition SQL_FUNC_EXISTS :: "16 word list \<Rightarrow> nat \<Rightarrow> bool" where
  "SQL_FUNC_EXISTS p f \<longleftrightarrow> p ! (f div 16) AND push_bit (f mod 16) 1 \<noteq> 0"

lemma func_exists_bit: "SQL_FUNC_EXISTS p f \<longleftrightarrow> bit (p ! (f div 16)) (f mod 16)"
  unfolding SQL_FUNC_EXISTS_def
  by (simp add: bit_iff_and_push_bit_not_eq_0)

lemma api_bit_exists:
  assumes "f div 16 < length p" "g div 16 < length p"
  shows "SQL_FUNC_EXISTS (api_bit f p) g \<longleftrightarrow> g = f \<or> SQL_FUNC_EXISTS p g"
proof -
  have b: "bit (push_bit (f mod 16) (1 :: 16 word)) (g mod 16) \<longleftrightarrow> g mod 16 = f mod 16"
    by (auto simp: bit_exp_iff possible_bit_def exp_eq_zero_iff)
  have "g = f \<longleftrightarrow> g div 16 = f div 16 \<and> g mod 16 = f mod 16" by (metis div_mod_decomp)
  then show ?thesis using assms by (auto simp: func_exists_bit api_bit_def nth_list_update bit_or_iff b [simplified])
qed

lemma fold_api_bit:
  assumes "\<forall>f \<in> set fs. f div 16 < length p" "g div 16 < length p"
  shows "SQL_FUNC_EXISTS (fold api_bit fs p) g \<longleftrightarrow> g \<in> set fs \<or> SQL_FUNC_EXISTS p g"
  using assms
proof (induction fs arbitrary: p)
  case (Cons f fs)
  then show ?case using api_bit_exists [of f p g] by (auto simp: api_bit_def)
qed simp

lemma fold_api_flag:
  assumes "100 \<le> length p" "g < 100"
  shows "fold api_flag fs p ! g = (if g \<in> set fs then 1 else p ! g)"
  using assms
proof (induction fs arbitrary: p)
  case (Cons f fs)
  then show ?case by (auto simp: api_flag_def)
qed simp

lemma supported_small: "\<forall>f \<in> set MADB_supported_api. f div 16 < 250 \<and> f \<noteq> 0 \<and> f \<noteq> 999"
  by (simp add: MADB_supported_api_def)

text \<open>
  C19. The three ways to send_request which functions the driver has agree.  The bits of the whole table, the array for the functions with
  small numbers and the answer for a single function say the same, and the arrays of the application are not
  overrun.  A single function that is not in the table is reported with an error, too.
\<close>

theorem GetFunctions_agree:
  assumes "length p = 250" "length q = 100" "f < 4000" "f \<noteq> 0" "f \<noteq> 999"
  shows "\<exists>p1 q1 r D1. MADB_DbcGetFunctions n 999 p D = Some (SQL_SUCCESS, p1, D) \<and> MADB_DbcGetFunctions n 0 q D = Some (SQL_SUCCESS, q1, D)
    \<and> MADB_DbcGetFunctions n f [x] D = Some (r, [if f \<in> set MADB_supported_api then 1 else 0], D1)
    \<and> (SQL_FUNC_EXISTS p1 f \<longleftrightarrow> f \<in> set MADB_supported_api)
    \<and> (f < 100 \<longrightarrow> q1 ! f = (if f \<in> set MADB_supported_api then 1 else 0))
    \<and> r = (if f \<in> set MADB_supported_api then SQL_SUCCESS else SQL_ERROR)"
proof -
  have "SQL_FUNC_EXISTS (fold api_bit MADB_supported_api (replicate 250 0)) f \<longleftrightarrow> f \<in> set MADB_supported_api"
    using fold_api_bit [of MADB_supported_api "replicate 250 0" f] supported_small assms(3) by (auto simp: func_exists_bit)
  moreover have "f < 100 \<longrightarrow> fold api_flag MADB_supported_api (replicate 100 0) ! f = (if f \<in> set MADB_supported_api then 1 else 0)"
    using fold_api_flag [of "replicate 100 0" f MADB_supported_api] by simp
  moreover have "ReturnValue (c_Error (dbc_error ''HY095'' m n D)) = - 1" for m
    by (subst dbc_error_return) (simp_all add: MadbErrNo_def reported_state_def sqlstate_return_def)
  ultimately show ?thesis using assms by (simp add: MADB_DbcGetFunctions_def Let_def)
qed

theorem GetFunctions_agree_witness:
  "\<exists>p1. MADB_DbcGetFunctions 0 999 (replicate 250 0) sample_dbc = Some (SQL_SUCCESS, p1, sample_dbc) \<and> SQL_FUNC_EXISTS p1 1021
    \<and> MADB_DbcGetFunctions 0 1021 [0] sample_dbc = Some (SQL_SUCCESS, [1], sample_dbc)"
proof -
  have "1021 \<in> set MADB_supported_api" by (simp add: MADB_supported_api_def)
  then show ?thesis
    using GetFunctions_agree [of "replicate 250 0" "replicate 100 0" 1021 0 sample_dbc 0] by (auto simp: MADB_DbcGetFunctions_def)
qed

section \<open>Environments\<close>

text \<open>
  An environment, the list nodes and the connections.  The node of a connection is a member of it, so that both have
  the same address.
\<close>

record env_state =
  ev_Error :: MADB_Error
  ev_Dbcs :: "nat option"
  ev_OdbcVersion :: int
  ev_store :: "nat list_store"
  ev_conns :: "nat \<Rightarrow> MADB_Dbc option"

definition env_error :: "string \<Rightarrow> env_state \<Rightarrow> env_state" where
  "env_error code E = E\<lparr>ev_Error := snd (MADB_SetError (ev_Error E) (MADB_ERR code) None 0)\<rparr>"

definition env_clear :: "env_state \<Rightarrow> env_state" where
  "env_clear E = E\<lparr>ev_Error := MADB_CLEAR_ERROR (ev_Error E)\<rparr>"

definition MADB_EnvInit :: "string \<Rightarrow> env_state" where
  "MADB_EnvInit pfx = \<lparr>ev_Error = snd (MADB_PutErrorPrefix pfx None zero_error), ev_Dbcs = None, ev_OdbcVersion = SQL_OV_ODBC3,
     ev_store = Map.empty, ev_conns = Map.empty\<rparr>"

definition MADB_EnvSetAttr :: "int \<Rightarrow> int \<Rightarrow> env_state \<Rightarrow> int \<times> env_state" where
  "MADB_EnvSetAttr Attribute ValuePtr Env =
    (let E = env_clear Env;
         E1 = (if Attribute = SQL_ATTR_ODBC_VERSION
               then if ev_Dbcs E \<noteq> None then env_error ''HYC00'' E else E\<lparr>ev_OdbcVersion := s32 ValuePtr\<rparr>
               else if Attribute = SQL_ATTR_OUTPUT_NTS
               then if s32 ValuePtr \<noteq> 1 then env_error ''S1C00'' E else E
               else env_error ''HYC00'' E)
     in (ReturnValue (ev_Error E1), E1))"

definition MADB_EnvGetAttr :: "int \<Rightarrow> env_state \<Rightarrow> int \<times> int option \<times> env_state" where
  "MADB_EnvGetAttr Attribute Env =
    (let E = env_clear Env in
     if Attribute = SQL_ATTR_CONNECTION_POOLING then (ReturnValue (ev_Error E), Some 0, E)
     else if Attribute = SQL_ATTR_ODBC_VERSION then (ReturnValue (ev_Error E), Some (ev_OdbcVersion E), E)
     else if Attribute = SQL_ATTR_OUTPUT_NTS then (ReturnValue (ev_Error E), Some 1, E)
     else let E1 = env_error ''HYC00'' E in (ReturnValue (ev_Error E1), None, E1))"

text \<open>A new connection is all zero but for the mode of commits and the prefix of its messages.\<close>

definition new_dbc :: "string \<Rightarrow> MADB_Dbc" where
  "new_dbc pfx = \<lparr>c_mariadb = False, c_Error = snd (MADB_PutErrorPrefix pfx None zero_error),
     c_Charset = \<lparr>cc_CodePage = 0, cc_cs_info = 0\<rparr>, c_ConnOrSrcCharset = None, c_AccessMode = 0, c_IsAnsi = False, c_AsyncEnable = 0,
     c_AutoCommit = 4, c_CatalogName = None, c_EnlistInDtc = 0, c_LoginTimeout = 0, c_MetadataId = 0, c_OdbcCursors = 0,
     c_PacketSize = 0, c_QuietMode = 0, c_TxnIsolation = 0, c_requests = []\<rparr>"

text \<open>\<open>block\<close> is what the allocation returns.\<close>

definition MADB_DbcInit :: "string \<Rightarrow> nat option \<Rightarrow> env_state \<Rightarrow> (nat option \<times> env_state) option" where
  "MADB_DbcInit pfx block Env =
    (let E = env_clear Env in
     case block of
       None \<Rightarrow> Some (None, env_error ''HY001'' E)
     | Some a \<Rightarrow>
         (case MADB_ListAdd ((ev_store E)(a \<mapsto> \<lparr>l_prev = None, l_next = None, l_data = a\<rparr>)) (ev_Dbcs E) a of
            None \<Rightarrow> None
          | Some (h, root) \<Rightarrow> Some (Some a, E\<lparr>ev_store := h, ev_Dbcs := root, ev_conns := (ev_conns E)(a \<mapsto> new_dbc pfx)\<rparr>)))"

text \<open>The block is gone after the call, the node in it as well.\<close>

definition MADB_DbcFree :: "nat \<Rightarrow> env_state \<Rightarrow> (int \<times> env_state) option" where
  "MADB_DbcFree a E =
    (case MADB_ListDelete (ev_store E) (ev_Dbcs E) a of
       None \<Rightarrow> None
     | Some (h, root) \<Rightarrow> Some (SQL_SUCCESS, E\<lparr>ev_store := h(a := None), ev_Dbcs := root, ev_conns := (ev_conns E)(a := None)\<rparr>))"

section \<open>Ending transactions\<close>

definition MADB_DbcEndTran :: "client \<Rightarrow> int \<Rightarrow> MADB_Dbc \<Rightarrow> int \<times> MADB_Dbc" where
  "MADB_DbcEndTran cl CompletionType Dbc =
    (let D = dbc_clear Dbc;
         send = (\<lambda>r. if \<not> c_mariadb D then D
                     else case send_request cl r D of (True, D1) \<Rightarrow> D1 | (False, D1) \<Rightarrow> dbc_native_error cl D1);
         D2 = (if CompletionType = SQL_ROLLBACK then send Rollback
               else if CompletionType = SQL_COMMIT then send Commit
               else dbc_error ''HY012'' None 0 D)
     in (ReturnValue (c_Error D2), D2))"

partial_function (option) end_connections ::
  "(nat \<Rightarrow> client) \<Rightarrow> int \<Rightarrow> nat list_store \<Rightarrow> nat option \<Rightarrow> (nat \<Rightarrow> MADB_Dbc option) \<Rightarrow> (nat \<Rightarrow> MADB_Dbc option) option" where
  "end_connections cl CompletionType h list conns =
    (case list of
       None \<Rightarrow> Some conns
     | Some a \<Rightarrow>
         (case h a of
            None \<Rightarrow> None
          | Some n \<Rightarrow>
              (case conns (l_data n) of
                 None \<Rightarrow> None
               | Some D \<Rightarrow>
                   end_connections cl CompletionType h (l_next n)
                     (conns(l_data n \<mapsto> snd (MADB_DbcEndTran (cl (l_data n)) CompletionType D))))))"

text \<open>\<open>MA_SQLEndTran\<close> for an environment and for a connection.\<close>

definition MA_SQLEndTran_env :: "(nat \<Rightarrow> client) \<Rightarrow> int \<Rightarrow> env_state \<Rightarrow> (int \<times> env_state) option" where
  "MA_SQLEndTran_env cl CompletionType E =
    map_option (\<lambda>conns. (SQL_SUCCESS, E\<lparr>ev_conns := conns\<rparr>)) (end_connections cl CompletionType (ev_store E) (ev_Dbcs E) (ev_conns E))"

definition MA_SQLEndTran_dbc :: "client \<Rightarrow> int \<Rightarrow> MADB_Dbc \<Rightarrow> int \<times> MADB_Dbc" where
  "MA_SQLEndTran_dbc cl CompletionType D =
    (let D1 = (if \<not> c_mariadb D then dbc_error ''08002'' None 0 D else snd (MADB_DbcEndTran cl CompletionType D))
     in (ReturnValue (c_Error D1), D1))"

section \<open>The connections of an environment\<close>

definition own_nodes :: "nat list_store \<Rightarrow> bool" where
  "own_nodes h \<longleftrightarrow> (\<forall>a n. h a = Some n \<longrightarrow> l_data n = a)"

definition env_lists :: "env_state \<Rightarrow> nat list \<Rightarrow> bool" where
  "env_lists E xs \<longleftrightarrow> dlist (ev_store E) (ev_Dbcs E) xs \<and> set xs = dom (ev_conns E) \<and> dom (ev_store E) = dom (ev_conns E)
     \<and> own_nodes (ev_store E)"

definition env_ok :: "env_state \<Rightarrow> bool" where
  "env_ok E \<longleftrightarrow> (\<exists>xs. env_lists E xs)"

lemma own_nodes_update: "own_nodes h \<Longrightarrow> own_nodes (h(a := None))" "own_nodes h \<Longrightarrow> l_data n = a \<Longrightarrow> own_nodes (h(a \<mapsto> n))"
  by (simp_all add: own_nodes_def)

lemma same_data_own:
  assumes "same_data h h'" "own_nodes h"
  shows "own_nodes h' \<and> dom h' = dom h"
proof -
  have e: "map_option l_data (h' a) = map_option l_data (h a)" for a using assms(1) by (simp add: same_data_def)
  have "l_data n = a" if "h' a = Some n" for a n
    using e [of a] that assms(2) by (cases "h a") (auto simp: own_nodes_def)
  moreover have "dom h' = dom h" using same_data_live [OF assms(1)] by (simp add: dom_def)
  ultimately show ?thesis by (auto simp: own_nodes_def)
qed

lemma DbcInit_lists:
  assumes "env_lists E xs" "ev_conns E a = None"
  shows "\<exists>E1. MADB_DbcInit pfx (Some a) E = Some (Some a, E1) \<and> env_lists E1 (a # xs)"
proof -
  let ?h = "(ev_store E)(a \<mapsto> \<lparr>l_prev = None, l_next = None, l_data = a\<rparr>)"
  have a: "a \<notin> set xs" using assms by (auto simp: env_lists_def)
  then have "dlist ?h (ev_Dbcs E) xs" using assms(1) by (simp add: env_lists_def dlist_def del: fun_upd_apply)
  from ListAdd_spec [OF this a] obtain h' where h: "MADB_ListAdd ?h (ev_Dbcs E) a = Some (h', Some a)" "dlist h' (Some a) (a # xs)"
      "same_data ?h h'" by auto
  have "own_nodes ?h" using assms(1) by (simp add: env_lists_def own_nodes_update del: fun_upd_apply)
  note own = same_data_own [OF h(3) this]
  have "dom h' = insert a (dom (ev_conns E))" "set (a # xs) = insert a (dom (ev_conns E))" 
    using own assms(1) by (simp_all add: env_lists_def del: fun_upd_apply)
  then show ?thesis using h(1,2) own by (simp add: MADB_DbcInit_def Let_def env_clear_def env_lists_def del: fun_upd_apply)
qed

lemma DbcFree_lists:
  assumes "env_lists E xs" "ev_conns E a \<noteq> None"
  shows "\<exists>E1. MADB_DbcFree a E = Some (SQL_SUCCESS, E1) \<and> env_lists E1 (remove1 a xs)"
proof -
  have d: "dlist (ev_store E) (ev_Dbcs E) xs" and a: "a \<in> set xs" using assms by (auto simp: env_lists_def)
  from ListDelete_spec [OF d a] obtain h' root where h: "MADB_ListDelete (ev_store E) (ev_Dbcs E) a = Some (h', root)"
      "dlist h' root (remove1 a xs)" "same_data (ev_store E) h'" by auto
  have "own_nodes (ev_store E)" using assms(1) by (simp add: env_lists_def)
  note own = same_data_own [OF h(3) this]
  have x: "distinct xs" using d by (simp add: dlist_def)
  then have "dlist (h'(a := None)) root (remove1 a xs)" using h(2) by (simp add: dlist_def del: fun_upd_apply)
  moreover have "dom h' = dom (ev_conns E)" "set (remove1 a xs) = dom (ev_conns E) - {a}" using own x assms(1) by (simp_all add: env_lists_def)
  ultimately show ?thesis using h(1) own by (simp add: MADB_DbcFree_def env_lists_def own_nodes_update del: fun_upd_apply)
qed

text \<open>The loop over the connections ends and reaches each of them once.\<close>

lemma end_connections_all:
  assumes "dls h p xs None" "distinct xs" "own_nodes h" "\<forall>a \<in> set xs. conns a \<noteq> None"
  shows "end_connections cl ct h (headp xs None) conns =
    Some (\<lambda>a. if a \<in> set xs then map_option (\<lambda>D. snd (MADB_DbcEndTran (cl a) ct D)) (conns a) else conns a)"
  using assms
proof (induction xs arbitrary: p conns)
  case Nil
  then show ?case by (subst end_connections.simps) simp
next
  case (Cons a xs)
  obtain n where n: "h a = Some n" "l_next n = headp xs None" "dls h (Some a) xs None" "l_data n = a"
    using Cons.prems(1,3) by (auto simp: own_nodes_def split: option.splits)
  obtain D where D: "conns a = Some D" using Cons.prems(4) by auto
  let ?c = "conns(a \<mapsto> snd (MADB_DbcEndTran (cl a) ct D))"
  have "end_connections cl ct h (headp (a # xs) None) conns = end_connections cl ct h (headp xs None) ?c"
    using n D by (subst end_connections.simps) (simp del: fun_upd_apply)
  also have "\<dots> = Some (\<lambda>b. if b \<in> set xs then map_option (\<lambda>D. snd (MADB_DbcEndTran (cl b) ct D)) (?c b) else ?c b)"
    by (rule Cons.IH [OF n(3)]) (use Cons.prems(2-4) in auto)
  also have "\<dots> = Some (\<lambda>b. if b \<in> set (a # xs) then map_option (\<lambda>D. snd (MADB_DbcEndTran (cl b) ct D)) (conns b) else conns b)"
    using Cons.prems(2) D by (simp add: fun_eq_iff)
  finally show ?case .
qed

lemma EndTran_env_result:
  assumes "env_lists E xs"
  shows "MA_SQLEndTran_env cl ct E =
    Some (SQL_SUCCESS, E\<lparr>ev_conns := (\<lambda>a. map_option (\<lambda>D. snd (MADB_DbcEndTran (cl a) ct D)) (ev_conns E a))\<rparr>)"
proof -
  have d: "ev_Dbcs E = headp xs None" "distinct xs" "dls (ev_store E) None xs None" "own_nodes (ev_store E)" "set xs = dom (ev_conns E)"
    using assms by (simp_all add: env_lists_def dlist_def)
  then have "end_connections cl ct (ev_store E) (ev_Dbcs E) (ev_conns E) =
      Some (\<lambda>a. if a \<in> set xs then map_option (\<lambda>D. snd (MADB_DbcEndTran (cl a) ct D)) (ev_conns E a) else ev_conns E a)"
    unfolding d(1) by (intro end_connections_all [OF d(3,2,4)]) auto
  moreover have "(\<lambda>a. if a \<in> set xs then map_option (f a) (ev_conns E a) else ev_conns E a) = (\<lambda>a. map_option (f a) (ev_conns E a))" for f
    by (rule ext) (use d(5) in auto)
  ultimately show ?thesis by (simp add: MA_SQLEndTran_env_def)
qed

lemma env_lists_cong:
  "env_lists E xs \<Longrightarrow> ev_store E1 = ev_store E \<Longrightarrow> ev_Dbcs E1 = ev_Dbcs E \<Longrightarrow> dom (ev_conns E1) = dom (ev_conns E) \<Longrightarrow> env_lists E1 xs"
  by (simp add: env_lists_def)

text \<open>
  What happens to an environment.  A connection is allocated at an address no other one has, or the allocation fails;
  an operation of a connection, such as connecting or setting an attribute, changes that connection.
\<close>

inductive env_step :: "env_state \<Rightarrow> env_state \<Rightarrow> bool" where
  alloc: "env_step E E1" if "\<forall>a. block = Some a \<longrightarrow> ev_conns E a = None" "MADB_DbcInit pfx block E = Some (handle, E1)"
| free: "env_step E E1" if "ev_conns E a \<noteq> None" "MADB_DbcFree a E = Some (ret, E1)"
| attr: "env_step E (snd (MADB_EnvSetAttr attribute v E))"
| end_all: "env_step E E1" if "MA_SQLEndTran_env cl ct E = Some (ret, E1)"
| conn: "env_step E (E\<lparr>ev_conns := (ev_conns E)(a \<mapsto> D)\<rparr>)" if "ev_conns E a \<noteq> None"

lemma env_step_ok: "env_step E E1 \<Longrightarrow> env_ok E \<Longrightarrow> env_ok E1"
proof (induction rule: env_step.induct)
  case (alloc block E pfx handle E1)
  obtain xs where xs: "env_lists E xs" using alloc.prems by (auto simp: env_ok_def)
  show ?case
  proof (cases block)
    case None
    then have "E1 = env_error ''HY001'' (env_clear E)" using alloc.hyps(2) by (simp add: MADB_DbcInit_def)
    then have "env_lists E1 xs" by (intro env_lists_cong [OF xs]) (simp_all add: env_error_def env_clear_def)
    then show ?thesis by (auto simp: env_ok_def)
  next
    case (Some a)
    then show ?thesis using DbcInit_lists [OF xs, of a pfx] alloc.hyps by (auto simp: env_ok_def)
  qed
next
  case (free E a ret E1)
  then show ?case using DbcFree_lists [of E _ a] by (auto simp: env_ok_def)
next
  case (attr E attribute v)
  then obtain xs where xs: "env_lists E xs" by (auto simp: env_ok_def)
  have "env_lists (snd (MADB_EnvSetAttr attribute v E)) xs"
    by (intro env_lists_cong [OF xs]) (simp_all add: MADB_EnvSetAttr_def Let_def env_error_def env_clear_def)
  then show ?case by (auto simp: env_ok_def)
next
  case (end_all cl ct E ret E1)
  then obtain xs where xs: "env_lists E xs" by (auto simp: env_ok_def)
  then have "env_lists E1 xs" using end_all.hyps EndTran_env_result [OF xs, of cl ct] by (intro env_lists_cong [OF xs]) (auto simp: dom_def)
  then show ?case by (auto simp: env_ok_def)
next
  case (conn E a D)
  then obtain xs where xs: "env_lists E xs" by (auto simp: env_ok_def)
  have "env_lists (E\<lparr>ev_conns := (ev_conns E)(a \<mapsto> D)\<rparr>) xs" using conn.hyps by (intro env_lists_cong [OF xs]) auto
  then show ?case by (auto simp: env_ok_def)
qed

lemma env_reachable_ok: "env_step\<^sup>*\<^sup>* E E1 \<Longrightarrow> env_ok E \<Longrightarrow> env_ok E1"
  by (induction rule: rtranclp_induct) (auto intro: env_step_ok)

lemma EnvInit_ok: "env_ok (MADB_EnvInit pfx)"
  unfolding env_ok_def by (rule exI [of _ "[]"]) (simp add: env_lists_def MADB_EnvInit_def dlist_def own_nodes_def)

lemma env_lists_empty: "env_lists E xs \<Longrightarrow> ev_Dbcs E = None \<longleftrightarrow> ev_conns E = Map.empty"
  by (cases xs) (auto simp: env_lists_def dlist_def)

lemma version_refused:
  "fst (MADB_EnvSetAttr SQL_ATTR_ODBC_VERSION v E) = (if ev_Dbcs E = None then SQL_SUCCESS else SQL_ERROR)"
proof -
  have "ReturnValue (ev_Error (env_error ''HYC00'' E1)) = - 1" for E1
    by (simp add: env_error_def SetError_return SetError_class MadbErrNo_def sqlstate_return_def)
  then show ?thesis by (simp add: MADB_EnvSetAttr_def Let_def env_clear_def MADB_CLEAR_ERROR_def)
qed

text \<open>
  C9. An environment and its connections.  Whatever connections were allocated, used and freed, in whatever order, the list of the environment is
  well formed and has exactly the connections there are; each of them can be freed, which leaves the others; and the version of
  ODBC can be set exactly while there is no connection.
\<close>

theorem environment_consistent:
  assumes "env_step\<^sup>*\<^sup>* (MADB_EnvInit pfx) E"
  shows "(\<exists>xs. dlist (ev_store E) (ev_Dbcs E) xs \<and> set xs = dom (ev_conns E)) \<and>
    (\<forall>a. ev_conns E a \<noteq> None \<longrightarrow> (\<exists>E1. MADB_DbcFree a E = Some (SQL_SUCCESS, E1) \<and> env_ok E1 \<and> ev_conns E1 = (ev_conns E)(a := None))) \<and>
    (fst (MADB_EnvSetAttr SQL_ATTR_ODBC_VERSION v E) = SQL_SUCCESS \<longleftrightarrow> ev_conns E = Map.empty)"
proof -
  obtain xs where xs: "env_lists E xs" using env_reachable_ok [OF assms EnvInit_ok] by (auto simp: env_ok_def)
  have "\<exists>E1. MADB_DbcFree a E = Some (SQL_SUCCESS, E1) \<and> env_ok E1 \<and> ev_conns E1 = (ev_conns E)(a := None)" if "ev_conns E a \<noteq> None" for a
  proof -
    obtain E1 where e: "MADB_DbcFree a E = Some (SQL_SUCCESS, E1)" "env_lists E1 (remove1 a xs)" using DbcFree_lists [OF xs \<open>ev_conns E a \<noteq> None\<close>] by blast
    then have "ev_conns E1 = (ev_conns E)(a := None)" by (auto simp: MADB_DbcFree_def split: option.splits)
    then show ?thesis using e by (auto simp: env_ok_def)
  qed
  moreover have "fst (MADB_EnvSetAttr SQL_ATTR_ODBC_VERSION v E) = SQL_SUCCESS \<longleftrightarrow> ev_conns E = Map.empty"
    using env_lists_empty [OF xs] by (simp add: version_refused)
  ultimately show ?thesis using xs unfolding env_lists_def by blast
qed

lemma sample_alloc_env:
  "\<exists>E. MADB_DbcInit ''[x]'' (Some 7) (MADB_EnvInit ''[x]'') = Some (Some 7, E) \<and> ev_conns E = [7 \<mapsto> new_dbc ''[x]'']"
  by (simp add: MADB_DbcInit_def MADB_EnvInit_def Let_def env_clear_def MADB_ListAdd_def set_prev_def set_next_def)

theorem environment_consistent_witness:
  "\<exists>E E1. MADB_DbcInit ''[x]'' (Some 7) (MADB_EnvInit ''[x]'') = Some (Some 7, E) \<and> MADB_DbcFree 7 E = Some (SQL_SUCCESS, E1)
     \<and> fst (MADB_EnvSetAttr SQL_ATTR_ODBC_VERSION 2 E) \<noteq> SQL_SUCCESS"
proof -
  obtain E where e: "MADB_DbcInit ''[x]'' (Some 7) (MADB_EnvInit ''[x]'') = Some (Some 7, E)" "ev_conns E = [7 \<mapsto> new_dbc ''[x]'']"
    using sample_alloc_env by blast
  have "env_step (MADB_EnvInit ''[x]'') E" by (rule env_step.alloc [OF _ e(1)]) (simp add: MADB_EnvInit_def)
  then have "env_step\<^sup>*\<^sup>* (MADB_EnvInit ''[x]'') E" by (rule r_into_rtranclp)
  moreover have "ev_conns E 7 \<noteq> None" "ev_conns E \<noteq> Map.empty" using e(2) by auto
  ultimately have "\<exists>E1. MADB_DbcFree 7 E = Some (SQL_SUCCESS, E1)" "fst (MADB_EnvSetAttr SQL_ATTR_ODBC_VERSION 2 E) \<noteq> SQL_SUCCESS"
    using environment_consistent [of "''[x]''" E 2] by blast+
  then show ?thesis using e(1) by blast
qed

text \<open>
  C20. Ending the transactions of an environment.  Each connection gets one request, if it is open, and none is skipped, also when an
  earlier one fails.  The call reports success in every case: a failed commit is only recorded at its connection.
\<close>

theorem EndTran_reaches_all:
  assumes "env_ok E" "ct = SQL_COMMIT \<and> q = Commit \<or> ct = SQL_ROLLBACK \<and> q = Rollback"
  shows "\<exists>E1. MA_SQLEndTran_env cl ct E = Some (SQL_SUCCESS, E1) \<and> dom (ev_conns E1) = dom (ev_conns E) \<and>
    (\<forall>a D. ev_conns E a = Some D \<longrightarrow> (\<exists>D1. ev_conns E1 a = Some D1
        \<and> c_requests D1 = c_requests D @ (if c_mariadb D then [q] else [])
        \<and> c_Error D1 = (if c_mariadb D \<and> \<not> cl_ok (cl a) q
             then snd (MADB_SetNativeError (MADB_CLEAR_ERROR (c_Error D)) SQL_HANDLE_DBC (cl_report (cl a)) (cl_report (cl a)))
             else MADB_CLEAR_ERROR (c_Error D))))"
proof -
  obtain xs where xs: "env_lists E xs" using assms(1) by (auto simp: env_ok_def)
  let ?f = "\<lambda>a D. snd (MADB_DbcEndTran (cl a) ct D)"
  have "c_requests (?f a D) = c_requests D @ (if c_mariadb D then [q] else [])
      \<and> c_Error (?f a D) = (if c_mariadb D \<and> \<not> cl_ok (cl a) q
           then snd (MADB_SetNativeError (MADB_CLEAR_ERROR (c_Error D)) SQL_HANDLE_DBC (cl_report (cl a)) (cl_report (cl a)))
           else MADB_CLEAR_ERROR (c_Error D))" for a D
    using assms(2) by (cases "cl_ok (cl a) q") (auto simp: MADB_DbcEndTran_def Let_def send_request_def dbc_native_error_def dbc_clear_def)
  then show ?thesis unfolding EndTran_env_result [OF xs] by (auto simp: dom_def)
qed

definition sample_env :: env_state where
  "sample_env = (MADB_EnvInit ''[x]'')\<lparr>ev_Dbcs := Some 7, ev_store := [7 \<mapsto> \<lparr>l_prev = None, l_next = None, l_data = 7\<rparr>],
     ev_conns := [7 \<mapsto> sample_dbc]\<rparr>"

theorem EndTran_reaches_all_witness:
  "\<exists>E1 D1. MA_SQLEndTran_env (\<lambda>a. sample_client\<lparr>cl_ok := (\<lambda>r. False)\<rparr>) SQL_COMMIT sample_env = Some (SQL_SUCCESS, E1)
     \<and> ev_conns E1 7 = Some D1 \<and> c_requests D1 = [Commit]"
proof -
  have "env_lists sample_env [7]" by (simp add: env_lists_def sample_env_def dlist_def own_nodes_def)
  then have "env_ok sample_env" by (auto simp: env_ok_def)
  moreover have "ev_conns sample_env 7 = Some sample_dbc" "c_requests sample_dbc = []" "c_mariadb sample_dbc"
    by (simp_all add: sample_env_def sample_dbc_def)
  ultimately show ?thesis
    using EndTran_reaches_all [of sample_env SQL_COMMIT Commit "\<lambda>a. sample_client\<lparr>cl_ok := (\<lambda>r. False)\<rparr>"] by fastforce
qed

end
