(* ===== verification/Spec2Isabelle.thy ===== *)
theory Spec2Isabelle
  imports Dyn_String Dyn_Array Handle_List Odbc_Error Odbc_Types Int_Conv Time_Conv Sql_Parse
    Dsn_Roundtrip Stmt_Bind Stmt_Refs Sql_Build Sql_Text Conn_Env
begin

text \<open>
  A verification development for the SingleStore ODBC connector (\<open>src/\<close>), a C driver between an
  application that speaks ODBC and the MariaDB client library.

  \<^bold>\<open>The program.\<close>  An application allocates an environment (\<open>src/ma_environment.c\<close>), connections
  (\<open>src/ma_connection.c\<close>), statements (\<open>src/ma_statement.c\<close>) and descriptors (\<open>src/ma_desc.c\<close>).  The
  handles of one level are linked in a list that their parent keeps (\<open>src/ma_legacy_helpers.c\<close>).  Settings come
  from a connection string (\<open>src/ma_dsn.c\<close>).  A query is split into tokens, its parameter markers are found and its escape
  sequences replaced (\<open>src/ma_parse.c\<close>).  Columns and parameters are bound through four descriptors of a
  statement, two of which the application can share between statements.  Rows are fetched rowset by rowset, values are
  converted between C types and the types of the server (\<open>src/ma_typeconv.c\<close>, \<open>src/ma_helper.c\<close>), and positioned
  operations build statements of their own (\<open>src/ma_string.c\<close>).  Every handle has an error area
  (\<open>src/ma_error.c\<close>) that the application reads after a call.

  \<^bold>\<open>Conventions.\<close>  A structure of the source is a record with a prefix for its members, an enumeration a datatype or a
  group of input abbreviations with the C names.  A handler is one definition, its parts named after what they do.  C integers
  are \<^typ>\<open>int\<close> with the casts of \<open>Odbc_Prelude\<close> written out wherever the source converts or stores one, so
  that truncation and wrap-around are visible; counters of the array and string types are cut to 32 bits.  A result
  \<^term>\<open>None\<close> of a routine stands for what C leaves undefined: a read or write outside a block, a null or dangling
  pointer.  Memory that may run out is an argument that says which requests are granted, and heaps record what was freed.  The
  client library, the server and the driver manager are arguments as well.

  \<^bold>\<open>Theories.\<close>
  \<^item> \<open>Odbc_Prelude\<close>: casts, bytes, C strings, character classes, the allocator, rewrite collections.
  \<^item> \<open>C_Numbers\<close>: decimal numbers as the C library prints and scans them.
  \<^item> \<open>Odbc_Consts\<close>: constants of the ODBC headers.
  \<^item> \<open>Dyn_String\<close>: \<open>MADB_DynString\<close>.  Appending refines appending to a list and stays in the block; the locale
    \<open>string_sink\<close> is what the text builders use.
  \<^item> \<open>Dyn_Array\<close>: \<open>MADB_DynArray\<close> at the level of bytes.  Insertion, reading, setting and deletion against a list of
    elements; the locale \<open>element_array\<close>.
  \<^item> \<open>Handle_List\<close>: \<open>MADB_List\<close> on a heap of nodes.  Any sequence of insertions and deletions refines a registry of
    handles; the locale \<open>handle_registry\<close>.
  \<^item> \<open>Odbc_Error\<close>: the table of SQLSTATEs, setting, clearing, copying and reading errors.  What is set is what
    \<open>SQLGetDiagRec\<close> returns.
  \<^item> \<open>Odbc_Types\<close>: the mapping between SQL, C and server types, and sizes.
  \<^item> \<open>Int_Conv\<close>, \<open>Time_Conv\<close>: conversions of integers and of dates and times; texts read back as the value.
  \<^item> \<open>Sql_Parse\<close>: the tokenizer and the replacement of escape sequences.  The markers found are those of a reference scanner;
    the replacement ends and accepts exactly balanced texts.
  \<^item> \<open>Odbc_Dsn\<close>, \<open>Dsn_Roundtrip\<close>: connection strings, the bitmap of options, printing and reading back.
  \<^item> \<open>Odbc_Desc\<close>, \<open>Desc_Memory\<close>, \<open>Desc_Fields\<close>: descriptors.  The first has the operations; the second shows that
    what the records own is freed once, by rule induction over the steps of a descriptor, and that copying breaks this; the
    third that fields are protected, read back as set, and stay in their C types.
  \<^item> \<open>Stmt_Dae\<close>, \<open>Stmt_Bind\<close>, \<open>Stmt_Cursor\<close>: data sent at execution time, binding, and cursors.  Every marked parameter is asked for
    once, pieces are put together, and fetching reads each row once.
  \<^item> \<open>Stmt_Attr\<close>, \<open>Stmt_Refs\<close>: attributes of statements, and descriptors shared between statements over the life of both:
    no statement is left with a freed descriptor, unless a descriptor was copied over another kind.
  \<^item> \<open>Sql_Build\<close>: the texts of positioned operations.  The notion \<open>writes\<close> composes appends; the inserted and deleted rows are named by
    exactly the text given in the theorems, or memory ran out.
  \<^item> \<open>Sql_Text\<close>: identifier arguments against the rule of the specification, and lengths of strings.
  \<^item> \<open>Conn_Attr\<close>, \<open>Conn_Env\<close>: attributes of connections, supported functions, the connections of an environment as a
    step relation with its invariant, and the end of transactions.

  \<^bold>\<open>Loops.\<close>  Loops over a text, a list of records or rows are structural or have a termination proof.  Walks along the nodes of a list are
  partial functions with \<^term>\<open>None\<close> for a walk that does not return; the theorems show that they return on well-formed
  lists.  Two routines have fuel: the replacement of escape sequences, for which one more than the length of the text is shown
  to be enough, and the length of a text in octets, which is shown to return with one more step than there are
  characters, and not to return on some inputs.

  \<^bold>\<open>Errors in the source.\<close>  Where the code does not do what it means to, the model follows the code and a theorem states what
  happens: descriptors that are copied, rows lost after positioning, identifiers that end a literal, values that are
  not checked, a length that is never found, failed commits that are not reported.

  \<^bold>\<open>Not modelled.\<close>
  \<^item> Connecting, preparation and execution, \<open>SQLGetData\<close>, the conversion of a fetched value into a bound buffer, and the
    catalog functions: sequences of calls of the client library whose effect lies outside the source.
  \<^item> \<open>SQLGetInfo\<close> and the result sets for type information: tables of constants.
  \<^item> Conversion between character sets: calls of iconv or of the Windows API.  Strings are in their narrow form throughout.
  \<^item> The grammar of a single escape sequence, which is generated code: an argument of the parser.
  \<^item> Locks and threads: operations are taken one at a time.
  \<^item> The remaining entry points, which check a handle and call a method, the setup dialog, tracing, and driver registration.
\<close>

end
